(* ===== verification/Prelude.thy ===== *)
theory Prelude
  imports Main "HOL-Library.Word" "HOL-Library.State_Monad"
begin

text \<open>
  What every component shares: the Rust string operations the program uses, the parsing
  of environment values, header maps, JSON values, and the combinator that records the
  calls a handler makes.

  A Rust \<open>str\<close> is a \<open>string\<close>, a list of \<open>char\<close> read as the Unicode scalar values
  U+0000 to U+00FF; text outside that range is not represented. \<open>Result<T, E>\<close> is the
  sum \<open>'e + 't\<close> with \<open>Inl\<close> for \<open>Err\<close> and \<open>Inr\<close> for \<open>Ok\<close>.
\<close>

named_theorems str_simps "evaluation of the string operations"

section \<open>Characters\<close>

definition is_ws :: "char \<Rightarrow> bool" where
  "is_ws c = (let n = (of_char c :: nat) in
     (9 \<le> n \<and> n \<le> 13) \<or> n = 32 \<or> n = 133 \<or> n = 160)"

definition is_control :: "char \<Rightarrow> bool" where
  "is_control c = (let n = (of_char c :: nat) in n < 32 \<or> (127 \<le> n \<and> n \<le> 159))"

definition ascii_lower :: "char \<Rightarrow> char" where
  "ascii_lower c = (let n = (of_char c :: nat) in
     if 65 \<le> n \<and> n \<le> 90 then char_of (n + 32) else c)"

definition visible :: "char \<Rightarrow> bool" where
  "visible c = (let n = (of_char c :: nat) in n = 9 \<or> (32 \<le> n \<and> n < 127))"

definition is_digit :: "char \<Rightarrow> bool" where
  "is_digit c = (let n = (of_char c :: nat) in 48 \<le> n \<and> n \<le> 57)"

definition is_alpha :: "char \<Rightarrow> bool" where
  "is_alpha c = (let n = (of_char c :: nat) in
     (65 \<le> n \<and> n \<le> 90) \<or> (97 \<le> n \<and> n \<le> 122))"

section \<open>Strings\<close>

definition to_ascii_lowercase :: "string \<Rightarrow> string" where
  "to_ascii_lowercase s = map ascii_lower s"

definition eq_ignore_ascii_case :: "string \<Rightarrow> string \<Rightarrow> bool" where
  "eq_ignore_ascii_case s t = (to_ascii_lowercase s = to_ascii_lowercase t)"

definition trim_end_by :: "(char \<Rightarrow> bool) \<Rightarrow> string \<Rightarrow> string" where
  "trim_end_by p s = rev (dropWhile p (rev s))"

definition trim_by :: "(char \<Rightarrow> bool) \<Rightarrow> string \<Rightarrow> string" where
  "trim_by p s = trim_end_by p (dropWhile p s)"

definition trim :: "string \<Rightarrow> string" where
  "trim s = trim_by is_ws s"

definition trim_end :: "string \<Rightarrow> string" where
  "trim_end s = trim_end_by is_ws s"

fun split_on :: "char \<Rightarrow> string \<Rightarrow> string list" where
  "split_on c [] = [[]]"
| "split_on c (x # xs) =
     (if x = c then [] # split_on c xs
      else (case split_on c xs of [] \<Rightarrow> [[x]] | s # ss \<Rightarrow> (x # s) # ss))"

fun split_once :: "char \<Rightarrow> string \<Rightarrow> (string \<times> string) option" where
  "split_once c [] = None"
| "split_once c (x # xs) =
     (if x = c then Some ([], xs)
      else (case split_once c xs of None \<Rightarrow> None | Some (a, b) \<Rightarrow> Some (x # a, b)))"

fun contains_str :: "string \<Rightarrow> string \<Rightarrow> bool" where
  "contains_str p [] = (p = [])"
| "contains_str p (x # xs) = (take (length p) (x # xs) = p \<or> contains_str p xs)"

definition contains_char :: "char \<Rightarrow> string \<Rightarrow> bool" where
  "contains_char c s = List.member s c"

definition starts_with :: "string \<Rightarrow> string \<Rightarrow> bool" where
  "starts_with p s = (take (length p) s = p)"

fun join :: "string \<Rightarrow> string list \<Rightarrow> string" where
  "join sep [] = []"
| "join sep [s] = s"
| "join sep (s # t # ss) = s @ sep @ join sep (t # ss)"

fun split_ws :: "string \<Rightarrow> string list" where
  "split_ws [] = [[]]"
| "split_ws (x # xs) =
     (if is_ws x then [] # split_ws xs
      else (case split_ws xs of [] \<Rightarrow> [[x]] | s # ss \<Rightarrow> (x # s) # ss))"

definition split_whitespace :: "string \<Rightarrow> string list" where
  "split_whitespace s = filter (\<lambda>w. w \<noteq> []) (split_ws s)"

section \<open>Numbers in text\<close>

fun digits_value :: "nat \<Rightarrow> string \<Rightarrow> nat option" where
  "digits_value acc [] = Some acc"
| "digits_value acc (c # cs) =
     (if is_digit c then digits_value (10 * acc + (of_char c - 48)) cs else None)"

text \<open>\<open>str::parse\<close> of an unsigned type: an optional \<open>+\<close>, at least one digit, in range.\<close>

definition parse_unsigned :: "nat \<Rightarrow> string \<Rightarrow> nat option" where
  "parse_unsigned bound s =
     (let ds = (case s of CHR ''+'' # t \<Rightarrow> t | _ \<Rightarrow> s)
      in if ds = [] then None
         else (case digits_value 0 ds of
                 None \<Rightarrow> None
               | Some n \<Rightarrow> if n < bound then Some n else None))"

abbreviation parse_u64 :: "string \<Rightarrow> nat option" where
  "parse_u64 \<equiv> parse_unsigned (2 ^ 64)"

abbreviation parse_u16 :: "string \<Rightarrow> nat option" where
  "parse_u16 \<equiv> parse_unsigned (2 ^ 16)"

definition parse_i64 :: "string \<Rightarrow> int option" where
  "parse_i64 s =
     (case s of
        CHR ''-'' # ds \<Rightarrow>
          (if ds = [] then None
           else (case digits_value 0 ds of
                   None \<Rightarrow> None
                 | Some n \<Rightarrow> if n \<le> 2 ^ 63 then Some (- int n) else None))
      | _ \<Rightarrow> map_option int (parse_unsigned (2 ^ 63) s))"

fun show_nat :: "nat \<Rightarrow> string" where
  "show_nat n = (if n < 10 then [char_of (48 + n)] else show_nat (n div 10) @ [char_of (48 + n mod 10)])"

declare show_nat.simps [simp del]

section \<open>Header maps\<close>

text \<open>
  An HTTP header map as the list of its entries, names in lower case as the \<open>http\<close> crate
  keeps them. \<open>get\<close> reads the first value of a name, \<open>get_all\<close> all of them; \<open>to_str\<close>
  gives the text of a value made of visible ASCII and tabs only.
\<close>

type_synonym headers = "(string \<times> string) list"

definition header_get :: "headers \<Rightarrow> string \<Rightarrow> string option" where
  "header_get hs name = map_of hs (to_ascii_lowercase name)"

definition header_get_all :: "headers \<Rightarrow> string \<Rightarrow> string list" where
  "header_get_all hs name = map snd (filter (\<lambda>kv. fst kv = to_ascii_lowercase name) hs)"

definition header_remove :: "headers \<Rightarrow> string \<Rightarrow> headers" where
  "header_remove hs name = filter (\<lambda>kv. fst kv \<noteq> to_ascii_lowercase name) hs"

definition to_str :: "string \<Rightarrow> string option" where
  "to_str v = (if list_all visible v then Some v else None)"

section \<open>JSON values\<close>

text \<open>
  \<open>serde_json::Value\<close>: an integer is held as a \<open>u64\<close> (\<open>PosInt\<close>) or, when negative, as an
  \<open>i64\<close> (\<open>NegInt\<close>); a float is kept as its text. An object is the list of its fields, the
  keys distinct.
\<close>

datatype json_number = PosInt "64 word" | NegInt "64 word" | Float string

datatype json =
    JNull
  | JBool bool
  | JNum json_number
  | JStr string
  | JArr "json list"
  | JObj "(string \<times> json) list"

fun json_get :: "json \<Rightarrow> string \<Rightarrow> json option" where
  "json_get (JObj fs) k = map_of fs k"
| "json_get _ _ = None"

fun as_str :: "json \<Rightarrow> string option" where
  "as_str (JStr s) = Some s"
| "as_str _ = None"

fun as_u64 :: "json \<Rightarrow> 64 word option" where
  "as_u64 (JNum (PosInt w)) = Some w"
| "as_u64 _ = None"

fun as_i64 :: "json \<Rightarrow> 64 word option" where
  "as_i64 (JNum (PosInt w)) = (if uint w < 2 ^ 63 then Some w else None)"
| "as_i64 (JNum (NegInt w)) = Some w"
| "as_i64 _ = None"

definition json_nat :: "nat \<Rightarrow> json" where
  "json_nat n = JNum (PosInt (of_nat n))"

definition json_opt_str :: "string option \<Rightarrow> json" where
  "json_opt_str s = (case s of None \<Rightarrow> JNull | Some t \<Rightarrow> JStr t)"

section \<open>Instants\<close>

text \<open>
  \<open>std::time::Instant\<close> counts nanoseconds on the monotonic clock, its seconds an \<open>i64\<close>;
  \<open>checked_add\<close> of whole seconds fails when the seconds leave that range.
\<close>

type_synonym instant = nat

definition checked_add_secs :: "instant \<Rightarrow> nat \<Rightarrow> instant option" where
  "checked_add_secs t s =
     (if t div 10 ^ 9 + s < 2 ^ 63 then Some (t + s * 10 ^ 9) else None)"

section \<open>Results\<close>

text \<open>The \<open>?\<close> operator: an \<open>Err\<close> ends the function, an \<open>Ok\<close> goes on with its value.\<close>

definition and_then :: "'e + 'a \<Rightarrow> ('a \<Rightarrow> 'e + 'b) \<Rightarrow> 'e + 'b" where
  "and_then r k = (case r of Inl e \<Rightarrow> Inl e | Inr a \<Rightarrow> k a)"

definition map_err :: "('e \<Rightarrow> 'f) \<Rightarrow> 'e + 'a \<Rightarrow> 'f + 'a" where
  "map_err f r = (case r of Inl e \<Rightarrow> Inl (f e) | Inr a \<Rightarrow> Inr a)"

section \<open>Recording calls\<close>

text \<open>
  A handler returns its result with the list of the outside calls and log records it made,
  in order. \<open>emit\<close> puts one record before those of the rest of the handler.
\<close>

type_synonym ('r, 'ev) traced = "'r \<times> 'ev list"

definition emit :: "'ev \<Rightarrow> ('r, 'ev) traced \<Rightarrow> ('r, 'ev) traced" where
  "emit ev m = (fst m, ev # snd m)"

definition done_with :: "'r \<Rightarrow> ('r, 'ev) traced" where
  "done_with r = (r, [])"

definition then_try :: "('e + 'a, 'ev) traced \<Rightarrow> ('a \<Rightarrow> ('e + 'b, 'ev) traced) \<Rightarrow> ('e + 'b, 'ev) traced" where
  "then_try m k = (case fst m of
       Inl e \<Rightarrow> (Inl e, snd m)
     | Inr a \<Rightarrow> (fst (k a), snd m @ snd (k a)))"

section \<open>Lemmas\<close>

subsection \<open>Results\<close>

lemma and_then_simps [simp]:
  "and_then (Inl e) k = Inl e" "and_then (Inr a) k = k a"
  by (simp_all add: and_then_def)

lemma and_then_Inr_iff [simp]: "and_then r k = Inr b \<longleftrightarrow> (\<exists>a. r = Inr a \<and> k a = Inr b)"
  by (cases r) auto

lemma map_err_simps [simp]:
  "map_err f (Inl e) = Inl (f e)" "map_err f (Inr a) = Inr a"
  by (simp_all add: map_err_def)

lemma map_err_Inr_iff [simp]: "map_err f r = Inr a \<longleftrightarrow> r = Inr a"
  by (cases r) auto

lemma map_sum_Inr_iff [simp]: "map_sum f g r = Inr b \<longleftrightarrow> (\<exists>a. r = Inr a \<and> b = g a)"
  by (cases r) auto

lemma ex_unit [simp]: "(\<exists>u::unit. P u) \<longleftrightarrow> P ()"
  by (metis old.unit.exhaust)

subsection \<open>Recorded calls\<close>

lemma emit_simps [simp]:
  "fst (emit ev m) = fst m" "snd (emit ev m) = ev # snd m"
  by (simp_all add: emit_def)

lemma done_with_simps [simp]:
  "fst (done_with r) = r" "snd (done_with r) = []"
  by (simp_all add: done_with_def)

lemma then_try_Inl [simp]: "fst m = Inl e \<Longrightarrow> then_try m k = (Inl e, snd m)"
  by (simp add: then_try_def)

lemma then_try_Inr [simp]:
  "fst m = Inr a \<Longrightarrow> then_try m k = (fst (k a), snd m @ snd (k a))"
  by (simp add: then_try_def)

lemma then_try_Inr_iff:
  "fst (then_try m k) = Inr b \<longleftrightarrow> (\<exists>a. fst m = Inr a \<and> fst (k a) = Inr b)"
  by (auto simp: then_try_def split: sum.splits)

lemma then_try_Inl_iff:
  "fst (then_try m k) = Inl e \<longleftrightarrow>
     fst m = Inl e \<or> (\<exists>a. fst m = Inr a \<and> fst (k a) = Inl e)"
  by (auto simp: then_try_def split: sum.splits)

lemma then_try_events:
  "ev \<in> set (snd (then_try m k)) \<longleftrightarrow>
     ev \<in> set (snd m) \<or> (\<exists>a. fst m = Inr a \<and> ev \<in> set (snd (k a)))"
  by (auto simp: then_try_def split: sum.splits)

subsection \<open>Splitting and joining\<close>

lemma split_on_not_Nil [simp]: "split_on c s \<noteq> []"
  by (induction s) (auto split: list.splits)

lemma split_on_no_sep: "c \<notin> set s \<Longrightarrow> split_on c s = [s]"
  by (induction s) auto

lemma split_on_append_sep: "c \<notin> set s \<Longrightarrow> split_on c (s @ c # t) = s # split_on c t"
  by (induction s) auto

lemma split_on_member_no_sep: "w \<in> set (split_on c s) \<Longrightarrow> c \<notin> set w"
proof (induction s arbitrary: w)
  case Nil
  then show ?case by simp
next
  case (Cons x xs)
  obtain v vs where v: "split_on c xs = v # vs"
    by (metis split_on_not_Nil neq_Nil_conv)
  with Cons.IH have "c \<notin> set v" and "\<And>u. u \<in> set vs \<Longrightarrow> c \<notin> set u" by auto
  with v Cons.prems show ?case by (auto split: if_splits)
qed

lemma split_on_join:
  "\<lbrakk>ws \<noteq> []; \<forall>w \<in> set ws. c \<notin> set w\<rbrakk> \<Longrightarrow> split_on c (join [c] ws) = ws"
  by (induction "[c]" ws rule: join.induct) (auto simp: split_on_no_sep split_on_append_sep)

lemma join_split_on: "join [c] (split_on c s) = s"
proof (induction s)
  case Nil
  then show ?case by simp
next
  case (Cons x xs)
  obtain v vs where "split_on c xs = v # vs"
    by (metis split_on_not_Nil neq_Nil_conv)
  with Cons show ?case by (cases vs) auto
qed

lemma split_once_None: "split_once c s = None \<longleftrightarrow> c \<notin> set s"
  by (induction s) (auto split: option.splits)

lemma split_once_append: "c \<notin> set a \<Longrightarrow> split_once c (a @ c # b) = Some (a, b)"
  by (induction a) auto

lemma split_once_SomeD: "split_once c s = Some (a, b) \<Longrightarrow> s = a @ c # b \<and> c \<notin> set a"
  by (induction s arbitrary: a) (auto split: if_splits option.splits)

lemma split_once_Some:
  "split_once c s = Some (a, b) \<longleftrightarrow> s = a @ c # b \<and> c \<notin> set a"
  by (auto simp: split_once_append dest: split_once_SomeD)

subsection \<open>Decimal numbers\<close>

lemma digits_value_append:
  "digits_value acc (xs @ ys) = Option.bind (digits_value acc xs) (\<lambda>a. digits_value a ys)"
  by (induction xs arbitrary: acc) auto

lemma digit_char [simp]:
  "d < 10 \<Longrightarrow> is_digit (char_of (48 + d :: nat))"
  "d < 10 \<Longrightarrow> of_char (char_of (48 + d :: nat)) = 48 + d"
  by (simp_all add: is_digit_def)

lemma digits_value_show_nat [simp]: "digits_value 0 (show_nat n) = Some n"
proof (induction n rule: show_nat.induct)
  case (1 n)
  show ?case
  proof (cases "n < 10")
    case True
    then show ?thesis by (subst show_nat.simps) simp
  next
    case False
    have "digits_value (n div 10) [char_of (48 + n mod 10)] = Some n" by simp
    with 1 False show ?thesis by (subst show_nat.simps) (simp add: digits_value_append)
  qed
qed

lemma show_nat_inject [simp]: "show_nat m = show_nat n \<longleftrightarrow> m = n"
  by (metis digits_value_show_nat option.inject)

subsection \<open>Trimming\<close>

lemma trim_end_by_id: "s = [] \<or> \<not> p (last s) \<Longrightarrow> trim_end_by p s = s"
  by (cases s rule: rev_cases) (auto simp: trim_end_by_def)

lemma trim_end_by_last: "trim_end_by p s \<noteq> [] \<Longrightarrow> \<not> p (last (trim_end_by p s))"
  unfolding trim_end_by_def by (simp add: last_rev hd_dropWhile)

lemma set_trim_end_by: "set (trim_end_by p s) \<subseteq> set s"
  unfolding trim_end_by_def using set_dropWhileD by fastforce

lemma trim_end_by_prefix: "\<exists>t. s = trim_end_by p s @ t \<and> (\<forall>c \<in> set t. p c)"
proof -
  have "rev s = takeWhile p (rev s) @ dropWhile p (rev s)" by simp
  then have "s = rev (dropWhile p (rev s)) @ rev (takeWhile p (rev s))"
    by (metis rev_append rev_rev_ident)
  moreover have "\<forall>c \<in> set (rev (takeWhile p (rev s))). p c"
    by (auto dest: set_takeWhileD)
  ultimately show ?thesis unfolding trim_end_by_def by blast
qed

lemma ascii_lower_idem [simp]: "ascii_lower (ascii_lower c) = ascii_lower c"
  by (simp add: ascii_lower_def Let_def)

lemma to_ascii_lowercase_idem [simp]:
  "to_ascii_lowercase (to_ascii_lowercase s) = to_ascii_lowercase s"
  by (simp add: to_ascii_lowercase_def)

lemma member_iff_set [simp]: "contains_char c s \<longleftrightarrow> c \<in> set s"
  by (simp add: contains_char_def)

lemmas str_defs = trim_def trim_by_def trim_end_def trim_end_by_def is_ws_def
  to_ascii_lowercase_def ascii_lower_def eq_ignore_ascii_case_def

end
