(* ===== verification/Environment.thy ===== *)
theory Environment
  imports Prelude
begin

text \<open>
  Reading settings from the process environment and from the credentials directory, the
  helper functions both crates' \<open>config.rs\<close> declare. The environment is the map
  \<open>vars\<close> from names to values (\<open>None\<close> when \<open>std::env::var\<close> fails) and the file system the
  map \<open>files\<close> from paths to contents (\<open>None\<close> when \<open>fs::read_to_string\<close> fails).
\<close>

type_synonym env_vars = "string \<Rightarrow> string option"
type_synonym file_contents = "string \<Rightarrow> string option"

definition env :: "env_vars \<Rightarrow> string \<Rightarrow> string \<Rightarrow> string" where
  "env vars name dflt = (case vars name of Some v \<Rightarrow> v | None \<Rightarrow> dflt)"

definition non_empty :: "string \<Rightarrow> string option" where
  "non_empty v = (let trimmed = trim v in if trimmed = [] then None else Some trimmed)"

definition env_optional :: "env_vars \<Rightarrow> string \<Rightarrow> string option" where
  "env_optional vars name = Option.bind (vars name) non_empty"

definition env_u16 :: "env_vars \<Rightarrow> string \<Rightarrow> nat \<Rightarrow> nat" where
  "env_u16 vars name dflt =
     (case Option.bind (vars name) parse_u16 of Some n \<Rightarrow> n | None \<Rightarrow> dflt)"

definition env_u64 :: "env_vars \<Rightarrow> string \<Rightarrow> nat \<Rightarrow> nat" where
  "env_u64 vars name dflt =
     (case Option.bind (vars name) parse_u64 of Some n \<Rightarrow> n | None \<Rightarrow> dflt)"

text \<open>\<open>usize\<close> is 64 bits wide.\<close>

definition env_usize :: "env_vars \<Rightarrow> string \<Rightarrow> nat \<Rightarrow> nat" where
  "env_usize vars name dflt =
     (case Option.bind (vars name) parse_u64 of Some n \<Rightarrow> n | None \<Rightarrow> dflt)"

definition env_i64 :: "env_vars \<Rightarrow> string \<Rightarrow> int \<Rightarrow> int" where
  "env_i64 vars name dflt =
     (case Option.bind (vars name) parse_i64 of Some n \<Rightarrow> n | None \<Rightarrow> dflt)"

definition bool_word :: "string \<Rightarrow> bool option" where
  "bool_word v =
     (if v \<in> {''1'', ''true'', ''yes'', ''on''} then Some True
      else if v \<in> {''0'', ''false'', ''no'', ''off''} then Some False
      else None)"

definition env_bool :: "env_vars \<Rightarrow> string \<Rightarrow> bool \<Rightarrow> bool" where
  "env_bool vars name dflt =
     (case Option.bind (vars name) (\<lambda>v. bool_word (to_ascii_lowercase v)) of
        Some b \<Rightarrow> b | None \<Rightarrow> dflt)"

definition list_items :: "string \<Rightarrow> string list" where
  "list_items v = filter (\<lambda>item. item \<noteq> []) (map trim (split_on (CHR '','') v))"

definition env_list :: "env_vars \<Rightarrow> string \<Rightarrow> string list \<Rightarrow> string list" where
  "env_list vars name dflt = (case vars name of Some v \<Rightarrow> list_items v | None \<Rightarrow> dflt)"

definition env_bool_strict :: "env_vars \<Rightarrow> string \<Rightarrow> bool \<Rightarrow> string + bool" where
  "env_bool_strict vars name dflt =
     (case vars name of
        None \<Rightarrow> Inr dflt
      | Some raw \<Rightarrow>
          (let normalized = to_ascii_lowercase (trim raw) in
           if normalized = [] then Inr dflt
           else (case bool_word normalized of
                   Some b \<Rightarrow> Inr b
                 | None \<Rightarrow> Inl (''Invalid '' @ name @ ''='' @ raw @ '' (expected bool).''))))"

definition env_optional_u64_strict :: "env_vars \<Rightarrow> string \<Rightarrow> string + nat option" where
  "env_optional_u64_strict vars name =
     (case vars name of
        None \<Rightarrow> Inr None
      | Some raw \<Rightarrow>
          (let trimmed = trim raw in
           if trimmed = [] then Inr None
           else (case parse_u64 trimmed of
                   Some n \<Rightarrow> Inr (Some n)
                 | None \<Rightarrow> Inl (''Invalid '' @ name @ ''='' @ raw @ '' (expected integer).''))))"

section \<open>Credentials directory\<close>

definition path_join :: "string \<Rightarrow> string \<Rightarrow> string" where
  "path_join dir name =
     (if dir = [] then name
      else if last dir = CHR ''/'' then dir @ name
      else dir @ ''/'' @ name)"

definition credential_path :: "env_vars \<Rightarrow> string \<Rightarrow> string option" where
  "credential_path vars name =
     map_option (\<lambda>dir. path_join dir name) (vars ''CREDENTIALS_DIRECTORY'')"

definition read_credential :: "env_vars \<Rightarrow> file_contents \<Rightarrow> string \<Rightarrow> string option" where
  "read_credential vars files name =
     map_option trim_end (Option.bind (credential_path vars name) files)"

definition env_secret :: "env_vars \<Rightarrow> file_contents \<Rightarrow> string \<Rightarrow> string \<Rightarrow> string" where
  "env_secret vars files env_name credential_name =
     (let value = env vars env_name [] in
      if trim value \<noteq> [] then value
      else (case read_credential vars files credential_name of Some v \<Rightarrow> v | None \<Rightarrow> []))"

definition env_secret_optional ::
  "env_vars \<Rightarrow> file_contents \<Rightarrow> string \<Rightarrow> string \<Rightarrow> string option" where
  "env_secret_optional vars files env_name credential_name =
     (case env_optional vars env_name of
        Some v \<Rightarrow> Some v
      | None \<Rightarrow> read_credential vars files credential_name)"

section \<open>Client authentication\<close>

datatype client_auth_method = ClientSecretBasic | ClientSecretPost

definition auth_method_of :: "string \<Rightarrow> client_auth_method" where
  "auth_method_of s =
     (if s = ''client_secret_post'' then ClientSecretPost else ClientSecretBasic)"

text \<open>A required optional value that is absent or only white space.\<close>

definition blank :: "string option \<Rightarrow> bool" where
  "blank v = (case v of None \<Rightarrow> True | Some s \<Rightarrow> trim s = [])"

section \<open>Lemmas\<close>

lemma env_optional_Some_trimmed:
  "env_optional vars name = Some v \<Longrightarrow> v \<noteq> [] \<and> (\<exists>raw. vars name = Some raw \<and> v = trim raw)"
  by (auto simp: env_optional_def non_empty_def Let_def split: if_splits bind_splits)

lemma trim_not_ws_ends:
  "trim s \<noteq> [] \<Longrightarrow> \<not> is_ws (hd (trim s)) \<and> \<not> is_ws (last (trim s))"
proof -
  assume ne: "trim s \<noteq> []"
  then have l: "\<not> is_ws (last (trim s))"
    unfolding trim_def trim_by_def by (rule trim_end_by_last)
  from trim_end_by_prefix [of "dropWhile is_ws s" is_ws] obtain t where
    t: "dropWhile is_ws s = trim s @ t" unfolding trim_def trim_by_def by blast
  with ne have "dropWhile is_ws s \<noteq> []" and "hd (dropWhile is_ws s) = hd (trim s)" by auto
  then have "\<not> is_ws (hd (trim s))" by (metis hd_dropWhile)
  with l show ?thesis by simp
qed

lemma trim_id: "s = [] \<or> (\<not> is_ws (hd s) \<and> \<not> is_ws (last s)) \<Longrightarrow> trim s = s"
  unfolding trim_def trim_by_def
  by (cases s) (auto simp: trim_end_by_id)

lemma trim_trim [simp]: "trim (trim s) = trim s"
  using trim_id trim_not_ws_ends by blast

lemma env_optional_not_blank [simp]:
  "env_optional vars name = Some v \<Longrightarrow> trim v \<noteq> []"
  using env_optional_Some_trimmed by fastforce

lemma list_items_not_blank: "item \<in> set (list_items v) \<Longrightarrow> item \<noteq> [] \<and> trim item = item"
  by (auto simp: list_items_def)

end
