(* ===== verification/Mcp_Config.thy ===== *)
theory Mcp_Config
  imports Environment "HOL-Library.List_Lexorder" "HOL-Library.Char_ord"
begin

text \<open>
  The settings of the MCP server (\<open>config.rs\<close>): authentication, streamable HTTP, startup
  admission and the scopes each tool family asks for. The environment helpers are those of
  \<open>Environment\<close>; decoding the event-store key (toolkit) is the parameter \<open>key_of\<close>. Durations are
  in the unit their variable names.
\<close>

section \<open>Data\<close>

datatype auth_mode = Introspection | Jwks

datatype mtls_mode = MtlsDisabled | Native | ProxyHeader

record auth_config =
  ac_mode :: auth_mode
  ac_issuer :: "string option"
  ac_audience :: "string option"
  ac_allowed_azp :: "string list"
  ac_allowed_client_ids :: "string list"
  ac_open_caller_allowlists_expires_at :: "instant option"
  ac_clock_skew_seconds :: int
  ac_introspection_url :: string
  ac_introspection_client_id :: string
  ac_introspection_client_secret :: string
  ac_introspection_auth_method :: client_auth_method
  ac_request_timeout :: nat
  ac_dpop_required :: bool
  ac_mtls_mode :: mtls_mode
  ac_mtls_client_cert_header :: "string option"
  ac_jwks_url :: "string option"

record server_tls_config =
  st_cert_pem :: "string option"
  st_key_pem :: "string option"
  st_client_ca_pem :: "string option"

datatype event_store_mode = StoreOff | StoreMemory | StoreSqlite

datatype resume_mode = ResumeOff | Historyless | Replay

record streamable_http_config =
  sh_event_store_mode :: event_store_mode
  sh_resume_mode :: resume_mode
  sh_initialize_body_limit_bytes :: nat
  sh_event_store_path :: "string option"
  sh_event_store_key :: "string option"
  sh_max_streams :: nat
  sh_max_events :: nat
  sh_ttl :: "nat option"
  sh_retry_interval :: "nat option"
  sh_stateless_fallback :: bool

datatype admission_mode = Off | Warn | Strict

fun enforcement_phase :: "admission_mode \<Rightarrow> string" where
  "enforcement_phase Off = ''off''"
| "enforcement_phase Warn = ''warn''"
| "enforcement_phase Strict = ''strict''"

datatype gate_profile = Fast | Standard

fun profile_label :: "gate_profile \<Rightarrow> string" where
  "profile_label Fast = ''fast''"
| "profile_label Standard = ''standard''"

record admission_config =
  sa_mode :: admission_mode
  sa_required_profile :: gate_profile
  sa_fast_gate_artifact_path :: string
  sa_standard_gate_artifact_path :: string
  sa_bypass :: bool
  sa_bypass_reason :: "string option"
  sa_bypass_ttl_s :: "nat option"
  sa_production_mode :: bool
  sa_allow_production_bypass :: bool

text \<open>
  A configuration error is its message; the two that quote a value in debug form keep the value.
\<close>

datatype config_error =
    ConfigMessage string
  | UnsupportedAdmissionMode string
  | UnsupportedGateProfile string

abbreviation config_err :: "string \<Rightarrow> config_error + 'a" where
  "config_err m \<equiv> Inl (ConfigMessage m)"

definition strict_bool :: "env_vars \<Rightarrow> string \<Rightarrow> bool \<Rightarrow> config_error + bool" where
  "strict_bool vars name dflt = map_err ConfigMessage (env_bool_strict vars name dflt)"

definition strict_u64 :: "env_vars \<Rightarrow> string \<Rightarrow> config_error + nat option" where
  "strict_u64 vars name = map_err ConfigMessage (env_optional_u64_strict vars name)"

section \<open>Startup admission\<close>

definition parse_startup_admission_mode :: "string \<Rightarrow> config_error + admission_mode" where
  "parse_startup_admission_mode value =
     (let other = to_ascii_lowercase (trim value) in
      if other \<in> {'''', ''off'', ''0'', ''false''} then Inr Off
      else if other = ''warn'' then Inr Warn
      else if other = ''strict'' then Inr Strict
      else Inl (UnsupportedAdmissionMode other))"

definition parse_test_gate_profile :: "string \<Rightarrow> config_error + gate_profile" where
  "parse_test_gate_profile value =
     (let other = to_ascii_lowercase (trim value) in
      if other \<in> {'''', ''fast''} then Inr Fast
      else if other = ''standard'' then Inr Standard
      else Inl (UnsupportedGateProfile other))"

definition ttl_zero :: "nat option \<Rightarrow> bool" where
  "ttl_zero ttl = ((case ttl of None \<Rightarrow> 0 | Some n \<Rightarrow> n) = 0)"

definition check_bypass ::
  "bool \<Rightarrow> admission_mode \<Rightarrow> bool \<Rightarrow> string option \<Rightarrow> nat option \<Rightarrow> bool \<Rightarrow> config_error + unit" where
  "check_bypass production_mode mode bypass reason ttl_s allow_production_bypass =
     (if production_mode \<and> mode = Off then
        config_err ''KC_ADMIN_MCP_STARTUP_ADMISSION_MODE=off is not allowed when KC_ADMIN_MCP_BUILD_PRODUCTION=1.''
      else if bypass then
        (if blank reason then
           config_err ''KC_ADMIN_MCP_STARTUP_ADMISSION_BYPASS requires KC_ADMIN_MCP_STARTUP_ADMISSION_BYPASS_REASON.''
         else if ttl_zero ttl_s then
           config_err ''KC_ADMIN_MCP_STARTUP_ADMISSION_BYPASS requires KC_ADMIN_MCP_STARTUP_ADMISSION_BYPASS_TTL_S>0.''
         else if production_mode \<and> \<not> allow_production_bypass then
           config_err ''Production bypass requires KC_ADMIN_MCP_STARTUP_ADMISSION_ALLOW_PROD_BYPASS=1.''
         else Inr ())
      else Inr ())"

definition load_startup_admission_config :: "env_vars \<Rightarrow> config_error + admission_config" where
  "load_startup_admission_config vars =
     and_then (strict_bool vars ''KC_ADMIN_MCP_BUILD_PRODUCTION''
                 (env_bool vars ''MCP_BUILD_PRODUCTION'' False)) (\<lambda>production_mode.
     and_then (parse_startup_admission_mode (env vars ''KC_ADMIN_MCP_STARTUP_ADMISSION_MODE''
                 (if production_mode then ''strict'' else ''warn''))) (\<lambda>mode.
     and_then (parse_test_gate_profile (env vars ''KC_ADMIN_MCP_TEST_GATE_REQUIRED_PROFILE''
                 (if production_mode then ''standard'' else ''fast''))) (\<lambda>required_profile.
     and_then (strict_bool vars ''KC_ADMIN_MCP_STARTUP_ADMISSION_BYPASS'' False) (\<lambda>bypass.
     let bypass_reason = env_optional vars ''KC_ADMIN_MCP_STARTUP_ADMISSION_BYPASS_REASON'' in
     and_then (strict_u64 vars ''KC_ADMIN_MCP_STARTUP_ADMISSION_BYPASS_TTL_S'') (\<lambda>bypass_ttl_s.
     and_then (strict_bool vars ''KC_ADMIN_MCP_STARTUP_ADMISSION_ALLOW_PROD_BYPASS'' False)
       (\<lambda>allow_production_bypass.
     and_then (check_bypass production_mode mode bypass bypass_reason bypass_ttl_s
                 allow_production_bypass) (\<lambda>_.
     Inr \<lparr>sa_mode = mode, sa_required_profile = required_profile,
          sa_fast_gate_artifact_path = env vars ''KC_ADMIN_MCP_TEST_GATE_FAST_ARTIFACT_PATH''
            ''data/test-gates/kc-admin-mcp/fast.json'',
          sa_standard_gate_artifact_path = env vars ''KC_ADMIN_MCP_TEST_GATE_STANDARD_ARTIFACT_PATH''
            ''data/test-gates/kc-admin-mcp/standard.json'',
          sa_bypass = bypass, sa_bypass_reason = bypass_reason, sa_bypass_ttl_s = bypass_ttl_s,
          sa_production_mode = production_mode,
          sa_allow_production_bypass = allow_production_bypass\<rparr>)))))))"

section \<open>Streamable HTTP\<close>

definition parse_event_store_mode :: "string \<Rightarrow> config_error + event_store_mode" where
  "parse_event_store_mode raw =
     (if raw \<in> {'''', ''0'', ''false'', ''off'', ''none''} then Inr StoreOff
      else if raw \<in> {''1'', ''true'', ''on'', ''memory'', ''inmemory''} then Inr StoreMemory
      else if raw \<in> {''sqlite'', ''file'', ''disk''} then Inr StoreSqlite
      else config_err (''KC_ADMIN_MCP_HTTP_EVENT_STORE must be memory, sqlite, or off (got '' @ raw @ '')''))"

definition parse_resume_mode :: "string \<Rightarrow> config_error + resume_mode" where
  "parse_resume_mode raw =
     (if raw \<in> {'''', ''0'', ''false'', ''off'', ''none''} then Inr ResumeOff
      else if raw \<in> {''historyless'', ''history-less'', ''no-history'', ''nohistory''} then Inr Historyless
      else if raw \<in> {''replay'', ''history'', ''historyful''} then Inr Replay
      else config_err (''KC_ADMIN_MCP_HTTP_RESUME_MODE must be off, historyless, or replay (got '' @ raw @ '')''))"

definition check_store_and_resume :: "event_store_mode \<Rightarrow> resume_mode \<Rightarrow> config_error + unit" where
  "check_store_and_resume store resume =
     (if resume = Replay \<and> store = StoreOff then
        config_err ''KC_ADMIN_MCP_HTTP_RESUME_MODE=replay requires KC_ADMIN_MCP_HTTP_EVENT_STORE=memory|sqlite.''
      else if resume \<noteq> Replay \<and> store \<noteq> StoreOff then
        config_err ''KC_ADMIN_MCP_HTTP_EVENT_STORE is only supported when KC_ADMIN_MCP_HTTP_RESUME_MODE=replay.''
      else Inr ())"

definition event_store_path :: "env_vars \<Rightarrow> event_store_mode \<Rightarrow> config_error + string option" where
  "event_store_path vars store =
     (if store = StoreSqlite then
        (let path = trim (env vars ''KC_ADMIN_MCP_HTTP_EVENT_STORE_PATH'' ''data/event-store.sqlite'') in
         if path = [] then
           config_err ''KC_ADMIN_MCP_HTTP_EVENT_STORE_PATH must be set when KC_ADMIN_MCP_HTTP_EVENT_STORE=sqlite.''
         else Inr (Some path))
      else Inr None)"

text \<open>16 MiB.\<close>

definition DEFAULT_INITIALIZE_BODY_LIMIT_BYTES :: nat where
  "DEFAULT_INITIALIZE_BODY_LIMIT_BYTES = 16 * 1024 * 1024"

definition load_streamable_http_config ::
  "(string \<Rightarrow> string + string) \<Rightarrow> env_vars \<Rightarrow> config_error + streamable_http_config" where
  "load_streamable_http_config key_of vars =
     and_then (parse_event_store_mode
       (to_ascii_lowercase (trim (env vars ''KC_ADMIN_MCP_HTTP_EVENT_STORE'' ''off'')))) (\<lambda>store.
     and_then (parse_resume_mode
       (to_ascii_lowercase (trim (env vars ''KC_ADMIN_MCP_HTTP_RESUME_MODE'' ''historyless'')))) (\<lambda>resume.
     and_then (check_store_and_resume store resume) (\<lambda>_.
     and_then (event_store_path vars store) (\<lambda>path.
     and_then (case env_optional vars ''KC_ADMIN_MCP_HTTP_EVENT_STORE_KEY_B64'' of
         None \<Rightarrow> Inr None
       | Some value \<Rightarrow> map_err ConfigMessage (map_sum id Some (key_of value))) (\<lambda>key.
     let ttl_s = env_u64 vars ''KC_ADMIN_MCP_HTTP_EVENT_STORE_TTL_S'' 120;
         retry_ms = env_u64 vars ''KC_ADMIN_MCP_HTTP_RETRY_INTERVAL_MS'' 0
     in Inr \<lparr>sh_event_store_mode = store, sh_resume_mode = resume,
          sh_initialize_body_limit_bytes =
            max (env_u64 vars ''KC_ADMIN_MCP_HTTP_INITIALIZE_BODY_LIMIT_BYTES''
                   DEFAULT_INITIALIZE_BODY_LIMIT_BYTES) 1,
          sh_event_store_path = path, sh_event_store_key = key,
          sh_max_streams = max (env_u64 vars ''KC_ADMIN_MCP_HTTP_EVENT_STORE_MAX_STREAMS'' 200) 1,
          sh_max_events = max (env_u64 vars ''KC_ADMIN_MCP_HTTP_EVENT_STORE_MAX_EVENTS'' 200) 1,
          sh_ttl = (if ttl_s = 0 then None else Some (max ttl_s 1)),
          sh_retry_interval =
            (if resume \<noteq> ResumeOff \<and> 0 < retry_ms then Some (max retry_ms 1) else None),
          sh_stateless_fallback = env_bool vars ''KC_ADMIN_MCP_HTTP_STATELESS_FALLBACK'' True\<rparr>)))))"

definition resume_enabled :: "streamable_http_config \<Rightarrow> bool" where
  "resume_enabled cfg = (sh_resume_mode cfg \<noteq> ResumeOff)"

definition replay_enabled :: "streamable_http_config \<Rightarrow> bool" where
  "replay_enabled cfg = (sh_resume_mode cfg = Replay)"

section \<open>Scopes of the tool families\<close>

record tool_scopes =
  ts_read :: "string list"
  ts_write :: "string list"

record client_scope_set = tool_scopes +
  ts_secrets :: "string list"

record realm_scope_set = tool_scopes +
  ts_admin :: "string list"

record event_scope_set =
  es_read :: "string list"
  es_admin :: "string list"

record scope_map =
  sm_users :: tool_scopes
  sm_groups :: tool_scopes
  sm_roles :: tool_scopes
  sm_clients :: client_scope_set
  sm_client_scopes :: tool_scopes
  sm_identity_providers :: tool_scopes
  sm_realms :: realm_scope_set
  sm_events :: event_scope_set
  sm_tokens_read :: "string list"
  sm_observability_read :: "string list"

definition default_scope_map :: scope_map where
  "default_scope_map = \<lparr>
     sm_users = \<lparr>ts_read = [''keycloak-admin:users:read''], ts_write = [''keycloak-admin:users:write'']\<rparr>,
     sm_groups = \<lparr>ts_read = [''keycloak-admin:groups:read''], ts_write = [''keycloak-admin:groups:write'']\<rparr>,
     sm_roles = \<lparr>ts_read = [''keycloak-admin:roles:read''], ts_write = [''keycloak-admin:roles:write'']\<rparr>,
     sm_clients = \<lparr>ts_read = [''keycloak-admin:clients:read''], ts_write = [''keycloak-admin:clients:write''],
       ts_secrets = [''keycloak-admin:clients:secrets'']\<rparr>,
     sm_client_scopes = \<lparr>ts_read = [''keycloak-admin:client-scopes:read''],
       ts_write = [''keycloak-admin:client-scopes:write'']\<rparr>,
     sm_identity_providers = \<lparr>ts_read = [''keycloak-admin:idp:read''], ts_write = [''keycloak-admin:idp:write'']\<rparr>,
     sm_realms = \<lparr>ts_read = [''keycloak-admin:realm:read''], ts_write = [''keycloak-admin:realm:write''],
       ts_admin = [''keycloak-admin:realm:admin'']\<rparr>,
     sm_events = \<lparr>es_read = [''keycloak-admin:events:read''], es_admin = [''keycloak-admin:events:admin'']\<rparr>,
     sm_tokens_read = [''keycloak-admin:tokens:read''],
     sm_observability_read = [''keycloak-admin:observability:read'']\<rparr>"

definition gathered_scopes :: "scope_map \<Rightarrow> string list" where
  "gathered_scopes m = concat
     [ts_read (sm_users m), ts_write (sm_users m), ts_read (sm_groups m), ts_write (sm_groups m),
      ts_read (sm_roles m), ts_write (sm_roles m), ts_read (sm_clients m), ts_write (sm_clients m),
      ts_secrets (sm_clients m), ts_read (sm_client_scopes m), ts_write (sm_client_scopes m),
      ts_read (sm_identity_providers m), ts_write (sm_identity_providers m),
      ts_read (sm_realms m), ts_write (sm_realms m), ts_admin (sm_realms m),
      es_read (sm_events m), es_admin (sm_events m), sm_tokens_read m, sm_observability_read m]"

definition collect_scopes :: "scope_map \<Rightarrow> string list" where
  "collect_scopes m = remdups_adj (sort (gathered_scopes m))"

section \<open>Authentication settings\<close>

definition require_oauth_identity_expectations :: "auth_config \<Rightarrow> config_error + unit" where
  "require_oauth_identity_expectations auth =
     (if ac_issuer auth = None then config_err ''KC_ADMIN_MCP_ISSUER is required for OAuth validation.''
      else if ac_audience auth = None then
        config_err ''KC_ADMIN_MCP_AUDIENCE is required for OAuth validation.''
      else Inr ())"

definition mcp_break_glass_deadline :: "instant \<Rightarrow> nat \<Rightarrow> config_error + instant" where
  "mcp_break_glass_deadline now ttl_s =
     (case checked_add_secs now ttl_s of
        Some t \<Rightarrow> Inr t
      | None \<Rightarrow> config_err ''break-glass TTL is too large to represent'')"

definition require_caller_allowlists ::
  "auth_config \<Rightarrow> bool \<Rightarrow> bool \<Rightarrow> string option \<Rightarrow> nat option \<Rightarrow> config_error + unit" where
  "require_caller_allowlists auth production_mode allow_open reason ttl_s =
     (if allow_open \<and> blank reason then
        config_err ''KC_ADMIN_MCP_ALLOW_OPEN_CALLER_ALLOWLISTS=1 requires KC_ADMIN_MCP_ALLOW_OPEN_CALLER_ALLOWLISTS_REASON.''
      else if allow_open \<and> ttl_zero ttl_s then
        config_err ''KC_ADMIN_MCP_ALLOW_OPEN_CALLER_ALLOWLISTS=1 requires KC_ADMIN_MCP_ALLOW_OPEN_CALLER_ALLOWLISTS_TTL_S>0.''
      else if production_mode \<and> \<not> allow_open \<and> ac_allowed_azp auth = [] \<and> ac_allowed_client_ids auth = [] then
        config_err ''Production mode requires KC_ADMIN_MCP_ALLOWED_AZP and/or KC_ADMIN_MCP_ALLOWED_CLIENT_IDS (or set KC_ADMIN_MCP_ALLOW_OPEN_CALLER_ALLOWLISTS=1 as break-glass).''
      else Inr ())"

definition resolve_authorization_servers :: "string list \<Rightarrow> string option \<Rightarrow> string list" where
  "resolve_authorization_servers configured issuer =
     (if configured = [] then
        (case issuer of
           None \<Rightarrow> configured
         | Some issuer \<Rightarrow>
             (let trimmed = trim issuer in
              if trimmed \<noteq> [] then configured @ [trimmed] else configured))
      else configured)"

definition load_mtls_mode :: "env_vars \<Rightarrow> config_error + mtls_mode" where
  "load_mtls_mode vars =
     (let mode_env = env_optional vars ''KC_ADMIN_MCP_MTLS_MODE'';
          required_legacy = env_bool vars ''KC_ADMIN_MCP_MTLS_REQUIRED'' False;
          header_env = env_optional vars ''KC_ADMIN_MCP_MTLS_CLIENT_CERT_HEADER''
      in case mode_env of
           Some mode \<Rightarrow>
             (if mode = ''native'' then Inr Native
              else if mode \<in> {''proxy'', ''proxy_header'', ''header''} then Inr ProxyHeader
              else if mode \<in> {''disabled'', ''off'', ''false''} then Inr MtlsDisabled
              else config_err (''KC_ADMIN_MCP_MTLS_MODE must be one of native, proxy, disabled (got '' @ mode @ '')''))
         | None \<Rightarrow>
             (if required_legacy then Inr Native
              else if header_env \<noteq> None then Inr ProxyHeader
              else Inr MtlsDisabled))"

definition mtls_client_cert_header :: "env_vars \<Rightarrow> mtls_mode \<Rightarrow> string option" where
  "mtls_client_cert_header vars mode =
     (let header = env_optional vars ''KC_ADMIN_MCP_MTLS_CLIENT_CERT_HEADER'' in
      if mode = ProxyHeader
      then Some (case header of Some h \<Rightarrow> h | None \<Rightarrow> ''x-forwarded-client-cert'')
      else header)"

definition load_auth_config :: "env_vars \<Rightarrow> file_contents \<Rightarrow> mtls_mode \<Rightarrow> auth_config" where
  "load_auth_config vars files mtls = \<lparr>
     ac_mode = (if env vars ''KC_ADMIN_MCP_AUTH_MODE'' ''introspection'' = ''jwks'' then Jwks
       else Introspection),
     ac_issuer = env_optional vars ''KC_ADMIN_MCP_ISSUER'',
     ac_audience = env_optional vars ''KC_ADMIN_MCP_AUDIENCE'',
     ac_allowed_azp = env_list vars ''KC_ADMIN_MCP_ALLOWED_AZP'' [],
     ac_allowed_client_ids = env_list vars ''KC_ADMIN_MCP_ALLOWED_CLIENT_IDS'' [],
     ac_open_caller_allowlists_expires_at = None,
     ac_clock_skew_seconds = env_i64 vars ''KC_ADMIN_MCP_CLOCK_SKEW_SECONDS'' 30,
     ac_introspection_url = env vars ''KC_ADMIN_MCP_INTROSPECTION_URL'' [],
     ac_introspection_client_id = env vars ''KC_ADMIN_MCP_INTROSPECTION_CLIENT_ID'' [],
     ac_introspection_client_secret = env_secret vars files
       ''KC_ADMIN_MCP_INTROSPECTION_CLIENT_SECRET'' ''kc_admin_mcp_introspection_client_secret'',
     ac_introspection_auth_method = auth_method_of
       (env vars ''KC_ADMIN_MCP_INTROSPECTION_AUTH_METHOD'' ''client_secret_basic''),
     ac_request_timeout = env_u64 vars ''KC_ADMIN_MCP_INTROSPECTION_TIMEOUT_MS'' 5000,
     ac_dpop_required = env_bool vars ''KC_ADMIN_MCP_DPOP_REQUIRED'' False,
     ac_mtls_mode = mtls,
     ac_mtls_client_cert_header = mtls_client_cert_header vars mtls,
     ac_jwks_url = env_optional vars ''KC_ADMIN_MCP_JWKS_URL''\<rparr>"

definition require_jwks_url :: "auth_config \<Rightarrow> config_error + unit" where
  "require_jwks_url auth =
     (if ac_mode auth = Jwks \<and> (case ac_jwks_url auth of None \<Rightarrow> True | Some v \<Rightarrow> v = []) then
        config_err ''KC_ADMIN_MCP_JWKS_URL is required when auth mode is jwks''
      else Inr ())"

text \<open>The checks \<open>load_config\<close> makes on the authentication settings once they are read.\<close>

definition check_auth_config ::
  "instant \<Rightarrow> env_vars \<Rightarrow> bool \<Rightarrow> auth_config \<Rightarrow> config_error + auth_config" where
  "check_auth_config now vars production_mode auth =
     and_then (require_jwks_url auth) (\<lambda>_.
     and_then (require_oauth_identity_expectations auth) (\<lambda>_.
     and_then (strict_bool vars ''KC_ADMIN_MCP_ALLOW_OPEN_CALLER_ALLOWLISTS'' False) (\<lambda>allow_open.
     let reason = env_optional vars ''KC_ADMIN_MCP_ALLOW_OPEN_CALLER_ALLOWLISTS_REASON'' in
     and_then (strict_u64 vars ''KC_ADMIN_MCP_ALLOW_OPEN_CALLER_ALLOWLISTS_TTL_S'') (\<lambda>ttl_s.
     and_then (require_caller_allowlists auth production_mode allow_open reason ttl_s) (\<lambda>_.
     and_then (case ttl_s of
         Some ttl_s \<Rightarrow>
           (if allow_open then map_sum id Some (mcp_break_glass_deadline now ttl_s) else Inr None)
       | None \<Rightarrow> Inr None) (\<lambda>deadline.
     Inr (auth\<lparr>ac_open_caller_allowlists_expires_at := deadline\<rparr>)))))))"

section \<open>The whole configuration\<close>

record mcp_gateway_config =
  mg_base_url :: string
  mg_request_timeout :: nat
  mg_tls_ca_pem :: "string option"
  mg_tls_client_cert_pem :: "string option"
  mg_tls_client_key_pem :: "string option"

record mcp_config =
  mc_bind_addr :: string
  mc_resource_url :: string
  mc_resource_metadata_url :: string
  mc_authorization_servers :: "string list"
  mc_scopes_supported :: "string list"
  mc_scope_map :: scope_map
  mc_role_read :: "string list"
  mc_role_write :: "string list"
  mc_enable_secret_tools :: bool
  mc_auth :: auth_config
  mc_streamable_http :: streamable_http_config
  mc_startup_admission :: admission_config
  mc_server_tls :: server_tls_config
  mc_gateway :: mcp_gateway_config
  mc_keycloak_base_url :: string
  mc_keycloak_admin_realm :: string
  mc_keycloak_client_id :: string
  mc_audit_log_max :: nat
  mc_audit_log_path :: "string option"
  mc_audit_checkpoint_path :: "string option"
  mc_audit_log_max_bytes :: "nat option"
  mc_audit_log_max_files :: nat

definition load_gateway_settings :: "env_vars \<Rightarrow> file_contents \<Rightarrow> mcp_gateway_config" where
  "load_gateway_settings vars files = \<lparr>
     mg_base_url = env vars ''KC_ADMIN_MCP_GATEWAY_URL'' ''http://127.0.0.1:9300'',
     mg_request_timeout = env_u64 vars ''KC_ADMIN_MCP_GATEWAY_TIMEOUT_MS'' 5000,
     mg_tls_ca_pem = env_secret_optional vars files ''KC_ADMIN_MCP_GATEWAY_TLS_CA'' ''kc_admin_mcp_gateway_tls_ca'',
     mg_tls_client_cert_pem =
       env_secret_optional vars files ''KC_ADMIN_MCP_GATEWAY_TLS_CERT'' ''kc_admin_mcp_gateway_tls_cert'',
     mg_tls_client_key_pem =
       env_secret_optional vars files ''KC_ADMIN_MCP_GATEWAY_TLS_KEY'' ''kc_admin_mcp_gateway_tls_key''\<rparr>"

definition load_mcp_config ::
  "instant \<Rightarrow> (string \<Rightarrow> string + string) \<Rightarrow> env_vars \<Rightarrow> file_contents \<Rightarrow> config_error + mcp_config" where
  "load_mcp_config now key_of vars files =
     (let scopes_supported = env_list vars ''KC_ADMIN_MCP_SCOPES_SUPPORTED'' (collect_scopes default_scope_map) in
     and_then (load_streamable_http_config key_of vars) (\<lambda>streamable_http.
     and_then (load_startup_admission_config vars) (\<lambda>startup_admission.
     and_then (load_mtls_mode vars) (\<lambda>mtls.
     and_then (check_auth_config now vars (sa_production_mode startup_admission)
                 (load_auth_config vars files mtls)) (\<lambda>auth.
     let max_bytes = env_u64 vars ''KC_ADMIN_MCP_AUDIT_LOG_MAX_BYTES'' 0 in
     Inr \<lparr>mc_bind_addr = env vars ''KC_ADMIN_MCP_BIND'' ''127.0.0.1:9400'',
       mc_resource_url = env vars ''KC_ADMIN_MCP_RESOURCE_URL'' ''http://127.0.0.1:9400/mcp'',
       mc_resource_metadata_url = env vars ''KC_ADMIN_MCP_RESOURCE_METADATA_URL''
         ''http://127.0.0.1:9400/.well-known/oauth-protected-resource/mcp'',
       mc_authorization_servers =
         resolve_authorization_servers (env_list vars ''KC_ADMIN_MCP_AUTH_SERVERS'' []) (ac_issuer auth),
       mc_scopes_supported = scopes_supported,
       mc_scope_map = default_scope_map,
       mc_role_read = env_list vars ''KC_ADMIN_MCP_ROLE_READ'' [''kc-admin:read''],
       mc_role_write = env_list vars ''KC_ADMIN_MCP_ROLE_WRITE'' [''kc-admin:write''],
       mc_enable_secret_tools = env_bool vars ''KC_ADMIN_MCP_ENABLE_SECRET_TOOLS'' False,
       mc_auth = auth,
       mc_streamable_http = streamable_http,
       mc_startup_admission = startup_admission,
       mc_server_tls = \<lparr>
         st_cert_pem = env_secret_optional vars files ''KC_ADMIN_MCP_TLS_CERT'' ''kc_admin_mcp_tls_cert'',
         st_key_pem = env_secret_optional vars files ''KC_ADMIN_MCP_TLS_KEY'' ''kc_admin_mcp_tls_key'',
         st_client_ca_pem =
           env_secret_optional vars files ''KC_ADMIN_MCP_TLS_CLIENT_CA'' ''kc_admin_mcp_tls_client_ca''\<rparr>,
       mc_gateway = load_gateway_settings vars files,
       mc_keycloak_base_url = env vars ''KEYCLOAK_URL'' ''http://127.0.0.1:8080'',
       mc_keycloak_admin_realm = env vars ''KEYCLOAK_ADMIN_REALM'' ''master'',
       mc_keycloak_client_id = env vars ''KEYCLOAK_ADMIN_CLIENT_ID'' [],
       mc_audit_log_max = env_u64 vars ''KC_ADMIN_MCP_AUDIT_MAX'' 500,
       mc_audit_log_path = env_optional vars ''KC_ADMIN_MCP_AUDIT_LOG_PATH'',
       mc_audit_checkpoint_path = env_optional vars ''KC_ADMIN_MCP_AUDIT_CHECKPOINT_PATH'',
       mc_audit_log_max_bytes = (if max_bytes = 0 then None else Some max_bytes),
       mc_audit_log_max_files = env_u64 vars ''KC_ADMIN_MCP_AUDIT_LOG_MAX_FILES'' 5\<rparr>)))))"

section \<open>Lemmas\<close>

lemma distinct_remdups_adj_sorted:
  "sorted xs \<Longrightarrow> distinct (remdups_adj (xs :: 'a :: linorder list))"
  by (induction xs rule: remdups_adj.induct) auto

lemma set_collect_scopes [simp]: "set (collect_scopes m) = set (gathered_scopes m)"
  by (simp add: collect_scopes_def)

lemma strict_bool_Inr: "strict_bool vars name d = Inr b \<longleftrightarrow> env_bool_strict vars name d = Inr b"
  by (simp add: strict_bool_def)

lemma check_bypass_Inr:
  "check_bypass production m bypass reason ttl allow = Inr u \<longleftrightarrow>
     \<not> (production \<and> m = Off) \<and>
     (bypass \<longrightarrow> \<not> blank reason \<and> \<not> ttl_zero ttl \<and> (production \<longrightarrow> allow))"
  by (simp add: check_bypass_def)

lemma load_startup_admission_InrD:
  assumes "load_startup_admission_config vars = Inr cfg"
  shows "check_bypass (sa_production_mode cfg) (sa_mode cfg) (sa_bypass cfg) (sa_bypass_reason cfg)
    (sa_bypass_ttl_s cfg) (sa_allow_production_bypass cfg) = Inr ()"
  using assms by (auto simp: load_startup_admission_config_def Let_def)

lemma require_caller_allowlists_Inr:
  "require_caller_allowlists auth production open_ok reason ttl = Inr u \<longleftrightarrow>
     (open_ok \<longrightarrow> \<not> blank reason \<and> \<not> ttl_zero ttl) \<and>
     (production \<and> \<not> open_ok \<longrightarrow> ac_allowed_azp auth \<noteq> [] \<or> ac_allowed_client_ids auth \<noteq> [])"
  by (auto simp: require_caller_allowlists_def)

lemma mcp_deadline_later: "mcp_break_glass_deadline now s = Inr d \<Longrightarrow> 0 < s \<Longrightarrow> now < d"
  by (auto simp: mcp_break_glass_deadline_def checked_add_secs_def split: option.splits if_splits)

lemma check_auth_config_InrD:
  assumes "check_auth_config now vars production auth = Inr auth'"
  shows "\<exists>d. auth' = auth\<lparr>ac_open_caller_allowlists_expires_at := d\<rparr> \<and>
    ac_issuer auth \<noteq> None \<and> ac_audience auth \<noteq> None \<and>
    (ac_mode auth = Jwks \<longrightarrow> (\<exists>url. ac_jwks_url auth = Some url \<and> url \<noteq> [])) \<and>
    (production \<longrightarrow> ac_allowed_azp auth \<noteq> [] \<or> ac_allowed_client_ids auth \<noteq> [] \<or>
       (\<exists>t. d = Some t \<and> now < t))"
proof -
  from assms obtain allow_open ttl d where
    auth': "auth' = auth\<lparr>ac_open_caller_allowlists_expires_at := d\<rparr>"
    and jwks: "require_jwks_url auth = Inr ()"
    and ids: "require_oauth_identity_expectations auth = Inr ()"
    and lists: "require_caller_allowlists auth production allow_open
      (env_optional vars ''KC_ADMIN_MCP_ALLOW_OPEN_CALLER_ALLOWLISTS_REASON'') ttl = Inr ()"
    and d: "(case ttl of
         Some ttl_s \<Rightarrow>
           (if allow_open then map_sum id Some (mcp_break_glass_deadline now ttl_s) else Inr None)
       | None \<Rightarrow> Inr None) = Inr d"
    unfolding check_auth_config_def Let_def and_then_Inr_iff by auto
  from jwks have "ac_mode auth = Jwks \<longrightarrow> (\<exists>url. ac_jwks_url auth = Some url \<and> url \<noteq> [])"
    by (auto simp: require_jwks_url_def split: if_splits option.splits)
  moreover from ids have "ac_issuer auth \<noteq> None \<and> ac_audience auth \<noteq> None"
    by (auto simp: require_oauth_identity_expectations_def split: if_splits)
  moreover have "production \<longrightarrow> ac_allowed_azp auth \<noteq> [] \<or> ac_allowed_client_ids auth \<noteq> [] \<or>
       (\<exists>t. d = Some t \<and> now < t)"
  proof (cases allow_open)
    case False
    with lists show ?thesis by (auto simp: require_caller_allowlists_Inr)
  next
    case True
    with lists have "\<not> ttl_zero ttl" by (simp add: require_caller_allowlists_Inr)
    then obtain s where "ttl = Some s" "0 < s" by (auto simp: ttl_zero_def split: option.splits)
    with d True show ?thesis by (auto dest: mcp_deadline_later)
  qed
  ultimately show ?thesis using auth' by blast
qed

lemma load_streamable_InrD:
  assumes "load_streamable_http_config key_of vars = Inr cfg"
  shows "sh_resume_mode cfg = Replay \<longleftrightarrow> sh_event_store_mode cfg \<noteq> StoreOff"
    and "sh_event_store_mode cfg = StoreSqlite \<longleftrightarrow> sh_event_store_path cfg \<noteq> None"
    and "0 < sh_initialize_body_limit_bytes cfg" "0 < sh_max_streams cfg" "0 < sh_max_events cfg"
    and "sh_resume_mode cfg = ResumeOff \<Longrightarrow> sh_retry_interval cfg = None"
proof -
  from assms obtain store resume path key where
    c: "check_store_and_resume store resume = Inr ()" and p: "event_store_path vars store = Inr path"
    and cfg: "sh_event_store_mode cfg = store" "sh_resume_mode cfg = resume" "sh_event_store_path cfg = path"
    and pos: "0 < sh_initialize_body_limit_bytes cfg" "0 < sh_max_streams cfg" "0 < sh_max_events cfg"
    and retry: "resume = ResumeOff \<Longrightarrow> sh_retry_interval cfg = None"
    unfolding load_streamable_http_config_def Let_def and_then_Inr_iff by auto
  from c show "sh_resume_mode cfg = Replay \<longleftrightarrow> sh_event_store_mode cfg \<noteq> StoreOff"
    unfolding cfg by (auto simp: check_store_and_resume_def split: if_splits)
  from p show "sh_event_store_mode cfg = StoreSqlite \<longleftrightarrow> sh_event_store_path cfg \<noteq> None"
    unfolding cfg by (auto simp: event_store_path_def Let_def split: if_splits)
  show "0 < sh_initialize_body_limit_bytes cfg" "0 < sh_max_streams cfg" "0 < sh_max_events cfg"
    by (fact pos)+
  show "sh_resume_mode cfg = ResumeOff \<Longrightarrow> sh_retry_interval cfg = None"
    using retry cfg(2) by simp
qed

lemma load_mcp_config_parts:
  assumes "load_mcp_config now key_of vars files = Inr cfg"
  obtains mtls where "load_streamable_http_config key_of vars = Inr (mc_streamable_http cfg)"
    and "load_startup_admission_config vars = Inr (mc_startup_admission cfg)"
    and "load_mtls_mode vars = Inr mtls"
    and "check_auth_config now vars (sa_production_mode (mc_startup_admission cfg))
      (load_auth_config vars files mtls) = Inr (mc_auth cfg)"
    and "mc_authorization_servers cfg =
      resolve_authorization_servers (env_list vars ''KC_ADMIN_MCP_AUTH_SERVERS'' []) (ac_issuer (mc_auth cfg))"
  using assms unfolding load_mcp_config_def Let_def and_then_Inr_iff by auto

section \<open>Properties\<close>

text \<open>
  A startup-admission configuration that loads never lets a production build skip
  admission silently: the check is not off in production, and a bypass always has a reason
  and a positive time to live and, in production, its own switch.
\<close>

theorem admission_config_bounded:
  assumes "load_startup_admission_config vars = Inr cfg"
  shows "(sa_production_mode cfg \<longrightarrow> sa_mode cfg \<noteq> Off) \<and>
    (sa_bypass cfg \<longrightarrow> \<not> blank (sa_bypass_reason cfg) \<and>
       (\<exists>ttl. sa_bypass_ttl_s cfg = Some ttl \<and> 0 < ttl) \<and>
       (sa_production_mode cfg \<longrightarrow> sa_allow_production_bypass cfg))"
  using load_startup_admission_InrD [OF assms]
  by (auto simp: check_bypass_Inr ttl_zero_def split: option.splits)

definition sample_env :: env_vars where
  "sample_env = map_of [(''KC_ADMIN_MCP_BUILD_PRODUCTION'', ''1''), (''KC_ADMIN_MCP_ISSUER'', ''iss''),
     (''KC_ADMIN_MCP_AUDIENCE'', ''aud''), (''KC_ADMIN_MCP_ALLOWED_AZP'', ''chat, cli'')]"

theorem admission_config_bounded_witness:
  "\<exists>cfg. load_startup_admission_config sample_env = Inr cfg \<and> sa_mode cfg \<noteq> Off"
proof -
  have "isl (load_startup_admission_config sample_env) = False" by code_simp
  then obtain cfg where cfg: "load_startup_admission_config sample_env = Inr cfg"
    by (cases "load_startup_admission_config sample_env") auto
  have "map_sum (\<lambda>_. ()) sa_production_mode (load_startup_admission_config sample_env) = Inr True"
    by code_simp
  with cfg admission_config_bounded [OF cfg] show ?thesis by auto
qed

text \<open>
  A server configuration that loads can identify its callers: issuer and audience are
  set, the JWKS mode has its URL, a proxy-header client certificate has a header name, and a
  production build lists the parties or clients it takes or runs on an override whose
  deadline lies in the future. Replay is configured exactly when there is an event store.
\<close>

theorem loaded_config_identifies_callers:
  assumes "load_mcp_config now key_of vars files = Inr cfg"
  shows "let auth = mc_auth cfg in
    ac_issuer auth \<noteq> None \<and> ac_audience auth \<noteq> None \<and>
    (ac_mode auth = Jwks \<longrightarrow> ac_jwks_url auth \<noteq> None) \<and>
    (ac_mtls_mode auth = ProxyHeader \<longrightarrow> ac_mtls_client_cert_header auth \<noteq> None) \<and>
    (sa_production_mode (mc_startup_admission cfg) \<longrightarrow>
       ac_allowed_azp auth \<noteq> [] \<or> ac_allowed_client_ids auth \<noteq> [] \<or>
       (\<exists>t. ac_open_caller_allowlists_expires_at auth = Some t \<and> now < t)) \<and>
    mc_authorization_servers cfg \<noteq> [] \<and>
    (replay_enabled (mc_streamable_http cfg) \<longleftrightarrow> sh_event_store_mode (mc_streamable_http cfg) \<noteq> StoreOff)"
  using assms
proof (rule load_mcp_config_parts)
  fix mtls
  assume http: "load_streamable_http_config key_of vars = Inr (mc_streamable_http cfg)"
    and auth: "check_auth_config now vars (sa_production_mode (mc_startup_admission cfg))
      (load_auth_config vars files mtls) = Inr (mc_auth cfg)"
    and servers: "mc_authorization_servers cfg =
      resolve_authorization_servers (env_list vars ''KC_ADMIN_MCP_AUTH_SERVERS'' []) (ac_issuer (mc_auth cfg))"
  let ?auth = "load_auth_config vars files mtls"
  from check_auth_config_InrD [OF auth] obtain d where
    a: "mc_auth cfg = ?auth\<lparr>ac_open_caller_allowlists_expires_at := d\<rparr>"
      "ac_issuer ?auth \<noteq> None" "ac_audience ?auth \<noteq> None"
      "ac_mode ?auth = Jwks \<longrightarrow> (\<exists>url. ac_jwks_url ?auth = Some url \<and> url \<noteq> [])"
      "sa_production_mode (mc_startup_admission cfg) \<longrightarrow> ac_allowed_azp ?auth \<noteq> [] \<or>
         ac_allowed_client_ids ?auth \<noteq> [] \<or> (\<exists>t. d = Some t \<and> now < t)"
    by blast
  have "ac_mtls_mode ?auth = ProxyHeader \<longrightarrow> ac_mtls_client_cert_header ?auth \<noteq> None"
    by (simp add: load_auth_config_def mtls_client_cert_header_def Let_def)
  moreover have "\<exists>i. ac_issuer ?auth = Some i \<and> trim i \<noteq> []"
    using a(2) env_optional_not_blank [of vars "''KC_ADMIN_MCP_ISSUER''"] by (auto simp: load_auth_config_def)
  then have "mc_authorization_servers cfg \<noteq> []"
    unfolding servers a(1) by (auto simp: resolve_authorization_servers_def Let_def)
  moreover have "replay_enabled (mc_streamable_http cfg) \<longleftrightarrow>
      sh_event_store_mode (mc_streamable_http cfg) \<noteq> StoreOff"
    using load_streamable_InrD(1) [OF http] by (simp add: replay_enabled_def)
  ultimately show ?thesis
    using a(2-5) unfolding a(1) by (auto simp: Let_def)
qed

lemma sample_http: "\<exists>h. load_streamable_http_config Inr sample_env = Inr h"
proof -
  have "parse_event_store_mode (to_ascii_lowercase (trim (env sample_env ''KC_ADMIN_MCP_HTTP_EVENT_STORE'' ''off'')))
      = Inr StoreOff"
    and "parse_resume_mode (to_ascii_lowercase (trim (env sample_env ''KC_ADMIN_MCP_HTTP_RESUME_MODE'' ''historyless'')))
      = Inr Historyless"
    and "check_store_and_resume StoreOff Historyless = Inr ()"
    and "event_store_path sample_env StoreOff = Inr None"
    and "env_optional sample_env ''KC_ADMIN_MCP_HTTP_EVENT_STORE_KEY_B64'' = None"
    by code_simp+
  then show ?thesis by (simp add: load_streamable_http_config_def Let_def)
qed

lemma sample_startup: "\<exists>a. load_startup_admission_config sample_env = Inr a \<and> sa_production_mode a"
proof -
  have "map_sum (\<lambda>_. ()) sa_production_mode (load_startup_admission_config sample_env) = Inr True"
    by code_simp
  then show ?thesis by auto
qed

lemma sample_auth:
  "\<exists>auth. check_auth_config 0 sample_env True (load_auth_config sample_env (\<lambda>_. None) MtlsDisabled) = Inr auth"
proof -
  have "map_sum (\<lambda>_. ()) (\<lambda>_. ()) (check_auth_config 0 sample_env True
      (load_auth_config sample_env (\<lambda>_. None) MtlsDisabled)) = Inr ()"
    by code_simp
  then show ?thesis by auto
qed

lemma sample_mtls: "load_mtls_mode sample_env = Inr MtlsDisabled"
  by code_simp

theorem loaded_config_identifies_callers_witness:
  "\<exists>cfg. load_mcp_config 0 Inr sample_env (\<lambda>_. None) = Inr cfg \<and> mc_authorization_servers cfg \<noteq> []"
proof -
  obtain cfg where cfg: "load_mcp_config 0 Inr sample_env (\<lambda>_. None) = Inr cfg"
    using sample_http sample_startup sample_auth sample_mtls
    by (auto simp: load_mcp_config_def Let_def)
  from loaded_config_identifies_callers [OF cfg] cfg show ?thesis by (auto simp: Let_def)
qed

end
