(* ===== verification/Admission.thy ===== *)
theory Admission
  imports Mcp_Config
begin

text \<open>
  Startup admission (\<open>admission.rs\<close>) and the provenance it compares with (\<open>provenance.rs\<close>). The
  files are read through the record \<open>admission_world\<close>: modification times, contents, the decoder that
  \<open>derive(Deserialize)\<close> generates for the artifact and the RFC 3339 parser (\<open>Inl\<close> is the error's
  text), and the clocks. Instants of the wall clock are numbers of one unit.
\<close>

section \<open>Provenance (provenance.rs)\<close>

record source_provenance =
  sp_vcs :: string
  sp_revision :: string
  sp_reference :: string
  sp_dirty :: bool

record build_metadata =
  bm_profile :: string
  bm_target :: string
  bm_rustc_version :: string
  bm_source_date_epoch :: "string option"

record build_provenance =
  bp_component :: string
  bp_server_version :: string
  bp_build_identity :: string
  bp_source_fingerprint :: string
  bp_source :: source_provenance
  bp_build_metadata :: build_metadata

record runtime_provenance =
  rp_build :: build_provenance
  rp_pid :: nat
  rp_executable_path :: string
  rp_file_size_bytes :: "64 word option"
  rp_modified_unix_ms :: "64 word option"

definition UNKNOWN :: string where "UNKNOWN = ''unknown''"

text \<open>\<open>option_env\<close> is the environment of the build.\<close>

definition build_env :: "env_vars \<Rightarrow> string \<Rightarrow> string option" where
  "build_env option_env key = Option.bind (option_env key)
     (\<lambda>value. let trimmed = trim value in
        if trimmed = [] \<or> trimmed = UNKNOWN then None else Some trimmed)"

definition parse_truthy :: "string option \<Rightarrow> bool" where
  "parse_truthy value =
     (case value of None \<Rightarrow> False
      | Some v \<Rightarrow> to_ascii_lowercase (trim v) \<in> {''1'', ''true'', ''yes'', ''on''})"

definition source_fingerprint :: "string \<Rightarrow> bool \<Rightarrow> string" where
  "source_fingerprint revision dirty =
     (let cleanliness = (if dirty then ''dirty'' else ''clean'')
      in ''git:'' @ revision @ '':'' @ cleanliness)"

definition build_identity :: "string \<Rightarrow> string \<Rightarrow> string \<Rightarrow> bool \<Rightarrow> string" where
  "build_identity component server_version revision dirty =
     (let value = component @ ''@'' @ server_version @ ''+'' @ revision
      in if dirty then value @ ''-dirty'' else value)"

definition or_unknown :: "string option \<Rightarrow> string" where
  "or_unknown v = (case v of Some s \<Rightarrow> s | None \<Rightarrow> UNKNOWN)"

definition from_build_env :: "env_vars \<Rightarrow> string \<Rightarrow> string \<Rightarrow> build_provenance" where
  "from_build_env option_env pkg_name pkg_version =
     (let component = (case build_env option_env ''KC_ADMIN_MCP_BUILD_COMPONENT'' of
            Some c \<Rightarrow> c | None \<Rightarrow> pkg_name);
          server_version = (case build_env option_env ''KC_ADMIN_MCP_BUILD_SERVER_VERSION'' of
            Some v \<Rightarrow> v | None \<Rightarrow> pkg_version);
          revision = or_unknown (build_env option_env ''KC_ADMIN_MCP_BUILD_GIT_SHA'');
          reference = or_unknown (build_env option_env ''KC_ADMIN_MCP_BUILD_GIT_REF'');
          dirty = parse_truthy (option_env ''KC_ADMIN_MCP_BUILD_GIT_DIRTY'')
      in \<lparr>bp_component = component, bp_server_version = server_version,
          bp_build_identity = (case build_env option_env ''KC_ADMIN_MCP_BUILD_IDENTITY_OVERRIDE'' of
            Some i \<Rightarrow> i | None \<Rightarrow> build_identity component server_version revision dirty),
          bp_source_fingerprint = source_fingerprint revision dirty,
          bp_source = \<lparr>sp_vcs = ''git'', sp_revision = revision, sp_reference = reference, sp_dirty = dirty\<rparr>,
          bp_build_metadata = \<lparr>
            bm_profile = or_unknown (build_env option_env ''KC_ADMIN_MCP_BUILD_PROFILE''),
            bm_target = or_unknown (build_env option_env ''KC_ADMIN_MCP_BUILD_TARGET''),
            bm_rustc_version = or_unknown (build_env option_env ''KC_ADMIN_MCP_BUILD_RUSTC_VERSION''),
            bm_source_date_epoch = build_env option_env ''KC_ADMIN_MCP_BUILD_SOURCE_DATE_EPOCH''\<rparr>\<rparr>)"

section \<open>Outcomes (admission.rs)\<close>

datatype admission_outcome = Disabled | Bypassed | Passed | Warning | Rejected

fun outcome_str :: "admission_outcome \<Rightarrow> string" where
  "outcome_str Disabled = ''disabled''"
| "outcome_str Bypassed = ''bypassed''"
| "outcome_str Passed = ''passed''"
| "outcome_str Warning = ''warn''"
| "outcome_str Rejected = ''rejected''"

record admission_evaluation =
  ev_outcome :: admission_outcome
  ev_profile :: gate_profile
  ev_gate_path :: string
  ev_reason_code :: "string option"
  ev_detail :: string
  ev_override_active :: bool

record gate_artifact =
  ga_schema_version :: "32 word"
  ga_component :: string
  ga_gate_level :: string
  ga_status :: string
  ga_build_identity :: string
  ga_source_fingerprint :: string
  ga_command_manifest_digest :: string
  ga_expires_at :: string

record admission_world =
  aw_modified :: "string \<Rightarrow> string + (string + nat)"
  aw_read :: "string \<Rightarrow> string + string"
  aw_decode :: "string \<Rightarrow> string + gate_artifact"
  aw_parse_time :: "string \<Rightarrow> string + int"
  aw_now :: int

definition required_gate_path :: "admission_config \<Rightarrow> string" where
  "required_gate_path config =
     (case sa_required_profile config of
        Fast \<Rightarrow> sa_fast_gate_artifact_path config
      | Standard \<Rightarrow> sa_standard_gate_artifact_path config)"

definition warning_or_reject ::
  "admission_mode \<Rightarrow> gate_profile \<Rightarrow> string \<Rightarrow> string \<Rightarrow> string \<Rightarrow> admission_evaluation" where
  "warning_or_reject mode profile gate_path reason_code detail =
     \<lparr>ev_outcome = (case mode of Strict \<Rightarrow> Rejected | Warn \<Rightarrow> Warning | Off \<Rightarrow> Disabled),
      ev_profile = profile, ev_gate_path = gate_path, ev_reason_code = Some reason_code,
      ev_detail = detail, ev_override_active = False\<rparr>"

text \<open>
  \<open>Path::file_name\<close> is the last component that is not empty and not a dot, unless it is a double
  dot; \<open>Path::extension\<close> is what follows its last dot, if that dot is not its first character.
\<close>

definition file_name :: "string \<Rightarrow> string option" where
  "file_name path =
     (case rev (filter (\<lambda>s. s \<notin> {'''', ''.''}) (split_on (CHR ''/'') path)) of
        [] \<Rightarrow> None
      | name # _ \<Rightarrow> if name = ''..'' then None else Some name)"

definition extension :: "string \<Rightarrow> string option" where
  "extension path = Option.bind (file_name path) (\<lambda>name.
     case rev (split_on (CHR ''.'') name) of
       ext # stem # rest \<Rightarrow> (if rest = [] \<and> stem = [] then None else Some ext)
     | _ \<Rightarrow> None)"

definition is_json_artifact :: "string \<Rightarrow> bool" where
  "is_json_artifact path =
     (case extension path of Some ext \<Rightarrow> eq_ignore_ascii_case ext ''json'' | None \<Rightarrow> False)"

definition is_stale :: "nat \<Rightarrow> nat \<Rightarrow> bool" where
  "is_stale gate_modified exe_modified = (gate_modified < exe_modified)"

section \<open>The evaluation\<close>

text \<open>
  Each check gives the reason code and the detail of its failure. \<open>aw_modified\<close> is \<open>Inl\<close> when the
  metadata cannot be read, \<open>Inr (Inl _)\<close> when there is no modification time.
\<close>

type_synonym 'a gate_check = "(string \<times> string) + 'a"

definition gate_times :: "admission_world \<Rightarrow> string \<Rightarrow> string \<Rightarrow> (nat \<times> nat) gate_check" where
  "gate_times w gate_path executable_path =
     (case aw_modified w gate_path of
        Inl err \<Rightarrow> Inl (''admission.gate.missing'',
          ''required gate artifact missing or unreadable: '' @ err)
      | Inr (Inl err) \<Rightarrow> Inl (''admission.gate.timestamp_invalid'',
          ''required gate artifact has no readable modified time: '' @ err)
      | Inr (Inr gate_modified) \<Rightarrow>
          (case aw_modified w executable_path of
             Inl err \<Rightarrow> Inl (''admission.gate.timestamp_invalid'',
               ''failed to read executable modified time: '' @ err)
           | Inr (Inl err) \<Rightarrow> Inl (''admission.gate.timestamp_invalid'',
               ''failed to read executable modified time: '' @ err)
           | Inr (Inr exe_modified) \<Rightarrow> Inr (gate_modified, exe_modified)))"

definition read_artifact :: "admission_world \<Rightarrow> string \<Rightarrow> gate_artifact gate_check" where
  "read_artifact w gate_path =
     (case aw_read w gate_path of
        Inl err \<Rightarrow> Inl (''admission.gate.missing'', ''failed to read gate artifact JSON: '' @ err)
      | Inr contents \<Rightarrow>
          (case aw_decode w contents of
             Inl err \<Rightarrow> Inl (''admission.gate.status_invalid'', ''invalid gate artifact JSON payload: '' @ err)
           | Inr artifact \<Rightarrow> Inr artifact))"

definition check_artifact ::
  "admission_world \<Rightarrow> gate_profile \<Rightarrow> build_provenance \<Rightarrow> gate_artifact \<Rightarrow> unit gate_check" where
  "check_artifact w profile build artifact =
     (if ga_schema_version artifact \<noteq> 1 then
        Inl (''admission.gate.status_invalid'', ''unsupported gate artifact schema_version '' @
          show_nat (unat (ga_schema_version artifact)) @ ''; expected 1'')
      else if ga_component artifact \<noteq> bp_component build then
        Inl (''admission.gate.component_mismatch'', ''gate component mismatch: expected '' @
          bp_component build @ '', found '' @ ga_component artifact)
      else if ga_gate_level artifact \<noteq> profile_label profile then
        Inl (''admission.gate.level_mismatch'', ''gate level mismatch: expected '' @
          profile_label profile @ '', found '' @ ga_gate_level artifact)
      else if ga_status artifact \<noteq> ''pass'' then
        Inl (''admission.gate.status_invalid'', ''gate status is not pass: '' @ ga_status artifact)
      else if ga_build_identity artifact \<noteq> bp_build_identity build then
        Inl (''admission.gate.build_mismatch'', ''gate build_identity mismatch: expected '' @
          bp_build_identity build @ '', found '' @ ga_build_identity artifact)
      else if ga_source_fingerprint artifact \<noteq> bp_source_fingerprint build then
        Inl (''admission.gate.source_mismatch'', ''gate source_fingerprint mismatch: expected '' @
          bp_source_fingerprint build @ '', found '' @ ga_source_fingerprint artifact)
      else if \<not> starts_with ''sha256:'' (ga_command_manifest_digest artifact) then
        Inl (''admission.gate.manifest_mismatch'', ''gate command_manifest_digest must start with sha256:'')
      else (case aw_parse_time w (ga_expires_at artifact) of
              Inl err \<Rightarrow> Inl (''admission.gate.timestamp_invalid'',
                ''gate expires_at is not valid RFC3339: '' @ err)
            | Inr expires_at \<Rightarrow>
                (if expires_at < aw_now w then
                   Inl (''admission.gate.expired'', ''gate artifact expired at '' @ ga_expires_at artifact)
                 else Inr ())))"

definition gate_checks ::
  "admission_world \<Rightarrow> admission_config \<Rightarrow> string \<Rightarrow> runtime_provenance \<Rightarrow> unit gate_check" where
  "gate_checks w config executable_path runtime =
     (let gate_path = required_gate_path config in
      if trim (bp_build_identity (rp_build runtime)) = [] \<or>
         trim (bp_source_fingerprint (rp_build runtime)) = [] then
        Inl (''admission.runtime.provenance_unavailable'', ''runtime provenance unavailable'')
      else
        and_then (gate_times w gate_path executable_path) (\<lambda>(gate_modified, exe_modified).
        and_then
          (if is_json_artifact gate_path then
             and_then (read_artifact w gate_path)
               (check_artifact w (sa_required_profile config) (rp_build runtime))
           else Inr ()) (\<lambda>_.
        if is_stale gate_modified exe_modified then
          Inl (''admission.gate.expired'', ''required gate artifact is older than executable ('' @
            executable_path @ '')'')
        else Inr ())))"

definition bypass_evaluation :: "admission_config \<Rightarrow> admission_evaluation" where
  "bypass_evaluation config =
     (let ttl = (case sa_bypass_ttl_s config of Some t \<Rightarrow> t | None \<Rightarrow> 0);
          reason = (case sa_bypass_reason config of Some r \<Rightarrow> r | None \<Rightarrow> ''unspecified'')
      in \<lparr>ev_outcome = Bypassed, ev_profile = sa_required_profile config,
          ev_gate_path = required_gate_path config,
          ev_reason_code = Some ''admission.override.active'',
          ev_detail = ''startup admission bypass active (ttl_s='' @ show_nat ttl @ '', reason='' @ reason @ '')'',
          ev_override_active = True\<rparr>)"

definition evaluate_startup_admission ::
  "admission_world \<Rightarrow> admission_config \<Rightarrow> string \<Rightarrow> runtime_provenance \<Rightarrow> admission_evaluation" where
  "evaluate_startup_admission w config executable_path runtime =
     (let gate_path = required_gate_path config;
          profile = sa_required_profile config
      in if sa_mode config = Off then
           \<lparr>ev_outcome = Disabled, ev_profile = profile, ev_gate_path = gate_path,
            ev_reason_code = Some ''admission.disabled'',
            ev_detail = ''startup admission disabled by configuration'', ev_override_active = False\<rparr>
         else if sa_bypass config then bypass_evaluation config
         else (case gate_checks w config executable_path runtime of
             Inl (code, detail) \<Rightarrow> warning_or_reject (sa_mode config) profile gate_path code detail
           | Inr _ \<Rightarrow>
               \<lparr>ev_outcome = Passed, ev_profile = profile, ev_gate_path = gate_path, ev_reason_code = None,
                ev_detail = ''startup admission checks passed'', ev_override_active = False\<rparr>))"

section \<open>Starting and attesting (main.rs, provenance.rs)\<close>

record runtime_admission =
  ra_enforcement_phase :: string
  ra_required_gate_level :: string
  ra_outcome :: string
  ra_reason_code :: "string option"
  ra_override_active :: bool

text \<open>A rejected evaluation ends the process, with its reason code and detail.\<close>

definition admit_startup ::
  "admission_config \<Rightarrow> admission_evaluation \<Rightarrow> (string option \<times> string) + runtime_admission" where
  "admit_startup config admission =
     (if ev_outcome admission = Rejected then Inl (ev_reason_code admission, ev_detail admission)
      else Inr \<lparr>ra_enforcement_phase = enforcement_phase (sa_mode config),
        ra_required_gate_level = profile_label (ev_profile admission),
        ra_outcome = outcome_str (ev_outcome admission),
        ra_reason_code = ev_reason_code admission,
        ra_override_active = ev_override_active admission\<rparr>)"

record unavailable_field =
  uf_field :: string
  uf_code :: string
  uf_reason :: string

record attestation_payload =
  ap_server_version :: string
  ap_contract_version :: "string option"
  ap_build_identity :: string
  ap_source_fingerprint :: string
  ap_source :: source_provenance
  ap_build_metadata :: build_metadata
  ap_pid :: "nat option"
  ap_executable_path :: "string option"
  ap_binary_size_bytes :: "64 word option"
  ap_binary_modified_unix_ms :: "64 word option"

record attestation_envelope =
  at_status :: string
  at_schema_version :: nat
  at_component :: string
  at_timestamp :: string
  at_request_id :: "string option"
  at_attestation :: attestation_payload
  at_unavailable :: "unavailable_field list"
  at_runtime_admission :: runtime_admission

definition unavailable_fields :: "build_provenance \<Rightarrow> unavailable_field list" where
  "unavailable_fields build =
     (if sp_revision (bp_source build) = UNKNOWN then
        [\<lparr>uf_field = ''attestation.source.revision'', uf_code = ''provenance.unavailable.git_revision'',
          uf_reason = ''git revision unavailable in build context''\<rparr>] else []) @
     (if sp_reference (bp_source build) = UNKNOWN then
        [\<lparr>uf_field = ''attestation.source.reference'', uf_code = ''provenance.unavailable.git_reference'',
          uf_reason = ''git reference unavailable in build context''\<rparr>] else []) @
     (if bm_rustc_version (bp_build_metadata build) = UNKNOWN then
        [\<lparr>uf_field = ''attestation.build_metadata.rustc_version'',
          uf_code = ''provenance.unavailable.rustc_version'',
          uf_reason = ''rustc version unavailable in build context''\<rparr>] else [])"

definition build_attestation_envelope ::
  "string \<Rightarrow> runtime_provenance \<Rightarrow> runtime_admission \<Rightarrow> attestation_envelope" where
  "build_attestation_envelope timestamp provenance admission =
     (let build = rp_build provenance;
          unavailable = unavailable_fields build;
          admission_degraded = (ra_outcome admission \<in> {''warn'', ''bypassed'', ''disabled''});
          status = (if unavailable = [] \<and> \<not> admission_degraded then ''ok'' else ''degraded'')
      in \<lparr>at_status = status, at_schema_version = 2, at_component = bp_component build,
          at_timestamp = timestamp, at_request_id = None,
          at_attestation = \<lparr>ap_server_version = bp_server_version build, ap_contract_version = None,
            ap_build_identity = bp_build_identity build,
            ap_source_fingerprint = bp_source_fingerprint build,
            ap_source = bp_source build, ap_build_metadata = bp_build_metadata build,
            ap_pid = Some (rp_pid provenance), ap_executable_path = Some (rp_executable_path provenance),
            ap_binary_size_bytes = rp_file_size_bytes provenance,
            ap_binary_modified_unix_ms = rp_modified_unix_ms provenance\<rparr>,
          at_unavailable = unavailable, at_runtime_admission = admission\<rparr>)"

section \<open>Lemmas\<close>

lemma check_artifact_Inr_iff:
  "check_artifact w profile build a = Inr u \<longleftrightarrow>
     ga_schema_version a = 1 \<and> ga_component a = bp_component build \<and>
     ga_gate_level a = profile_label profile \<and> ga_status a = ''pass'' \<and>
     ga_build_identity a = bp_build_identity build \<and>
     ga_source_fingerprint a = bp_source_fingerprint build \<and>
     starts_with ''sha256:'' (ga_command_manifest_digest a) \<and>
     (\<exists>t. aw_parse_time w (ga_expires_at a) = Inr t \<and> aw_now w \<le> t)"
  by (simp add: check_artifact_def split: sum.split)

lemma gate_times_Inr_iff:
  "gate_times w g x = Inr (tg, tx) \<longleftrightarrow> aw_modified w g = Inr (Inr tg) \<and> aw_modified w x = Inr (Inr tx)"
  by (auto simp: gate_times_def split: sum.splits)

lemma read_artifact_Inr_iff:
  "read_artifact w g = Inr a \<longleftrightarrow> (\<exists>c. aw_read w g = Inr c \<and> aw_decode w c = Inr a)"
  by (auto simp: read_artifact_def split: sum.splits)

lemma gate_checks_Inr_iff:
  "gate_checks w config exe runtime = Inr u \<longleftrightarrow>
     trim (bp_build_identity (rp_build runtime)) \<noteq> [] \<and>
     trim (bp_source_fingerprint (rp_build runtime)) \<noteq> [] \<and>
     (\<exists>tg tx. aw_modified w (required_gate_path config) = Inr (Inr tg) \<and>
        aw_modified w exe = Inr (Inr tx) \<and> tx \<le> tg) \<and>
     (is_json_artifact (required_gate_path config) \<longrightarrow>
        (\<exists>a. read_artifact w (required_gate_path config) = Inr a \<and>
           check_artifact w (sa_required_profile config) (rp_build runtime) a = Inr ()))"
  by (auto simp: gate_checks_def Let_def gate_times_Inr_iff is_stale_def not_less
      simp del: read_artifact_Inr_iff split: prod.splits)

lemma evaluate_cases:
  "ev_outcome (evaluate_startup_admission w config exe runtime) =
     (if sa_mode config = Off then Disabled
      else if sa_bypass config then Bypassed
      else (case gate_checks w config exe runtime of
              Inr _ \<Rightarrow> Passed
            | Inl _ \<Rightarrow> if sa_mode config = Strict then Rejected else Warning))"
  by (cases "sa_mode config")
    (auto simp: evaluate_startup_admission_def bypass_evaluation_def warning_or_reject_def Let_def
      split: sum.splits)

section \<open>Properties\<close>

text \<open>
  C23: Admission passes exactly on evidence for this build: the check is on and not bypassed,
  the build knows its identity and source, the gate artifact is at least as new as the
  executable and, when it is JSON, it is of the required level, passed, not expired, and names
  this component, build and source with a SHA-256 manifest digest.
\<close>

theorem admission_passes_iff:
  "ev_outcome (evaluate_startup_admission w config exe runtime) = Passed \<longleftrightarrow>
     sa_mode config \<noteq> Off \<and> \<not> sa_bypass config \<and>
     trim (bp_build_identity (rp_build runtime)) \<noteq> [] \<and>
     trim (bp_source_fingerprint (rp_build runtime)) \<noteq> [] \<and>
     (\<exists>tg tx. aw_modified w (required_gate_path config) = Inr (Inr tg) \<and>
        aw_modified w exe = Inr (Inr tx) \<and> tx \<le> tg) \<and>
     (if is_json_artifact (required_gate_path config) then
        (\<exists>c a t. aw_read w (required_gate_path config) = Inr c \<and> aw_decode w c = Inr a \<and>
           ga_schema_version a = 1 \<and> ga_status a = ''pass'' \<and>
           ga_gate_level a = profile_label (sa_required_profile config) \<and>
           ga_component a = bp_component (rp_build runtime) \<and>
           ga_build_identity a = bp_build_identity (rp_build runtime) \<and>
           ga_source_fingerprint a = bp_source_fingerprint (rp_build runtime) \<and>
           starts_with ''sha256:'' (ga_command_manifest_digest a) \<and>
           aw_parse_time w (ga_expires_at a) = Inr t \<and> aw_now w \<le> t)
      else True)"
proof -
  have "ev_outcome (evaluate_startup_admission w config exe runtime) = Passed \<longleftrightarrow>
      sa_mode config \<noteq> Off \<and> \<not> sa_bypass config \<and> gate_checks w config exe runtime = Inr ()"
    by (auto simp: evaluate_cases split: sum.splits)
  then show ?thesis
    unfolding gate_checks_Inr_iff check_artifact_Inr_iff read_artifact_Inr_iff if_bool_eq_conj by blast
qed

text \<open>
  A server that starts in production is gated, or its override is on record: with a
  configuration that loaded, it passed its checks, or runs in warning mode, or runs on a bypass that
  has a reason, a positive time to live and the production switch; and an attestation with
  status \<open>ok\<close> is issued only when the checks passed.
\<close>

theorem production_start_gated:
  assumes "load_startup_admission_config vars = Inr config" and "sa_production_mode config"
    and "admit_startup config (evaluate_startup_admission w config exe runtime) = Inr admission"
  shows "(gate_checks w config exe runtime = Inr () \<or> sa_mode config = Warn \<or>
      (sa_bypass config \<and> sa_allow_production_bypass config \<and> \<not> blank (sa_bypass_reason config) \<and>
       (\<exists>ttl. sa_bypass_ttl_s config = Some ttl \<and> 0 < ttl))) \<and>
    ra_outcome admission \<noteq> ''disabled'' \<and>
    (at_status (build_attestation_envelope ts runtime admission) = ''ok'' \<longrightarrow>
       gate_checks w config exe runtime = Inr () \<and> \<not> ra_override_active admission)"
proof -
  have conf: "sa_mode config \<noteq> Off"
    "sa_bypass config \<Longrightarrow> sa_allow_production_bypass config \<and> \<not> blank (sa_bypass_reason config) \<and>
       \<not> ttl_zero (sa_bypass_ttl_s config)"
    using load_startup_admission_InrD [OF assms(1)] assms(2) by (auto simp: check_bypass_Inr)
  let ?ev = "evaluate_startup_admission w config exe runtime"
  have adm: "ev_outcome ?ev \<noteq> Rejected" "ra_outcome admission = outcome_str (ev_outcome ?ev)"
    "ra_override_active admission = ev_override_active ?ev"
    using assms(3) by (auto simp: admit_startup_def split: if_splits)
  show ?thesis
  proof (cases "sa_bypass config")
    case True
    then have "ev_outcome ?ev = Bypassed" using conf(1) by (simp add: evaluate_cases)
    with True conf(2) adm(2) show ?thesis
      by (auto simp: ttl_zero_def build_attestation_envelope_def Let_def split: option.splits)
  next
    case nb: False
    show ?thesis
    proof (cases "gate_checks w config exe runtime")
      case (Inr u)
      then have "ev_outcome ?ev = Passed" "\<not> ev_override_active ?ev"
        using nb conf(1) by (simp_all add: evaluate_cases evaluate_startup_admission_def Let_def)
      with Inr adm show ?thesis by simp
    next
      case (Inl e)
      with nb conf(1) adm(1) have "sa_mode config = Warn" "ev_outcome ?ev = Warning"
        by (cases "sa_mode config"; simp add: evaluate_cases)+
      with adm(2) show ?thesis by (simp add: build_attestation_envelope_def Let_def)
    qed
  qed
qed

definition sample_admission :: admission_config where
  "sample_admission = \<lparr>sa_mode = Strict, sa_required_profile = Standard,
     sa_fast_gate_artifact_path = ''data/test-gates/kc-admin-mcp/fast.json'',
     sa_standard_gate_artifact_path = ''data/test-gates/kc-admin-mcp/standard.json'',
     sa_bypass = False, sa_bypass_reason = None, sa_bypass_ttl_s = None, sa_production_mode = True,
     sa_allow_production_bypass = False\<rparr>"

definition sample_runtime :: runtime_provenance where
  "sample_runtime = \<lparr>rp_build = from_build_env (\<lambda>_. None) ''kc-admin-mcp'' ''0.1.0'', rp_pid = 1,
     rp_executable_path = ''/bin/x'', rp_file_size_bytes = None, rp_modified_unix_ms = None\<rparr>"

definition sample_world :: admission_world where
  "sample_world = \<lparr>aw_modified = (\<lambda>_. Inr (Inr 1)), aw_read = (\<lambda>_. Inr []),
     aw_decode = (\<lambda>_. Inr \<lparr>ga_schema_version = 1, ga_component = ''kc-admin-mcp'',
        ga_gate_level = ''standard'', ga_status = ''pass'',
        ga_build_identity = bp_build_identity (rp_build sample_runtime),
        ga_source_fingerprint = bp_source_fingerprint (rp_build sample_runtime),
        ga_command_manifest_digest = ''sha256:0'', ga_expires_at = ''t''\<rparr>),
     aw_parse_time = (\<lambda>_. Inr 9), aw_now = 5\<rparr>"

theorem production_start_gated_witness:
  "\<exists>admission. ra_outcome admission \<noteq> ''disabled'' \<and>
     admit_startup sample_admission
       (evaluate_startup_admission sample_world sample_admission ''/bin/x'' sample_runtime) = Inr admission"
proof -
  have load: "load_startup_admission_config sample_env = Inr sample_admission" by code_simp
  have prod_mode: "sa_production_mode sample_admission" by (simp add: sample_admission_def)
  have "isl (admit_startup sample_admission
      (evaluate_startup_admission sample_world sample_admission ''/bin/x'' sample_runtime)) = False"
    by code_simp
  then obtain admission where adm: "admit_startup sample_admission
      (evaluate_startup_admission sample_world sample_admission ''/bin/x'' sample_runtime) = Inr admission"
    by (metis isl_def sum.exhaust)
  from production_start_gated [OF load prod_mode adm] adm show ?thesis by blast
qed

end
