(* ===== verification/Metrics.thy ===== *)
theory Metrics
  imports Prelude "HOL-Library.AList"
begin

text \<open>
  The in-memory metrics of the MCP server (\<open>metrics.rs\<close>): labelled counters and histograms.
  A \<open>HashMap\<close> is an association list with distinct keys, whose order no property uses. The
  counters are \<open>u64\<close> and wrap. A panic is \<open>None\<close>.
\<close>

section \<open>Data\<close>

type_synonym label_key = "(string \<times> string) list"

type_synonym counter_vec = "(label_key \<times> 64 word) list"

record histogram_state =
  hs_counts :: "64 word list"
  hs_sum :: "64 word"
  hs_count :: "64 word"

record histogram_vec =
  hv_buckets :: "64 word list"
  hv_inner :: "(label_key \<times> histogram_state) list"

record metrics =
  auth_rejects_total :: counter_vec
  request_timeouts_total :: counter_vec
  tool_calls_total :: counter_vec
  tool_call_duration_ms :: histogram_vec

section \<open>Counters\<close>

definition inc :: "label_key \<Rightarrow> 64 word \<Rightarrow> counter_vec \<Rightarrow> counter_vec" where
  "inc key value guard =
     (let entry = (case map_of guard key of Some n \<Rightarrow> n | None \<Rightarrow> 0)
      in AList.update key (entry + value) guard)"

definition counter_snapshot :: "counter_vec \<Rightarrow> (label_key \<times> 64 word) list" where
  "counter_snapshot guard = map (\<lambda>(labels, value). (labels, value)) guard"

section \<open>Histograms\<close>

fun find_bucket :: "nat \<Rightarrow> 64 word \<Rightarrow> 64 word list \<Rightarrow> nat option" where
  "find_bucket i value [] = None"
| "find_bucket i value (upper # rest) =
     (if value \<le> upper then Some i else find_bucket (Suc i) value rest)"

text \<open>The index starts at \<open>len - 1\<close>, which panics for no buckets at all.\<close>

definition bucket_index :: "64 word list \<Rightarrow> 64 word \<Rightarrow> nat option" where
  "bucket_index buckets value =
     (if buckets = [] then None
      else (case find_bucket 0 value buckets of
              Some i \<Rightarrow> Some i | None \<Rightarrow> Some (length buckets - 1)))"

definition empty_histogram :: "64 word list \<Rightarrow> histogram_state" where
  "empty_histogram buckets =
     \<lparr>hs_counts = replicate (length buckets) 0, hs_sum = 0, hs_count = 0\<rparr>"

definition count_value :: "nat \<Rightarrow> 64 word \<Rightarrow> histogram_state \<Rightarrow> histogram_state" where
  "count_value idx value state =
     \<lparr>hs_counts = (hs_counts state)[idx := hs_counts state ! idx + 1],
      hs_sum = hs_sum state + value, hs_count = hs_count state + 1\<rparr>"

definition observe :: "label_key \<Rightarrow> 64 word \<Rightarrow> histogram_vec \<Rightarrow> histogram_vec option" where
  "observe key value h =
     (let state = (case map_of (hv_inner h) key of
            Some s \<Rightarrow> s | None \<Rightarrow> empty_histogram (hv_buckets h))
      in case bucket_index (hv_buckets h) value of
           None \<Rightarrow> None
         | Some idx \<Rightarrow>
             (if idx < length (hs_counts state) then
                Some (h\<lparr>hv_inner := AList.update key (count_value idx value state) (hv_inner h)\<rparr>)
              else None))"

section \<open>The metrics record\<close>

definition default_buckets :: "64 word list" where
  "default_buckets = [5, 10, 25, 50, 100, 250, 500, 1000, 2500, 5000]"

definition new_metrics :: metrics where
  "new_metrics = \<lparr>auth_rejects_total = [], request_timeouts_total = [], tool_calls_total = [],
     tool_call_duration_ms = \<lparr>hv_buckets = default_buckets, hv_inner = []\<rparr>\<rparr>"

definition record_auth_reject :: "string \<Rightarrow> metrics \<Rightarrow> metrics" where
  "record_auth_reject code m =
     m\<lparr>auth_rejects_total := inc [(''code'', code)] 1 (auth_rejects_total m)\<rparr>"

definition record_request_timeout :: "string \<Rightarrow> metrics \<Rightarrow> metrics" where
  "record_request_timeout component m =
     m\<lparr>request_timeouts_total := inc [(''component'', component)] 1 (request_timeouts_total m)\<rparr>"

definition record_tool_call :: "string \<Rightarrow> string \<Rightarrow> 64 word \<Rightarrow> metrics \<Rightarrow> metrics option" where
  "record_tool_call tool status duration_ms m =
     (let m = m\<lparr>tool_calls_total := inc [(''tool'', tool), (''status'', status)] 1 (tool_calls_total m)\<rparr>
      in map_option (\<lambda>h. m\<lparr>tool_call_duration_ms := h\<rparr>)
           (observe [(''tool'', tool)] duration_ms (tool_call_duration_ms m)))"

section \<open>Snapshots\<close>

record histogram_snapshot =
  hn_labels :: label_key
  hn_buckets :: "64 word list"
  hn_counts :: "64 word list"
  hn_sum :: "64 word"
  hn_count :: "64 word"

definition histogram_snapshots :: "histogram_vec \<Rightarrow> histogram_snapshot list" where
  "histogram_snapshots h = map (\<lambda>(labels, state).
     \<lparr>hn_labels = labels, hn_buckets = hv_buckets h, hn_counts = hs_counts state, hn_sum = hs_sum state,
       hn_count = hs_count state\<rparr>) (hv_inner h)"

record metrics_snapshot =
  sp_auth_rejects_total :: "(label_key \<times> 64 word) list"
  sp_request_timeouts_total :: "(label_key \<times> 64 word) list"
  sp_tool_calls_total :: "(label_key \<times> 64 word) list"
  sp_tool_call_duration_ms :: "histogram_snapshot list"

definition snapshot_metrics :: "metrics \<Rightarrow> metrics_snapshot" where
  "snapshot_metrics m = \<lparr>
     sp_auth_rejects_total = counter_snapshot (auth_rejects_total m),
     sp_request_timeouts_total = counter_snapshot (request_timeouts_total m),
     sp_tool_calls_total = counter_snapshot (tool_calls_total m),
     sp_tool_call_duration_ms = histogram_snapshots (tool_call_duration_ms m)\<rparr>"

section \<open>The interface: a map of accumulators\<close>

text \<open>
  Counters and histograms keep one accumulator per key and fold each value into the accumulator
  of its key. In a valid map an update always succeeds and touches no other key.
\<close>

locale keyed_accumulator =
  fixes lookup :: "'m \<Rightarrow> 'k \<Rightarrow> 's option"
    and update :: "'k \<Rightarrow> 'v \<Rightarrow> 'm \<Rightarrow> 'm option"
    and valid :: "'m \<Rightarrow> bool"
    and start :: 's
    and step :: "'v \<Rightarrow> 's \<Rightarrow> 's"
  assumes update_valid: "valid m \<Longrightarrow> \<exists>m'. update k v m = Some m' \<and> valid m'"
    and update_lookup: "\<lbrakk>valid m; update k v m = Some m'\<rbrakk> \<Longrightarrow>
          lookup m' k' = (if k' = k
             then Some (step v (case lookup m k of None \<Rightarrow> start | Some s \<Rightarrow> s)) else lookup m k')"
begin

fun update_all :: "('k \<times> 'v) list \<Rightarrow> 'm \<Rightarrow> 'm option" where
  "update_all [] m = Some m"
| "update_all ((k, v) # kvs) m = Option.bind (update k v m) (update_all kvs)"

definition values_of :: "'k \<Rightarrow> ('k \<times> 'v) list \<Rightarrow> 'v list" where
  "values_of k kvs = map snd (filter (\<lambda>kv. fst kv = k) kvs)"

lemma values_of_simps [simp]:
  "values_of k [] = []"
  "values_of k ((k', v) # kvs) = (if k' = k then v # values_of k kvs else values_of k kvs)"
  by (simp_all add: values_of_def)

lemma update_all_valid: "valid m \<Longrightarrow> \<exists>m'. update_all kvs m = Some m' \<and> valid m'"
proof (induction kvs arbitrary: m)
  case Nil
  then show ?case by simp
next
  case (Cons kv kvs)
  obtain k v where kv: "kv = (k, v)" by (cases kv)
  from update_valid [OF Cons.prems, of k v] obtain m1 where "update k v m = Some m1" "valid m1" by blast
  with Cons.IH show ?case by (simp add: kv)
qed

lemma update_all_lookup:
  "\<lbrakk>valid m; update_all kvs m = Some m'\<rbrakk> \<Longrightarrow>
     lookup m' k = (if values_of k kvs = [] then lookup m k
       else Some (fold step (values_of k kvs) (case lookup m k of None \<Rightarrow> start | Some s \<Rightarrow> s)))"
proof (induction kvs arbitrary: m)
  case Nil
  then show ?case by simp
next
  case (Cons kv kvs)
  obtain k0 v where kv: "kv = (k0, v)" by (cases kv)
  from update_valid [OF Cons.prems(1), of k0 v] obtain m1 where
    m1: "update k0 v m = Some m1" "valid m1" by blast
  have "lookup m' k = (if values_of k kvs = [] then lookup m1 k
       else Some (fold step (values_of k kvs) (case lookup m1 k of None \<Rightarrow> start | Some s \<Rightarrow> s)))"
    using Cons.IH [OF m1(2)] Cons.prems(2) by (simp add: kv m1)
  with update_lookup [OF Cons.prems(1) m1(1)] show ?case by (simp add: kv)
qed

end

section \<open>Lemmas\<close>

lemma find_bucket_bound: "find_bucket i value bs = Some j \<Longrightarrow> i \<le> j \<and> j < i + length bs"
  by (induction bs arbitrary: i) (fastforce split: if_splits)+

lemma bucket_index_Some: "bs \<noteq> [] \<Longrightarrow> \<exists>i. bucket_index bs value = Some i \<and> i < length bs"
  by (auto simp: bucket_index_def dest: find_bucket_bound split: option.split)

definition histogram_step :: "64 word list \<Rightarrow> 64 word \<Rightarrow> histogram_state \<Rightarrow> histogram_state" where
  "histogram_step bs value s = count_value (the (bucket_index bs value)) value s"

definition durations_valid :: "histogram_vec \<Rightarrow> bool" where
  "durations_valid h \<longleftrightarrow> hv_buckets h = default_buckets \<and>
     (\<forall>k s. map_of (hv_inner h) k = Some s \<longrightarrow> length (hs_counts s) = length default_buckets)"

lemma observe_valid:
  assumes "durations_valid h"
  shows "observe k v h = Some (h\<lparr>hv_inner := AList.update k (histogram_step default_buckets v
    (case map_of (hv_inner h) k of None \<Rightarrow> empty_histogram default_buckets | Some s \<Rightarrow> s)) (hv_inner h)\<rparr>)"
proof -
  obtain i where i: "bucket_index default_buckets v = Some i" "i < length default_buckets"
    using bucket_index_Some [of default_buckets v] by (auto simp: default_buckets_def)
  let ?s = "case map_of (hv_inner h) k of None \<Rightarrow> empty_histogram default_buckets | Some s \<Rightarrow> s"
  have "length (hs_counts ?s) = length default_buckets"
    using assms by (auto simp: durations_valid_def empty_histogram_def split: option.split)
  with i assms show ?thesis
    by (simp add: observe_def durations_valid_def histogram_step_def Let_def split: option.splits)
qed

lemma observe_keeps_valid:
  assumes "durations_valid h" and "observe k v h = Some h'"
  shows "durations_valid h'"
proof -
  let ?s = "case map_of (hv_inner h) k of None \<Rightarrow> empty_histogram default_buckets | Some s \<Rightarrow> s"
  have "length (hs_counts ?s) = length default_buckets"
    using assms(1) by (auto simp: durations_valid_def empty_histogram_def split: option.split)
  then have "length (hs_counts (histogram_step default_buckets v ?s)) = length default_buckets"
    by (simp add: histogram_step_def count_value_def)
  moreover have "h' = h\<lparr>hv_inner := AList.update k (histogram_step default_buckets v ?s) (hv_inner h)\<rparr>"
    using assms(2) unfolding observe_valid [OF assms(1)] by simp
  ultimately show ?thesis using assms(1) by (simp add: durations_valid_def update_conv')
qed

interpretation counters: keyed_accumulator
  map_of "\<lambda>k v m. Some (inc k v m)" "\<lambda>_. True" 0 "\<lambda>v s. s + v"
  by unfold_locales (auto simp: inc_def update_conv' Let_def)

interpretation durations: keyed_accumulator
  "\<lambda>h. map_of (hv_inner h)" observe durations_valid "empty_histogram default_buckets"
  "histogram_step default_buckets"
proof
  fix h k v
  assume "durations_valid h"
  then show "\<exists>h'. observe k v h = Some h' \<and> durations_valid h'"
    using observe_valid observe_keeps_valid by blast
next
  fix h k v h' k'
  assume "durations_valid h" and "observe k v h = Some h'"
  then show "map_of (hv_inner h') k' = (if k' = k
       then Some (histogram_step default_buckets v
              (case map_of (hv_inner h) k of None \<Rightarrow> empty_histogram default_buckets | Some s \<Rightarrow> s))
       else map_of (hv_inner h) k')"
    using observe_valid [of h k v] by (auto simp: update_conv')
qed

subsection \<open>A sequence of tool calls\<close>

type_synonym tool_call = "string \<times> string \<times> 64 word"

fun run_calls :: "tool_call list \<Rightarrow> metrics \<Rightarrow> metrics option" where
  "run_calls [] m = Some m"
| "run_calls ((tool, status, ms) # calls) m =
     Option.bind (record_tool_call tool status ms m) (run_calls calls)"

definition call_labels :: "tool_call list \<Rightarrow> (label_key \<times> 64 word) list" where
  "call_labels calls = map (\<lambda>(tool, status, ms). ([(''tool'', tool), (''status'', status)], 1)) calls"

definition call_durations :: "tool_call list \<Rightarrow> (label_key \<times> 64 word) list" where
  "call_durations calls = map (\<lambda>(tool, status, ms). ([(''tool'', tool)], ms)) calls"

lemma run_calls_parts:
  "\<lbrakk>counters.update_all (call_labels calls) (tool_calls_total m) = Some cs;
    durations.update_all (call_durations calls) (tool_call_duration_ms m) = Some ds\<rbrakk> \<Longrightarrow>
   run_calls calls m = Some (m\<lparr>tool_calls_total := cs, tool_call_duration_ms := ds\<rparr>)"
proof (induction calls arbitrary: m)
  case Nil
  then show ?case by (simp add: call_labels_def call_durations_def)
next
  case (Cons c calls)
  obtain tool status ms where c: "c = (tool, status, ms)" by (cases c)
  let ?cs = "inc [(''tool'', tool), (''status'', status)] 1 (tool_calls_total m)"
  from Cons.prems(2) obtain h where h: "observe [(''tool'', tool)] ms (tool_call_duration_ms m) = Some h"
    "durations.update_all (call_durations calls) h = Some ds"
    by (auto simp: c call_durations_def bind_eq_Some_conv)
  from Cons.prems(1) have "counters.update_all (call_labels calls) ?cs = Some cs"
    by (simp add: c call_labels_def)
  with Cons.IH [of "m\<lparr>tool_calls_total := ?cs, tool_call_duration_ms := h\<rparr>"] h
  show ?case by (simp add: c record_tool_call_def Let_def)
qed

lemma fold_plus_ones: "((\<lambda>s. s + 1) ^^ n) (a :: 64 word) = a + of_nat n"
  by (induction n) (simp_all add: algebra_simps)

definition histogram_of :: "64 word list \<Rightarrow> 64 word list \<Rightarrow> histogram_state" where
  "histogram_of bs ds =
     \<lparr>hs_counts = map (\<lambda>i. of_nat (length (filter (\<lambda>d. bucket_index bs d = Some i) ds))) [0..<length bs],
      hs_sum = sum_list ds, hs_count = of_nat (length ds)\<rparr>"

lemma histogram_of_snoc:
  assumes "bs \<noteq> []"
  shows "histogram_step bs d (histogram_of bs ds) = histogram_of bs (ds @ [d])"
proof -
  from bucket_index_Some [OF assms] obtain i where i: "bucket_index bs d = Some i" "i < length bs" by blast
  have "(map f [0..<length bs])[i := map f [0..<length bs] ! i + 1] =
      map (\<lambda>j. if j = i then f j + 1 else f j) [0..<length bs]" for f :: "nat \<Rightarrow> 64 word"
    using i(2) by (intro nth_equalityI) (auto simp: nth_list_update)
  from this [of "\<lambda>i. of_nat (length (filter (\<lambda>d. bucket_index bs d = Some i) ds))"] i
  show ?thesis
    by (simp add: histogram_of_def histogram_step_def count_value_def algebra_simps)
qed

lemma fold_histogram:
  "bs \<noteq> [] \<Longrightarrow> fold (histogram_step bs) ds (empty_histogram bs) = histogram_of bs ds"
proof (induction ds rule: rev_induct)
  case Nil
  show ?case by (simp add: histogram_of_def empty_histogram_def map_replicate_const)
next
  case (snoc d ds)
  then show ?case by (simp add: histogram_of_snoc)
qed

lemma call_label_values:
  "counters.values_of [(''tool'', tool), (''status'', status)] (call_labels calls) =
     replicate (length (filter (\<lambda>(t, s, _). t = tool \<and> s = status) calls)) 1"
  by (induction calls) (auto simp: call_labels_def split: if_splits)

lemma call_duration_values:
  "durations.values_of [(''tool'', tool)] (call_durations calls) =
     map (\<lambda>(_, _, ms). ms) (filter (\<lambda>(t, _). t = tool) calls)"
  by (induction calls) (auto simp: call_durations_def split: if_splits)

section \<open>Properties\<close>

text \<open>
  The metrics of any sequence of tool calls are what was recorded: no recording panics,
  the counter of a tool and status is the number of such calls (modulo 2 to the 64), and the
  histogram of a tool has the calls of each bucket, the sum of their durations and their
  number; labels that never occurred have no entry.
\<close>

theorem tool_call_metrics:
  "\<exists>m. run_calls calls new_metrics = Some m \<and>
     (\<forall>tool status.
        map_of (tool_calls_total m) [(''tool'', tool), (''status'', status)] =
          (let n = length (filter (\<lambda>(t, s, _). t = tool \<and> s = status) calls)
           in if n = 0 then None else Some (of_nat n)) \<and>
        map_of (hv_inner (tool_call_duration_ms m)) [(''tool'', tool)] =
          (let ds = map (\<lambda>(_, _, ms). ms) (filter (\<lambda>(t, _). t = tool) calls)
           in if ds = [] then None else Some (histogram_of default_buckets ds)))"
proof -
  obtain cs where cs: "counters.update_all (call_labels calls) [] = Some cs"
    using counters.update_all_valid [of "call_labels calls" "[]", OF TrueI] by blast
  have valid: "durations_valid (tool_call_duration_ms new_metrics)"
    by (simp add: durations_valid_def new_metrics_def)
  then obtain ds where ds:
    "durations.update_all (call_durations calls) (tool_call_duration_ms new_metrics) = Some ds"
    using durations.update_all_valid by blast
  have "run_calls calls new_metrics =
      Some (new_metrics\<lparr>tool_calls_total := cs, tool_call_duration_ms := ds\<rparr>)"
    using run_calls_parts [of calls new_metrics cs ds] cs ds by (simp add: new_metrics_def)
  moreover have "default_buckets \<noteq> []" by (simp add: default_buckets_def)
  ultimately show ?thesis
    using counters.update_all_lookup [OF _ cs] durations.update_all_lookup [OF valid ds]
    by (simp add: call_label_values call_duration_values fold_plus_ones fold_histogram
        new_metrics_def Let_def)
qed

end
