(* ===== verification/Mcp_Auth.thy ===== *)
theory Mcp_Auth
  imports Mcp_Config Metrics
begin

text \<open>
  Caller authentication of the MCP server: the edge middleware (\<open>edge.rs\<close>), the checks on the
  introspected or verified token (\<open>auth.rs\<close>) and the middleware that applies them (\<open>auth_guard\<close>
  in \<open>main.rs\<close>). The toolkit's authenticator is the parameter \<open>authenticate\<close>, a function of the
  request headers.
\<close>

section \<open>Edge middleware (edge.rs)\<close>

definition strict_bearer_value :: "string \<Rightarrow> string + unit" where
  "strict_bearer_value raw =
     (if trim raw \<noteq> raw then Inl ''authorization header has leading/trailing whitespace''
      else if list_ex is_control raw then Inl ''authorization header contains control characters''
      else if count_list raw (CHR '' '') \<noteq> 1 then
        Inl ''authorization header must contain a single space separator''
      else (case split_once (CHR '' '') raw of
              None \<Rightarrow> Inl ''authorization header missing space''
            | Some (scheme, token) \<Rightarrow>
                (if \<not> eq_ignore_ascii_case scheme ''bearer'' then Inl ''authorization scheme must be Bearer''
                 else if token = [] then Inl ''empty bearer token''
                 else Inr ())))"

definition mcp_ensure_strict_bearer :: "headers \<Rightarrow> string + unit" where
  "mcp_ensure_strict_bearer hs =
     (case header_get_all hs ''authorization'' of
        [] \<Rightarrow> Inr ()
      | [v] \<Rightarrow> (case to_str v of
            None \<Rightarrow> Inl ''invalid authorization header''
          | Some raw \<Rightarrow> strict_bearer_value raw)
      | _ \<Rightarrow> Inl ''multiple authorization headers'')"

definition mcp_contains_matrix_params :: "string \<Rightarrow> bool" where
  "mcp_contains_matrix_params path = contains_char (CHR '';'') path"

text \<open>The backslash is U+005C.\<close>

definition contains_path_confusion :: "string \<Rightarrow> bool" where
  "contains_path_confusion path =
     (let lower = to_ascii_lowercase path in
      if contains_str ''%2e'' lower \<or> contains_str ''%2f'' lower \<or> contains_str ''%5c'' lower then True
      else if contains_char (char_of (92 :: nat)) path then True
      else list_ex (\<lambda>segment. segment \<in> {''.'', ''..''}) (split_on (CHR ''/'') path))"

definition mcp_edge_guard :: "string \<Rightarrow> headers \<Rightarrow> 'r \<Rightarrow> nat + 'r" where
  "mcp_edge_guard path hs next_response =
     (if mcp_contains_matrix_params path \<or> contains_path_confusion path then Inl 400
      else and_then (map_err (\<lambda>_. 400) (mcp_ensure_strict_bearer hs)) (\<lambda>_. Inr next_response))"

section \<open>Errors (auth.rs)\<close>

datatype auth_error =
    AuthMissingToken
  | AuthInvalidToken
  | AuthTokenInactive
  | AuthTokenExpired
  | AuthForbidden string
  | AuthNotSupported string
  | AuthIntrospectionFailed

fun auth_status_code :: "auth_error \<Rightarrow> nat" where
  "auth_status_code AuthMissingToken = 401"
| "auth_status_code AuthInvalidToken = 401"
| "auth_status_code AuthTokenInactive = 401"
| "auth_status_code AuthTokenExpired = 401"
| "auth_status_code (AuthForbidden _) = 403"
| "auth_status_code (AuthNotSupported _) = 503"
| "auth_status_code AuthIntrospectionFailed = 502"

fun auth_code :: "auth_error \<Rightarrow> string" where
  "auth_code AuthMissingToken = ''auth.missing_token''"
| "auth_code AuthInvalidToken = ''auth.invalid_token''"
| "auth_code AuthTokenInactive = ''auth.inactive_token''"
| "auth_code AuthTokenExpired = ''auth.expired_token''"
| "auth_code (AuthForbidden _) = ''auth.forbidden''"
| "auth_code (AuthNotSupported _) = ''auth.not_supported''"
| "auth_code AuthIntrospectionFailed = ''auth.introspection_failed''"

fun auth_error_text :: "auth_error \<Rightarrow> string" where
  "auth_error_text AuthMissingToken = ''missing bearer token''"
| "auth_error_text AuthInvalidToken = ''invalid bearer token''"
| "auth_error_text AuthTokenInactive = ''token inactive''"
| "auth_error_text AuthTokenExpired = ''token expired''"
| "auth_error_text (AuthForbidden _) = ''token not allowed''"
| "auth_error_text (AuthNotSupported m) = ''auth not supported: '' @ m"
| "auth_error_text AuthIntrospectionFailed = ''introspection failed''"

text \<open>The toolkit's errors, as the crate matches them.\<close>

datatype toolkit_auth_error =
    TokenMissing
  | TokenInvalid
  | TokenHasExpired
  | Replayed
  | ScopesMissing
  | ConfigError string
  | Generic "string option" string

fun map_toolkit_error :: "toolkit_auth_error \<Rightarrow> auth_error" where
  "map_toolkit_error TokenMissing = AuthMissingToken"
| "map_toolkit_error TokenInvalid = AuthInvalidToken"
| "map_toolkit_error TokenHasExpired = AuthTokenExpired"
| "map_toolkit_error Replayed = AuthForbidden ''replay detected''"
| "map_toolkit_error ScopesMissing = AuthForbidden ''missing required scopes''"
| "map_toolkit_error (ConfigError m) = AuthNotSupported m"
| "map_toolkit_error (Generic reason m) =
     (if reason = Some ''introspection_failed'' then AuthIntrospectionFailed
      else if reason = Some ''introspection_inactive'' then AuthTokenInactive
      else AuthForbidden m)"

section \<open>Authentication (auth.rs)\<close>

record toolkit_context =
  tk_raw_token :: string
  tk_token_ref :: string
  tk_subject :: "string option"
  tk_scopes :: "string list"
  tk_roles :: "string list"
  tk_azp :: "string option"
  tk_claims :: json

record caller =
  cl_request_id :: string
  cl_actor_id :: "string option"
  cl_raw_token :: string
  cl_token_ref :: string
  cl_client_id :: "string option"
  cl_subject :: "string option"
  cl_scopes :: "string list"
  cl_roles :: "string list"
  cl_expires_at :: "64 word option"
  cl_azp :: "string option"
  cl_issuer :: "string option"

definition claim_string :: "json \<Rightarrow> string \<Rightarrow> string option" where
  "claim_string claims name =
     Option.bind (Option.bind (json_get claims name) as_str) non_empty"

text \<open>An \<open>i64\<close> is its bit pattern; the cast from \<open>u64\<close> keeps the bits.\<close>

definition claim_i64 :: "json \<Rightarrow> string \<Rightarrow> 64 word option" where
  "claim_i64 claims name = Option.bind (json_get claims name)
     (\<lambda>v. case as_i64 v of Some w \<Rightarrow> Some w | None \<Rightarrow> as_u64 v)"

definition caller_allowlists_break_glass_expired :: "instant \<Rightarrow> auth_config \<Rightarrow> bool" where
  "caller_allowlists_break_glass_expired now auth =
     (ac_allowed_azp auth = [] \<and> ac_allowed_client_ids auth = [] \<and>
      (case ac_open_caller_allowlists_expires_at auth of None \<Rightarrow> False | Some deadline \<Rightarrow> deadline \<le> now))"

definition listed :: "string list \<Rightarrow> string option \<Rightarrow> bool" where
  "listed allowed_values value =
     (case value of None \<Rightarrow> False | Some v \<Rightarrow> list_ex (\<lambda>allowed. allowed = v) allowed_values)"

definition check_client_certificate :: "auth_config \<Rightarrow> headers \<Rightarrow> auth_error + unit" where
  "check_client_certificate auth hs =
     (if ac_mtls_mode auth = ProxyHeader then
        (let header_name = (case ac_mtls_client_cert_header auth of
               Some h \<Rightarrow> h | None \<Rightarrow> ''x-forwarded-client-cert'')
         in if header_get hs header_name = None
            then Inl (AuthForbidden ''mTLS client certificate required'') else Inr ())
      else Inr ())"

text \<open>The sum of the \<open>i64\<close> expiry and the skew wraps, as in a release build.\<close>

definition check_expiry :: "auth_config \<Rightarrow> 64 word \<Rightarrow> json \<Rightarrow> auth_error + unit" where
  "check_expiry auth unix_now claims =
     (case claim_i64 claims ''exp'' of
        None \<Rightarrow> Inr ()
      | Some exp \<Rightarrow>
          (if sint (exp + of_int (ac_clock_skew_seconds auth)) < sint unix_now
           then Inl AuthTokenExpired else Inr ()))"

definition authenticate_request ::
  "(headers \<Rightarrow> toolkit_auth_error + toolkit_context) \<Rightarrow> instant \<Rightarrow> 64 word \<Rightarrow> auth_config \<Rightarrow>
     headers \<Rightarrow> string \<Rightarrow> string option \<Rightarrow> auth_error + caller" where
  "authenticate_request authenticate now unix_now auth hs request_id actor_id =
     (if ac_dpop_required auth then
        Inl (AuthNotSupported ''DPoP validation is not implemented in kc-admin-mcp'')
      else
      and_then (check_client_certificate auth hs) (\<lambda>_.
      and_then (map_err map_toolkit_error (authenticate hs)) (\<lambda>ctx.
      and_then (check_expiry auth unix_now (tk_claims ctx)) (\<lambda>_.
      let azp = (case tk_azp ctx of Some a \<Rightarrow> Some a
                 | None \<Rightarrow> claim_string (tk_claims ctx) ''client_id'')
      in if caller_allowlists_break_glass_expired now auth then
           Inl (AuthForbidden ''break-glass caller allowlist TTL expired'')
         else if ac_allowed_azp auth \<noteq> [] \<and> \<not> listed (ac_allowed_azp auth) azp then
           Inl (AuthForbidden ''azp not allowed'')
         else
           (let client_id = (case claim_string (tk_claims ctx) ''client_id'' of
                  Some c \<Rightarrow> Some c | None \<Rightarrow> azp)
            in if ac_allowed_client_ids auth \<noteq> [] \<and> \<not> listed (ac_allowed_client_ids auth) client_id then
                 Inl (AuthForbidden ''client_id not allowed'')
               else Inr \<lparr>cl_request_id = request_id, cl_actor_id = actor_id,
                 cl_raw_token = tk_raw_token ctx, cl_token_ref = tk_token_ref ctx,
                 cl_client_id = client_id, cl_subject = tk_subject ctx,
                 cl_scopes = tk_scopes ctx, cl_roles = tk_roles ctx,
                 cl_expires_at = claim_i64 (tk_claims ctx) ''exp'',
                 cl_azp = azp, cl_issuer = claim_string (tk_claims ctx) ''iss''\<rparr>)))))"

section \<open>Set-up of the authenticator (auth.rs)\<close>

text \<open>
  The toolkit's \<open>AuthConfig\<close>, which both services fill in; durations that the code gives as floats
  are whole seconds. The toolkit's constructor is a parameter.
\<close>

record toolkit_auth_config =
  tc_mode :: auth_mode
  tc_strict_oauth :: bool
  tc_jwks_url :: "string option"
  tc_issuer :: "string option"
  tc_audience :: "string option"
  tc_required_scopes :: "string list"
  tc_actor_claim :: string
  tc_introspection_url :: "string option"
  tc_introspection_client_id :: "string option"
  tc_introspection_client_secret :: "string option"
  tc_introspection_auth_method :: client_auth_method
  tc_introspection_cache_ttl_s :: nat
  tc_introspection_force :: bool
  tc_delegation_secret :: "string option"
  tc_delegation_issuer :: string
  tc_delegation_audience :: string
  tc_jti_ttl_s :: nat
  tc_jti_cache_size :: nat
  tc_jti_enforce_bearer :: bool
  tc_clock_skew_s :: int

definition build_authenticator ::
  "(toolkit_auth_config \<Rightarrow> string + 'a) \<Rightarrow> mcp_config \<Rightarrow> string + 'a" where
  "build_authenticator new_authenticator cfg =
     (let auth = mc_auth cfg in
      new_authenticator \<lparr>
        tc_mode = ac_mode auth,
        tc_strict_oauth = True,
        tc_jwks_url = ac_jwks_url auth,
        tc_issuer = ac_issuer auth,
        tc_audience = ac_audience auth,
        tc_required_scopes = [],
        tc_actor_claim = ''sub'',
        tc_introspection_url = non_empty (ac_introspection_url auth),
        tc_introspection_client_id = non_empty (ac_introspection_client_id auth),
        tc_introspection_client_secret = non_empty (ac_introspection_client_secret auth),
        tc_introspection_auth_method = ac_introspection_auth_method auth,
        tc_introspection_cache_ttl_s = 0,
        tc_introspection_force = False,
        tc_delegation_secret = None,
        tc_delegation_issuer = ''mcp-toolkit'',
        tc_delegation_audience = ''mcp-toolkit'',
        tc_jti_ttl_s = 0,
        tc_jti_cache_size = 0,
        tc_jti_enforce_bearer = False,
        tc_clock_skew_s = ac_clock_skew_seconds auth\<rparr>)"

section \<open>The logging context (log_context.rs)\<close>

text \<open>The task-local storage is a value passed to the code that runs under it.\<close>

record log_context =
  lc_request_id :: "string option"
  lc_actor_id :: "string option"
  lc_session_id :: "string option"
  lc_method :: "string option"
  lc_path :: "string option"
  lc_tool :: "string option"

definition new_log_context ::
  "string \<Rightarrow> string option \<Rightarrow> string option \<Rightarrow> string option \<Rightarrow> string option \<Rightarrow> log_context" where
  "new_log_context request_id actor_id session_id request_method path =
     \<lparr>lc_request_id = Some request_id, lc_actor_id = actor_id, lc_session_id = session_id,
      lc_method = request_method, lc_path = path, lc_tool = None\<rparr>"

definition with_tool :: "string \<Rightarrow> log_context option \<Rightarrow> (log_context option \<Rightarrow> 'r) \<Rightarrow> 'r" where
  "with_tool tool current future =
     (case current of
        Some ctx \<Rightarrow> future (Some (ctx\<lparr>lc_tool := Some tool\<rparr>))
      | None \<Rightarrow> future None)"

text \<open>What the formatter adds to every line (\<open>logging.rs\<close>), keys in the order of insertion.\<close>

definition context_map :: "log_context option \<Rightarrow> (string \<times> string) list" where
  "context_map current =
     (let entry = (\<lambda>key v. case v of None \<Rightarrow> [] | Some x \<Rightarrow> [(key, x)])
      in case current of
           None \<Rightarrow> []
         | Some ctx \<Rightarrow> entry ''request_id'' (lc_request_id ctx) @ entry ''actor'' (lc_actor_id ctx) @
             entry ''session_id'' (lc_session_id ctx) @ entry ''method'' (lc_method ctx) @
             entry ''path'' (lc_path ctx) @ entry ''tool'' (lc_tool ctx))"

section \<open>The middleware (main.rs)\<close>

text \<open>
  A response body is a JSON document, a stream of server-sent events or, from the toolkit's
  services, anything else.
\<close>

record sse_event =
  ev_data :: string
  ev_id :: "string option"
  ev_retry :: "nat option"

datatype mcp_body = JsonText json | EventStream "sse_event list" | OtherBody string

record mcp_response =
  mr_status :: nat
  mr_headers :: headers
  mr_body :: mcp_body

text \<open>The text of the challenge is the toolkit's: the parameter \<open>bearer_challenge\<close>.\<close>

definition build_www_authenticate :: "(string \<Rightarrow> string \<Rightarrow> string) \<Rightarrow> mcp_config \<Rightarrow> string" where
  "build_www_authenticate bearer_challenge cfg =
     bearer_challenge ''kc-admin-mcp'' (mc_resource_metadata_url cfg)"

definition auth_error_response ::
  "(string \<Rightarrow> string \<Rightarrow> string) \<Rightarrow> mcp_config \<Rightarrow> metrics \<Rightarrow> string \<Rightarrow> auth_error \<Rightarrow> mcp_response \<times> metrics" where
  "auth_error_response bearer_challenge cfg m request_id err =
     (\<lparr>mr_status = auth_status_code err,
       mr_headers = [(''content-type'', ''application/json''), (''x-request-id'', request_id),
         (''www-authenticate'', build_www_authenticate bearer_challenge cfg)],
       mr_body = JsonText (JObj [(''status'', JStr ''error''), (''code'', JStr (auth_code err)),
         (''message'', JStr (auth_error_text err)), (''request_id'', JStr request_id)])\<rparr>,
      record_auth_reject (auth_code err) m)"

text \<open>
  \<open>run_next\<close> is the rest of the service, given the authenticated caller and the logging context; its state
  is any state with the metrics beside it. \<open>value_ok\<close> tests a header value. \<open>insert\<close> replaces a header.
\<close>

definition header_insert :: "headers \<Rightarrow> string \<Rightarrow> string \<Rightarrow> headers" where
  "header_insert hs name value = header_remove hs name @ [(to_ascii_lowercase name, value)]"

definition header_value :: "headers \<Rightarrow> string \<Rightarrow> string option" where
  "header_value hs name = Option.bind (header_get hs name) to_str"

definition mcp_request_id :: "string \<Rightarrow> headers \<Rightarrow> string" where
  "mcp_request_id uuid hs =
     (case header_value hs ''x-request-id'' of Some v \<Rightarrow> v | None \<Rightarrow> uuid)"

definition mcp_actor_id :: "headers \<Rightarrow> string option" where
  "mcp_actor_id hs = header_value hs ''x-actor-id''"

record guard_env =
  ge_authenticate :: "headers \<Rightarrow> toolkit_auth_error + toolkit_context"
  ge_now :: instant
  ge_unix_now :: "64 word"
  ge_value_ok :: "string \<Rightarrow> bool"
  ge_bearer_challenge :: "string \<Rightarrow> string \<Rightarrow> string"
  ge_uuid :: string

definition auth_guard ::
  "guard_env \<Rightarrow> mcp_config \<Rightarrow> string \<Rightarrow> string \<Rightarrow> headers \<Rightarrow>
     (caller \<Rightarrow> log_context \<Rightarrow> 'w \<times> metrics \<Rightarrow> mcp_response \<times> 'w \<times> metrics) \<Rightarrow>
     'w \<times> metrics \<Rightarrow> mcp_response \<times> 'w \<times> metrics" where
  "auth_guard ge cfg request_method path hs run_next state =
     (let request_id = mcp_request_id (ge_uuid ge) hs;
          actor_id = mcp_actor_id hs;
          session_id = header_value hs ''mcp-session-id'';
          context = new_log_context request_id actor_id session_id (Some request_method) (Some path)
      in case authenticate_request (ge_authenticate ge) (ge_now ge) (ge_unix_now ge) (mc_auth cfg) hs
                request_id actor_id of
           Inr caller \<Rightarrow>
             (let (response, state) = run_next caller context state in
              (if ge_value_ok ge request_id
               then response\<lparr>mr_headers := header_insert (mr_headers response) ''x-request-id'' request_id\<rparr>
               else response, state))
         | Inl err \<Rightarrow>
             (let (w, m) = state;
                  (response, m) = auth_error_response (ge_bearer_challenge ge) cfg m request_id err
              in (response, w, m)))"

section \<open>Lemmas\<close>

lemma strict_bearer_value_Inr:
  "strict_bearer_value raw = Inr u \<longleftrightarrow>
     trim raw = raw \<and> \<not> list_ex is_control raw \<and> count_list raw (CHR '' '') = 1 \<and>
     (\<exists>scheme token. split_once (CHR '' '') raw = Some (scheme, token) \<and>
        eq_ignore_ascii_case scheme ''bearer'' \<and> token \<noteq> [])"
proof (cases "split_once (CHR '' '') raw")
  case None
  then show ?thesis by (simp only: strict_bearer_value_def) simp
next
  case (Some st)
  then obtain scheme token where "split_once (CHR '' '') raw = Some (scheme, token)" by (cases st) simp
  then show ?thesis by (simp only: strict_bearer_value_def) simp
qed

lemma listed_iff [simp]: "listed vs value \<longleftrightarrow> (\<exists>v. value = Some v \<and> v \<in> set vs)"
  by (auto simp: listed_def list_ex_iff split: option.splits)

text \<open>Wrap-around cannot revive an expired token while the skew is not negative.\<close>

lemma signed_sum_not_below:
  fixes a n :: "64 word"
  assumes "0 \<le> k" and "k < 2 ^ 63" and "\<not> sint (a + of_int k) < sint n"
  shows "sint n \<le> sint a + k"
proof -
  have k: "sint (of_int k :: 64 word) = k"
    using assms(1,2) by (simp add: signed_of_int signed_take_bit_int_eq_self)
  have range: "- (2 ^ 63) \<le> sint a" "sint n < 2 ^ 63"
    using sint_ge [of a] sint_lt [of n] by simp_all
  show ?thesis
  proof (cases "sint a + k < 2 ^ 63")
    case True
    with range assms(1) have "signed_take_bit 63 (sint a + k) = sint a + k"
      by (intro signed_take_bit_int_eq_self) simp_all
    then have "sint (a + of_int k) = sint a + k"
      using sint_word_ariths(1) [of a "of_int k"] k by simp
    with assms(3) show ?thesis by simp
  next
    case False
    with range(2) show ?thesis by simp
  qed
qed

lemma check_expiry_InrD:
  assumes "check_expiry auth unix_now claims = Inr u" and "claim_i64 claims ''exp'' = Some exp"
    and "0 \<le> ac_clock_skew_seconds auth" and "ac_clock_skew_seconds auth < 2 ^ 63"
  shows "sint unix_now \<le> sint exp + ac_clock_skew_seconds auth"
  using assms(1,2) signed_sum_not_below [OF assms(3,4), of exp unix_now]
  by (simp add: check_expiry_def split: if_splits)

lemma authenticate_request_InrD:
  assumes "authenticate_request authenticate now unix_now auth hs rid actor = Inr caller"
  obtains ctx where "\<not> ac_dpop_required auth"
    and "check_client_certificate auth hs = Inr ()"
    and "authenticate hs = Inr ctx"
    and "check_expiry auth unix_now (tk_claims ctx) = Inr ()"
    and "\<not> caller_allowlists_break_glass_expired now auth"
    and "ac_allowed_azp auth \<noteq> [] \<Longrightarrow> listed (ac_allowed_azp auth) (cl_azp caller)"
    and "ac_allowed_client_ids auth \<noteq> [] \<Longrightarrow> listed (ac_allowed_client_ids auth) (cl_client_id caller)"
    and "cl_scopes caller = tk_scopes ctx" and "cl_roles caller = tk_roles ctx"
    and "cl_raw_token caller = tk_raw_token ctx"
    and "cl_expires_at caller = claim_i64 (tk_claims ctx) ''exp''"
    and "cl_request_id caller = rid" and "cl_actor_id caller = actor"
  using assms unfolding authenticate_request_def Let_def
  by (auto split: if_splits simp del: listed_iff)

section \<open>Properties\<close>

text \<open>
  C20: A caller the server accepts was accepted by the authenticator, shows a client
  certificate where the proxy must pass one, is on each allowlist that is configured, and
  falls under no override that has run out; its token has not expired beyond the skew, whatever the
  wrap-around of the expiry; and the scopes and roles the tools see are the token's.
\<close>

theorem accepted_caller_allowed:
  assumes "authenticate_request authenticate now unix_now auth hs rid actor = Inr caller"
    and "0 \<le> ac_clock_skew_seconds auth" and "ac_clock_skew_seconds auth < 2 ^ 63"
  shows "(\<exists>ctx. authenticate hs = Inr ctx \<and> cl_scopes caller = tk_scopes ctx \<and>
      cl_roles caller = tk_roles ctx \<and> cl_raw_token caller = tk_raw_token ctx) \<and>
    \<not> ac_dpop_required auth \<and>
    (ac_mtls_mode auth = ProxyHeader \<longrightarrow> (\<exists>h v. header_get hs h = Some v)) \<and>
    (ac_allowed_azp auth \<noteq> [] \<longrightarrow> (\<exists>a. cl_azp caller = Some a \<and> a \<in> set (ac_allowed_azp auth))) \<and>
    (ac_allowed_client_ids auth \<noteq> [] \<longrightarrow>
       (\<exists>c. cl_client_id caller = Some c \<and> c \<in> set (ac_allowed_client_ids auth))) \<and>
    (ac_allowed_azp auth = [] \<and> ac_allowed_client_ids auth = [] \<longrightarrow>
       (\<forall>t. ac_open_caller_allowlists_expires_at auth = Some t \<longrightarrow> now < t)) \<and>
    (\<forall>exp. cl_expires_at caller = Some exp \<longrightarrow> sint unix_now \<le> sint exp + ac_clock_skew_seconds auth)"
  using assms(1)
proof (rule authenticate_request_InrD)
  fix ctx
  assume cert: "check_client_certificate auth hs = Inr ()"
    and open_lists: "\<not> caller_allowlists_break_glass_expired now auth"
    and exp: "check_expiry auth unix_now (tk_claims ctx) = Inr ()"
      "cl_expires_at caller = claim_i64 (tk_claims ctx) ''exp''"
    and rest: "\<not> ac_dpop_required auth" "authenticate hs = Inr ctx"
      "ac_allowed_azp auth \<noteq> [] \<Longrightarrow> listed (ac_allowed_azp auth) (cl_azp caller)"
      "ac_allowed_client_ids auth \<noteq> [] \<Longrightarrow> listed (ac_allowed_client_ids auth) (cl_client_id caller)"
      "cl_scopes caller = tk_scopes ctx" "cl_roles caller = tk_roles ctx"
      "cl_raw_token caller = tk_raw_token ctx"
  have "ac_mtls_mode auth = ProxyHeader \<longrightarrow> (\<exists>h v. header_get hs h = Some v)"
    using cert by (auto simp: check_client_certificate_def Let_def split: if_splits)
  moreover have "ac_allowed_azp auth = [] \<and> ac_allowed_client_ids auth = [] \<longrightarrow>
       (\<forall>t. ac_open_caller_allowlists_expires_at auth = Some t \<longrightarrow> now < t)"
    using open_lists by (auto simp: caller_allowlists_break_glass_expired_def)
  moreover have "\<forall>e. cl_expires_at caller = Some e \<longrightarrow> sint unix_now \<le> sint e + ac_clock_skew_seconds auth"
    using check_expiry_InrD [OF exp(1) _ assms(2,3)] exp(2) by simp
  ultimately show ?thesis using rest by simp
qed

definition sample_auth_config :: auth_config where
  "sample_auth_config = (load_auth_config sample_env (\<lambda>_. None) MtlsDisabled)\<lparr>ac_clock_skew_seconds := 30\<rparr>"

theorem accepted_caller_allowed_witness:
  "\<exists>caller a. authenticate_request (\<lambda>_. Inr \<lparr>tk_raw_token = ''t'', tk_token_ref = ''r'', tk_subject = None,
      tk_scopes = [], tk_roles = [], tk_azp = Some ''cli'', tk_claims = JObj [(''exp'', JNum (PosInt 90))]\<rparr>)
      0 100 sample_auth_config [] ''rid'' None = Inr caller \<and>
     cl_azp caller = Some a \<and> a \<in> set (ac_allowed_azp sample_auth_config)"
proof -
  let ?auth = "\<lambda>_. Inr \<lparr>tk_raw_token = ''t'', tk_token_ref = ''r'', tk_subject = None,
      tk_scopes = [], tk_roles = [], tk_azp = Some ''cli'', tk_claims = JObj [(''exp'', JNum (PosInt 90))]\<rparr>"
  have lists: "ac_allowed_azp sample_auth_config = [''chat'', ''cli'']"
    "ac_allowed_client_ids sample_auth_config = []" "ac_dpop_required sample_auth_config = False"
    by code_simp+
  have fields: "ac_mtls_mode sample_auth_config = MtlsDisabled" "ac_clock_skew_seconds sample_auth_config = 30"
    "ac_open_caller_allowlists_expires_at sample_auth_config = None"
    by (simp_all add: sample_auth_config_def load_auth_config_def)
  obtain caller where c: "authenticate_request ?auth 0 100 sample_auth_config [] ''rid'' None = Inr caller"
    by (simp add: authenticate_request_def check_client_certificate_def check_expiry_def claim_i64_def
        caller_allowlists_break_glass_expired_def lists fields Let_def)
  from accepted_caller_allowed [OF c] show ?thesis
    by (intro exI [of _ caller]) (auto simp: c fields lists)
qed

text \<open>
  C21: The middleware runs the service for authenticated callers alone, under a logging context with
  the caller's own request and actor id, and changes nothing of its response but the request id. A rejected request gets the status of its error (401, 403,
  502 or 503) and is counted once, under the code of the error and no other.
\<close>

theorem auth_guard_runs_authenticated:
  "case authenticate_request (ge_authenticate ge) (ge_now ge) (ge_unix_now ge) (mc_auth cfg) hs
       (mcp_request_id (ge_uuid ge) hs) (mcp_actor_id hs) of
     Inr caller \<Rightarrow>
       (let (response, state) = run_next caller (new_log_context (cl_request_id caller) (cl_actor_id caller)
              (header_value hs ''mcp-session-id'') (Some request_method) (Some path)) (w, m);
            (out, state') = auth_guard ge cfg request_method path hs run_next (w, m)
        in state' = state \<and> mr_status out = mr_status response \<and> mr_body out = mr_body response)
   | Inl err \<Rightarrow>
       (let (out, w', m') = auth_guard ge cfg request_method path hs run_next (w, m)
        in w' = w \<and> mr_status out = auth_status_code err \<and> mr_status out \<in> {401, 403, 502, 503} \<and>
           (\<forall>key. map_of (auth_rejects_total m') key =
              (if key = [(''code'', auth_code err)]
               then Some ((case map_of (auth_rejects_total m) key of None \<Rightarrow> 0 | Some n \<Rightarrow> n) + 1)
               else map_of (auth_rejects_total m) key)) \<and>
           tool_calls_total m' = tool_calls_total m)"
proof (cases "authenticate_request (ge_authenticate ge) (ge_now ge) (ge_unix_now ge) (mc_auth cfg) hs
       (mcp_request_id (ge_uuid ge) hs) (mcp_actor_id hs)")
  case (Inr caller)
  then have "cl_request_id caller = mcp_request_id (ge_uuid ge) hs" "cl_actor_id caller = mcp_actor_id hs"
    by (auto elim: authenticate_request_InrD)
  with Inr show ?thesis by (auto simp: auth_guard_def Let_def split: prod.splits)
next
  case (Inl err)
  have "auth_status_code err \<in> {401, 403, 502, 503}" by (cases err) simp_all
  moreover have "map_of (inc [(''code'', auth_code err)] 1 (auth_rejects_total m)) key =
      (if key = [(''code'', auth_code err)]
       then Some ((case map_of (auth_rejects_total m) key of None \<Rightarrow> 0 | Some n \<Rightarrow> n) + 1)
       else map_of (auth_rejects_total m) key)" for key
    using counters.update_lookup [OF TrueI refl, of "[(''code'', auth_code err)]" 1 "auth_rejects_total m" key]
    by simp
  ultimately show ?thesis
    by (simp add: Inl auth_guard_def auth_error_response_def record_auth_reject_def Let_def)
qed

section \<open>Paths past the edge\<close>

text \<open>Percent-decoding, as a server behind the edge may do it once.\<close>

definition hex_value :: "char \<Rightarrow> nat option" where
  "hex_value c = (let n = (of_char c :: nat) in
     if 48 \<le> n \<and> n \<le> 57 then Some (n - 48)
     else if 65 \<le> n \<and> n \<le> 70 then Some (n - 55)
     else if 97 \<le> n \<and> n \<le> 102 then Some (n - 87)
     else None)"

fun percent_decode :: "string \<Rightarrow> string" where
  "percent_decode (c # a # b # rest) =
     (if c = CHR ''%'' then
        (case (hex_value a, hex_value b) of
           (Some x, Some y) \<Rightarrow> char_of (16 * x + y) # percent_decode rest
         | _ \<Rightarrow> c # percent_decode (a # b # rest))
      else c # percent_decode (a # b # rest))"
| "percent_decode s = s"

lemma take_prefix_iff: "take (length p) ys = p \<longleftrightarrow> (\<exists>b. ys = p @ b)"
  by (metis append_eq_conv_conj)

lemma contains_str_iff: "contains_str p s \<longleftrightarrow> (\<exists>a b. s = a @ p @ b)"
proof (induction s)
  case Nil
  then show ?case by simp
next
  case (Cons x xs)
  have "contains_str p (x # xs) \<longleftrightarrow> (\<exists>b. x # xs = p @ b) \<or> (\<exists>a b. xs = a @ p @ b)"
    by (simp only: contains_str.simps Cons.IH take_prefix_iff)
  also have "\<dots> \<longleftrightarrow> (\<exists>a b. x # xs = a @ p @ b)"
    by (auto simp: Cons_eq_append_conv)
  finally show ?case .
qed

lemma split_on_substring: "w \<in> set (split_on c s) \<Longrightarrow> \<exists>a b. s = a @ w @ b"
proof (induction s arbitrary: w)
  case Nil
  then show ?case by simp
next
  case (Cons x xs)
  obtain v vs where v: "split_on c xs = v # vs" by (metis split_on_not_Nil neq_Nil_conv)
  consider "w = []" | "w = x # v" "x \<noteq> c" | "w \<in> set (split_on c xs)"
    using Cons.prems v by (auto split: if_splits)
  then show ?case
  proof cases
    case 1
    then have "x # xs = [] @ w @ (x # xs)" by simp
    then show ?thesis by blast
  next
    case 2
    have "\<exists>b. xs = v @ b"
      using v by (metis join_split_on join.simps(2,3) append_assoc neq_Nil_conv append_Nil2)
    with 2 show ?thesis by (metis append_Cons append_Nil)
  next
    case 3
    with Cons.IH show ?thesis by (metis append_Cons)
  qed
qed

definition plain_path :: "string \<Rightarrow> bool" where
  "plain_path s \<longleftrightarrow> \<not> contains_str ''%2e'' (to_ascii_lowercase s) \<and>
     \<not> contains_str ''%2f'' (to_ascii_lowercase s) \<and> \<not> contains_str ''%5c'' (to_ascii_lowercase s)"

lemma contains_lower_substring:
  assumes "contains_str p (to_ascii_lowercase w)"
  shows "contains_str p (to_ascii_lowercase (a @ w @ b))"
proof -
  from assms obtain c d where "to_ascii_lowercase w = c @ p @ d" unfolding contains_str_iff by blast
  then have "to_ascii_lowercase (a @ w @ b) = (to_ascii_lowercase a @ c) @ p @ (d @ to_ascii_lowercase b)"
    by (simp add: to_ascii_lowercase_def)
  then show ?thesis unfolding contains_str_iff by blast
qed

lemma plain_path_substring: "plain_path (a @ w @ b) \<Longrightarrow> plain_path w"
  unfolding plain_path_def using contains_lower_substring by blast

lemma hex_char_ascii: "hex_value c = Some n \<Longrightarrow> n < 16 \<and> c \<noteq> CHR ''/'' \<and> c \<noteq> CHR ''%''"
  by (auto simp: hex_value_def Let_def split: if_splits)

lemma plain_path_tl: "plain_path (c # s) \<Longrightarrow> plain_path s"
  using plain_path_substring [of "[c]" s "[]"] by simp

lemma hex_value_inv:
  "hex_value c = Some v \<Longrightarrow> (of_char c = 48 + v \<and> v < 10) \<or> (of_char c = 55 + v \<and> 10 \<le> v) \<or>
     (of_char c = 87 + v \<and> 10 \<le> v)"
  by (auto simp: hex_value_def Let_def split: if_splits)

lemma char_by_code: "of_char c = (n :: nat) \<Longrightarrow> c = char_of n"
  by (metis char_of_char)

lemma hex_two: "hex_value a = Some 2 \<Longrightarrow> a = CHR ''2''"
proof -
  have "char_of (50 :: nat) = CHR ''2''" by code_simp
  then show "hex_value a = Some 2 \<Longrightarrow> a = CHR ''2''"
    using hex_value_inv [of a 2] char_by_code [of a 50] by simp
qed

lemma hex_low:
  "hex_value b = Some 14 \<Longrightarrow> ascii_lower b = CHR ''e''"
  "hex_value b = Some 15 \<Longrightarrow> ascii_lower b = CHR ''f''"
proof -
  have low: "ascii_lower (char_of (69 :: nat)) = CHR ''e''" "ascii_lower (char_of (101 :: nat)) = CHR ''e''"
    "ascii_lower (char_of (70 :: nat)) = CHR ''f''" "ascii_lower (char_of (102 :: nat)) = CHR ''f''"
    by code_simp+
  show "ascii_lower b = CHR ''e''" if h: "hex_value b = Some 14"
  proof -
    have "of_char b = (69 :: nat) \<or> of_char b = (101 :: nat)" using hex_value_inv [OF h] by simp
    then show ?thesis using low char_by_code by metis
  qed
  show "ascii_lower b = CHR ''f''" if h: "hex_value b = Some 15"
  proof -
    have "of_char b = (70 :: nat) \<or> of_char b = (102 :: nat)" using hex_value_inv [OF h] by simp
    then show ?thesis using low char_by_code by metis
  qed
qed

lemma plain_escape:
  assumes "plain_path (CHR ''%'' # a # b # rest)" and "hex_value a = Some x" and "hex_value b = Some y"
  shows "char_of (16 * x + y) \<noteq> CHR ''/''" and "char_of (16 * x + y) \<noteq> CHR ''.''"
proof -
  have xy: "x < 16" "y < 16" using assms(2,3) hex_char_ascii by blast+
  have code: "of_char (char_of (16 * x + y)) = 16 * x + y" using xy by simp
  have pct: "ascii_lower CHR ''%'' = CHR ''%''" "ascii_lower CHR ''2'' = CHR ''2''" by code_simp+
  have no: "\<not> (a = CHR ''2'' \<and> ascii_lower b \<in> {CHR ''e'', CHR ''f''})"
    using assms(1) pct by (auto simp: plain_path_def to_ascii_lowercase_def)
  show "char_of (16 * x + y) \<noteq> CHR ''/''"
  proof
    assume "char_of (16 * x + y) = CHR ''/''"
    with code have "16 * x + y = 47" by simp
    with xy have "x = 2" "y = 15" by presburger+
    with assms(2,3) hex_two hex_low no show False by blast
  qed
  show "char_of (16 * x + y) \<noteq> CHR ''.''"
  proof
    assume "char_of (16 * x + y) = CHR ''.''"
    with code have "16 * x + y = 46" by simp
    with xy have "x = 2" "y = 14" by presburger+
    with assms(2,3) hex_two hex_low no show False by blast
  qed
qed

lemma percent_decode_plain_char: "c \<noteq> CHR ''%'' \<Longrightarrow> percent_decode (c # s) = c # percent_decode s"
  by (cases s rule: percent_decode.cases) auto

lemma percent_decode_unescaped:
  "\<nexists>a b rest x y. s = a # b # rest \<and> hex_value a = Some x \<and> hex_value b = Some y \<Longrightarrow>
     percent_decode (CHR ''%'' # s) = CHR ''%'' # percent_decode s"
  by (cases s rule: percent_decode.cases) (auto split: option.splits)

lemma split_on_Cons_other:
  "x \<noteq> c \<Longrightarrow> split_on c (x # xs) = (x # hd (split_on c xs)) # tl (split_on c xs)"
  by (cases "split_on c xs") auto

lemma split_on_hd: "\<exists>t. xs = hd (split_on c xs) @ t"
proof (induction xs)
  case Nil
  then show ?case by simp
next
  case (Cons x xs)
  show ?case
  proof (cases "x = c")
    case True
    then show ?thesis by simp
  next
    case False
    with Cons.IH show ?thesis by (auto simp: split_on_Cons_other simp del: split_on.simps(2))
  qed
qed

lemma percent_decode_split:
  "plain_path s \<Longrightarrow>
     split_on (CHR ''/'') (percent_decode s) = map percent_decode (split_on (CHR ''/'') s)"
proof (induction "length s" arbitrary: s rule: less_induct)
  case less
  show ?case
  proof (cases s)
    case Nil
    then show ?thesis by simp
  next
    case (Cons c t)
    then have t: "plain_path t" "length t < length s" using less.prems plain_path_tl by auto
    note ih = less.hyps [OF t(2,1)]
    obtain f fs where f: "split_on (CHR ''/'') t = f # fs" by (metis split_on_not_Nil neq_Nil_conv)
    show ?thesis
    proof (cases "c = CHR ''%''")
      case False
      with ih f show ?thesis by (simp add: Cons percent_decode_plain_char)
    next
      case pct: True
      show ?thesis
      proof (cases "\<exists>a b rest x y. t = a # b # rest \<and> hex_value a = Some x \<and> hex_value b = Some y")
        case True
        then obtain a b rest x y where r: "t = a # b # rest" "hex_value a = Some x" "hex_value b = Some y"
          by blast
        have plain: "plain_path rest" "length rest < length s"
          using t plain_path_tl by (auto simp: r(1))
        obtain g gs where g: "split_on (CHR ''/'') rest = g # gs" by (metis split_on_not_Nil neq_Nil_conv)
        have "char_of (16 * x + y) \<noteq> CHR ''/''"
          using plain_escape(1) r less.prems by (simp add: Cons pct)
        moreover have "a \<noteq> CHR ''/''" "b \<noteq> CHR ''/''" using r(2,3) hex_char_ascii by blast+
        ultimately show ?thesis
          using less.hyps [OF plain(2,1)] g by (simp add: Cons pct r)
      next
        case False
        then have d: "percent_decode s = CHR ''%'' # percent_decode t"
          using percent_decode_unescaped [of t] by (simp add: Cons pct)
        obtain u where u: "t = f @ u" using split_on_hd [of t "CHR ''/''"] f by auto
        have "\<nexists>a b rest x y. f = a # b # rest \<and> hex_value a = Some x \<and> hex_value b = Some y"
          using False u by auto
        then have "percent_decode (CHR ''%'' # f) = CHR ''%'' # percent_decode f"
          by (rule percent_decode_unescaped)
        with ih f d show ?thesis by (simp add: Cons pct)
      qed
    qed
  qed
qed

lemma percent_decode_dot:
  assumes "plain_path w" and "percent_decode w = CHR ''.'' # t"
  shows "\<exists>w'. w = CHR ''.'' # w' \<and> percent_decode w' = t"
proof (cases w)
  case Nil
  with assms show ?thesis by simp
next
  case (Cons c v)
  show ?thesis
  proof (cases "c = CHR ''%''")
    case False
    with assms(2) show ?thesis by (auto simp: Cons percent_decode_plain_char)
  next
    case pct: True
    show ?thesis
    proof (cases "\<exists>a b rest x y. v = a # b # rest \<and> hex_value a = Some x \<and> hex_value b = Some y")
      case True
      then obtain a b rest x y where r: "v = a # b # rest" "hex_value a = Some x" "hex_value b = Some y"
        by blast
      then have "char_of (16 * x + y) \<noteq> CHR ''.''"
        using plain_escape(2) assms(1) by (simp add: Cons pct)
      with assms(2) r show ?thesis by (simp add: Cons pct)
    next
      case False
      with assms(2) percent_decode_unescaped [of v] show ?thesis by (simp add: Cons pct)
    qed
  qed
qed

lemma percent_decode_Nil: "percent_decode w = [] \<Longrightarrow> w = []"
  by (cases w rule: percent_decode.cases) (auto split: if_splits option.splits)

lemma percent_decode_dots:
  assumes "plain_path w" and "percent_decode w \<in> {''.'', ''..''}"
  shows "w = percent_decode w"
proof -
  from assms obtain t where t: "percent_decode w = CHR ''.'' # t" "t = [] \<or> t = ''.''" by auto
  from percent_decode_dot [OF assms(1) t(1)] obtain w' where
    w': "w = CHR ''.'' # w'" "percent_decode w' = t" by blast
  have "plain_path w'" using assms(1) w'(1) plain_path_tl by blast
  with w'(2) t(2) percent_decode_dot [of w' "[]"] percent_decode_Nil have "w' = t" by auto
  with w' t show ?thesis by simp
qed

lemma contains_path_confusion_iff:
  "contains_path_confusion path \<longleftrightarrow> \<not> plain_path path \<or> char_of (92 :: nat) \<in> set path \<or>
     (\<exists>segment \<in> set (split_on (CHR ''/'') path). segment \<in> {''.'', ''..''})"
  by (auto simp: contains_path_confusion_def plain_path_def Let_def list_ex_iff)

text \<open>
  C22: A path past the edge means what it says. Percent-decoding it once gives no new
  segment boundary, no segment of it is a dot segment before or after decoding, and it has no
  matrix parameter and no backslash.
\<close>

theorem edge_path_unambiguous:
  assumes "mcp_edge_guard path hs next_response = Inr r"
  shows "split_on (CHR ''/'') (percent_decode path) = map percent_decode (split_on (CHR ''/'') path) \<and>
    (\<forall>segment \<in> set (split_on (CHR ''/'') path).
       segment \<notin> {''.'', ''..''} \<and> percent_decode segment \<notin> {''.'', ''..''}) \<and>
    CHR '';'' \<notin> set path \<and> char_of (92 :: nat) \<notin> set path"
proof -
  from assms have "\<not> mcp_contains_matrix_params path" and "\<not> contains_path_confusion path"
    by (auto simp: mcp_edge_guard_def split: if_splits)
  then have plain: "plain_path path" and semi: "CHR '';'' \<notin> set path"
    and bslash: "char_of (92 :: nat) \<notin> set path"
    and dots: "\<forall>segment \<in> set (split_on (CHR ''/'') path). segment \<notin> {''.'', ''..''}"
    by (auto simp: contains_path_confusion_iff mcp_contains_matrix_params_def)
  have "percent_decode segment \<notin> {''.'', ''..''}" if "segment \<in> set (split_on (CHR ''/'') path)" for segment
  proof
    assume d: "percent_decode segment \<in> {''.'', ''..''}"
    from split_on_substring [OF that] obtain a b where "path = a @ segment @ b" by blast
    with plain have "plain_path segment" using plain_path_substring by blast
    from percent_decode_dots [OF this d] d dots that show False by metis
  qed
  with plain semi bslash dots percent_decode_split show ?thesis by blast
qed

theorem edge_path_unambiguous_witness:
  "split_on (CHR ''/'') (percent_decode ''/a%20b/c'') = map percent_decode (split_on (CHR ''/'') ''/a%20b/c'')"
proof -
  have "mcp_edge_guard ''/a%20b/c'' [] () = Inr ()" by code_simp
  from edge_path_unambiguous [OF this] show ?thesis by blast
qed

end
