(* ===== verification/Gateway_Config.thy ===== *)
theory Gateway_Config
  imports Environment
begin

text \<open>
  The security gateway's settings: the error taxonomy of \<open>errors.rs\<close>, the configuration of
  \<open>config.rs\<close> and its validation at start-up in \<open>main.rs\<close>. Durations are in milliseconds.
\<close>

section \<open>Errors (errors.rs)\<close>

datatype gateway_error =
    MissingToken
  | IntrospectionFailed
  | TokenInactive
  | Forbidden string
  | MissingScopes string
  | ExchangeFailed
  | InvalidConfig string
  | Upstream string

fun status_code :: "gateway_error \<Rightarrow> nat" where
  "status_code MissingToken = 401"
| "status_code IntrospectionFailed = 502"
| "status_code TokenInactive = 403"
| "status_code (Forbidden _) = 403"
| "status_code (MissingScopes _) = 403"
| "status_code ExchangeFailed = 502"
| "status_code (InvalidConfig _) = 500"
| "status_code (Upstream _) = 502"

fun error_text :: "gateway_error \<Rightarrow> string" where
  "error_text MissingToken = ''missing bearer token''"
| "error_text IntrospectionFailed = ''introspection failed''"
| "error_text TokenInactive = ''token inactive''"
| "error_text (Forbidden m) = ''forbidden: '' @ m"
| "error_text (MissingScopes m) = ''token scope missing: '' @ m"
| "error_text ExchangeFailed = ''token exchange failed''"
| "error_text (InvalidConfig m) = ''invalid configuration: '' @ m"
| "error_text (Upstream m) = ''upstream error: '' @ m"

section \<open>Configuration (config.rs)\<close>

record gateway_config =
  gc_host :: string
  gc_port :: nat
  gc_log_level :: string
  gc_request_timeout :: nat
  gc_tls_cert_pem :: "string option"
  gc_tls_key_pem :: "string option"
  gc_tls_client_ca_pem :: "string option"
  gc_mtls_required :: bool
  gc_audit_hash_identifiers :: bool
  gc_audit_hash_salt :: "string option"
  gc_log_exchange_body :: bool
  gc_log_exchange_body_max_bytes :: nat
  gc_admin_base_url :: string
  gc_admin_host_header :: "string option"
  gc_admin_forwarded_proto :: "string option"
  gc_introspection_url :: string
  gc_introspection_client_id :: string
  gc_introspection_client_secret :: string
  gc_introspection_auth_method :: client_auth_method
  gc_expected_issuer :: "string option"
  gc_expected_audience :: "string option"
  gc_allowed_azp :: "string list"
  gc_build_production :: bool
  gc_allow_open_azp :: bool
  gc_allow_open_azp_reason :: "string option"
  gc_allow_open_azp_ttl_s :: "string option"
  gc_allow_open_azp_expires_at :: "instant option"
  gc_exchange_enabled :: bool
  gc_exchange_url :: string
  gc_exchange_client_id :: string
  gc_exchange_client_secret :: string
  gc_exchange_auth_method :: client_auth_method
  gc_exchange_audience :: "string option"
  gc_exchange_resource :: "string option"

definition load_config :: "env_vars \<Rightarrow> file_contents \<Rightarrow> gateway_config" where
  "load_config vars files = \<lparr>
     gc_host = env vars ''KC_GATEWAY_HOST'' ''127.0.0.1'',
     gc_port = env_u16 vars ''KC_GATEWAY_PORT'' 9300,
     gc_log_level = env vars ''KC_GATEWAY_LOG_LEVEL'' ''info'',
     gc_request_timeout = env_u64 vars ''KC_GATEWAY_REQUEST_TIMEOUT_MS'' 5000,
     gc_tls_cert_pem = env_secret_optional vars files ''KC_GATEWAY_TLS_CERT'' ''kc_gateway_tls_cert'',
     gc_tls_key_pem = env_secret_optional vars files ''KC_GATEWAY_TLS_KEY'' ''kc_gateway_tls_key'',
     gc_tls_client_ca_pem =
       env_secret_optional vars files ''KC_GATEWAY_TLS_CLIENT_CA'' ''kc_gateway_tls_client_ca'',
     gc_mtls_required = env_bool vars ''KC_GATEWAY_MTLS_REQUIRED'' False,
     gc_audit_hash_identifiers = env_bool vars ''KC_GATEWAY_AUDIT_HASH_IDENTIFIERS'' False,
     gc_audit_hash_salt =
       env_secret_optional vars files ''KC_GATEWAY_AUDIT_HASH_SALT'' ''kc_gateway_audit_hash_salt'',
     gc_log_exchange_body = env_bool vars ''KC_GATEWAY_LOG_EXCHANGE_BODY'' False,
     gc_log_exchange_body_max_bytes =
       env_usize vars ''KC_GATEWAY_LOG_EXCHANGE_BODY_MAX_BYTES'' 2048,
     gc_admin_base_url = env vars ''KC_GATEWAY_ADMIN_BASE_URL'' [],
     gc_admin_host_header = env_optional vars ''KC_GATEWAY_ADMIN_HOST_HEADER'',
     gc_admin_forwarded_proto = env_optional vars ''KC_GATEWAY_ADMIN_FORWARDED_PROTO'',
     gc_introspection_url = env vars ''KC_GATEWAY_INTROSPECTION_URL'' [],
     gc_introspection_client_id = env vars ''KC_GATEWAY_INTROSPECTION_CLIENT_ID'' [],
     gc_introspection_client_secret =
       env_secret vars files ''KC_GATEWAY_INTROSPECTION_CLIENT_SECRET''
         ''kc_gateway_introspection_client_secret'',
     gc_introspection_auth_method =
       auth_method_of (env vars ''KC_GATEWAY_INTROSPECTION_AUTH_METHOD'' ''client_secret_basic''),
     gc_expected_issuer = env_optional vars ''KC_GATEWAY_EXPECTED_ISSUER'',
     gc_expected_audience = env_optional vars ''KC_GATEWAY_EXPECTED_AUDIENCE'',
     gc_allowed_azp = env_list vars ''KC_GATEWAY_ALLOWED_AZP'' [],
     gc_build_production =
       env_bool vars ''KC_GATEWAY_BUILD_PRODUCTION'' (env_bool vars ''MCP_BUILD_PRODUCTION'' False),
     gc_allow_open_azp = env_bool vars ''KC_GATEWAY_ALLOW_OPEN_AZP'' False,
     gc_allow_open_azp_reason = env_optional vars ''KC_GATEWAY_ALLOW_OPEN_AZP_REASON'',
     gc_allow_open_azp_ttl_s = env_optional vars ''KC_GATEWAY_ALLOW_OPEN_AZP_TTL_S'',
     gc_allow_open_azp_expires_at = None,
     gc_exchange_enabled = env_bool vars ''KC_GATEWAY_EXCHANGE_ENABLED'' True,
     gc_exchange_url = env vars ''KC_GATEWAY_EXCHANGE_URL'' [],
     gc_exchange_client_id = env vars ''KC_GATEWAY_EXCHANGE_CLIENT_ID'' [],
     gc_exchange_client_secret =
       env_secret vars files ''KC_GATEWAY_EXCHANGE_CLIENT_SECRET''
         ''kc_gateway_exchange_client_secret'',
     gc_exchange_auth_method =
       auth_method_of (env vars ''KC_GATEWAY_EXCHANGE_AUTH_METHOD'' ''client_secret_basic''),
     gc_exchange_audience = env_optional vars ''KC_GATEWAY_EXCHANGE_AUDIENCE'',
     gc_exchange_resource = env_optional vars ''KC_GATEWAY_EXCHANGE_RESOURCE''\<rparr>"

section \<open>Validation at start-up (main.rs)\<close>

definition ensure_value :: "string \<Rightarrow> string \<Rightarrow> gateway_error + unit" where
  "ensure_value name value =
     (if trim value = [] then Inl (InvalidConfig (name @ '' is required'')) else Inr ())"

fun ensure_secret :: "string \<Rightarrow> string \<Rightarrow> client_auth_method \<Rightarrow> gateway_error + unit" where
  "ensure_secret name value ClientSecretBasic = ensure_value name value"
| "ensure_secret name value ClientSecretPost = ensure_value name value"

definition break_glass_deadline :: "instant \<Rightarrow> nat \<Rightarrow> gateway_error + instant" where
  "break_glass_deadline now ttl_s =
     (case checked_add_secs now ttl_s of
        Some t \<Rightarrow> Inr t
      | None \<Rightarrow> Inl (InvalidConfig ''break-glass TTL is too large to represent''))"

definition ensure_azp_allowlist ::
  "instant \<Rightarrow> gateway_config \<Rightarrow> gateway_error + instant option" where
  "ensure_azp_allowlist now cfg =
     (if gc_allow_open_azp cfg then
        (if blank (gc_allow_open_azp_reason cfg) then
           Inl (InvalidConfig ''KC_GATEWAY_ALLOW_OPEN_AZP=1 requires KC_GATEWAY_ALLOW_OPEN_AZP_REASON'')
         else (case gc_allow_open_azp_ttl_s cfg of
             None \<Rightarrow>
               Inl (InvalidConfig ''KC_GATEWAY_ALLOW_OPEN_AZP=1 requires KC_GATEWAY_ALLOW_OPEN_AZP_TTL_S>0'')
           | Some raw \<Rightarrow> (case parse_u64 raw of
               None \<Rightarrow>
                 Inl (InvalidConfig ''KC_GATEWAY_ALLOW_OPEN_AZP_TTL_S must be a positive integer'')
             | Some ttl_s \<Rightarrow>
                 (if ttl_s = 0 then
                    Inl (InvalidConfig ''KC_GATEWAY_ALLOW_OPEN_AZP=1 requires KC_GATEWAY_ALLOW_OPEN_AZP_TTL_S>0'')
                  else map_sum id Some (break_glass_deadline now ttl_s)))))
      else if gc_build_production cfg \<and> gc_allowed_azp cfg = [] \<and> \<not> gc_allow_open_azp cfg then
        Inl (InvalidConfig ''KC_GATEWAY_ALLOWED_AZP is required when KC_GATEWAY_BUILD_PRODUCTION=1 (set KC_GATEWAY_ALLOW_OPEN_AZP=1 for break-glass)'')
      else Inr None)"

definition ensure_identity_expectations :: "gateway_config \<Rightarrow> gateway_error + unit" where
  "ensure_identity_expectations cfg =
     (if \<not> gc_build_production cfg then Inr ()
      else if blank (gc_expected_issuer cfg) then
        Inl (InvalidConfig ''KC_GATEWAY_EXPECTED_ISSUER is required when KC_GATEWAY_BUILD_PRODUCTION=1'')
      else if blank (gc_expected_audience cfg) then
        Inl (InvalidConfig ''KC_GATEWAY_EXPECTED_AUDIENCE is required when KC_GATEWAY_BUILD_PRODUCTION=1'')
      else Inr ())"

definition validate_config :: "instant \<Rightarrow> gateway_config \<Rightarrow> gateway_error + gateway_config" where
  "validate_config now cfg =
     and_then (ensure_value ''KC_GATEWAY_ADMIN_BASE_URL'' (gc_admin_base_url cfg)) (\<lambda>_.
     and_then (ensure_value ''KC_GATEWAY_INTROSPECTION_URL'' (gc_introspection_url cfg)) (\<lambda>_.
     and_then (ensure_value ''KC_GATEWAY_INTROSPECTION_CLIENT_ID''
                    (gc_introspection_client_id cfg)) (\<lambda>_.
     and_then (ensure_secret ''KC_GATEWAY_INTROSPECTION_CLIENT_SECRET''
                    (gc_introspection_client_secret cfg) (gc_introspection_auth_method cfg)) (\<lambda>_.
     and_then (ensure_identity_expectations cfg) (\<lambda>_.
     and_then (ensure_azp_allowlist now cfg) (\<lambda>deadline.
       let cfg = cfg\<lparr>gc_allow_open_azp_expires_at := deadline\<rparr> in
       if gc_exchange_enabled cfg then
         and_then (ensure_value ''KC_GATEWAY_EXCHANGE_URL'' (gc_exchange_url cfg)) (\<lambda>_.
         and_then (ensure_value ''KC_GATEWAY_EXCHANGE_CLIENT_ID'' (gc_exchange_client_id cfg)) (\<lambda>_.
         and_then (ensure_secret ''KC_GATEWAY_EXCHANGE_CLIENT_SECRET''
                        (gc_exchange_client_secret cfg) (gc_exchange_auth_method cfg)) (\<lambda>_.
           Inr cfg)))
       else Inr cfg))))))"

section \<open>What an accepted configuration guarantees\<close>

lemma ensure_value_Inr [simp]: "ensure_value name v = Inr u \<longleftrightarrow> trim v \<noteq> []"
  by (simp add: ensure_value_def)

lemma ensure_secret_Inr [simp]: "ensure_secret name v m = Inr u \<longleftrightarrow> trim v \<noteq> []"
  by (cases m) simp_all

lemma ensure_identity_expectations_Inr [simp]:
  "ensure_identity_expectations cfg = Inr u \<longleftrightarrow>
     (gc_build_production cfg \<longrightarrow>
        \<not> blank (gc_expected_issuer cfg) \<and> \<not> blank (gc_expected_audience cfg))"
  by (auto simp: ensure_identity_expectations_def)

lemma checked_add_secs_later: "checked_add_secs t s = Some d \<Longrightarrow> 0 < s \<Longrightarrow> t < d"
  by (auto simp: checked_add_secs_def split: if_splits)

lemma break_glass_deadline_later: "break_glass_deadline now s = Inr d \<Longrightarrow> 0 < s \<Longrightarrow> now < d"
  by (auto simp: break_glass_deadline_def checked_add_secs_later split: option.splits)

lemma ensure_azp_allowlist_open:
  assumes "ensure_azp_allowlist now cfg = Inr d" and "gc_allow_open_azp cfg"
  shows "\<not> blank (gc_allow_open_azp_reason cfg) \<and> (\<exists>t. d = Some t \<and> now < t)"
  using assms
  by (auto simp: ensure_azp_allowlist_def split: if_splits option.splits
      dest: break_glass_deadline_later)

lemma ensure_azp_allowlist_closed:
  assumes "ensure_azp_allowlist now cfg = Inr d" and "\<not> gc_allow_open_azp cfg"
  shows "d = None \<and> (gc_build_production cfg \<longrightarrow> gc_allowed_azp cfg \<noteq> [])"
  using assms by (auto simp: ensure_azp_allowlist_def split: if_splits)

lemma validate_config_InrD:
  assumes "validate_config now cfg = Inr cfg'"
  shows "ensure_azp_allowlist now cfg = Inr (gc_allow_open_azp_expires_at cfg')"
    and "cfg' = cfg\<lparr>gc_allow_open_azp_expires_at := gc_allow_open_azp_expires_at cfg'\<rparr>"
    and "ensure_identity_expectations cfg = Inr ()"
    and "trim (gc_admin_base_url cfg) \<noteq> []"
    and "gc_exchange_enabled cfg \<Longrightarrow> trim (gc_exchange_url cfg) \<noteq> []"
  using assms by (auto simp: validate_config_def Let_def split: if_splits)

text \<open>
  A configuration the gateway accepts for production names an issuer and an audience and
  bounds its callers: it lists the authorized parties it takes, or it runs on a break-glass
  override with a reason and a deadline that lies in the future. Validation changes nothing
  but that deadline.
\<close>

theorem validated_production_config:
  assumes "validate_config now cfg = Inr cfg'" and "gc_build_production cfg"
  shows "\<not> blank (gc_expected_issuer cfg') \<and> \<not> blank (gc_expected_audience cfg') \<and>
    (gc_allowed_azp cfg' \<noteq> [] \<or>
       (\<not> blank (gc_allow_open_azp_reason cfg') \<and>
        (\<exists>t. gc_allow_open_azp_expires_at cfg' = Some t \<and> now < t))) \<and>
    cfg'\<lparr>gc_allow_open_azp_expires_at := gc_allow_open_azp_expires_at cfg\<rparr> = cfg"
proof -
  note d = validate_config_InrD [OF assms(1)]
  obtain t where c: "cfg' = cfg\<lparr>gc_allow_open_azp_expires_at := t\<rparr>"
    using d(2) by blast
  have same: "gc_expected_issuer cfg' = gc_expected_issuer cfg"
    "gc_expected_audience cfg' = gc_expected_audience cfg" "gc_allowed_azp cfg' = gc_allowed_azp cfg"
    "gc_allow_open_azp_reason cfg' = gc_allow_open_azp_reason cfg"
    and "cfg'\<lparr>gc_allow_open_azp_expires_at := gc_allow_open_azp_expires_at cfg\<rparr> = cfg"
    unfolding c by simp_all
  then show ?thesis
    using same d(1,3) assms(2) ensure_azp_allowlist_open [OF d(1)] ensure_azp_allowlist_closed [OF d(1)]
    by (cases "gc_allow_open_azp cfg") auto
qed

text \<open>A production configuration, for the concrete instances below.\<close>

definition sample_config :: gateway_config where
  "sample_config = \<lparr>
     gc_host = ''127.0.0.1'', gc_port = 9300, gc_log_level = ''info'', gc_request_timeout = 5000,
     gc_tls_cert_pem = None, gc_tls_key_pem = None, gc_tls_client_ca_pem = None,
     gc_mtls_required = False, gc_audit_hash_identifiers = True, gc_audit_hash_salt = Some ''salt'',
     gc_log_exchange_body = True, gc_log_exchange_body_max_bytes = 16,
     gc_admin_base_url = ''http://kc/'', gc_admin_host_header = Some ''id.example'',
     gc_admin_forwarded_proto = Some ''https'', gc_introspection_url = ''http://kc/i'',
     gc_introspection_client_id = ''gw'', gc_introspection_client_secret = ''s1'',
     gc_introspection_auth_method = ClientSecretBasic, gc_expected_issuer = Some ''iss'',
     gc_expected_audience = Some ''gw'', gc_allowed_azp = [''mcp''], gc_build_production = True,
     gc_allow_open_azp = False, gc_allow_open_azp_reason = None, gc_allow_open_azp_ttl_s = None,
     gc_allow_open_azp_expires_at = None, gc_exchange_enabled = True,
     gc_exchange_url = ''http://kc/t'', gc_exchange_client_id = ''gw'',
     gc_exchange_client_secret = ''s2'', gc_exchange_auth_method = ClientSecretPost,
     gc_exchange_audience = Some ''kc-admin'', gc_exchange_resource = None\<rparr>"

theorem validated_production_config_witness:
  "\<not> blank (gc_expected_issuer sample_config)"
proof -
  have "validate_config 0 sample_config = Inr sample_config" by code_simp
  moreover have "gc_build_production sample_config" by (simp add: sample_config_def)
  ultimately show ?thesis using validated_production_config by blast
qed

end
