(* ===== verification/Gateway_Auth.thy ===== *)
theory Gateway_Auth
  imports Gateway_Config
begin

text \<open>
  The gateway's token checks (\<open>auth.rs\<close>, the claim checks of \<open>handlers.rs\<close>) and its edge
  middleware (\<open>edge.rs\<close>). The SHA-256 digest in hexadecimal is the parameter \<open>sha\<close>, the
  toolkit's two path predicates are the parameters of \<open>edge_guard\<close>.
\<close>

section \<open>Scopes and the bearer header (auth.rs)\<close>

fun enforce_scopes :: "string list \<Rightarrow> string list \<Rightarrow> gateway_error + unit" where
  "enforce_scopes token_scopes [] = Inr ()"
| "enforce_scopes token_scopes (scope # rest) =
     (if \<not> list_ex (\<lambda>token_scope. token_scope = scope) token_scopes then Inl (MissingScopes scope)
      else enforce_scopes token_scopes rest)"

definition validate_bearer_header :: "string \<Rightarrow> gateway_error + unit" where
  "validate_bearer_header raw =
     (if trim raw \<noteq> raw then Inl MissingToken
      else if list_ex is_control raw then Inl MissingToken
      else if count_list raw (CHR '' '') \<noteq> 1 then Inl MissingToken
      else (case split_once (CHR '' '') raw of
              None \<Rightarrow> Inl MissingToken
            | Some (scheme, token) \<Rightarrow>
                (if \<not> eq_ignore_ascii_case scheme ''bearer'' then Inl MissingToken
                 else if token = [] then Inl MissingToken
                 else Inr ())))"

definition extract_bearer_token :: "headers \<Rightarrow> gateway_error + string" where
  "extract_bearer_token hs =
     (case header_get hs ''authorization'' of
        None \<Rightarrow> Inl MissingToken
      | Some v \<Rightarrow> (case to_str v of
          None \<Rightarrow> Inl MissingToken
        | Some raw \<Rightarrow>
            and_then (validate_bearer_header raw) (\<lambda>_.
              case split_once (CHR '' '') raw of
                None \<Rightarrow> Inl MissingToken
              | Some (_, token) \<Rightarrow> if token = [] then Inl MissingToken else Inr token)))"

section \<open>Hashed identities (auth.rs)\<close>

record audit_identity =
  subject_hash :: "string option"
  client_id_hash :: "string option"
  azp_hash :: "string option"

definition hash_value :: "(string \<Rightarrow> string) \<Rightarrow> string \<Rightarrow> string \<Rightarrow> string" where
  "hash_value sha salt v = sha (salt @ v)"

definition claim_str :: "json \<Rightarrow> string \<Rightarrow> string option" where
  "claim_str claims name = Option.bind (json_get claims name) as_str"

definition build_audit_identity ::
  "(string \<Rightarrow> string) \<Rightarrow> gateway_config \<Rightarrow> json \<Rightarrow> gateway_error + audit_identity option" where
  "build_audit_identity sha cfg claims =
     (if \<not> gc_audit_hash_identifiers cfg then Inr None
      else (case gc_audit_hash_salt cfg of
              None \<Rightarrow> Inl (InvalidConfig ''KC_GATEWAY_AUDIT_HASH_SALT is required when audit hashing is enabled'')
            | Some salt \<Rightarrow> Inr (Some \<lparr>
                subject_hash = map_option (hash_value sha salt) (claim_str claims ''sub''),
                client_id_hash = map_option (hash_value sha salt) (claim_str claims ''client_id''),
                azp_hash = map_option (hash_value sha salt) (claim_str claims ''azp'')\<rparr>)))"

section \<open>Issuer, audience and the open allowlist (handlers.rs)\<close>

definition extract_audiences :: "json \<Rightarrow> string list" where
  "extract_audiences claims =
     (case json_get claims ''aud'' of
        None \<Rightarrow> []
      | Some (JStr v) \<Rightarrow> filter (\<lambda>aud. aud \<noteq> []) (map trim (split_whitespace v))
      | Some (JArr vs) \<Rightarrow> filter (\<lambda>aud. aud \<noteq> []) (map trim (List.map_filter as_str vs))
      | Some _ \<Rightarrow> [])"

definition enforce_issuer_audience :: "gateway_config \<Rightarrow> json \<Rightarrow> gateway_error + unit" where
  "enforce_issuer_audience cfg claims =
     and_then
       (case gc_expected_issuer cfg of
          None \<Rightarrow> Inr ()
        | Some expected \<Rightarrow>
            if Option.bind (claim_str claims ''iss'') non_empty \<noteq> Some expected
            then Inl (Forbidden ''issuer mismatch'') else Inr ())
       (\<lambda>_. case gc_expected_audience cfg of
          None \<Rightarrow> Inr ()
        | Some expected \<Rightarrow>
            (let audiences = extract_audiences claims in
             if audiences = [] \<or> \<not> list_ex (\<lambda>aud. aud = expected) audiences
             then Inl (Forbidden ''audience mismatch'') else Inr ()))"

definition azp_allowlist_break_glass_expired :: "instant \<Rightarrow> gateway_config \<Rightarrow> bool" where
  "azp_allowlist_break_glass_expired now cfg =
     (gc_allowed_azp cfg = [] \<and>
      (case gc_allow_open_azp_expires_at cfg of None \<Rightarrow> False | Some deadline \<Rightarrow> deadline \<le> now))"

section \<open>Edge middleware (edge.rs)\<close>

definition ensure_strict_bearer :: "headers \<Rightarrow> string + unit" where
  "ensure_strict_bearer hs =
     (case header_get_all hs ''authorization'' of
        [] \<Rightarrow> Inr ()
      | [v] \<Rightarrow> (case to_str v of
            None \<Rightarrow> Inl ''invalid authorization header''
          | Some raw \<Rightarrow> map_err (\<lambda>_. ''invalid authorization header'') (validate_bearer_header raw))
      | _ \<Rightarrow> Inl ''multiple authorization headers'')"

definition edge_guard ::
  "(string \<Rightarrow> bool) \<Rightarrow> (string \<Rightarrow> bool) \<Rightarrow> string \<Rightarrow> headers \<Rightarrow> 'r \<Rightarrow> nat + 'r" where
  "edge_guard matrix confusion path hs next_response =
     (if matrix path \<or> confusion path then Inl 400
      else and_then (map_err (\<lambda>_. 400) (ensure_strict_bearer hs)) (\<lambda>_. Inr next_response))"

section \<open>Lemmas\<close>

lemma enforce_scopes_Inr [simp]:
  "enforce_scopes ts req = Inr u \<longleftrightarrow> set req \<subseteq> set ts"
  by (induction req) (auto simp: list_ex_iff)

lemma enforce_scopes_Inl:
  "enforce_scopes ts req = Inl e \<Longrightarrow> \<exists>s \<in> set req. s \<notin> set ts \<and> e = MissingScopes s"
  by (induction req) (auto simp: list_ex_iff split: if_splits)

lemma bearer_word_iff:
  "eq_ignore_ascii_case w ''bearer'' \<longleftrightarrow> to_ascii_lowercase w = ''bearer''"
  by (simp add: eq_ignore_ascii_case_def to_ascii_lowercase_def ascii_lower_def)

lemma count_split_once:
  "count_list raw c = 1 \<Longrightarrow> \<exists>a b. split_once c raw = Some (a, b) \<and> c \<notin> set b"
proof -
  assume one: "count_list raw c = 1"
  then have "c \<in> set raw" by (metis count_notin zero_neq_one)
  then obtain a b where ab: "split_once c raw = Some (a, b)"
    by (metis split_once_None not_Some_eq surj_pair)
  then have "raw = a @ c # b" and "c \<notin> set a" by (auto dest: split_once_SomeD)
  with one have "count_list b c = 0" by simp
  then have "c \<notin> set b" by (simp add: count_list_0_iff)
  with ab show ?thesis by blast
qed

lemma validate_bearer_header_steps:
  "validate_bearer_header raw =
     (if trim raw = raw \<and> \<not> list_ex is_control raw \<and> count_list raw (CHR '' '') = 1 \<and>
         (\<exists>scheme token. split_once (CHR '' '') raw = Some (scheme, token) \<and>
            to_ascii_lowercase scheme = ''bearer'' \<and> token \<noteq> [])
      then Inr () else Inl MissingToken)"
proof (cases "split_once (CHR '' '') raw")
  case None
  then show ?thesis by (simp only: validate_bearer_header_def) simp
next
  case (Some st)
  then obtain scheme token where "split_once (CHR '' '') raw = Some (scheme, token)"
    by (cases st) simp
  then show ?thesis by (simp only: validate_bearer_header_def) (simp add: bearer_word_iff)
qed

lemma validate_bearer_header_InrD:
  assumes "validate_bearer_header raw = Inr u"
  obtains scheme token where "raw = scheme @ CHR '' '' # token"
    and "to_ascii_lowercase scheme = ''bearer''" and "token \<noteq> []"
    and "CHR '' '' \<notin> set token" and "\<not> list_ex is_control raw" and "trim raw = raw"
    and "split_once (CHR '' '') raw = Some (scheme, token)"
proof -
  from assms obtain scheme token where t: "trim raw = raw" and c: "\<not> list_ex is_control raw"
    and one: "count_list raw (CHR '' '') = 1"
    and st: "split_once (CHR '' '') raw = Some (scheme, token)"
      "to_ascii_lowercase scheme = ''bearer''" "token \<noteq> []"
    unfolding validate_bearer_header_steps by (metis Inr_not_Inl)
  from count_split_once [OF one] st(1) have "CHR '' '' \<notin> set token" by auto
  moreover from st(1) have "raw = scheme @ CHR '' '' # token" by (auto dest: split_once_SomeD)
  ultimately show thesis using that t c st by blast
qed

lemma validate_bearer_header_errors: "validate_bearer_header raw = Inl e \<Longrightarrow> e = MissingToken"
  unfolding validate_bearer_header_steps by (metis Inl_inject Inr_not_Inl)

lemma bearer_token_part:
  assumes "validate_bearer_header raw = Inr ()"
  shows "\<exists>scheme token. split_once (CHR '' '') raw = Some (scheme, token) \<and> token \<noteq> []"
  by (rule validate_bearer_header_InrD [OF assms]) blast

lemma extract_bearer_token_eq:
  "extract_bearer_token hs =
     (case Option.bind (header_get hs ''authorization'') to_str of
        None \<Rightarrow> Inl MissingToken
      | Some raw \<Rightarrow> (case validate_bearer_header raw of
            Inl _ \<Rightarrow> Inl MissingToken
          | Inr _ \<Rightarrow> Inr (snd (the (split_once (CHR '' '') raw)))))"
  by (auto simp: extract_bearer_token_def split: option.splits sum.splits
      dest: validate_bearer_header_errors bearer_token_part)

lemma extract_bearer_token_errors: "extract_bearer_token hs = Inl e \<Longrightarrow> e = MissingToken"
  by (simp add: extract_bearer_token_eq split: option.splits sum.splits)

lemma extract_bearer_token_InrD:
  assumes "extract_bearer_token hs = Inr token"
  shows "\<exists>scheme. header_get hs ''authorization'' = Some (scheme @ CHR '' '' # token) \<and>
           to_ascii_lowercase scheme = ''bearer'' \<and> token \<noteq> [] \<and> CHR '' '' \<notin> set token"
proof -
  from assms obtain raw where r: "header_get hs ''authorization'' = Some raw"
    and ok: "validate_bearer_header raw = Inr ()"
    and tok: "token = snd (the (split_once (CHR '' '') raw))"
    by (auto simp: extract_bearer_token_eq to_str_def split: option.splits sum.splits
        bind_splits if_splits)
  show ?thesis
    by (rule validate_bearer_header_InrD [OF ok]) (use r tok in auto)
qed

lemma enforce_issuer_audience_errors:
  "enforce_issuer_audience cfg claims = Inl e \<Longrightarrow> \<exists>m. e = Forbidden m"
  by (auto simp: enforce_issuer_audience_def and_then_def Let_def
      split: option.splits if_splits sum.splits)

lemma enforce_issuer_audience_InrD:
  assumes "enforce_issuer_audience cfg claims = Inr u"
  shows "gc_expected_issuer cfg = Some iss \<Longrightarrow>
      \<exists>raw. claim_str claims ''iss'' = Some raw \<and> trim raw = iss \<and> iss \<noteq> []"
    and "gc_expected_audience cfg = Some aud \<Longrightarrow> aud \<in> set (extract_audiences claims)"
  using assms
  by (auto simp: enforce_issuer_audience_def Let_def list_ex_iff non_empty_def
      split: option.splits if_splits bind_splits)

lemma build_audit_identity_errors:
  "build_audit_identity sha cfg claims = Inl e \<Longrightarrow> \<exists>m. e = InvalidConfig m"
  by (auto simp: build_audit_identity_def split: if_splits option.splits)

end
