(* ===== verification/Gateway_Scopes.thy ===== *)
theory Gateway_Scopes
  imports Gateway_Auth
begin

text \<open>
  The gateway's route policy (\<open>handlers.rs\<close>): how a request path is split and allowlisted,
  which scope sets admit a request to an admin endpoint, and which of them the gateway
  enforces and asks the token exchange for.
\<close>

datatype http_method = GET | HEAD | OPTIONS | POST | PUT | DELETE | PATCH | TRACE | CONNECT | ExtMethod string

text \<open>\<open>Method::as_str\<close>.\<close>

fun method_str :: "http_method \<Rightarrow> string" where
  "method_str GET = ''GET''"
| "method_str HEAD = ''HEAD''"
| "method_str OPTIONS = ''OPTIONS''"
| "method_str POST = ''POST''"
| "method_str PUT = ''PUT''"
| "method_str DELETE = ''DELETE''"
| "method_str PATCH = ''PATCH''"
| "method_str TRACE = ''TRACE''"
| "method_str CONNECT = ''CONNECT''"
| "method_str (ExtMethod m) = m"

section \<open>Paths\<close>

definition path_segments :: "string \<Rightarrow> string list" where
  "path_segments path =
     filter (\<lambda>segment. segment \<noteq> []) (split_on (CHR ''/'') (trim_by (\<lambda>c. c = CHR ''/'') path))"

definition contains_matrix_params :: "string \<Rightarrow> bool" where
  "contains_matrix_params path = contains_char (CHR '';'') path"

fun is_allowlisted_admin_path :: "string list \<Rightarrow> bool" where
  "is_allowlisted_admin_path (a # b # rest) =
     ((a = ''admin'' \<and> b = ''realms'') \<or>
      (rest = [] \<and> a = ''admin'' \<and> b = ''serverinfo'') \<or>
      (rest = [] \<and> a = ''admin'' \<and> b = ''metrics''))"
| "is_allowlisted_admin_path _ = False"

section \<open>Scope names and requirements\<close>

type_synonym scope_set = "string list"

definition USERS_READ_SCOPE :: scope_set where "USERS_READ_SCOPE = [''keycloak-admin:users:read'']"
definition USERS_WRITE_SCOPE :: scope_set where "USERS_WRITE_SCOPE = [''keycloak-admin:users:write'']"
definition GROUPS_READ_SCOPE :: scope_set where "GROUPS_READ_SCOPE = [''keycloak-admin:groups:read'']"
definition GROUPS_WRITE_SCOPE :: scope_set where "GROUPS_WRITE_SCOPE = [''keycloak-admin:groups:write'']"
definition ROLES_READ_SCOPE :: scope_set where "ROLES_READ_SCOPE = [''keycloak-admin:roles:read'']"
definition ROLES_WRITE_SCOPE :: scope_set where "ROLES_WRITE_SCOPE = [''keycloak-admin:roles:write'']"
definition CLIENTS_READ_SCOPE :: scope_set where "CLIENTS_READ_SCOPE = [''keycloak-admin:clients:read'']"
definition CLIENTS_WRITE_SCOPE :: scope_set where "CLIENTS_WRITE_SCOPE = [''keycloak-admin:clients:write'']"
definition CLIENTS_SECRETS_SCOPE :: scope_set where "CLIENTS_SECRETS_SCOPE = [''keycloak-admin:clients:secrets'']"
definition CLIENT_SCOPES_READ_SCOPE :: scope_set where "CLIENT_SCOPES_READ_SCOPE = [''keycloak-admin:client-scopes:read'']"
definition CLIENT_SCOPES_WRITE_SCOPE :: scope_set where "CLIENT_SCOPES_WRITE_SCOPE = [''keycloak-admin:client-scopes:write'']"
definition IDP_READ_SCOPE :: scope_set where "IDP_READ_SCOPE = [''keycloak-admin:idp:read'']"
definition IDP_WRITE_SCOPE :: scope_set where "IDP_WRITE_SCOPE = [''keycloak-admin:idp:write'']"
definition EVENTS_READ_SCOPE :: scope_set where "EVENTS_READ_SCOPE = [''keycloak-admin:events:read'']"
definition EVENTS_ADMIN_SCOPE :: scope_set where "EVENTS_ADMIN_SCOPE = [''keycloak-admin:events:admin'']"
definition REALM_READ_SCOPE :: scope_set where "REALM_READ_SCOPE = [''keycloak-admin:realm:read'']"
definition REALM_WRITE_SCOPE :: scope_set where "REALM_WRITE_SCOPE = [''keycloak-admin:realm:write'']"
definition REALM_ADMIN_SCOPE :: scope_set where "REALM_ADMIN_SCOPE = [''keycloak-admin:realm:admin'']"
definition TOKENS_READ_SCOPE :: scope_set where "TOKENS_READ_SCOPE = [''keycloak-admin:tokens:read'']"
definition OBSERVABILITY_READ_SCOPE :: scope_set where "OBSERVABILITY_READ_SCOPE = [''keycloak-admin:observability:read'']"

lemmas scope_names = USERS_READ_SCOPE_def USERS_WRITE_SCOPE_def GROUPS_READ_SCOPE_def
  GROUPS_WRITE_SCOPE_def ROLES_READ_SCOPE_def ROLES_WRITE_SCOPE_def CLIENTS_READ_SCOPE_def
  CLIENTS_WRITE_SCOPE_def CLIENTS_SECRETS_SCOPE_def CLIENT_SCOPES_READ_SCOPE_def
  CLIENT_SCOPES_WRITE_SCOPE_def IDP_READ_SCOPE_def IDP_WRITE_SCOPE_def EVENTS_READ_SCOPE_def
  EVENTS_ADMIN_SCOPE_def REALM_READ_SCOPE_def REALM_WRITE_SCOPE_def REALM_ADMIN_SCOPE_def
  TOKENS_READ_SCOPE_def OBSERVABILITY_READ_SCOPE_def

definition REALM_ROLE_LOOKUP_REQUIREMENTS :: "scope_set list" where
  "REALM_ROLE_LOOKUP_REQUIREMENTS =
     [ROLES_READ_SCOPE, ROLES_WRITE_SCOPE, GROUPS_WRITE_SCOPE, CLIENTS_WRITE_SCOPE,
      CLIENT_SCOPES_WRITE_SCOPE]"

definition CLIENT_LOOKUP_REQUIREMENTS :: "scope_set list" where
  "CLIENT_LOOKUP_REQUIREMENTS = [CLIENTS_READ_SCOPE, CLIENTS_WRITE_SCOPE, GROUPS_WRITE_SCOPE]"

definition CLIENT_ROLE_LOOKUP_REQUIREMENTS :: "scope_set list" where
  "CLIENT_ROLE_LOOKUP_REQUIREMENTS = [CLIENTS_READ_SCOPE, CLIENTS_WRITE_SCOPE, GROUPS_WRITE_SCOPE]"

definition CLIENT_SCOPE_LOOKUP_REQUIREMENTS :: "scope_set list" where
  "CLIENT_SCOPE_LOOKUP_REQUIREMENTS =
     [CLIENT_SCOPES_READ_SCOPE, CLIENT_SCOPES_WRITE_SCOPE, CLIENTS_WRITE_SCOPE, REALM_ADMIN_SCOPE]"

lemmas lookup_requirements = REALM_ROLE_LOOKUP_REQUIREMENTS_def CLIENT_LOOKUP_REQUIREMENTS_def
  CLIENT_ROLE_LOOKUP_REQUIREMENTS_def CLIENT_SCOPE_LOOKUP_REQUIREMENTS_def

section \<open>Classifying a route\<close>

datatype scope_family =
    Users | Groups | Roles | Clients | ClientScopes | Idp | Events | Realm | Tokens | Observability

definition nth_opt :: "'a list \<Rightarrow> nat \<Rightarrow> 'a option" where
  "nth_opt xs i = (if i < length xs then Some (xs ! i) else None)"

definition admin_resource_index :: "string list \<Rightarrow> nat option" where
  "admin_resource_index segments =
     (let index = (if nth_opt segments 0 = Some ''admin'' then 1 else 0);
          index = (if nth_opt segments index = Some ''realms'' then index + 2 else index)
      in map_option (\<lambda>_. index) (nth_opt segments index))"

definition admin_resource_segment :: "string list \<Rightarrow> string option" where
  "admin_resource_segment segments = Option.bind (admin_resource_index segments) (nth_opt segments)"

definition admin_resource_tail :: "string list \<Rightarrow> string list option" where
  "admin_resource_tail segments =
     map_option (\<lambda>index. drop index segments) (admin_resource_index segments)"

definition is_realm_role_lookup_path :: "string list \<Rightarrow> bool" where
  "is_realm_role_lookup_path segments =
     (case admin_resource_tail segments of Some [a, _] \<Rightarrow> a = ''roles'' | _ \<Rightarrow> False)"

definition is_client_lookup_path :: "string list \<Rightarrow> bool" where
  "is_client_lookup_path segments =
     (case admin_resource_tail segments of Some [a] \<Rightarrow> a = ''clients'' | _ \<Rightarrow> False)"

definition is_client_role_lookup_path :: "string list \<Rightarrow> bool" where
  "is_client_role_lookup_path segments =
     (case admin_resource_tail segments of
        Some [a, _, b, _] \<Rightarrow> a = ''clients'' \<and> b = ''roles'' | _ \<Rightarrow> False)"

definition is_client_scope_lookup_path :: "string list \<Rightarrow> bool" where
  "is_client_scope_lookup_path segments =
     (case admin_resource_tail segments of Some [a] \<Rightarrow> a = ''client-scopes'' | _ \<Rightarrow> False)"

definition is_realm_event_config_path :: "string list \<Rightarrow> bool" where
  "is_realm_event_config_path segments =
     (case admin_resource_tail segments of
        Some [a, b] \<Rightarrow> a = ''events'' \<and> b = ''config'' | _ \<Rightarrow> False)"

definition is_client_secret_path :: "string list \<Rightarrow> bool" where
  "is_client_secret_path segments = list_ex (\<lambda>segment. segment = ''client-secret'') segments"

definition scope_family :: "string list \<Rightarrow> scope_family" where
  "scope_family segments =
     (case admin_resource_segment segments of
        None \<Rightarrow> Realm
      | Some resource \<Rightarrow>
          (if resource = ''users'' then Users
           else if resource = ''groups'' then Groups
           else if resource \<in> {''roles'', ''roles-by-id''} then Roles
           else if resource = ''clients'' then Clients
           else if resource = ''client-scopes'' then ClientScopes
           else if resource = ''identity-provider'' then Idp
           else if resource = ''events'' then Events
           else if resource \<in> {''sessions'', ''user-sessions'', ''offline-sessions'',
                                ''client-session-stats''} then Tokens
           else if resource \<in> {''attack-detection'', ''serverinfo'', ''metrics''} then Observability
           else Realm))"

definition query_has_param :: "string option \<Rightarrow> string \<Rightarrow> bool" where
  "query_has_param query expected_name =
     (case query of
        None \<Rightarrow> False
      | Some q \<Rightarrow> list_ex (\<lambda>pair.
          (case split_once (CHR ''='') pair of Some (name, _) \<Rightarrow> name | None \<Rightarrow> pair) = expected_name)
          (split_on (CHR ''&'') q))"

section \<open>The scopes a request needs\<close>

definition rw_scope_candidates :: "bool \<Rightarrow> scope_set list \<Rightarrow> scope_set list \<Rightarrow> scope_set list" where
  "rw_scope_candidates is_read read_scopes write_scopes =
     (if is_read then read_scopes else write_scopes)"

definition is_read_method :: "http_method \<Rightarrow> bool" where
  "is_read_method m = (m \<in> {GET, HEAD, OPTIONS})"

definition scope_candidates ::
  "http_method \<Rightarrow> string list \<Rightarrow> string option \<Rightarrow> scope_set list" where
  "scope_candidates m segments query =
     (let is_read = is_read_method m in
      if m = GET \<and> is_realm_role_lookup_path segments then REALM_ROLE_LOOKUP_REQUIREMENTS
      else if m = GET \<and> is_client_role_lookup_path segments then CLIENT_ROLE_LOOKUP_REQUIREMENTS
      else if m = GET \<and> is_client_lookup_path segments \<and> query_has_param query ''clientId''
        then CLIENT_LOOKUP_REQUIREMENTS
      else if m = GET \<and> is_client_scope_lookup_path segments then CLIENT_SCOPE_LOOKUP_REQUIREMENTS
      else if is_realm_event_config_path segments
        then rw_scope_candidates is_read [REALM_READ_SCOPE] [REALM_WRITE_SCOPE]
      else (case scope_family segments of
          Users \<Rightarrow> rw_scope_candidates is_read [USERS_READ_SCOPE] [USERS_WRITE_SCOPE]
        | Groups \<Rightarrow> rw_scope_candidates is_read [GROUPS_READ_SCOPE] [GROUPS_WRITE_SCOPE]
        | Roles \<Rightarrow> rw_scope_candidates is_read [ROLES_READ_SCOPE] [ROLES_WRITE_SCOPE]
        | Clients \<Rightarrow>
            (if is_client_secret_path segments then [CLIENTS_SECRETS_SCOPE]
             else rw_scope_candidates is_read [CLIENTS_READ_SCOPE] [CLIENTS_WRITE_SCOPE])
        | ClientScopes \<Rightarrow>
            rw_scope_candidates is_read [CLIENT_SCOPES_READ_SCOPE] [CLIENT_SCOPES_WRITE_SCOPE]
        | Idp \<Rightarrow> rw_scope_candidates is_read [IDP_READ_SCOPE] [IDP_WRITE_SCOPE]
        | Events \<Rightarrow> rw_scope_candidates is_read [EVENTS_READ_SCOPE] [EVENTS_ADMIN_SCOPE]
        | Realm \<Rightarrow> rw_scope_candidates is_read [REALM_READ_SCOPE] [REALM_WRITE_SCOPE]
        | Tokens \<Rightarrow> (if is_read then [TOKENS_READ_SCOPE] else [REALM_ADMIN_SCOPE])
        | Observability \<Rightarrow> [OBSERVABILITY_READ_SCOPE]))"

definition has_all_scopes :: "string list \<Rightarrow> scope_set \<Rightarrow> bool" where
  "has_all_scopes token_scopes candidate =
     list_all (\<lambda>scope. list_ex (\<lambda>token_scope. token_scope = scope) token_scopes) candidate"

definition select_scope_candidate :: "scope_set list \<Rightarrow> string list \<Rightarrow> scope_set" where
  "select_scope_candidate candidates token_scopes =
     (let first_candidate = (case candidates of c # _ \<Rightarrow> c | [] \<Rightarrow> REALM_ADMIN_SCOPE) in
      case find (has_all_scopes token_scopes) candidates of
        Some c \<Rightarrow> c | None \<Rightarrow> first_candidate)"

definition required_scopes ::
  "http_method \<Rightarrow> string list \<Rightarrow> string option \<Rightarrow> string list \<Rightarrow> scope_set" where
  "required_scopes m segments query token_scopes =
     select_scope_candidate (scope_candidates m segments query) token_scopes"

section \<open>Lemmas\<close>

lemma has_all_scopes_iff [simp]: "has_all_scopes token_scopes c \<longleftrightarrow> set c \<subseteq> set token_scopes"
  by (auto simp: has_all_scopes_def list_all_iff list_ex_iff)

lemma scope_candidates_not_Nil [simp]: "scope_candidates m segments query \<noteq> []"
  by (simp add: scope_candidates_def rw_scope_candidates_def lookup_requirements Let_def
      split: scope_family.split)

lemma select_scope_candidate_member:
  "cs \<noteq> [] \<Longrightarrow> select_scope_candidate cs token_scopes \<in> set cs"
  by (cases cs) (auto simp: select_scope_candidate_def find_Some_iff Let_def split: option.split)

lemma select_scope_candidate_covered:
  "\<lbrakk>c \<in> set cs; set c \<subseteq> set token_scopes\<rbrakk>
     \<Longrightarrow> set (select_scope_candidate cs token_scopes) \<subseteq> set token_scopes"
  by (auto simp: select_scope_candidate_def find_Some_iff find_None_iff Let_def
      split: option.split dest!: nth_mem)

lemma select_scope_candidate_eq:
  "cs \<noteq> [] \<Longrightarrow> select_scope_candidate cs token_scopes =
     (case find (\<lambda>c. set c \<subseteq> set token_scopes) cs of Some c \<Rightarrow> c | None \<Rightarrow> hd cs)"
proof -
  assume "cs \<noteq> []"
  moreover have "has_all_scopes token_scopes = (\<lambda>c. set c \<subseteq> set token_scopes)"
    by (simp add: fun_eq_iff)
  ultimately show ?thesis by (cases cs) (simp_all add: select_scope_candidate_def split: option.split)
qed

subsection \<open>The interface: a policy that offers alternatives and enforces one\<close>

text \<open>
  A scope policy lists acceptable scope sets for a request and picks the one to enforce from
  the scopes the caller holds. Its two laws make enforcing the pick the same as accepting any
  alternative.
\<close>

locale scope_policy =
  fixes alternatives :: "'req \<Rightarrow> scope_set list"
    and chosen :: "'req \<Rightarrow> string list \<Rightarrow> scope_set"
  assumes chosen_member: "chosen req held \<in> set (alternatives req)"
    and chosen_covered: "\<lbrakk>c \<in> set (alternatives req); set c \<subseteq> set held\<rbrakk>
          \<Longrightarrow> set (chosen req held) \<subseteq> set held"
begin

lemma admits_iff:
  "enforce_scopes held (chosen req held) = Inr () \<longleftrightarrow>
     (\<exists>c \<in> set (alternatives req). set c \<subseteq> set held)"
  unfolding enforce_scopes_Inr using chosen_member chosen_covered by blast

lemma admits_mono:
  "\<lbrakk>enforce_scopes held (chosen req held) = Inr (); set held \<subseteq> set wider\<rbrakk>
     \<Longrightarrow> enforce_scopes wider (chosen req wider) = Inr ()"
  unfolding admits_iff by blast

lemma rejects_names_missing:
  assumes "enforce_scopes held (chosen req held) = Inl e"
  shows "\<exists>c \<in> set (alternatives req). \<exists>s \<in> set c. s \<notin> set held \<and> e = MissingScopes s"
  using enforce_scopes_Inl [OF assms] chosen_member by blast

end

text \<open>The gateway's requests are triples of method, path segments and query.\<close>

interpretation gw: scope_policy
  "\<lambda>(m, segments, query). scope_candidates m segments query"
  "\<lambda>(m, segments, query) held. required_scopes m segments query held"
proof
  fix req :: "http_method \<times> string list \<times> string option" and held c
  obtain m segments query where req: "req = (m, segments, query)" by (cases req)
  show "(case req of (m, segments, query) \<Rightarrow> \<lambda>held. required_scopes m segments query held) held
          \<in> set (case req of (m, segments, query) \<Rightarrow> scope_candidates m segments query)"
    by (simp add: req required_scopes_def select_scope_candidate_member)
  assume "c \<in> set (case req of (m, segments, query) \<Rightarrow> scope_candidates m segments query)"
    and "set c \<subseteq> set held"
  then show "set ((case req of (m, segments, query) \<Rightarrow>
          \<lambda>held. required_scopes m segments query held) held) \<subseteq> set held"
    by (simp add: req required_scopes_def select_scope_candidate_covered)
qed

subsection \<open>Shapes of paths\<close>

lemma tail_resource:
  "admin_resource_tail segments = Some (a # rest) \<Longrightarrow> admin_resource_segment segments = Some a"
  by (cases "admin_resource_index segments")
     (auto simp: admin_resource_tail_def admin_resource_segment_def nth_opt_def nth_via_drop
       intro: ccontr)

lemma lookup_path_resource:
  "is_realm_role_lookup_path segments \<Longrightarrow> admin_resource_segment segments = Some ''roles''"
  "is_client_lookup_path segments \<Longrightarrow> admin_resource_segment segments = Some ''clients''"
  "is_client_role_lookup_path segments \<Longrightarrow> admin_resource_segment segments = Some ''clients''"
  "is_client_scope_lookup_path segments \<Longrightarrow>
     admin_resource_segment segments = Some ''client-scopes''"
  "is_realm_event_config_path segments \<Longrightarrow> admin_resource_segment segments = Some ''events''"
  unfolding is_realm_role_lookup_path_def is_client_lookup_path_def is_client_role_lookup_path_def
    is_client_scope_lookup_path_def is_realm_event_config_path_def
  by (simp_all add: tail_resource split: option.splits list.splits)

lemma tail_length_unique:
  "\<lbrakk>is_client_lookup_path segments; is_client_role_lookup_path segments\<rbrakk> \<Longrightarrow> False"
  unfolding is_client_lookup_path_def is_client_role_lookup_path_def
  by (simp split: option.splits list.splits)

lemma allowlisted_admin_resource:
  "is_allowlisted_admin_path (''admin'' # ''realms'' # rest)"
  by simp

lemma path_segments_no_slash:
  "segment \<in> set (path_segments path) \<Longrightarrow> segment \<noteq> [] \<and> CHR ''/'' \<notin> set segment"
  by (auto simp: path_segments_def dest: split_on_member_no_sep)

lemma realm_resource_index [simp]:
  "admin_resource_index (''admin'' # ''realms'' # realm # resource # rest) = Some 3"
  by (simp add: admin_resource_index_def nth_opt_def Let_def eval_nat_numeral)

lemma realm_resource [simp]:
  "admin_resource_segment (''admin'' # ''realms'' # realm # resource # rest) = Some resource"
  "admin_resource_tail (''admin'' # ''realms'' # realm # resource # rest) = Some (resource # rest)"
  by (simp_all add: admin_resource_segment_def admin_resource_tail_def nth_opt_def eval_nat_numeral)

lemmas path_preds = is_realm_role_lookup_path_def is_client_lookup_path_def
  is_client_role_lookup_path_def is_client_scope_lookup_path_def is_realm_event_config_path_def

definition is_read_scope :: "string \<Rightarrow> bool" where
  "is_read_scope s = (take 5 (rev s) = rev '':read'')"

lemma write_candidates_not_read:
  assumes "\<not> is_read_method m" and "scope_family segments \<noteq> Observability"
    and "c \<in> set (scope_candidates m segments query)"
  shows "\<exists>s \<in> set c. \<not> is_read_scope s"
proof -
  from assms(1) have "m \<noteq> GET" by (auto simp: is_read_method_def)
  with assms show ?thesis
    by (simp add: scope_candidates_def rw_scope_candidates_def Let_def
        split: scope_family.splits if_splits)
      (simp_all add: scope_names is_read_scope_def)
qed

lemma path_segments_join:
  assumes "\<forall>s \<in> set ss. s \<noteq> [] \<and> CHR ''/'' \<notin> set s"
  shows "path_segments (CHR ''/'' # join ''/'' ss) = ss"
proof (cases ss)
  case Nil
  then show ?thesis by (simp add: path_segments_def trim_by_def trim_end_by_def)
next
  case (Cons a as)
  let ?j = "join ''/'' ss"
  have ends: "\<forall>s \<in> set ss. s \<noteq> [] \<and> CHR ''/'' \<notin> set s \<Longrightarrow> ss \<noteq> [] \<Longrightarrow>
      join ''/'' ss \<noteq> [] \<and> hd (join ''/'' ss) \<noteq> CHR ''/'' \<and> last (join ''/'' ss) \<noteq> CHR ''/''"
    by (induction "''/''" ss rule: join.induct) (auto dest: hd_in_set last_in_set)
  from ends assms Cons have j: "?j \<noteq> []" "hd ?j \<noteq> CHR ''/''" "last ?j \<noteq> CHR ''/''" by auto
  then have "trim_by (\<lambda>c. c = CHR ''/'') (CHR ''/'' # ?j) = ?j"
    by (cases ?j) (auto simp: trim_by_def intro!: trim_end_by_id)
  moreover have "split_on (CHR ''/'') ?j = ss" using assms Cons by (auto intro!: split_on_join)
  moreover have "filter (\<lambda>s. s \<noteq> []) ss = ss" using assms by (auto simp: filter_id_conv)
  ultimately show ?thesis by (simp add: path_segments_def)
qed

section \<open>Properties\<close>

text \<open>
  C5: The gateway enforces the first acceptable scope set that the caller's token covers and,
  when it covers none, the first one of the list; enforcing that choice lets a request through
  exactly when some acceptable set for its route is covered, so the order of the alternatives
  never costs a caller access.
\<close>

theorem route_admits_iff:
  "(enforce_scopes held (required_scopes m segments query held) = Inr () \<longleftrightarrow>
     (\<exists>c \<in> set (scope_candidates m segments query). set c \<subseteq> set held)) \<and>
   required_scopes m segments query held =
     (case find (\<lambda>c. set c \<subseteq> set held) (scope_candidates m segments query) of
        Some c \<Rightarrow> c | None \<Rightarrow> hd (scope_candidates m segments query))"
  using gw.admits_iff [of held "(m, segments, query)"]
  by (simp add: required_scopes_def select_scope_candidate_eq)

text \<open>
  A token that carries read scopes only gets no mutating request past the gateway, on
  any route outside the observability family.
\<close>

theorem read_scopes_cannot_mutate:
  assumes "\<not> is_read_method m" and "scope_family segments \<noteq> Observability"
    and "\<forall>s \<in> set held. is_read_scope s"
  shows "\<exists>s. enforce_scopes held (required_scopes m segments query held) = Inl (MissingScopes s)"
proof (cases "enforce_scopes held (required_scopes m segments query held)")
  case (Inl e)
  then show ?thesis using enforce_scopes_Inl by blast
next
  case (Inr u)
  then obtain c where "c \<in> set (scope_candidates m segments query)" and "set c \<subseteq> set held"
    using gw.admits_iff [of held "(m, segments, query)"] by auto
  with write_candidates_not_read [OF assms(1,2)] assms(3) show ?thesis by blast
qed

theorem read_scopes_cannot_mutate_witness:
  "\<exists>s. enforce_scopes [''keycloak-admin:users:read'']
     (required_scopes DELETE [''admin'', ''realms'', ''r'', ''users'', ''u''] None
        [''keycloak-admin:users:read'']) = Inl (MissingScopes s)"
  by (rule read_scopes_cannot_mutate)
     (simp_all add: is_read_method_def scope_family_def is_read_scope_def)

text \<open>
  A client's secret is behind its own scope: any request to the client-secret endpoints of
  a client, read or write, passes the scope check exactly when the token carries the
  clients:secrets scope.
\<close>

theorem client_secret_needs_secrets_scope:
  "enforce_scopes held (required_scopes m
       (''admin'' # ''realms'' # realm # ''clients'' # client # ''client-secret'' # rest) query held)
     = Inr () \<longleftrightarrow> ''keycloak-admin:clients:secrets'' \<in> set held"
proof -
  let ?segs = "''admin'' # ''realms'' # realm # ''clients'' # client # ''client-secret'' # rest"
  have "scope_candidates m ?segs query = [CLIENTS_SECRETS_SCOPE]"
    by (simp add: scope_candidates_def path_preds scope_family_def is_client_secret_path_def
        split: list.splits)
  then show ?thesis
    using gw.admits_iff [of held "(m, ?segs, query)"] by (simp add: scope_names)
qed

text \<open>
  The observability family has one scope for every method: a request under
  attack-detection, a \<open>DELETE\<close> that clears the brute-force records included, needs the
  observability read scope and no more.
\<close>

theorem observability_scope_covers_mutation:
  "enforce_scopes held (required_scopes m
       (''admin'' # ''realms'' # realm # ''attack-detection'' # rest) query held) = Inr () \<longleftrightarrow>
     ''keycloak-admin:observability:read'' \<in> set held"
proof -
  let ?segs = "''admin'' # ''realms'' # realm # ''attack-detection'' # rest"
  have "scope_candidates m ?segs query = [OBSERVABILITY_READ_SCOPE]"
    by (simp add: scope_candidates_def path_preds scope_family_def split: list.splits)
  then show ?thesis
    using gw.admits_iff [of held "(m, ?segs, query)"] by (simp add: scope_names)
qed

text \<open>
  The segments the gateway classifies are the ones the path is built from: joining
  non-empty segments with slashes and splitting the path again gives them back.
\<close>

theorem path_segments_roundtrip:
  assumes "\<forall>s \<in> set ss. s \<noteq> [] \<and> CHR ''/'' \<notin> set s"
  shows "path_segments (CHR ''/'' # join ''/'' ss) = ss \<and>
    (\<forall>s \<in> set (path_segments path). s \<noteq> [] \<and> CHR ''/'' \<notin> set s)"
  using path_segments_join [OF assms] path_segments_no_slash by blast

theorem path_segments_roundtrip_witness:
  "path_segments (CHR ''/'' # join ''/'' [''admin'', ''realms'']) = [''admin'', ''realms'']"
  using path_segments_roundtrip [of "[''admin'', ''realms'']"] by simp

end
