(* ===== verification/Gateway_Client.thy ===== *)
theory Gateway_Client
  imports Mcp_Auth Gateway_Scopes
begin

text \<open>
  The client of the MCP server that sends requests to the gateway (\<open>gateway.rs\<close>), and the programs
  that use it. A program is a tree: it ends with a value or asks the gateway and goes on with the
  reply. It branches on every possible reply, so a statement about its requests holds whatever the
  gateway and Keycloak do, and however their state changes between two requests.

  A reply is what \<open>send\<close> and \<open>bytes\<close> give: an error, possibly a time-out; a body that cannot be
  read; or a status and the bytes. \<open>Url::join\<close> is a test of the path, \<open>from_slice\<close>,
  \<open>from_utf8_lossy\<close> and \<open>Uuid::parse_str\<close> (with the text of the parsed id) are functions, all of
  them fields of \<open>tool_env\<close>. \<open>Tls_Setup\<close> builds the client.
\<close>

section \<open>Programs\<close>

record gateway_call =
  gq_method :: http_method
  gq_path :: string
  gq_query :: "(string \<times> string) list"
  gq_body :: "json option"
  gq_bearer :: string
  gq_request_id :: string
  gq_actor_id :: "string option"

datatype gateway_reply =
    SendTimedOut
  | SendError
  | BodyError
  | Reply nat string

datatype 'a prog = Done 'a | Ask gateway_call "gateway_reply \<Rightarrow> 'a prog"

primrec bind_prog :: "'a prog \<Rightarrow> ('a \<Rightarrow> 'b prog) \<Rightarrow> 'b prog" where
  "bind_prog (Done a) f = f a"
| "bind_prog (Ask c k) f = Ask c (\<lambda>r. bind_prog (k r) f)"

text \<open>\<open>?\<close> after an \<open>await\<close>.\<close>

definition try_prog :: "('e + 'a) prog \<Rightarrow> ('a \<Rightarrow> ('e + 'b) prog) \<Rightarrow> ('e + 'b) prog" where
  "try_prog m f = bind_prog m (\<lambda>r. case r of Inl e \<Rightarrow> Done (Inl e) | Inr a \<Rightarrow> f a)"

definition map_prog :: "('a \<Rightarrow> 'b) \<Rightarrow> 'a prog \<Rightarrow> 'b prog" where
  "map_prog f m = bind_prog m (\<lambda>a. Done (f a))"

text \<open>
  A run against a gateway whose state is of any type, with the requests and their replies; and a
  loop over a list that carries an accumulator and ends at the first error.
\<close>

primrec run_prog ::
  "('w \<Rightarrow> gateway_call \<Rightarrow> gateway_reply \<times> 'w) \<Rightarrow> 'a prog \<Rightarrow> 'w \<Rightarrow> 'a \<times> (gateway_call \<times> gateway_reply) list \<times> 'w" where
  "run_prog serve (Done a) w = (a, [], w)"
| "run_prog serve (Ask c k) w =
     (let (r, w) = serve w c; (a, trace, w) = run_prog serve (k r) w in (a, (c, r) # trace, w))"

abbreviation trace_of ::
  "('w \<Rightarrow> gateway_call \<Rightarrow> gateway_reply \<times> 'w) \<Rightarrow> 'a prog \<Rightarrow> 'w \<Rightarrow> (gateway_call \<times> gateway_reply) list" where
  "trace_of serve m w \<equiv> fst (snd (run_prog serve m w))"

fun fold_prog :: "('x \<Rightarrow> 's \<Rightarrow> ('e + 's) prog) \<Rightarrow> 'x list \<Rightarrow> 's \<Rightarrow> ('e + 's) prog" where
  "fold_prog f [] s = Done (Inr s)"
| "fold_prog f (x # xs) s = try_prog (f x s) (fold_prog f xs)"

text \<open>
  Every request a program can make; that all of them, and every end of it, have a property;
  and that it makes at most so many requests.
\<close>

primrec calls_of :: "'a prog \<Rightarrow> gateway_call set" where
  "calls_of (Done a) = {}"
| "calls_of (Ask c k) = insert c (\<Union>r. calls_of (k r))"

primrec ends_of :: "'a prog \<Rightarrow> 'a set" where
  "ends_of (Done a) = {a}"
| "ends_of (Ask c k) = (\<Union>r. ends_of (k r))"

primrec within :: "'a prog \<Rightarrow> nat \<Rightarrow> bool" where
  "within (Done a) n = True"
| "within (Ask c k) n = (0 < n \<and> (\<forall>r. within (k r) (n - 1)))"

subsection \<open>Lemmas\<close>

named_theorems prog_simps "requests and ends of composed programs"

lemma calls_of_bind [prog_simps]:
  "calls_of (bind_prog m f) = calls_of m \<union> (\<Union>a \<in> ends_of m. calls_of (f a))"
  by (induction m) auto

lemma ends_of_bind [prog_simps]: "ends_of (bind_prog m f) = (\<Union>a \<in> ends_of m. ends_of (f a))"
  by (induction m) auto

lemma calls_of_try [prog_simps]:
  "calls_of (try_prog m f) = calls_of m \<union> (\<Union>a \<in> {a. Inr a \<in> ends_of m}. calls_of (f a))"
proof -
  have "(\<Union>r \<in> ends_of m. calls_of (case r of Inl e \<Rightarrow> Done (Inl e) | Inr a \<Rightarrow> f a)) =
      (\<Union>a \<in> {a. Inr a \<in> ends_of m}. calls_of (f a))"
    by (force split: sum.splits)
  then show ?thesis by (simp add: try_prog_def calls_of_bind)
qed

lemma ends_of_try [prog_simps]:
  "ends_of (try_prog m f) =
     {Inl e |e. Inl e \<in> ends_of m} \<union> (\<Union>a \<in> {a. Inr a \<in> ends_of m}. ends_of (f a))"
  unfolding try_prog_def ends_of_bind by (force split: sum.splits)

lemma map_prog_sets [prog_simps]:
  "calls_of (map_prog f m) = calls_of m" "ends_of (map_prog f m) = f ` ends_of m"
  by (auto simp: map_prog_def prog_simps)

lemma ends_of_nonempty [simp]: "ends_of m \<noteq> {}"
  by (induction m) auto

lemma within_mono: "\<lbrakk>within m n; n \<le> n'\<rbrakk> \<Longrightarrow> within m n'"
proof (induction m arbitrary: n n')
  case (Done a)
  then show ?case by simp
next
  case (Ask c k)
  have "within (k r) (n' - 1)" for r
    using Ask.IH [OF rangeI, of r "n - 1" "n' - 1"] Ask.prems by simp
  with Ask.prems show ?case by simp
qed

lemma within_bind:
  assumes "within m n" and "\<And>a. a \<in> ends_of m \<Longrightarrow> within (f a) n'"
  shows "within (bind_prog m f) (n + n')"
  using assms
proof (induction m arbitrary: n)
  case (Done a)
  then show ?case using within_mono [of "f a" n' "n + n'"] by simp
next
  case (Ask c k)
  have "within (bind_prog (k r) f) (n - 1 + n')" for r
  proof (rule Ask.IH [OF rangeI])
    show "within (k r) (n - 1)" using Ask.prems(1) by simp
    show "within (f a) n'" if "a \<in> ends_of (k r)" for a
      using that by (intro Ask.prems(2)) auto
  qed
  moreover have "n + n' - 1 = n - 1 + n'" using Ask.prems(1) by simp
  ultimately have "within (bind_prog (k r) f) (n + n' - 1)" for r by (simp only:)
  with Ask.prems(1) show ?case by simp
qed

lemma within_try:
  assumes "within m n" and "\<And>a. Inr a \<in> ends_of m \<Longrightarrow> within (f a) n'"
  shows "within (try_prog m f) (n + n')"
  unfolding try_prog_def using assms by (intro within_bind) (auto split: sum.splits)

lemma within_try_last: "\<lbrakk>within m n; \<And>a. within (f a) 0\<rbrakk> \<Longrightarrow> within (try_prog m f) n"
  using within_try [of m n f 0] by simp

lemma within_fold:
  assumes "\<And>x s. x \<in> set xs \<Longrightarrow> within (f x s) b"
  shows "within (fold_prog f xs s) (length xs * b)"
  using assms
proof (induction xs arbitrary: s)
  case Nil
  then show ?case by simp
next
  case (Cons x xs)
  have "within (try_prog (f x s) (fold_prog f xs)) (b + length xs * b)"
    by (rule within_try) (use Cons in auto)
  then show ?case by simp
qed

lemma bind_bind: "bind_prog (bind_prog m f) g = bind_prog m (\<lambda>a. bind_prog (f a) g)"
  by (induction m) auto

lemma try_try: "try_prog (try_prog m f) g = try_prog m (\<lambda>a. try_prog (f a) g)"
  unfolding try_prog_def bind_bind by (rule arg_cong [where f = "bind_prog m"]) (auto split: sum.split)

lemma try_Done [simp]:
  "try_prog (Done (Inr a)) f = f a" "try_prog (Done (Inl e)) f = Done (Inl e)"
  by (simp_all add: try_prog_def)

lemma map_filter_set: "set (List.map_filter f xs) = {y. \<exists>x \<in> set xs. f x = Some y}"
  by (induction xs) (auto simp: List.map_filter_simps split: option.split)

text \<open>That every end of a program has a property.\<close>

definition finishes :: "('a \<Rightarrow> bool) \<Rightarrow> 'a prog \<Rightarrow> bool" where
  "finishes P m \<longleftrightarrow> (\<forall>r \<in> ends_of m. P r)"

named_theorems ends_intros "structural rules for the ends of a program"

lemma finishes_Done [ends_intros]: "P a \<Longrightarrow> finishes P (Done a)"
  by (simp add: finishes_def)

lemma finishes_bind [ends_intros]: "(\<And>a. finishes P (f a)) \<Longrightarrow> finishes P (bind_prog m f)"
  by (auto simp: finishes_def prog_simps)

lemma finishes_try [ends_intros]:
  "\<lbrakk>\<And>e. P (Inl e); \<And>a. finishes P (f a)\<rbrakk> \<Longrightarrow> finishes P (try_prog m f)"
  by (auto simp: finishes_def prog_simps)

lemma finishes_if [ends_intros]:
  "\<lbrakk>b \<Longrightarrow> finishes P m; \<not> b \<Longrightarrow> finishes P m'\<rbrakk> \<Longrightarrow> finishes P (if b then m else m')"
  by simp

lemma finishes_case_option [ends_intros]:
  "\<lbrakk>x = None \<Longrightarrow> finishes P m; \<And>a. x = Some a \<Longrightarrow> finishes P (f a)\<rbrakk> \<Longrightarrow>
     finishes P (case x of None \<Rightarrow> m | Some a \<Rightarrow> f a)"
  by (cases x) simp_all

lemma finishes_case_sum [ends_intros]:
  "\<lbrakk>\<And>a. x = Inl a \<Longrightarrow> finishes P (f a); \<And>b. x = Inr b \<Longrightarrow> finishes P (g b)\<rbrakk> \<Longrightarrow>
     finishes P (case x of Inl a \<Rightarrow> f a | Inr b \<Rightarrow> g b)"
  by (cases x) simp_all

text \<open>A loop whose body never ends it keeps an invariant over the number of its turns.\<close>

lemma fold_prog_invariant:
  assumes "\<And>n x s r. \<lbrakk>invar n s; r \<in> ends_of (f x s)\<rbrakk> \<Longrightarrow> \<exists>s'. r = Inr s' \<and> invar (Suc n) s'"
    and "invar n s" and "r \<in> ends_of (fold_prog f xs s)"
  shows "\<exists>s'. r = Inr s' \<and> invar (n + length xs) s'"
  using assms(2,3)
proof (induction xs arbitrary: n s)
  case Nil
  then show ?case by simp
next
  case (Cons x xs)
  show ?case
  proof (cases "\<exists>e. r = Inl e \<and> Inl e \<in> ends_of (f x s)")
    case True
    then show ?thesis using assms(1) [OF Cons.prems(1)] by blast
  next
    case False
    then obtain s1 where s1: "Inr s1 \<in> ends_of (f x s)" "r \<in> ends_of (fold_prog f xs s1)"
      using Cons.prems(2) by (auto simp: prog_simps)
    from assms(1) [OF Cons.prems(1) s1(1)] have "invar (Suc n) s1" by simp
    from Cons.IH [OF this s1(2)] show ?thesis by simp
  qed
qed

lemma run_bind:
  "run_prog serve (bind_prog m f) w =
     (let (a, trace, w1) = run_prog serve m w; (b, trace', w2) = run_prog serve (f a) w1
      in (b, trace @ trace', w2))"
  by (induction m arbitrary: w) (auto simp: Let_def split: prod.split)

lemma run_try_Done [simp]:
  "trace_of serve (try_prog m (\<lambda>a. Done (f a))) w = trace_of serve m w"
  by (auto simp: try_prog_def run_bind Let_def split: prod.split sum.split)

lemma run_prog_trace:
  assumes "run_prog serve m w = (a, trace, w')"
  shows "a \<in> ends_of m" and "fst ` set trace \<subseteq> calls_of m" and "within m n \<Longrightarrow> length trace \<le> n"
proof -
  have "a \<in> ends_of m \<and> fst ` set trace \<subseteq> calls_of m \<and> (\<forall>n. within m n \<longrightarrow> length trace \<le> n)"
    using assms
  proof (induction m arbitrary: w a trace w')
    case (Done b)
    then show ?case by simp
  next
    case (Ask c k)
    obtain r w1 where s: "serve w c = (r, w1)" by fastforce
    obtain t where t: "trace = (c, r) # t" "run_prog serve (k r) w1 = (a, t, w')"
      using Ask.prems s by (auto split: prod.splits)
    from Ask.IH [OF _ t(2)] have ih: "a \<in> ends_of (k r)" "fst ` set t \<subseteq> calls_of (k r)"
      "\<And>n. within (k r) n \<Longrightarrow> length t \<le> n" by auto
    have "length trace \<le> n" if "within (Ask c k) n" for n
      using that ih(3) [of "n - 1"] t(1) by (cases n) auto
    with ih t(1) show ?case by auto
  qed
  then show "a \<in> ends_of m" and "fst ` set trace \<subseteq> calls_of m" and "within m n \<Longrightarrow> length trace \<le> n"
    by blast+
qed

section \<open>The client (gateway.rs)\<close>

datatype gateway_failure =
    InvalidUrl
  | TlsConfig string
  | RequestFailed
  | UpstreamStatus nat "(string \<times> bool) option"

record tool_env =
  te_config :: mcp_config
  te_joins :: "string \<Rightarrow> bool"
  te_from_slice :: "string \<Rightarrow> json option"
  te_utf8_lossy :: "string \<Rightarrow> string"
  te_parse_uuid :: "string \<Rightarrow> string option"

definition ERROR_BODY_MAX_BYTES :: nat where "ERROR_BODY_MAX_BYTES = 1024"

definition ERROR_SUMMARY_MAX_CHARS :: nat where "ERROR_SUMMARY_MAX_CHARS = 256"

definition sanitize_summary :: "string \<Rightarrow> string" where
  "sanitize_summary input = trim (filter (\<lambda>ch. \<not> is_control ch) input)"

text \<open>The flag says that an ellipsis (U+2026) follows the text.\<close>

definition truncate_summary :: "string \<Rightarrow> string \<times> bool" where
  "truncate_summary input =
     (if length input \<le> ERROR_SUMMARY_MAX_CHARS then (input, False)
      else (take ERROR_SUMMARY_MAX_CHARS input, True))"

definition summary_part :: "json \<Rightarrow> string \<times> string \<Rightarrow> string list" where
  "summary_part obj key_label =
     (let (key, label) = key_label in
      case Option.bind (json_get obj key) as_str of
        None \<Rightarrow> []
      | Some val \<Rightarrow>
          (let trimmed = sanitize_summary val in
           if trimmed \<noteq> [] then [label @ ''='' @ trimmed] else []))"

definition summary_keys :: "(string \<times> string) list" where
  "summary_keys = [(''error'', ''error''), (''error_description'', ''error_description''),
     (''errorMessage'', ''error_message''), (''message'', ''message'')]"

definition error_parts :: "json option \<Rightarrow> string list" where
  "error_parts v =
     (case v of Some (JObj fs) \<Rightarrow> concat (map (summary_part (JObj fs)) summary_keys) | _ \<Rightarrow> [])"

definition summarize_error_body ::
  "(string \<Rightarrow> json option) \<Rightarrow> (string \<Rightarrow> string) \<Rightarrow> string \<Rightarrow> (string \<times> bool) option" where
  "summarize_error_body from_slice utf8_lossy bytes =
     (if bytes = [] then None
      else
        (let slice = (if ERROR_BODY_MAX_BYTES < length bytes then take ERROR_BODY_MAX_BYTES bytes
                      else bytes);
             parts = error_parts (from_slice slice)
         in if parts \<noteq> [] then Some (truncate_summary (join ''; '' parts))
            else
              (let trimmed = sanitize_summary (utf8_lossy slice) in
               if trimmed = [] then None else Some (truncate_summary trimmed))))"

definition status_success :: "nat \<Rightarrow> bool" where
  "status_success status = (200 \<le> status \<and> status \<le> 299)"

definition read_reply :: "tool_env \<Rightarrow> nat \<Rightarrow> string \<Rightarrow> gateway_failure + json" where
  "read_reply te status bytes =
     (if \<not> status_success status then
        Inl (UpstreamStatus status (summarize_error_body (te_from_slice te) (te_utf8_lossy te) bytes))
      else if bytes = [] then Inr JNull
      else (case te_from_slice te bytes of None \<Rightarrow> Inl RequestFailed | Some v \<Rightarrow> Inr v))"

fun answer :: "tool_env \<Rightarrow> gateway_reply \<Rightarrow> gateway_failure + json" where
  "answer te SendTimedOut = Inl RequestFailed"
| "answer te SendError = Inl RequestFailed"
| "answer te BodyError = Inl RequestFailed"
| "answer te (Reply status bytes) = read_reply te status bytes"

definition gateway_request ::
  "caller \<Rightarrow> http_method \<Rightarrow> string \<Rightarrow> (string \<times> string) list \<Rightarrow> json option \<Rightarrow> gateway_call" where
  "gateway_request ctx m path query body =
     \<lparr>gq_method = m, gq_path = path, gq_query = query, gq_body = body,
      gq_bearer = cl_raw_token ctx, gq_request_id = cl_request_id ctx, gq_actor_id = cl_actor_id ctx\<rparr>"

definition request_json ::
  "tool_env \<Rightarrow> caller \<Rightarrow> http_method \<Rightarrow> string \<Rightarrow> (string \<times> string) list \<Rightarrow> json option \<Rightarrow>
     (gateway_failure + json) prog" where
  "request_json te ctx m path query body =
     (if \<not> te_joins te path then Done (Inl InvalidUrl)
      else Ask (gateway_request ctx m path query body) (\<lambda>reply. Done (answer te reply)))"

text \<open>What the client counts of a run: a time-out of \<open>send\<close>.\<close>

fun count_timeouts :: "(gateway_call \<times> gateway_reply) list \<Rightarrow> metrics \<Rightarrow> metrics" where
  "count_timeouts [] m = m"
| "count_timeouts ((c, reply) # trace) m =
     count_timeouts trace
       (if reply = SendTimedOut then record_request_timeout ''gateway'' m else m)"

subsection \<open>Lemmas\<close>

lemma request_json_calls [prog_simps]:
  "calls_of (request_json te ctx m path query body) =
     (if te_joins te path then {gateway_request ctx m path query body} else {})"
  by (auto simp: request_json_def)

text \<open>The bound of a program that is a chain of requests, step by step.\<close>

named_theorems within_intros "structural rules for the number of requests"

lemma within_request_json [within_intros]: "0 < n \<Longrightarrow> within (request_json te ctx m path query body) n"
  by (simp add: request_json_def)

lemma within_Done [simp, within_intros]: "within (Done a) n"
  by simp

lemma within_map [simp]: "within (map_prog f m) n \<longleftrightarrow> within m n"
  unfolding map_prog_def by (induction m arbitrary: n) auto

lemma within_then [within_intros]:
  "\<lbrakk>0 < n; within m 1; \<And>a. within (f a) (n - 1)\<rbrakk> \<Longrightarrow> within (try_prog m f) n"
  using within_try [of m 1 f "n - 1"] by simp

lemma within_bind_then [within_intros]:
  "\<lbrakk>0 < n; within m 1; \<And>a. within (f a) (n - 1)\<rbrakk> \<Longrightarrow> within (bind_prog m f) n"
  using within_bind [of m 1 f "n - 1"] by simp

lemma gateway_request_simps [simp]:
  "gq_method (gateway_request ctx m path query body) = m"
  "gq_path (gateway_request ctx m path query body) = path"
  "gq_query (gateway_request ctx m path query body) = query"
  "gq_body (gateway_request ctx m path query body) = body"
  "gq_bearer (gateway_request ctx m path query body) = cl_raw_token ctx"
  "gq_request_id (gateway_request ctx m path query body) = cl_request_id ctx"
  "gq_actor_id (gateway_request ctx m path query body) = cl_actor_id ctx"
  by (simp_all add: gateway_request_def)

lemma set_trim: "set (trim s) \<subseteq> set s"
proof -
  have "set (trim_end_by is_ws w) \<subseteq> set w" for w
    unfolding trim_end_by_def by (metis set_dropWhileD set_rev subsetI)
  then show ?thesis unfolding trim_def trim_by_def by (meson set_dropWhileD subset_iff)
qed

lemma sanitize_summary_clean: "c \<in> set (sanitize_summary s) \<Longrightarrow> \<not> is_control c"
  using set_trim [of "filter (\<lambda>ch. \<not> is_control ch) s"] by (auto simp: sanitize_summary_def)

lemma set_join: "set (join sep ss) \<subseteq> set sep \<union> (\<Union>s \<in> set ss. set s)"
  by (induction sep ss rule: join.induct) auto

lemma join_nonempty: "\<lbrakk>ss \<noteq> []; \<forall>s \<in> set ss. s \<noteq> []\<rbrakk> \<Longrightarrow> join sep ss \<noteq> []"
  by (induction sep ss rule: join.induct) auto

lemma truncate_summary_bounded:
  assumes "s \<noteq> []" and "\<And>c. c \<in> set s \<Longrightarrow> \<not> is_control c"
  shows "fst (truncate_summary s) \<noteq> [] \<and> length (fst (truncate_summary s)) \<le> 256 \<and>
    \<not> list_ex is_control (fst (truncate_summary s))"
  using assms by (auto simp: truncate_summary_def ERROR_SUMMARY_MAX_CHARS_def list_ex_iff
      dest: in_set_takeD)

lemma summary_part_clean:
  assumes "p \<in> set (concat (map (summary_part obj) summary_keys))"
  shows "p \<noteq> []" and "c \<in> set p \<Longrightarrow> \<not> is_control c"
proof -
  have labels: "\<forall>(k, l) \<in> set summary_keys. \<forall>c \<in> set (l @ ''=''). \<not> is_control c"
    unfolding summary_keys_def by code_simp
  from assms obtain k l v where kl: "(k, l) \<in> set summary_keys" and p: "p = l @ ''='' @ sanitize_summary v"
    by (auto simp: summary_part_def Let_def split: option.splits if_splits)
  show "p \<noteq> []" using p by simp
  show "\<not> is_control c" if "c \<in> set p"
    using that kl labels sanitize_summary_clean unfolding p by fastforce
qed

lemma error_parts_clean: "p \<in> set (error_parts v) \<Longrightarrow> p \<noteq> [] \<and> (\<forall>c \<in> set p. \<not> is_control c)"
  unfolding error_parts_def using summary_part_clean
  by (cases v; cases "the v") (simp_all only: option.case json.case option.sel list.set empty_iff, blast+)

section \<open>Property\<close>


end
