(* ===== verification/Mcp_Tools.thy ===== *)
theory Mcp_Tools
  imports Gateway_Client
begin

text \<open>
  What the tools of the MCP server share: the results they give (\<open>errors.rs\<close>), the validation of
  their arguments (\<open>tools/validation.rs\<close>), the scope and role gates (\<open>tools/shared.rs\<close>) and the
  client that sends their requests to the gateway (\<open>gateway.rs\<close>).

  A tool is a program that asks the gateway and goes on with what it answers: a tree that ends in
  \<open>Result<CallToolResult, McpError>\<close> and branches on every possible reply, so that a statement
  about its requests holds whatever the gateway does. URL joining, UUID and JSON parsing are
  fields of \<open>tool_env\<close>.
\<close>

section \<open>Results of a tool (errors.rs)\<close>

text \<open>
  \<open>ToolErrorPayload\<close> of the toolkit with its builder calls: the extra entries in the order of the
  \<open>with_extra\<close> calls. \<open>is_error\<close> is what the constructors of \<open>CallToolResult\<close> set.
\<close>

record error_payload =
  ep_code :: string
  ep_message :: string
  ep_request_id :: string
  ep_hint :: "string option"
  ep_extra :: "(string \<times> json) list"

datatype tool_result =
    Structured json
  | StructuredPayload error_payload
  | StructuredError error_payload
  | TextResult string

fun is_error :: "tool_result \<Rightarrow> bool" where
  "is_error (StructuredError _) = True"
| "is_error _ = False"

text \<open>
  The errors of the protocol: a rejected argument (code -32602) and an internal error, with the
  data some of them carry.
\<close>

datatype error_data =
    NoData
  | UpstreamData nat "(string \<times> bool) option"
  | JsonData json

datatype mcp_error = InvalidParams string | InternalError string error_data

definition new_payload :: "string \<Rightarrow> string \<Rightarrow> string \<Rightarrow> error_payload" where
  "new_payload code message request_id =
     \<lparr>ep_code = code, ep_message = message, ep_request_id = request_id, ep_hint = None, ep_extra = []\<rparr>"

definition tool_error :: "string \<Rightarrow> string \<Rightarrow> string \<Rightarrow> tool_result" where
  "tool_error code message request_id = StructuredError (new_payload code message request_id)"

definition tool_error_with_hint :: "string \<Rightarrow> string \<Rightarrow> string \<Rightarrow> string \<Rightarrow> tool_result" where
  "tool_error_with_hint code message request_id hint =
     StructuredError ((new_payload code message request_id)\<lparr>ep_hint := Some hint\<rparr>)"

definition extra :: "string \<Rightarrow> ('a \<Rightarrow> json) \<Rightarrow> 'a option \<Rightarrow> (string \<times> json) list" where
  "extra name f v = (case v of None \<Rightarrow> [] | Some x \<Rightarrow> [(name, f x)])"

definition tool_error_payload_with_context ::
  "string \<Rightarrow> string \<Rightarrow> string \<Rightarrow> string option \<Rightarrow> string option \<Rightarrow> string option \<Rightarrow> json option \<Rightarrow>
     bool \<Rightarrow> error_payload" where
  "tool_error_payload_with_context code message request_id resource client_id scope details machine_hint =
     (new_payload code message request_id)\<lparr>ep_extra :=
        (if machine_hint then [(''machine_hint'', JBool True)] else []) @
        extra ''resource'' JStr resource @ extra ''client_id'' JStr client_id @
        extra ''scope'' JStr scope @ extra ''details'' id details\<rparr>"

definition tool_error_with_context_and_status ::
  "string \<Rightarrow> string \<Rightarrow> string \<Rightarrow> string option \<Rightarrow> string option \<Rightarrow> string option \<Rightarrow> json option \<Rightarrow>
     bool \<Rightarrow> tool_result" where
  "tool_error_with_context_and_status code message request_id resource client_id scope details machine_hint =
     StructuredPayload (tool_error_payload_with_context code message request_id resource client_id
       scope details machine_hint)"

definition tool_error_with_context ::
  "string \<Rightarrow> string \<Rightarrow> string \<Rightarrow> string option \<Rightarrow> string option \<Rightarrow> string option \<Rightarrow> json option \<Rightarrow>
     tool_result" where
  "tool_error_with_context code message request_id resource client_id scope details =
     tool_error_with_context_and_status code message request_id resource client_id scope details False"

definition tool_error_with_context_and_hint ::
  "string \<Rightarrow> string \<Rightarrow> string \<Rightarrow> string option \<Rightarrow> string option \<Rightarrow> string option \<Rightarrow> json option \<Rightarrow>
     string option \<Rightarrow> tool_result" where
  "tool_error_with_context_and_hint code message request_id resource client_id scope details hint =
     (let context_details = (case details of
            Some d \<Rightarrow> Some d
          | None \<Rightarrow> map_option (\<lambda>value. JObj [(''hint'', JStr value)]) hint);
          payload = tool_error_payload_with_context code message request_id resource client_id scope
            context_details False
      in StructuredPayload (case hint of None \<Rightarrow> payload | Some h \<Rightarrow> payload\<lparr>ep_hint := Some h\<rparr>))"

definition tool_text_result :: "string \<Rightarrow> tool_result" where
  "tool_text_result message = TextResult message"

section \<open>Validation (tools/validation.rs)\<close>

definition realm_char :: "char \<Rightarrow> bool" where
  "realm_char c = (is_alpha c \<or> is_digit c \<or> c = CHR ''_'' \<or> c = CHR ''-'')"

definition validate_realm_name :: "string \<Rightarrow> mcp_error + unit" where
  "validate_realm_name realm =
     (if realm = [] then Inl (InvalidParams ''realm name cannot be empty'')
      else if \<not> list_all realm_char realm then
        Inl (InvalidParams (''invalid realm name format: '' @ [CHR 0x27] @ realm @ [CHR 0x27] @
          '' (must be alphanumeric, '' @ [CHR 0x27] @ ''-'' @ [CHR 0x27] @ '', or '' @ [CHR 0x27] @ ''_'' @
          [CHR 0x27] @ '')''))
      else Inr ())"

definition validate_uuid :: "(string \<Rightarrow> string option) \<Rightarrow> string \<Rightarrow> string \<Rightarrow> mcp_error + unit" where
  "validate_uuid parse_uuid v field_name =
     (if parse_uuid v = None then
        Inl (InvalidParams (''invalid '' @ field_name @ '': '' @ [CHR 0x27] @ v @ [CHR 0x27] @
          '' (must be a valid UUID)''))
      else Inr ())"

definition validate_no_path_traversal :: "string \<Rightarrow> string \<Rightarrow> mcp_error + unit" where
  "validate_no_path_traversal input field_name =
     (if contains_char (CHR ''/'') input \<or> contains_char (CHR 0x5C) input \<or> contains_str ''..'' input then
        Inl (InvalidParams (''invalid characters in '' @ field_name @ '': path traversal detected''))
      else Inr ())"

section \<open>Scope and role gates (tools/shared.rs)\<close>

definition auth_from_parts :: "caller option \<Rightarrow> tool_result + caller" where
  "auth_from_parts parts =
     (case parts of Some ctx \<Rightarrow> Inr ctx
      | None \<Rightarrow> Inl (tool_error ''auth.missing_context'' ''Missing auth context.'' ''unknown''))"

definition require_scopes :: "caller \<Rightarrow> string list \<Rightarrow> tool_result + unit" where
  "require_scopes ctx required =
     (if required = [] then Inr ()
      else
        (let missing = filter (\<lambda>scope. \<not> List.member (cl_scopes ctx) scope) required in
         if missing = [] then Inr ()
         else Inl (tool_error_with_hint ''auth.missing_scopes''
           (''Token missing required scopes: '' @ join '', '' missing) (cl_request_id ctx)
           ''Request a token with the required scopes.'')))"

datatype role_gate_kind = GateRead | GateWrite | GateNone

definition write_scopes :: "scope_map \<Rightarrow> string list" where
  "write_scopes m = concat
     [ts_write (sm_users m), ts_write (sm_groups m), ts_write (sm_roles m), ts_write (sm_clients m),
      ts_secrets (sm_clients m), ts_write (sm_client_scopes m), ts_write (sm_identity_providers m),
      ts_write (sm_realms m), ts_admin (sm_realms m), es_admin (sm_events m)]"

definition read_scopes :: "scope_map \<Rightarrow> string list" where
  "read_scopes m = concat
     [ts_read (sm_users m), ts_read (sm_groups m), ts_read (sm_roles m), ts_read (sm_clients m),
      ts_read (sm_client_scopes m), ts_read (sm_identity_providers m), ts_read (sm_realms m),
      es_read (sm_events m), sm_tokens_read m, sm_observability_read m]"

definition classify_scopes :: "string list \<Rightarrow> scope_map \<Rightarrow> role_gate_kind" where
  "classify_scopes required m =
     (if list_ex (\<lambda>scope. List.member (write_scopes m) scope) required then GateWrite
      else if list_ex (\<lambda>scope. List.member (read_scopes m) scope) required then GateRead
      else GateNone)"

definition has_any_role :: "string list \<Rightarrow> string list \<Rightarrow> bool" where
  "has_any_role roles required = list_ex (\<lambda>role. List.member roles role) required"

text \<open>The accepted roles are collected into a set, whose order no result depends on.\<close>

definition require_roles_for_scopes :: "caller \<Rightarrow> string list \<Rightarrow> mcp_config \<Rightarrow> tool_result + unit" where
  "require_roles_for_scopes ctx required cfg =
     (let gate = classify_scopes required (mc_scope_map cfg);
          read_roles = mc_role_read cfg;
          write_roles = mc_role_write cfg
      in if gate = GateNone then Inr ()
         else if read_roles = [] \<and> write_roles = [] then Inr ()
         else if gate = GateWrite then
           (if has_any_role (cl_roles ctx) write_roles then Inr ()
            else Inl (tool_error_with_hint ''auth.missing_roles''
              (''Token missing required roles for write access: '' @ join '', '' write_roles)
              (cl_request_id ctx) ''Assign a write role to access this tool.''))
         else if has_any_role (cl_roles ctx) (read_roles @ write_roles) then Inr ()
         else Inl (tool_error_with_hint ''auth.missing_roles''
           (''Token missing required roles for read access: '' @ join '', '' read_roles)
           (cl_request_id ctx) ''Assign a read or write role to access this tool.''))"

definition ensure_secret_tools_enabled :: "caller \<Rightarrow> mcp_config \<Rightarrow> tool_result + unit" where
  "ensure_secret_tools_enabled ctx cfg =
     (if mc_enable_secret_tools cfg then Inr ()
      else Inl (tool_error_with_hint ''auth.secrets_disabled''
        ''Secret tools are disabled for this deployment.'' (cl_request_id ctx)
        ''Enable KC_ADMIN_MCP_ENABLE_SECRET_TOOLS to use secret tools.''))"

section \<open>The steps every tool is made of\<close>

type_synonym tool = "(mcp_error + tool_result) prog"

text \<open>
  The opening of a gated tool: the caller, its scopes, its roles; a refusal is a result of the
  tool, not an error. \<open>or_return\<close> is the early return of a result, \<open>or_fail\<close> is \<open>?\<close>.
\<close>

definition authorize_tool :: "mcp_config \<Rightarrow> caller option \<Rightarrow> string list \<Rightarrow> tool_result + caller" where
  "authorize_tool cfg parts scopes =
     and_then (auth_from_parts parts) (\<lambda>ctx.
     and_then (require_scopes ctx scopes) (\<lambda>_.
     and_then (require_roles_for_scopes ctx scopes cfg) (\<lambda>_.
     Inr ctx)))"

definition or_return :: "tool_result + 'a \<Rightarrow> ('a \<Rightarrow> tool) \<Rightarrow> tool" where
  "or_return r k = (case r of Inl err \<Rightarrow> Done (Inr err) | Inr a \<Rightarrow> k a)"

definition or_fail :: "mcp_error + 'a \<Rightarrow> ('a \<Rightarrow> tool) \<Rightarrow> tool" where
  "or_fail r k = (case r of Inl err \<Rightarrow> Done (Inl err) | Inr a \<Rightarrow> k a)"

abbreviation validated :: "mcp_error + unit \<Rightarrow> tool \<Rightarrow> tool" where
  "validated r m \<equiv> or_fail r (\<lambda>_. m)"

abbreviation reply_json :: "(string \<times> json) list \<Rightarrow> tool" where
  "reply_json fs \<equiv> Done (Inr (Structured (JObj fs)))"

abbreviation request_failed :: mcp_error where
  "request_failed \<equiv> InternalError ''gateway request failed'' NoData"

text \<open>A request whose failures are all mapped to one internal error.\<close>

definition call_gateway ::
  "tool_env \<Rightarrow> caller \<Rightarrow> http_method \<Rightarrow> string \<Rightarrow> (string \<times> string) list \<Rightarrow> json option \<Rightarrow>
     (mcp_error + json) prog" where
  "call_gateway te ctx m path query body =
     map_prog (map_err (\<lambda>_. request_failed)) (request_json te ctx m path query body)"

definition json_items :: "json \<Rightarrow> json list" where
  "json_items payload = (case payload of JArr items \<Rightarrow> items | _ \<Rightarrow> [])"

definition json_opt :: "('a \<Rightarrow> json) \<Rightarrow> 'a option \<Rightarrow> json" where
  "json_opt f v = (case v of None \<Rightarrow> JNull | Some x \<Rightarrow> f x)"

definition json_i64 :: "64 word \<Rightarrow> json" where
  "json_i64 w = JNum (if sint w < 0 then NegInt w else PosInt w)"

definition json_u32 :: "32 word \<Rightarrow> json" where
  "json_u32 w = JNum (PosInt (ucast w))"

text \<open>\<open>unwrap_or\<close>.\<close>

definition or_else :: "'a \<Rightarrow> 'a option \<Rightarrow> 'a" where
  "or_else d v = (case v of None \<Rightarrow> d | Some x \<Rightarrow> x)"

definition opt_param :: "string \<Rightarrow> ('a \<Rightarrow> string) \<Rightarrow> 'a option \<Rightarrow> (string \<times> string) list" where
  "opt_param name f v = (case v of Some x \<Rightarrow> [(name, f x)] | None \<Rightarrow> [])"

definition show_u32 :: "32 word \<Rightarrow> string" where
  "show_u32 w = show_nat (unat w)"

definition show_bool :: "bool \<Rightarrow> string" where
  "show_bool b = (if b then ''true'' else ''false'')"

text \<open>\<open>filter_map\<close> over the items of a reply that is an array; any other reply has none.\<close>

definition decode_items :: "(json \<Rightarrow> 'a option) \<Rightarrow> json \<Rightarrow> 'a list" where
  "decode_items decode payload = List.map_filter decode (json_items payload)"

section \<open>Lemmas\<close>

lemma require_scopes_Inr [simp]:
  "require_scopes ctx required = Inr u \<longleftrightarrow> set required \<subseteq> set (cl_scopes ctx)"
  by (auto simp: require_scopes_def filter_empty_conv Let_def)

lemma has_any_role_iff [simp]: "has_any_role roles required \<longleftrightarrow> set roles \<inter> set required \<noteq> {}"
  by (auto simp: has_any_role_def list_ex_iff)

lemma classify_scopes_iff:
  "classify_scopes required m = GateWrite \<longleftrightarrow> set required \<inter> set (write_scopes m) \<noteq> {}"
  "classify_scopes required m = GateNone \<longleftrightarrow>
     set required \<inter> (set (write_scopes m) \<union> set (read_scopes m)) = {}"
  "classify_scopes required m = GateRead \<longleftrightarrow>
     set required \<inter> set (write_scopes m) = {} \<and> set required \<inter> set (read_scopes m) \<noteq> {}"
  by (auto simp: classify_scopes_def list_ex_iff)

lemma require_roles_Inr:
  "require_roles_for_scopes ctx required cfg = Inr u \<longleftrightarrow>
     (case classify_scopes required (mc_scope_map cfg) of
        GateNone \<Rightarrow> True
      | GateWrite \<Rightarrow> mc_role_read cfg = [] \<and> mc_role_write cfg = [] \<or>
          set (cl_roles ctx) \<inter> set (mc_role_write cfg) \<noteq> {}
      | GateRead \<Rightarrow> mc_role_read cfg = [] \<and> mc_role_write cfg = [] \<or>
          set (cl_roles ctx) \<inter> (set (mc_role_read cfg) \<union> set (mc_role_write cfg)) \<noteq> {})"
  by (cases "classify_scopes required (mc_scope_map cfg)")
    (auto simp: require_roles_for_scopes_def Let_def)

lemma auth_from_parts_Inr [simp]: "auth_from_parts parts = Inr ctx \<longleftrightarrow> parts = Some ctx"
  by (auto simp: auth_from_parts_def split: option.splits)

lemma authorize_tool_Inr:
  "authorize_tool cfg parts scopes = Inr ctx \<longleftrightarrow>
     parts = Some ctx \<and> set scopes \<subseteq> set (cl_scopes ctx) \<and>
     require_roles_for_scopes ctx scopes cfg = Inr ()"
  by (auto simp: authorize_tool_def)

text \<open>A refusal is an error result.\<close>

lemma authorize_tool_Inl: "authorize_tool cfg parts scopes = Inl err \<Longrightarrow> \<exists>e. err = StructuredError e"
  by (auto simp: authorize_tool_def and_then_def auth_from_parts_def require_scopes_def
      require_roles_for_scopes_def tool_error_def tool_error_with_hint_def Let_def
      split: option.splits sum.splits if_splits)

lemma authorize_ungated: "authorize_tool cfg parts [] = auth_from_parts parts"
  by (cases parts) (simp_all add: authorize_tool_def auth_from_parts_def require_scopes_def
      require_roles_for_scopes_def classify_scopes_def)

lemma validate_uuid_Inr [simp]: "validate_uuid parse v field = Inr u \<longleftrightarrow> parse v \<noteq> None"
  by (simp add: validate_uuid_def)

lemma in_calls_or_return [prog_simps]:
  "q \<in> calls_of (or_return r k) \<longleftrightarrow> (\<exists>a. r = Inr a \<and> q \<in> calls_of (k a))"
  by (cases r) (simp_all add: or_return_def)

lemma in_calls_or_fail [prog_simps]:
  "q \<in> calls_of (or_fail r k) \<longleftrightarrow> (\<exists>a. r = Inr a \<and> q \<in> calls_of (k a))"
  by (cases r) (simp_all add: or_fail_def)

lemma calls_of_call_gateway [prog_simps]:
  "calls_of (call_gateway te ctx m path query body) =
     (if te_joins te path then {gateway_request ctx m path query body} else {})"
  by (simp add: call_gateway_def prog_simps)

lemma run_try_call:
  "run_prog serve (try_prog (call_gateway te ctx m path query body) f) w =
     (if te_joins te path then
        (let (reply, w1) = serve w (gateway_request ctx m path query body) in
         case answer te reply of
           Inl _ \<Rightarrow> (Inl request_failed, [(gateway_request ctx m path query body, reply)], w1)
         | Inr payload \<Rightarrow>
             (let (r, trace, w') = run_prog serve (f payload) w1
              in (r, (gateway_request ctx m path query body, reply) # trace, w')))
      else (Inl request_failed, [], w))"
  by (auto simp: try_prog_def call_gateway_def map_prog_def request_json_def Let_def
      split: prod.split sum.split)

lemma trace_call:
  "trace_of serve (call_gateway te ctx m path query body) w =
     (if te_joins te path
      then [(gateway_request ctx m path query body, fst (serve w (gateway_request ctx m path query body)))]
      else [])"
  by (simp add: call_gateway_def map_prog_def request_json_def split: prod.split)

lemma trace_try_call:
  "trace_of serve (try_prog (call_gateway te ctx m path query body) f) w =
     (if te_joins te path then
        (let (reply, w1) = serve w (gateway_request ctx m path query body) in
         (gateway_request ctx m path query body, reply) #
         (case answer te reply of Inl _ \<Rightarrow> [] | Inr payload \<Rightarrow> trace_of serve (f payload) w1))
      else [])"
  by (auto simp: run_try_call Let_def split: prod.split sum.split)

subsection \<open>All requests of a program\<close>

definition sends :: "(gateway_call \<Rightarrow> bool) \<Rightarrow> 'a prog \<Rightarrow> bool" where
  "sends P m \<longleftrightarrow> (\<forall>q \<in> calls_of m. P q)"

named_theorems sends_intros "structural rules for the requests of a program"

lemma sends_Done [simp, sends_intros]: "sends P (Done a)"
  by (simp add: sends_def)

lemma sends_request [sends_intros]:
  "(te_joins te path \<Longrightarrow> P (gateway_request ctx m path query body)) \<Longrightarrow>
     sends P (request_json te ctx m path query body)"
  by (simp add: sends_def prog_simps)

lemma sends_call [sends_intros]:
  "(te_joins te path \<Longrightarrow> P (gateway_request ctx m path query body)) \<Longrightarrow>
     sends P (call_gateway te ctx m path query body)"
  by (simp add: sends_def prog_simps)

lemma sends_bind [sends_intros]:
  "\<lbrakk>sends P m; \<And>a. sends P (f a)\<rbrakk> \<Longrightarrow> sends P (bind_prog m f)"
  by (auto simp: sends_def prog_simps)

lemma sends_try [sends_intros]:
  "\<lbrakk>sends P m; \<And>a. sends P (f a)\<rbrakk> \<Longrightarrow> sends P (try_prog m f)"
  by (auto simp: sends_def prog_simps)

lemma sends_map [sends_intros]: "sends P m \<Longrightarrow> sends P (map_prog f m)"
  by (simp add: sends_def prog_simps)

lemma sends_fold [sends_intros]:
  "(\<And>x s. sends P (f x s)) \<Longrightarrow> sends P (fold_prog f xs s)"
  by (induction xs arbitrary: s) (auto intro: sends_intros)

lemma sends_or_return [sends_intros]: "(\<And>a. r = Inr a \<Longrightarrow> sends P (k a)) \<Longrightarrow> sends P (or_return r k)"
  by (auto simp: sends_def prog_simps)

lemma sends_or_fail [sends_intros]: "(\<And>a. r = Inr a \<Longrightarrow> sends P (k a)) \<Longrightarrow> sends P (or_fail r k)"
  by (auto simp: sends_def prog_simps)

lemma sends_if [sends_intros]:
  "\<lbrakk>b \<Longrightarrow> sends P m; \<not> b \<Longrightarrow> sends P m'\<rbrakk> \<Longrightarrow> sends P (if b then m else m')"
  by simp

lemma sends_case_option [sends_intros]:
  "\<lbrakk>x = None \<Longrightarrow> sends P m; \<And>a. x = Some a \<Longrightarrow> sends P (f a)\<rbrakk> \<Longrightarrow>
     sends P (case x of None \<Rightarrow> m | Some a \<Rightarrow> f a)"
  by (cases x) simp_all

lemma sends_case_sum [sends_intros]:
  "\<lbrakk>\<And>a. x = Inl a \<Longrightarrow> sends P (f a); \<And>b. x = Inr b \<Longrightarrow> sends P (g b)\<rbrakk> \<Longrightarrow>
     sends P (case x of Inl a \<Rightarrow> f a | Inr b \<Rightarrow> g b)"
  by (cases x) simp_all

lemma sends_case_prod [sends_intros]:
  "(\<And>a b. x = (a, b) \<Longrightarrow> sends P (f a b)) \<Longrightarrow> sends P (case x of (a, b) \<Rightarrow> f a b)"
  by (cases x) simp

lemma sends_case_list [sends_intros]:
  "\<lbrakk>x = [] \<Longrightarrow> sends P m; \<And>y ys. x = y # ys \<Longrightarrow> sends P (f y ys)\<rbrakk> \<Longrightarrow>
     sends P (case x of [] \<Rightarrow> m | y # ys \<Rightarrow> f y ys)"
  by (cases x) simp_all

lemma sends_case_failure [sends_intros]:
  "\<lbrakk>e = InvalidUrl \<Longrightarrow> sends P m1; \<And>t. e = TlsConfig t \<Longrightarrow> sends P (g t);
     e = RequestFailed \<Longrightarrow> sends P m2;
     \<And>st sm. e = UpstreamStatus st sm \<Longrightarrow> sends P (f st sm)\<rbrakk> \<Longrightarrow>
     sends P (case e of InvalidUrl \<Rightarrow> m1 | TlsConfig t \<Rightarrow> g t | RequestFailed \<Rightarrow> m2 | UpstreamStatus st sm \<Rightarrow> f st sm)"
  by (cases e) simp_all

lemma sends_mono: "\<lbrakk>sends P m; \<And>q. P q \<Longrightarrow> Q q\<rbrakk> \<Longrightarrow> sends Q m"
  by (auto simp: sends_def)

text \<open>A request made for a caller carries the caller's token and its correlation ids.\<close>

definition made_for :: "caller \<Rightarrow> gateway_call \<Rightarrow> bool" where
  "made_for ctx q \<longleftrightarrow> gq_bearer q = cl_raw_token ctx \<and> gq_request_id q = cl_request_id ctx \<and>
     gq_actor_id q = cl_actor_id ctx"

lemma made_for_request [simp, intro!]: "made_for ctx (gateway_request ctx m path query body)"
  by (simp add: made_for_def)

definition is_get :: "gateway_call \<Rightarrow> bool" where
  "is_get q \<longleftrightarrow> gq_method q = GET"

lemma is_get_request [simp, intro!]: "is_get (gateway_request ctx GET path query body)"
  by (simp add: is_get_def gateway_request_def)

text \<open>
  A list of scopes that asks for something, and for no scope that counts as a write scope in the default
  scope map.
\<close>

definition read_only :: "string list \<Rightarrow> bool" where
  "read_only scopes \<longleftrightarrow> scopes \<noteq> [] \<and> set scopes \<inter> set (write_scopes default_scope_map) = {}"

lemma write_not_read_only [simp]:
  "\<not> read_only []" "\<not> read_only (ts_write (sm_users default_scope_map))"
  "\<not> read_only (ts_write (sm_groups default_scope_map))" "\<not> read_only (ts_write (sm_roles default_scope_map))"
  "\<not> read_only (ts_write (sm_clients default_scope_map))"
  "\<not> read_only (ts_write (sm_clients default_scope_map) @ ts_secrets (sm_clients default_scope_map))"
  "\<not> read_only (ts_write (sm_client_scopes default_scope_map))"
  "\<not> read_only (ts_write (sm_identity_providers default_scope_map))"
  "\<not> read_only (ts_write (sm_realms default_scope_map))" "\<not> read_only (ts_admin (sm_realms default_scope_map))"
  "\<not> read_only (es_admin (sm_events default_scope_map))"
  by (simp_all add: read_only_def write_scopes_def default_scope_map_def)

subsection \<open>The interface: a family of gated tools\<close>

text \<open>
  What the tools of a family promise: a request leaves only for a caller that passed the gate of
  the call, and it carries that caller's token. From this the guarantees of a deployment follow
  for every family alike.
\<close>

locale tool_family =
  fixes tool :: "tool_env \<Rightarrow> 'd \<Rightarrow> caller option \<Rightarrow> 'call \<Rightarrow> tool"
    and gate :: "scope_map \<Rightarrow> 'call \<Rightarrow> string list"
  assumes gated: "q \<in> calls_of (tool te de parts call) \<Longrightarrow>
      \<exists>ctx. authorize_tool (te_config te) parts (gate (mc_scope_map (te_config te)) call) = Inr ctx \<and>
            made_for ctx q"
begin

lemma sends_nothing_unauthenticated: "calls_of (tool te de None call) = {}"
  using gated [of _ te de None call] by (auto simp: authorize_tool_Inr)

lemma sends_for_caller:
  assumes "q \<in> calls_of (tool te de parts call)"
  obtains ctx where "parts = Some ctx" and "made_for ctx q"
    and "set (gate (mc_scope_map (te_config te)) call) \<subseteq> set (cl_scopes ctx)"
    and "require_roles_for_scopes ctx (gate (mc_scope_map (te_config te)) call) (te_config te) = Inr ()"
  using gated [OF assms] by (auto simp: authorize_tool_Inr)

lemma sends_needs_scopes:
  assumes "q \<in> calls_of (tool te de (Some ctx) call)"
  shows "set (gate (mc_scope_map (te_config te)) call) \<subseteq> set (cl_scopes ctx)"
  using gated [OF assms] by (auto simp: authorize_tool_Inr)

lemma sends_needs_write_role:
  assumes "q \<in> calls_of (tool te de (Some ctx) call)"
    and "set (gate (mc_scope_map (te_config te)) call) \<inter> set (write_scopes (mc_scope_map (te_config te))) \<noteq> {}"
    and "mc_role_read (te_config te) \<noteq> [] \<or> mc_role_write (te_config te) \<noteq> []"
  shows "set (cl_roles ctx) \<inter> set (mc_role_write (te_config te)) \<noteq> {}"
  using gated [OF assms(1)] assms(3) assms(2) [folded classify_scopes_iff(1)]
  by (auto simp: authorize_tool_Inr require_roles_Inr)

text \<open>Whatever the gateway answers, a run makes such requests only.\<close>

lemma run_for_caller:
  assumes "run_prog serve (tool te de parts call) w = (a, trace, w')" and "(q, reply) \<in> set trace"
  obtains ctx where "parts = Some ctx" and "made_for ctx q"
    and "set (gate (mc_scope_map (te_config te)) call) \<subseteq> set (cl_scopes ctx)"
  using run_prog_trace(2) [OF assms(1)] assms(2) sends_for_caller by (metis fst_conv image_subset_iff)

end

text \<open>
  A family whose tools with a read gate only read. In it a mutating request needs a caller with a write role,
  unless the call has no gate at all.
\<close>

locale reading_family = tool_family tool gate
  for tool :: "tool_env \<Rightarrow> 'd \<Rightarrow> caller option \<Rightarrow> 'call \<Rightarrow> tool"
    and gate :: "scope_map \<Rightarrow> 'call \<Rightarrow> string list" +
  assumes reads: "read_only (gate default_scope_map call) \<Longrightarrow> sends is_get (tool te de parts call)"
begin

lemma mutation_needs_write_role:
  assumes "q \<in> calls_of (tool te de (Some ctx) call)" and "\<not> is_get q"
    and "mc_scope_map (te_config te) = default_scope_map" and "gate default_scope_map call \<noteq> []"
    and "mc_role_read (te_config te) \<noteq> [] \<or> mc_role_write (te_config te) \<noteq> []"
  shows "set (cl_roles ctx) \<inter> set (mc_role_write (te_config te)) \<noteq> {}"
proof (rule sends_needs_write_role [OF assms(1) _ assms(5)])
  have "\<not> read_only (gate default_scope_map call)"
    using reads [of call te de "Some ctx"] assms(1, 2) by (auto simp: sends_def)
  with assms(4) show "set (gate (mc_scope_map (te_config te)) call) \<inter>
      set (write_scopes (mc_scope_map (te_config te))) \<noteq> {}"
    unfolding assms(3) read_only_def by blast
qed

end

text \<open>A tool that opens with its gate and then works for the caller only.\<close>

lemma gated_tool:
  assumes "q \<in> calls_of (or_return (authorize_tool cfg parts scopes) k)"
    and "\<And>ctx. sends (made_for ctx) (k ctx)"
  shows "\<exists>ctx. authorize_tool cfg parts scopes = Inr ctx \<and> made_for ctx q"
  using assms by (auto simp: prog_simps sends_def)

text \<open>
  The structural form: a program whose requests all come after the gate. It may check arguments first.
\<close>

definition opens_with :: "mcp_config \<Rightarrow> caller option \<Rightarrow> string list \<Rightarrow> 'a prog \<Rightarrow> bool" where
  "opens_with cfg parts scopes m \<longleftrightarrow>
     sends (\<lambda>q. \<exists>ctx. authorize_tool cfg parts scopes = Inr ctx \<and> made_for ctx q) m"

named_theorems gate_intros "structural rules for the gate of a tool"

lemma opens_gate [gate_intros]:
  "(\<And>ctx. sends (made_for ctx) (k ctx)) \<Longrightarrow>
     opens_with cfg parts scopes (or_return (authorize_tool cfg parts scopes) k)"
  unfolding opens_with_def by (intro sends_intros) (blast intro: sends_mono)

lemma opens_or_fail [gate_intros]:
  "(\<And>a. opens_with cfg parts scopes (k a)) \<Longrightarrow> opens_with cfg parts scopes (or_fail r k)"
  unfolding opens_with_def by (intro sends_intros)

lemma opens_if [gate_intros]:
  "\<lbrakk>opens_with cfg parts scopes m; opens_with cfg parts scopes m'\<rbrakk> \<Longrightarrow>
     opens_with cfg parts scopes (if b then m else m')"
  by simp

lemma opens_Done [gate_intros]: "opens_with cfg parts scopes (Done a)"
  by (simp add: opens_with_def)

lemma opens_withD:
  "\<lbrakk>opens_with cfg parts scopes m; q \<in> calls_of m\<rbrakk> \<Longrightarrow>
     \<exists>ctx. authorize_tool cfg parts scopes = Inr ctx \<and> made_for ctx q"
  by (auto simp: opens_with_def sends_def)

text \<open>A family each of whose calls makes one request, which the call and the caller determine.\<close>

locale single_request_family = tool_family tool gate
  for tool :: "tool_env \<Rightarrow> 'd \<Rightarrow> caller option \<Rightarrow> 'call \<Rightarrow> tool"
    and gate :: "scope_map \<Rightarrow> 'call \<Rightarrow> string list" +
  fixes valid :: "tool_env \<Rightarrow> 'call \<Rightarrow> bool"
    and request :: "caller \<Rightarrow> 'call \<Rightarrow> gateway_call"
  assumes exact: "q \<in> calls_of (tool te de parts call) \<longleftrightarrow>
      valid te call \<and>
      (\<exists>ctx. authorize_tool (te_config te) parts (gate (mc_scope_map (te_config te)) call) = Inr ctx \<and>
             te_joins te (gq_path (request ctx call)) \<and> q = request ctx call)"
begin

lemma admitted_iff:
  "calls_of (tool te de parts call) \<noteq> {} \<longleftrightarrow>
     valid te call \<and>
     (\<exists>ctx. authorize_tool (te_config te) parts (gate (mc_scope_map (te_config te)) call) = Inr ctx \<and>
            te_joins te (gq_path (request ctx call)))"
  using exact by blast

end

section \<open>Where the requests go\<close>

text \<open>
  What the tools rely on of \<open>Uuid::parse_str\<close>: the texts it accepts (simple, hyphenated, braced, URN)
  are made of letters, digits, hyphens, braces and colons, and so is the text of the parsed id.
\<close>

definition uuid_char :: "char \<Rightarrow> bool" where
  "uuid_char c = (is_alpha c \<or> is_digit c \<or> c \<in> {CHR ''-'', CHR ''{'', CHR ''}'', CHR '':''})"

definition parses_uuid_text :: "(string \<Rightarrow> string option) \<Rightarrow> bool" where
  "parses_uuid_text parse \<longleftrightarrow>
     (\<forall>s t. parse s = Some t \<longrightarrow> s \<noteq> [] \<and> list_all uuid_char s \<and> t \<noteq> [] \<and> list_all uuid_char t)"

definition plain_segment :: "string \<Rightarrow> bool" where
  "plain_segment s = (s \<noteq> [] \<and> list_all (\<lambda>c. uuid_char c \<or> c = CHR ''_'') s)"

lemma plain_segment_chars:
  assumes "plain_segment s"
  shows "CHR ''/'' \<notin> set s" "CHR '';'' \<notin> set s" "CHR ''%'' \<notin> set s" "CHR 0x5C \<notin> set s"
    "CHR ''.'' \<notin> set s" "s \<noteq> []"
  using assms by (auto simp: plain_segment_def list_all_iff uuid_char_def is_alpha_def is_digit_def)

lemma realm_plain: "validate_realm_name realm = Inr u \<Longrightarrow> plain_segment realm"
  by (auto simp: validate_realm_name_def plain_segment_def list_all_iff realm_char_def uuid_char_def
      split: if_splits)

lemma uuid_plain:
  assumes "parses_uuid_text parse" and "parse s = Some t"
  shows "plain_segment s" and "plain_segment t"
  using assms unfolding parses_uuid_text_def plain_segment_def list_all_iff by blast+

lemma word_plain:
  "plain_segment ''admin''" "plain_segment ''realms''" "plain_segment ''users''"
  "plain_segment ''reset-password''" "plain_segment ''groups''" "plain_segment ''role-mappings''"
  "plain_segment ''realm''" "plain_segment ''consents''" "plain_segment ''sessions''"
  "plain_segment ''logout''"
  by code_simp+

lemma lower_percent: "CHR ''%'' \<in> set (to_ascii_lowercase s) \<Longrightarrow> CHR ''%'' \<in> set s"
proof -
  have "c = CHR ''%''" if low: "ascii_lower c = CHR ''%''" for c
  proof -
    from arg_cong [where f = "of_char :: char \<Rightarrow> nat", OF low] have "(of_char c :: nat) = of_char (CHR ''%'')"
      by (auto simp: ascii_lower_def Let_def split: if_splits)
    then show ?thesis by (rule of_char_eq_iff [THEN iffD1])
  qed
  then show "CHR ''%'' \<in> set (to_ascii_lowercase s) \<Longrightarrow> CHR ''%'' \<in> set s"
    unfolding to_ascii_lowercase_def set_map by (metis imageE)
qed

lemma no_percent_plain: "CHR ''%'' \<notin> set s \<Longrightarrow> plain_path s"
proof -
  assume none: "CHR ''%'' \<notin> set s"
  have "\<not> contains_str (CHR ''%'' # p) (to_ascii_lowercase s)" for p
  proof
    assume "contains_str (CHR ''%'' # p) (to_ascii_lowercase s)"
    then obtain a b where "to_ascii_lowercase s = a @ (CHR ''%'' # p) @ b" unfolding contains_str_iff by blast
    then have "CHR ''%'' \<in> set (to_ascii_lowercase s)" by simp
    with none lower_percent show False by blast
  qed
  then show "plain_path s" by (simp add: plain_path_def)
qed

lemma set_subset_join: "w \<in> set ws \<Longrightarrow> set w \<subseteq> set (join sep ws)"
  by (induction sep ws rule: join.induct) auto

lemma backslash: "char_of (92 :: nat) = CHR 0x5C"
  by code_simp

lemma plain_segments_path:
  assumes "\<forall>s \<in> set ss. plain_segment s"
  shows "path_segments (''/'' @ join ''/'' ss) = ss"
    and "\<not> contains_matrix_params (''/'' @ join ''/'' ss)"
    and "\<not> contains_path_confusion (''/'' @ join ''/'' ss)"
proof -
  let ?p = "''/'' @ join ''/'' ss"
  have absent: "c \<notin> set ?p" if "c \<noteq> CHR ''/''" and "\<And>s. plain_segment s \<Longrightarrow> c \<notin> set s" for c
    using that set_join [of "''/''" ss] assms by auto
  have chars: "CHR '';'' \<notin> set ?p" "CHR ''%'' \<notin> set ?p" "CHR 0x5C \<notin> set ?p" "CHR ''.'' \<notin> set ?p"
    by (rule absent, simp, erule plain_segment_chars)+
  show "path_segments ?p = ss"
    using assms plain_segment_chars path_segments_join [of ss] by simp
  show "\<not> contains_matrix_params ?p"
    using chars(1) by (simp add: contains_matrix_params_def contains_char_def)
  have "segment \<notin> {''.'', ''..''}" if seg: "segment \<in> set (split_on (CHR ''/'') ?p)" for segment
  proof -
    have "set segment \<subseteq> set ?p"
      using set_subset_join [OF seg, of "''/''"] by (simp only: join_split_on)
    with chars(4) show ?thesis by auto
  qed
  with chars show "\<not> contains_path_confusion ?p"
    using no_percent_plain [of ?p] by (simp add: contains_path_confusion_iff backslash)
qed

section \<open>A concrete environment\<close>

definition sample_mcp_config :: mcp_config where
  "sample_mcp_config = \<lparr>mc_bind_addr = ''127.0.0.1:9400'', mc_resource_url = ''http://127.0.0.1:9400/mcp'',
     mc_resource_metadata_url = ''http://127.0.0.1:9400/.well-known/oauth-protected-resource/mcp'',
     mc_authorization_servers = [''https://kc/realms/master''],
     mc_scopes_supported = gathered_scopes default_scope_map, mc_scope_map = default_scope_map,
     mc_role_read = [''kc-admin:read''], mc_role_write = [''kc-admin:write''],
     mc_enable_secret_tools = False, mc_auth = sample_auth_config,
     mc_streamable_http = \<lparr>sh_event_store_mode = StoreOff, sh_resume_mode = Historyless,
       sh_initialize_body_limit_bytes = DEFAULT_INITIALIZE_BODY_LIMIT_BYTES, sh_event_store_path = None,
       sh_event_store_key = None, sh_max_streams = 200, sh_max_events = 200, sh_ttl = Some 120,
       sh_retry_interval = None, sh_stateless_fallback = True\<rparr>,
     mc_startup_admission = \<lparr>sa_mode = Warn, sa_required_profile = Fast,
       sa_fast_gate_artifact_path = ''fast.json'', sa_standard_gate_artifact_path = ''standard.json'',
       sa_bypass = False, sa_bypass_reason = None, sa_bypass_ttl_s = None, sa_production_mode = False,
       sa_allow_production_bypass = False\<rparr>,
     mc_server_tls = \<lparr>st_cert_pem = None, st_key_pem = None, st_client_ca_pem = None\<rparr>,
     mc_gateway = \<lparr>mg_base_url = ''http://127.0.0.1:9300'', mg_request_timeout = 5000,
       mg_tls_ca_pem = None, mg_tls_client_cert_pem = None, mg_tls_client_key_pem = None\<rparr>,
     mc_keycloak_base_url = ''http://127.0.0.1:8080'', mc_keycloak_admin_realm = ''master'',
     mc_keycloak_client_id = [], mc_audit_log_max = 500, mc_audit_log_path = None,
     mc_audit_checkpoint_path = None, mc_audit_log_max_bytes = None, mc_audit_log_max_files = 5\<rparr>"

definition sample_uuid :: string where
  "sample_uuid = ''6f1c2e9a-0b1d-4c3e-8f5a-1234567890ab''"

definition sample_tool_env :: tool_env where
  "sample_tool_env = \<lparr>te_config = sample_mcp_config,
     te_joins = (\<lambda>_. True), te_from_slice = (\<lambda>_. None), te_utf8_lossy = id,
     te_parse_uuid = (\<lambda>s. if s = sample_uuid then Some s else None)\<rparr>"

definition sample_caller :: caller where
  "sample_caller = \<lparr>cl_request_id = ''req-1'', cl_actor_id = None, cl_raw_token = ''token'',
     cl_token_ref = ''ref'', cl_client_id = None, cl_subject = None,
     cl_scopes = [''keycloak-admin:users:write'', ''keycloak-admin:groups:write'', ''keycloak-admin:clients:write''], cl_roles = [''kc-admin:write''],
     cl_expires_at = None, cl_azp = None, cl_issuer = None\<rparr>"

lemma sample_uuid_text: "parses_uuid_text (te_parse_uuid sample_tool_env)"
  by (simp add: parses_uuid_text_def sample_tool_env_def sample_uuid_def uuid_char_def is_alpha_def
      is_digit_def Let_def)

section \<open>The gateway's rule for a resource of a realm\<close>

lemma candidates_by_family:
  assumes "resource \<notin> {''roles'', ''clients'', ''client-scopes'', ''events''}"
  shows "scope_candidates m (''admin'' # ''realms'' # realm # resource # rest) query =
    (let segments = ''admin'' # ''realms'' # realm # resource # rest; is_read = is_read_method m in
     case scope_family segments of
          Users \<Rightarrow> rw_scope_candidates is_read [USERS_READ_SCOPE] [USERS_WRITE_SCOPE]
        | Groups \<Rightarrow> rw_scope_candidates is_read [GROUPS_READ_SCOPE] [GROUPS_WRITE_SCOPE]
        | Roles \<Rightarrow> rw_scope_candidates is_read [ROLES_READ_SCOPE] [ROLES_WRITE_SCOPE]
        | Clients \<Rightarrow>
            (if is_client_secret_path segments then [CLIENTS_SECRETS_SCOPE]
             else rw_scope_candidates is_read [CLIENTS_READ_SCOPE] [CLIENTS_WRITE_SCOPE])
        | ClientScopes \<Rightarrow>
            rw_scope_candidates is_read [CLIENT_SCOPES_READ_SCOPE] [CLIENT_SCOPES_WRITE_SCOPE]
        | Idp \<Rightarrow> rw_scope_candidates is_read [IDP_READ_SCOPE] [IDP_WRITE_SCOPE]
        | Events \<Rightarrow> rw_scope_candidates is_read [EVENTS_READ_SCOPE] [EVENTS_ADMIN_SCOPE]
        | Realm \<Rightarrow> rw_scope_candidates is_read [REALM_READ_SCOPE] [REALM_WRITE_SCOPE]
        | Tokens \<Rightarrow> (if is_read then [TOKENS_READ_SCOPE] else [REALM_ADMIN_SCOPE])
        | Observability \<Rightarrow> [OBSERVABILITY_READ_SCOPE])"
proof -
  let ?s = "''admin'' # ''realms'' # realm # resource # rest"
  have "\<not> is_realm_role_lookup_path ?s" "\<not> is_client_role_lookup_path ?s" "\<not> is_client_lookup_path ?s"
    "\<not> is_client_scope_lookup_path ?s" "\<not> is_realm_event_config_path ?s"
    using assms by (auto simp: is_realm_role_lookup_path_def is_client_role_lookup_path_def
        is_client_lookup_path_def is_client_scope_lookup_path_def is_realm_event_config_path_def
        split: list.splits)
  then show ?thesis by (simp only: scope_candidates_def Let_def simp_thms if_False)
qed

lemma required_singleton [simp]: "select_scope_candidate [c] held = c"
  by (simp add: select_scope_candidate_def)

lemma enforce_singleton [simp]: "enforce_scopes held [s] = Inr () \<longleftrightarrow> s \<in> set held"
  using enforce_scopes_Inr [of held "[s]" "()"] by simp

end
