(* ===== verification/Audit_Log.thy ===== *)
theory Audit_Log
  imports Prelude
begin

text \<open>
  The audit log of the MCP server (\<open>audit.rs\<close>): a hash-chained ring of entries in memory, a
  log file with size-based rotation, and checkpoints. Serialization (\<open>serde_json\<close> over
  \<open>derive(Serialize)\<close>) is the parameter \<open>render\<close>, the base64 SHA-256 digest the parameter
  \<open>digest\<close>. The file system is a map from paths to byte strings with a set of operations that
  fail; a write that fails adds nothing.
\<close>

section \<open>Data\<close>

record audit_actor =
  aa_subject :: "string option"
  aa_client_id :: "string option"
  aa_scopes :: "string list"
  aa_roles :: "string list"
  aa_actor_id :: "string option"

record audit_outcome =
  ao_status :: string
  ao_duration_ms :: "64 word"

record audit_entry =
  ae_schema_version :: string
  ae_event_type :: string
  ae_ts :: string
  ae_request_id :: string
  ae_prev_hash :: "string option"
  ae_hash :: "string option"
  ae_actor :: "audit_actor option"
  ae_tool :: string
  ae_outcome :: audit_outcome

record audit_checkpoint =
  ck_schema_version :: string
  ck_ts :: string
  ck_last_hash :: "string option"
  ck_log_path :: "string option"
  ck_state_path :: "string option"
  ck_checkpoint_path :: "string option"

record audit_log =
  al_entries :: "audit_entry list"
  al_max_entries :: nat
  al_last_hash :: "string option"
  al_log_path :: "string option"
  al_checkpoint_path :: "string option"
  al_log_max_bytes :: "nat option"
  al_log_max_files :: nat

section \<open>The file system\<close>

datatype file_op = Open string | WriteAll string | WriteNewline string | Metadata string
  | Rename string | Remove string

record file_system =
  fs_files :: "string \<Rightarrow> string option"
  fs_fails :: "file_op \<Rightarrow> bool"

datatype io_error = NotFound | OtherError file_op

definition path_exists :: "file_system \<Rightarrow> string \<Rightarrow> bool" where
  "path_exists fs p = (fs_files fs p \<noteq> None)"

definition metadata_len :: "file_system \<Rightarrow> string \<Rightarrow> io_error + nat" where
  "metadata_len fs p =
     (if fs_fails fs (Metadata p) then Inl (OtherError (Metadata p))
      else (case fs_files fs p of None \<Rightarrow> Inl NotFound | Some c \<Rightarrow> Inr (length c)))"

definition remove_file :: "file_system \<Rightarrow> string \<Rightarrow> file_system" where
  "remove_file fs p =
     (if fs_fails fs (Remove p) then fs else fs\<lparr>fs_files := (fs_files fs)(p := None)\<rparr>)"

definition rename_file :: "file_system \<Rightarrow> string \<Rightarrow> string \<Rightarrow> file_system" where
  "rename_file fs p q =
     (if fs_fails fs (Rename p) then fs
      else fs\<lparr>fs_files := (fs_files fs)(p := None, q := fs_files fs p)\<rparr>)"

definition write_file :: "file_system \<Rightarrow> string \<Rightarrow> string \<Rightarrow> (io_error + unit) \<times> file_system" where
  "write_file fs p s =
     (if fs_fails fs (Open p) then (Inl (OtherError (Open p)), fs)
      else if fs_fails fs (WriteAll p) then
        (Inl (OtherError (WriteAll p)), fs\<lparr>fs_files := (fs_files fs)(p \<mapsto> [])\<rparr>)
      else (Inr (), fs\<lparr>fs_files := (fs_files fs)(p \<mapsto> s)\<rparr>))"

section \<open>Hashing and the log file\<close>

definition hash_entry ::
  "(string \<Rightarrow> string) \<Rightarrow> (audit_entry \<Rightarrow> string option) \<Rightarrow> audit_entry \<Rightarrow> string" where
  "hash_entry digest render e =
     digest (case render (e\<lparr>ae_hash := None\<rparr>) of Some payload \<Rightarrow> payload | None \<Rightarrow> [])"

definition entry_line :: "(audit_entry \<Rightarrow> string option) \<Rightarrow> audit_entry \<Rightarrow> string" where
  "entry_line render e = (case render e of Some line \<Rightarrow> line | None \<Rightarrow> ''{}'')"

text \<open>U+000A, the line terminator.\<close>

definition newline :: string where "newline = [char_of (10 :: nat)]"

definition append_line ::
  "(audit_entry \<Rightarrow> string option) \<Rightarrow> file_system \<Rightarrow> string \<Rightarrow> audit_entry \<Rightarrow>
     (io_error + unit) \<times> file_system" where
  "append_line render fs path e =
     (if fs_fails fs (Open path) then (Inl (OtherError (Open path)), fs)
      else
        (let old = (case fs_files fs path of Some c \<Rightarrow> c | None \<Rightarrow> []);
             opened = fs\<lparr>fs_files := (fs_files fs)(path \<mapsto> old)\<rparr>
         in if fs_fails fs (WriteAll path) then (Inl (OtherError (WriteAll path)), opened)
            else
              (let written = old @ entry_line render e;
                   lined = fs\<lparr>fs_files := (fs_files fs)(path \<mapsto> written)\<rparr>
               in if fs_fails fs (WriteNewline path) then (Inl (OtherError (WriteNewline path)), lined)
                  else (Inr (), fs\<lparr>fs_files := (fs_files fs)(path \<mapsto> written @ newline)\<rparr>))))"

definition rotated_path :: "string \<Rightarrow> nat \<Rightarrow> string" where
  "rotated_path path idx = path @ ''.'' @ show_nat idx"

definition previous_path :: "string \<Rightarrow> nat \<Rightarrow> string" where
  "previous_path path idx = (if idx = 1 then path else rotated_path path (idx - 1))"

definition rotate_step :: "string \<Rightarrow> nat \<Rightarrow> nat \<Rightarrow> file_system \<Rightarrow> file_system" where
  "rotate_step path max_files idx fs =
     (let rotated = rotated_path path idx;
          fs = (if idx = max_files \<and> path_exists fs rotated then remove_file fs rotated else fs);
          previous = previous_path path idx
      in if path_exists fs previous then rename_file fs previous rotated else fs)"

definition rotate_if_needed ::
  "file_system \<Rightarrow> string \<Rightarrow> nat option \<Rightarrow> nat \<Rightarrow> (io_error + unit) \<times> file_system" where
  "rotate_if_needed fs path max_bytes max_files =
     (case max_bytes of
        None \<Rightarrow> (Inr (), fs)
      | Some max_bytes \<Rightarrow>
          (if max_bytes = 0 \<or> max_files = 0 then (Inr (), fs)
           else (case metadata_len fs path of
               Inl NotFound \<Rightarrow> (Inr (), fs)
             | Inl err \<Rightarrow> (Inl err, fs)
             | Inr len \<Rightarrow>
                 (if len < max_bytes then (Inr (), fs)
                  else (Inr (), fold (rotate_step path max_files) (rev [1..<Suc max_files]) fs)))))"

section \<open>Operations of the log\<close>

definition new_log ::
  "nat \<Rightarrow> string option \<Rightarrow> string option \<Rightarrow> nat option \<Rightarrow> nat \<Rightarrow> audit_log" where
  "new_log max_entries log_path checkpoint_path log_max_bytes log_max_files =
     \<lparr>al_entries = [], al_max_entries = (if max_entries = 0 then 1 else max_entries),
      al_last_hash = None, al_log_path = log_path, al_checkpoint_path = checkpoint_path,
      al_log_max_bytes = log_max_bytes, al_log_max_files = log_max_files\<rparr>"

text \<open>
  \<open>record\<close> holds the lock of the last hash from its first line to its last. Its first half links
  the entry and writes its line (file errors are only logged), its second half puts the entry
  into the ring.
\<close>

definition link_entry ::
  "(string \<Rightarrow> string) \<Rightarrow> (audit_entry \<Rightarrow> string option) \<Rightarrow> audit_log \<Rightarrow> audit_entry \<Rightarrow> audit_entry" where
  "link_entry digest render log e =
     (let e = e\<lparr>ae_prev_hash := al_last_hash log\<rparr>
      in e\<lparr>ae_hash := Some (hash_entry digest render e)\<rparr>)"

definition write_entry ::
  "(audit_entry \<Rightarrow> string option) \<Rightarrow> audit_log \<Rightarrow> file_system \<Rightarrow> audit_entry \<Rightarrow> file_system" where
  "write_entry render log fs e =
     (case al_log_path log of
        None \<Rightarrow> fs
      | Some path \<Rightarrow>
          (let fs = snd (rotate_if_needed fs path (al_log_max_bytes log) (al_log_max_files log))
           in snd (append_line render fs path e)))"

fun pop_excess :: "nat \<Rightarrow> 'a list \<Rightarrow> 'a list" where
  "pop_excess bound [] = []"
| "pop_excess bound (x # xs) = (if length (x # xs) > bound then pop_excess bound xs else x # xs)"

definition push_entry :: "audit_entry \<Rightarrow> audit_log \<Rightarrow> audit_log" where
  "push_entry e log =
     log\<lparr>al_entries := pop_excess (al_max_entries log) (al_entries log @ [e])\<rparr>"

definition record_entry ::
  "(string \<Rightarrow> string) \<Rightarrow> (audit_entry \<Rightarrow> string option) \<Rightarrow> audit_entry \<Rightarrow>
     audit_log \<times> file_system \<Rightarrow> audit_log \<times> file_system" where
  "record_entry digest render e state =
     (let (log, fs) = state;
          e = link_entry digest render log e;
          log = log\<lparr>al_last_hash := ae_hash e\<rparr>;
          fs = write_entry render log fs e
      in (push_entry e log, fs))"

definition snapshot :: "audit_log \<Rightarrow> nat \<Rightarrow> audit_entry list" where
  "snapshot log limit =
     (let limit = (if limit = 0 then 1 else limit) in rev (take limit (rev (al_entries log))))"

definition render_entries :: "(audit_entry \<Rightarrow> string option) \<Rightarrow> audit_entry list \<Rightarrow> string" where
  "render_entries render es = concat (map (\<lambda>e. entry_line render e @ newline) es)"

definition checkpoint_of :: "string \<Rightarrow> string option \<Rightarrow> audit_log \<Rightarrow> audit_checkpoint" where
  "checkpoint_of ts last_hash log =
     \<lparr>ck_schema_version = ''v1'', ck_ts = ts, ck_last_hash = last_hash, ck_log_path = al_log_path log,
      ck_state_path = al_checkpoint_path log, ck_checkpoint_path = al_checkpoint_path log\<rparr>"

definition checkpoint ::
  "(audit_entry \<Rightarrow> string option) \<Rightarrow> (audit_checkpoint \<Rightarrow> string option) \<Rightarrow> string \<Rightarrow>
     audit_log \<times> file_system \<Rightarrow> (io_error + audit_checkpoint) \<times> file_system" where
  "checkpoint render pretty ts state =
     (let (log, fs) = state;
          last_hash = al_last_hash log;
          (rewritten, fs) = (case al_log_path log of
              None \<Rightarrow> (Inr (), fs)
            | Some path \<Rightarrow>
                write_file fs path (render_entries render (snapshot log (al_max_entries log))))
      in case rewritten of
           Inl err \<Rightarrow> (Inl err, fs)
         | Inr _ \<Rightarrow>
             (let ck = checkpoint_of ts last_hash log in
              case al_checkpoint_path log of
                None \<Rightarrow> (Inr ck, fs)
              | Some path \<Rightarrow>
                  (let payload = (case pretty ck of Some p \<Rightarrow> p | None \<Rightarrow> ''{}'')
                   in case write_file fs path payload of
                        (Inl err, fs) \<Rightarrow> (Inl err, fs)
                      | (Inr _, fs) \<Rightarrow> (Inr ck, fs))))"

lemma keep_newest:
  assumes "length xs \<le> b"
  shows "drop (length (drop (Suc (length xs) - b) (xs @ [x])) + m - b)
            (drop (Suc (length xs) - b) (xs @ [x]) @ ys) =
         drop (length xs + Suc m - b) (xs @ x # ys)"
proof -
  let ?i = "Suc (length xs) - b"
  have "drop i zs @ ws = drop i (zs @ ws)" if "i \<le> length zs" for i and zs ws :: "'a list"
    using that by simp
  from this [of ?i "xs @ [x]" ys]
  have front: "drop ?i (xs @ [x]) @ ys = drop ?i (xs @ x # ys)" by (simp only: length_append) simp
  have "length (drop ?i (xs @ [x])) + m - b + ?i = length xs + Suc m - b"
    using assms by (cases "length xs < b") auto
  then show ?thesis unfolding front by (simp only: drop_drop)
qed

section \<open>The interface: a queue that keeps its newest elements\<close>

text \<open>
  What \<open>record\<close> promises to the readers of the ring: pushing keeps the newest elements up to a
  bound. Whatever has been pushed, the queue is then the end of the whole history.
\<close>

locale bounded_queue =
  fixes items :: "'q \<Rightarrow> 'a list" and bound :: "'q \<Rightarrow> nat" and push :: "'a \<Rightarrow> 'q \<Rightarrow> 'q"
  assumes items_push: "items (push x q) = drop (Suc (length (items q)) - bound q) (items q @ [x])"
    and bound_push: "bound (push x q) = bound q"
begin

lemma length_push: "length (items (push x q)) = min (Suc (length (items q))) (bound q)"
  by (simp add: items_push)

lemma bound_fold: "bound (fold push xs q) = bound q"
  by (induction xs arbitrary: q) (simp_all add: bound_push)

lemma items_fold:
  "length (items q) \<le> bound q \<Longrightarrow>
     items (fold push xs q) = drop (length (items q) + length xs - bound q) (items q @ xs)"
proof (induction xs arbitrary: q)
  case Nil
  then show ?case by simp
next
  case (Cons x xs)
  have "length (items (push x q)) \<le> bound (push x q)"
    by (simp add: length_push bound_push)
  from Cons.IH [OF this]
  have "items (fold push (x # xs) q) =
      drop (length (items (push x q)) + length xs - bound q) (items (push x q) @ xs)"
    by (simp add: bound_push)
  also have "\<dots> = drop (length (items q) + Suc (length xs) - bound q) (items q @ x # xs)"
    unfolding items_push by (rule keep_newest [OF Cons.prems])
  finally show ?case by simp
qed

end

section \<open>Lemmas\<close>

lemma pop_excess_drop [simp]: "pop_excess bound xs = drop (length xs - bound) xs"
  by (induction xs) (auto simp: Suc_diff_le)

interpretation ring: bounded_queue al_entries al_max_entries push_entry
  by unfold_locales (simp_all add: push_entry_def)

lemma snapshot_drop:
  "snapshot log limit = drop (length (al_entries log) - max limit 1) (al_entries log)"
proof -
  have "(if limit = 0 then 1 else limit) = max limit 1" by simp
  then show ?thesis by (simp add: snapshot_def take_rev)
qed

subsection \<open>Chains\<close>

fun linked ::
  "(string \<Rightarrow> string) \<Rightarrow> (audit_entry \<Rightarrow> string option) \<Rightarrow> string option \<Rightarrow> audit_entry list \<Rightarrow> bool" where
  "linked digest render prev [] = True"
| "linked digest render prev (e # es) =
     (ae_prev_hash e = prev \<and> ae_hash e = Some (hash_entry digest render e) \<and>
      linked digest render (ae_hash e) es)"

fun chain_end :: "string option \<Rightarrow> audit_entry list \<Rightarrow> string option" where
  "chain_end prev [] = prev"
| "chain_end prev (e # es) = chain_end (ae_hash e) es"

text \<open>The abstract log: the whole history, linked.\<close>

fun link_all ::
  "(string \<Rightarrow> string) \<Rightarrow> (audit_entry \<Rightarrow> string option) \<Rightarrow> string option \<Rightarrow> audit_entry list \<Rightarrow>
     audit_entry list" where
  "link_all digest render prev [] = []"
| "link_all digest render prev (e # es) =
     (let e = e\<lparr>ae_prev_hash := prev\<rparr>; e = e\<lparr>ae_hash := Some (hash_entry digest render e)\<rparr>
      in e # link_all digest render (ae_hash e) es)"

lemma hash_entry_ignores_hash [simp]:
  "hash_entry digest render (e\<lparr>ae_hash := h\<rparr>) = hash_entry digest render e"
  by (simp add: hash_entry_def)

lemma linked_append:
  "linked digest render prev (xs @ ys) \<longleftrightarrow>
     linked digest render prev xs \<and> linked digest render (chain_end prev xs) ys"
  by (induction xs arbitrary: prev) auto

lemma chain_end_append [simp]: "chain_end prev (xs @ ys) = chain_end (chain_end prev xs) ys"
  by (induction xs arbitrary: prev) auto

lemma linked_drop:
  "linked digest render prev es \<Longrightarrow> linked digest render (chain_end prev (take n es)) (drop n es)"
  by (metis append_take_drop_id linked_append)

lemma linked_link_all [simp]: "linked digest render prev (link_all digest render prev es)"
  by (induction es arbitrary: prev) (simp_all add: Let_def)

lemma length_link_all [simp]: "length (link_all digest render prev es) = length es"
  by (induction es arbitrary: prev) (simp_all add: Let_def)

lemma chain_end_last:
  "linked digest render prev es \<Longrightarrow>
     chain_end prev es = (if es = [] then prev else Some (hash_entry digest render (last es)))"
  by (induction es arbitrary: prev) auto

lemma new_log_simps [simp]:
  "al_entries (new_log n lp cp mb mf) = []" "al_last_hash (new_log n lp cp mb mf) = None"
  "al_max_entries (new_log n lp cp mb mf) = max n 1" "al_log_path (new_log n lp cp mb mf) = lp"
  "al_checkpoint_path (new_log n lp cp mb mf) = cp" "al_log_max_bytes (new_log n lp cp mb mf) = mb"
  "al_log_max_files (new_log n lp cp mb mf) = mf"
  by (simp_all add: new_log_def)

subsection \<open>Recording a history\<close>

lemma record_entry_log:
  "fst (record_entry digest render e (log, fs)) =
     push_entry (link_entry digest render log e)
       (log\<lparr>al_last_hash := ae_hash (link_entry digest render log e)\<rparr>)"
  by (simp add: record_entry_def Let_def)

lemma record_entry_last_hash [simp]:
  "al_last_hash (fst (record_entry digest render e (log, fs))) = ae_hash (link_entry digest render log e)"
  by (simp add: record_entry_log push_entry_def)

lemma record_history:
  "length (al_entries log) \<le> al_max_entries log \<Longrightarrow>
   (let log' = fst (fold (record_entry digest render) es (log, fs));
        new = link_all digest render (al_last_hash log) es in
    al_entries log' = drop (length (al_entries log) + length es - al_max_entries log)
       (al_entries log @ new) \<and>
    al_last_hash log' = chain_end (al_last_hash log) new \<and>
    al_max_entries log' = al_max_entries log)"
proof (induction es arbitrary: log fs)
  case Nil
  then show ?case by simp
next
  case (Cons e es)
  obtain log1 fs1 where r: "record_entry digest render e (log, fs) = (log1, fs1)"
    by (cases "record_entry digest render e (log, fs)")
  let ?e = "link_entry digest render log e"
  from record_entry_log [of digest render e log fs] r
  have log1: "log1 = push_entry ?e (log\<lparr>al_last_hash := ae_hash ?e\<rparr>)" by simp
  have m: "al_max_entries log1 = al_max_entries log" by (simp add: log1 ring.bound_push)
  have ents: "al_entries log1 = drop (Suc (length (al_entries log)) - al_max_entries log)
      (al_entries log @ [?e])"
    by (simp add: log1 ring.items_push)
  have lh: "al_last_hash log1 = ae_hash ?e" by (simp add: log1 push_entry_def)
  have "length (al_entries log1) \<le> al_max_entries log1" by (simp add: m ents)
  note ih = Cons.IH [OF this, of fs1]
  let ?new = "link_all digest render (ae_hash ?e) es"
  have split: "link_all digest render (al_last_hash log) (e # es) = ?e # ?new"
    by (simp add: link_entry_def Let_def)
  have "drop (length (al_entries log1) + length es - al_max_entries log1) (al_entries log1 @ ?new)
      = drop (length (al_entries log) + Suc (length es) - al_max_entries log) (al_entries log @ ?e # ?new)"
    unfolding ents m by (rule keep_newest [OF Cons.prems])
  with ih show ?case by (simp add: r m lh split Let_def del: link_all.simps drop_append)
qed

subsection \<open>The last hash pins the chain\<close>

lemma entry_eq_by_hash:
  assumes "x\<lparr>ae_hash := None\<rparr> = y\<lparr>ae_hash := None\<rparr>" and "ae_hash x = ae_hash y"
  shows "x = (y :: audit_entry)"
  using assms by (cases x; cases y) simp

lemma chain_unique:
  "\<lbrakk>linked digest render None es; linked digest render None es';
    chain_end None es = chain_end None es';
    \<forall>x \<in> set es. \<forall>y \<in> set es'. hash_entry digest render x = hash_entry digest render y \<longrightarrow>
       x\<lparr>ae_hash := None\<rparr> = y\<lparr>ae_hash := None\<rparr>\<rbrakk> \<Longrightarrow> es = es'"
proof (induction es arbitrary: es' rule: rev_induct)
  case Nil
  then show ?case using chain_end_last [OF Nil.prems(2)] by (simp split: if_splits)
next
  case (snoc x xs)
  have x: "ae_prev_hash x = chain_end None xs" "ae_hash x = Some (hash_entry digest render x)"
    and xs: "linked digest render None xs"
    using snoc.prems(1) by (simp_all add: linked_append)
  from snoc.prems(3) x(2) have "es' \<noteq> []" by auto
  then obtain ys y where es': "es' = ys @ [y]" by (cases es' rule: rev_cases) auto
  have y: "ae_prev_hash y = chain_end None ys" "ae_hash y = Some (hash_entry digest render y)"
    and ys: "linked digest render None ys"
    using snoc.prems(2) by (simp_all add: es' linked_append)
  have h: "ae_hash x = ae_hash y" using snoc.prems(3) by (simp add: es')
  with x(2) y(2) snoc.prems(4) have same: "x\<lparr>ae_hash := None\<rparr> = y\<lparr>ae_hash := None\<rparr>"
    by (simp add: es')
  with h have "x = y" by (rule entry_eq_by_hash [rotated])
  moreover from this x(1) y(1) have "chain_end None xs = chain_end None ys" by simp
  with snoc.IH [OF xs ys] snoc.prems(4) have "xs = ys" by (simp add: es')
  ultimately show ?case by (simp add: es')
qed

subsection \<open>Rotation\<close>

lemma rotated_path_inject [simp]: "rotated_path p i = rotated_path p j \<longleftrightarrow> i = j"
  by (simp add: rotated_path_def)

lemma rotated_path_not_self [simp]: "rotated_path p i \<noteq> p" "p \<noteq> rotated_path p i"
  by (simp_all add: rotated_path_def)

lemma rotate_step_files:
  assumes "fs_fails fs = (\<lambda>_. False)"
    and "idx = max_files \<or> fs_files fs (rotated_path path idx) = None" and "0 < idx"
  shows "rotate_step path max_files idx fs = fs\<lparr>fs_files := (fs_files fs)
    (previous_path path idx := None, rotated_path path idx := fs_files fs (previous_path path idx))\<rparr>"
proof -
  have pq: "previous_path path idx \<noteq> rotated_path path idx"
    using assms(3) by (auto simp: previous_path_def)
  let ?f = "fs_files fs"
  let ?rot = "rotated_path path idx"
  let ?prev = "previous_path path idx"
  let ?fs1 = "if idx = max_files \<and> path_exists fs ?rot then remove_file fs ?rot else fs"
  have f1: "?fs1 = fs\<lparr>fs_files := ?f(?rot := None)\<rparr>"
  proof (cases "?f ?rot = None")
    case True
    then have "?f(?rot := None) = ?f" by (simp add: fun_upd_idem)
    with True show ?thesis by (simp add: path_exists_def)
  next
    case False
    with assms show ?thesis by (simp add: path_exists_def remove_file_def)
  qed
  have "rotate_step path max_files idx fs =
      (if ?f ?prev \<noteq> None then rename_file (fs\<lparr>fs_files := ?f(?rot := None)\<rparr>) ?prev ?rot
       else fs\<lparr>fs_files := ?f(?rot := None)\<rparr>)"
    using pq unfolding rotate_step_def Let_def f1 by (simp add: path_exists_def)
  also have "\<dots> = fs\<lparr>fs_files := ?f(?prev := None, ?rot := ?f ?prev)\<rparr>"
  proof (cases "?f ?prev = None")
    case True
    then have "?f(?rot := None) = ?f(?prev := None, ?rot := ?f ?prev)"
      by (simp add: fun_upd_idem)
    with True show ?thesis by simp
  next
    case False
    have "(?f(?rot := None))(?prev := None, ?rot := ?f ?prev) = ?f(?prev := None, ?rot := ?f ?prev)"
      by (simp add: fun_eq_iff)
    with False pq show ?thesis by (simp add: rename_file_def assms(1))
  qed
  finally show ?thesis .
qed

text \<open>The files \<open>g\<close> after the steps from the highest index down to \<open>k\<close>.\<close>

definition shifted ::
  "(string \<Rightarrow> string option) \<Rightarrow> (string \<Rightarrow> string option) \<Rightarrow> string \<Rightarrow> nat \<Rightarrow> nat \<Rightarrow> bool" where
  "shifted f g path k max_files \<longleftrightarrow>
     g (previous_path path k) = None \<and>
     (\<forall>i. k \<le> i \<and> i \<le> max_files \<longrightarrow> g (rotated_path path i) = f (previous_path path i)) \<and>
     (\<forall>p. p \<noteq> previous_path path k \<and> (\<forall>i. k \<le> i \<and> i \<le> max_files \<longrightarrow> p \<noteq> rotated_path path i)
        \<longrightarrow> g p = f p)"

lemma previous_rotated_iff [simp]:
  "0 < k \<Longrightarrow> previous_path path k = rotated_path path i \<longleftrightarrow> Suc i = k \<and> 1 < k"
  "0 < k \<Longrightarrow> rotated_path path i = previous_path path k \<longleftrightarrow> Suc i = k \<and> 1 < k"
  by (auto simp: previous_path_def)

lemma shifted_base:
  "0 < m \<Longrightarrow> shifted f (f(previous_path path m := None, rotated_path path m := f (previous_path path m))) path m m"
  by (auto simp: shifted_def)

lemma shifted_step:
  assumes "shifted f g path (Suc k) m" and "0 < k" and "k < m"
  shows "shifted f (g(previous_path path k := None, rotated_path path k := g (previous_path path k))) path k m"
proof -
  have prev: "g (previous_path path k) = f (previous_path path k)"
  proof -
    have "previous_path path k \<noteq> previous_path path (Suc k)"
      and "\<forall>i. Suc k \<le> i \<longrightarrow> previous_path path k \<noteq> rotated_path path i"
      using assms(2) by (auto simp: previous_path_def)
    with assms(1) show ?thesis unfolding shifted_def by blast
  qed
  have "previous_path path (Suc k) = rotated_path path k"
    using assms(2) by (simp add: previous_path_def)
  with assms prev show ?thesis
    unfolding shifted_def by (auto simp: le_Suc_eq not_less_eq_eq)
qed

lemma rotate_loop:
  assumes "fs_fails fs = (\<lambda>_. False)" and "0 < k" and "k \<le> m"
  shows "\<exists>g. fold (rotate_step path m) (rev [k..<Suc m]) fs = fs\<lparr>fs_files := g\<rparr> \<and>
    shifted (fs_files fs) g path k m"
  using assms(3,2)
proof (induction k rule: inc_induct)
  case base
  then show ?case
    using rotate_step_files [OF assms(1), of m m path] shifted_base [of m "fs_files fs" path] by auto
next
  case (step k)
  then obtain g where g: "fold (rotate_step path m) (rev [Suc k..<Suc m]) fs = fs\<lparr>fs_files := g\<rparr>"
    and sh: "shifted (fs_files fs) g path (Suc k) m" by auto
  have "g (previous_path path (Suc k)) = None" using sh by (simp add: shifted_def)
  then have free: "fs_files (fs\<lparr>fs_files := g\<rparr>) (rotated_path path k) = None"
    using step.prems by (simp add: previous_path_def)
  have "[k..<Suc m] = k # [Suc k..<Suc m]" using step.hyps by (intro upt_conv_Cons) simp
  then have "fold (rotate_step path m) (rev [k..<Suc m]) fs = rotate_step path m k (fs\<lparr>fs_files := g\<rparr>)"
    by (simp only: rev.simps fold_append o_apply g) simp
  also have "\<dots> = fs\<lparr>fs_files := g(previous_path path k := None, rotated_path path k := g (previous_path path k))\<rparr>"
    using rotate_step_files [of "fs\<lparr>fs_files := g\<rparr>" k m path] assms(1) free step.prems by simp
  finally show ?case using shifted_step [OF sh] step by blast
qed

lemma append_line_ok:
  assumes "fs_fails fs = (\<lambda>_. False)"
  shows "append_line render fs path e = (Inr (), fs\<lparr>fs_files := (fs_files fs)
    (path \<mapsto> (case fs_files fs path of Some c \<Rightarrow> c | None \<Rightarrow> []) @ entry_line render e @ newline)\<rparr>)"
  using assms by (simp add: append_line_def Let_def)

subsection \<open>The file of a log that does not rotate\<close>

lemma record_config [simp]:
  "al_log_path (fst (record_entry digest render e (log, fs))) = al_log_path log"
  "al_checkpoint_path (fst (record_entry digest render e (log, fs))) = al_checkpoint_path log"
  "al_log_max_bytes (fst (record_entry digest render e (log, fs))) = al_log_max_bytes log"
  "al_log_max_files (fst (record_entry digest render e (log, fs))) = al_log_max_files log"
  by (simp_all add: record_entry_log push_entry_def)

lemma record_entry_fs:
  "snd (record_entry digest render e (log, fs)) =
     write_entry render log fs (link_entry digest render log e)"
  by (simp add: record_entry_def Let_def write_entry_def split: option.split)

definition file_text :: "file_system \<Rightarrow> string \<Rightarrow> string" where
  "file_text fs p = (case fs_files fs p of Some c \<Rightarrow> c | None \<Rightarrow> [])"

lemma unrotated_file:
  assumes "fs_fails fs = (\<lambda>_. False)" and "al_log_path log = Some p" and "al_log_max_bytes log = None"
  shows "file_text (snd (fold (record_entry digest render) es (log, fs))) p =
      file_text fs p @ render_entries render (link_all digest render (al_last_hash log) es) \<and>
    fs_fails (snd (fold (record_entry digest render) es (log, fs))) = (\<lambda>_. False) \<and>
    al_log_path (fst (fold (record_entry digest render) es (log, fs))) = Some p \<and>
    al_checkpoint_path (fst (fold (record_entry digest render) es (log, fs))) = al_checkpoint_path log"
  using assms
proof (induction es arbitrary: log fs)
  case Nil
  then show ?case by (simp add: render_entries_def)
next
  case (Cons e es)
  obtain log1 fs1 where r: "record_entry digest render e (log, fs) = (log1, fs1)"
    by (cases "record_entry digest render e (log, fs)")
  let ?e = "link_entry digest render log e"
  have fs1: "fs1 = fs\<lparr>fs_files := (fs_files fs)(p \<mapsto> file_text fs p @ entry_line render ?e @ newline)\<rparr>"
    using record_entry_fs [of digest render e log fs] r Cons.prems
    by (simp add: write_entry_def rotate_if_needed_def append_line_ok file_text_def)
  have log1: "al_log_path log1 = Some p" "al_log_max_bytes log1 = None"
    "al_last_hash log1 = ae_hash ?e" "al_checkpoint_path log1 = al_checkpoint_path log"
    using record_config [of digest render e log fs] r Cons.prems
      record_entry_last_hash [of digest render e log fs] by simp_all
  have "link_all digest render (al_last_hash log) (e # es) = ?e # link_all digest render (ae_hash ?e) es"
    by (simp add: link_entry_def Let_def)
  moreover have "file_text fs1 p = file_text fs p @ entry_line render ?e @ newline"
    by (simp add: fs1 file_text_def)
  moreover have "fs_fails fs1 = (\<lambda>_. False)" using Cons.prems by (simp add: fs1)
  ultimately show ?case
    using Cons.IH [of fs1 log1] log1 r by (simp add: render_entries_def del: link_all.simps)
qed

section \<open>Recording and checkpointing at the same time\<close>

text \<open>
  Two requests may run \<open>record\<close> and \<open>checkpoint\<close> concurrently. A recorder holds the lock of the last
  hash throughout, so one entry is in flight at a time: linked and written, not yet in the
  ring. A checkpoint reads the last hash under that lock, then takes its snapshot under the lock of
  the entries, then rewrites the file under no lock at all.
\<close>

datatype checkpoint_phase =
    CkIdle | CkRead "string option" | CkSnapped "string option" "audit_entry list"

record audit_system =
  sy_log :: audit_log
  sy_fs :: file_system
  sy_recording :: "audit_entry option"
  sy_checkpoint :: checkpoint_phase

definition init_system :: "audit_log \<Rightarrow> file_system \<Rightarrow> audit_system" where
  "init_system log fs = \<lparr>sy_log = log, sy_fs = fs, sy_recording = None, sy_checkpoint = CkIdle\<rparr>"

inductive audit_step ::
  "(string \<Rightarrow> string) \<Rightarrow> (audit_entry \<Rightarrow> string option) \<Rightarrow> audit_system \<Rightarrow> audit_system \<Rightarrow> bool"
  for digest :: "string \<Rightarrow> string" and render :: "audit_entry \<Rightarrow> string option" where
  record_begin:
    "\<lbrakk>sy_recording s = None; e' = link_entry digest render (sy_log s) e\<rbrakk> \<Longrightarrow>
     audit_step digest render s
       (s\<lparr>sy_log := (sy_log s)\<lparr>al_last_hash := ae_hash e'\<rparr>,
          sy_fs := write_entry render (sy_log s) (sy_fs s) e', sy_recording := Some e'\<rparr>)"
| record_end:
    "sy_recording s = Some e' \<Longrightarrow>
     audit_step digest render s (s\<lparr>sy_log := push_entry e' (sy_log s), sy_recording := None\<rparr>)"
| checkpoint_read:
    "\<lbrakk>sy_recording s = None; sy_checkpoint s = CkIdle\<rbrakk> \<Longrightarrow>
     audit_step digest render s (s\<lparr>sy_checkpoint := CkRead (al_last_hash (sy_log s))\<rparr>)"
| checkpoint_snapshot:
    "sy_checkpoint s = CkRead h \<Longrightarrow>
     audit_step digest render s
       (s\<lparr>sy_checkpoint := CkSnapped h (snapshot (sy_log s) (al_max_entries (sy_log s)))\<rparr>)"
| checkpoint_write:
    "\<lbrakk>sy_checkpoint s = CkSnapped h es;
      fs' = (case al_log_path (sy_log s) of None \<Rightarrow> sy_fs s
             | Some path \<Rightarrow> snd (write_file (sy_fs s) path (render_entries render es)))\<rbrakk> \<Longrightarrow>
     audit_step digest render s (s\<lparr>sy_fs := fs', sy_checkpoint := CkIdle\<rparr>)"

inductive_cases audit_stepE: "audit_step digest render s s'"

definition in_flight :: "audit_system \<Rightarrow> audit_entry list" where
  "in_flight s = (case sy_recording s of None \<Rightarrow> [] | Some e \<Rightarrow> [e])"

definition system_inv ::
  "(string \<Rightarrow> string) \<Rightarrow> (audit_entry \<Rightarrow> string option) \<Rightarrow> audit_system \<Rightarrow> bool" where
  "system_inv digest render s \<longleftrightarrow>
     (\<exists>prev. linked digest render prev (al_entries (sy_log s) @ in_flight s) \<and>
        al_last_hash (sy_log s) = chain_end prev (al_entries (sy_log s) @ in_flight s)) \<and>
     length (al_entries (sy_log s)) \<le> al_max_entries (sy_log s) \<and>
     0 < al_max_entries (sy_log s) \<and>
     (\<forall>h es. sy_checkpoint s = CkSnapped h es \<longrightarrow> (\<exists>prev. linked digest render prev es))"

lemma linked_suffix: "linked digest render prev es \<Longrightarrow> \<exists>prev. linked digest render prev (drop n es)"
  using linked_drop by blast

lemma system_inv_step:
  assumes "audit_step digest render s s'" and "system_inv digest render s"
  shows "system_inv digest render s'"
  using assms
proof cases
  case (record_begin e' e)
  then show ?thesis
    using assms(2) by (auto simp: system_inv_def in_flight_def linked_append link_entry_def Let_def)
next
  case (record_end e')
  let ?log = "sy_log s"
  from assms(2) record_end obtain prev where
    l: "linked digest render prev (al_entries ?log @ [e'])"
    and h: "al_last_hash ?log = chain_end prev (al_entries ?log @ [e'])"
    by (auto simp: system_inv_def in_flight_def)
  define zs where "zs = drop (Suc (length (al_entries ?log)) - al_max_entries ?log) (al_entries ?log @ [e'])"
  define xs where "xs = take (Suc (length (al_entries ?log)) - al_max_entries ?log) (al_entries ?log @ [e'])"
  have "al_entries ?log @ [e'] = xs @ zs" unfolding xs_def zs_def by (rule append_take_drop_id [symmetric])
  with l h have "linked digest render (chain_end prev xs) zs \<and> al_last_hash ?log = chain_end (chain_end prev xs) zs"
    by (simp add: linked_append)
  moreover have "al_entries (sy_log s') = zs" "al_last_hash (sy_log s') = al_last_hash ?log"
    "sy_recording s' = None" "sy_checkpoint s' = sy_checkpoint s"
    "al_max_entries (sy_log s') = al_max_entries ?log"
    unfolding record_end(1) zs_def by (simp_all add: push_entry_def)
  moreover have "length zs \<le> al_max_entries ?log" unfolding zs_def by simp
  ultimately show ?thesis
    using assms(2) unfolding system_inv_def in_flight_def by auto
next
  case (checkpoint_snapshot h)
  then show ?thesis
    using assms(2) linked_suffix
    unfolding system_inv_def in_flight_def by (fastforce simp: snapshot_drop linked_append)
qed (use assms(2) in \<open>auto simp: system_inv_def in_flight_def\<close>)

section \<open>Properties\<close>

text \<open>
  C16: The log in memory is a window on one hash-linked history. After any sequence of
  recordings the ring holds exactly the newest entries of the linked history, the last hash is
  the hash of the newest, and a snapshot returns its newest entries, oldest first, at most as
  many as asked for (at least one) and as the ring keeps.
\<close>

theorem audit_log_refines_history:
  "let full = link_all digest render None hist;
       log = fst (fold (record_entry digest render) hist (new_log n lp cp mb mf, fs))
   in linked digest render None full \<and> al_last_hash log = chain_end None full \<and>
      al_entries log = drop (length hist - max n 1) full \<and>
      snapshot log k = drop (length hist - min (max n 1) (max k 1)) full"
proof -
  let ?full = "link_all digest render None hist"
  let ?log = "fst (fold (record_entry digest render) hist (new_log n lp cp mb mf, fs))"
  have "al_entries ?log = drop (length hist - max n 1) ?full \<and> al_last_hash ?log = chain_end None ?full"
    using record_history [of "new_log n lp cp mb mf" digest render hist fs]
    by (simp add: Let_def)
  moreover have "l - (l - a + b) + (l - a) = l - min a b" for l a b :: nat by arith
  ultimately show ?thesis
    unfolding snapshot_drop Let_def by simp
qed


definition sample_entry :: "string \<Rightarrow> audit_entry" where
  "sample_entry rid = \<lparr>ae_schema_version = ''v1'', ae_event_type = ''tool_call'', ae_ts = ''t'',
     ae_request_id = rid, ae_prev_hash = None, ae_hash = None, ae_actor = None, ae_tool = ''users_list'',
     ae_outcome = \<lparr>ao_status = ''success'', ao_duration_ms = 1\<rparr>\<rparr>"


text \<open>
  C19: Rotation shifts the files by one: when the log has reached its limit, the log moves to
  the first rotated file, every rotated file moves to the next index, only the content of the highest
  one is given up, and no other file changes.
\<close>

theorem rotation_shifts_files:
  assumes "fs_fails fs = (\<lambda>_. False)" and "fs_files fs path = Some c"
    and "m \<le> length c" and "0 < m" and "0 < max_files"
  shows "\<exists>g. rotate_if_needed fs path (Some m) max_files = (Inr (), fs\<lparr>fs_files := g\<rparr>) \<and>
    g path = None \<and> g (rotated_path path 1) = Some c \<and>
    (\<forall>i. 1 \<le> i \<and> i < max_files \<longrightarrow> g (rotated_path path (Suc i)) = fs_files fs (rotated_path path i)) \<and>
    (\<forall>p. p \<noteq> path \<and> (\<forall>i. 1 \<le> i \<and> i \<le> max_files \<longrightarrow> p \<noteq> rotated_path path i) \<longrightarrow> g p = fs_files fs p)"
proof -
  obtain g where g: "fold (rotate_step path max_files) (rev [1..<Suc max_files]) fs = fs\<lparr>fs_files := g\<rparr>"
    and sh: "shifted (fs_files fs) g path 1 max_files"
    using rotate_loop [OF assms(1), of 1 max_files path] assms(5) by auto
  have "rotate_if_needed fs path (Some m) max_files = (Inr (), fs\<lparr>fs_files := g\<rparr>)"
    using assms g by (simp add: rotate_if_needed_def metadata_len_def del: upt_Suc)
  moreover have "g path = None" using sh by (simp add: shifted_def previous_path_def)
  moreover have "g (rotated_path path i) = fs_files fs (previous_path path i)"
    if "1 \<le> i" "i \<le> max_files" for i using sh that unfolding shifted_def by blast
  moreover have "\<forall>p. p \<noteq> path \<and> (\<forall>i. 1 \<le> i \<and> i \<le> max_files \<longrightarrow> p \<noteq> rotated_path path i) \<longrightarrow>
      g p = fs_files fs p"
    using sh unfolding shifted_def previous_path_def by simp
  ultimately show ?thesis
    using assms(2,5) by (intro exI [of _ g]) (simp add: previous_path_def Suc_le_eq)
qed

theorem rotation_shifts_files_witness:
  "\<exists>g. rotate_if_needed \<lparr>fs_files = [''l'' \<mapsto> ''abc''], fs_fails = (\<lambda>_. False)\<rparr> ''l'' (Some 3) 2 =
     (Inr (), \<lparr>fs_files = g, fs_fails = (\<lambda>_. False)\<rparr>) \<and> g ''l'' = None"
  using rotation_shifts_files [of "\<lparr>fs_files = [''l'' \<mapsto> ''abc''], fs_fails = (\<lambda>_. False)\<rparr>" "''l''" "''abc''" 3 2]
  by auto

text \<open>
  One recording writes exactly one line, at the end of the active log file: the line goes
  behind what the file held, or into a fresh file when it had reached its limit, so the active
  file stays below the limit plus one line.
\<close>

theorem record_writes_one_line:
  assumes "fs_fails fs = (\<lambda>_. False)" and "al_log_path log = Some p"
    and "al_log_max_bytes log = Some m" and "0 < m" and "0 < al_log_max_files log"
  shows "file_text (snd (record_entry digest render e (log, fs))) p =
      (if m \<le> length (file_text fs p) then [] else file_text fs p) @
      entry_line render (link_entry digest render log e) @ newline \<and>
    length (file_text (snd (record_entry digest render e (log, fs))) p) \<le>
      m + length (entry_line render (link_entry digest render log e))"
proof -
  let ?l = "entry_line render (link_entry digest render log e) @ newline"
  have nl: "length newline = 1" by (simp add: newline_def)
  have "file_text (snd (record_entry digest render e (log, fs))) p =
      (if m \<le> length (file_text fs p) then [] else file_text fs p) @ ?l"
  proof (cases "\<exists>c. fs_files fs p = Some c \<and> m \<le> length c")
    case True
    then obtain c where c: "fs_files fs p = Some c" "m \<le> length c" by blast
    obtain g where "rotate_if_needed fs p (Some m) (al_log_max_files log) = (Inr (), fs\<lparr>fs_files := g\<rparr>)"
      and "g p = None"
      using rotate_loop [OF assms(1), of 1 "al_log_max_files log" p] assms c
      by (auto simp: rotate_if_needed_def metadata_len_def shifted_def previous_path_def simp del: upt_Suc)
    with c show ?thesis
      by (simp add: record_entry_fs write_entry_def assms append_line_ok file_text_def)
  next
    case False
    then have "rotate_if_needed fs p (Some m) (al_log_max_files log) = (Inr (), fs)"
      using assms by (auto simp: rotate_if_needed_def metadata_len_def split: option.splits)
    with False assms(4) show ?thesis
      by (simp add: record_entry_fs write_entry_def assms append_line_ok file_text_def split: option.split)
  qed
  then show ?thesis using nl assms(4) by simp
qed

theorem record_writes_one_line_witness:
  "\<exists>log. length (file_text (snd (record_entry id (\<lambda>_. Some ''e'') (sample_entry ''a'')
     (log, \<lparr>fs_files = Map.empty, fs_fails = (\<lambda>_. False)\<rparr>))) ''l'') \<le> 5 + 1"
  using record_writes_one_line [of "\<lparr>fs_files = Map.empty, fs_fails = (\<lambda>_. False)\<rparr>"
      "new_log 1 (Some ''l'') None (Some 5) 2" "''l''" 5 id "\<lambda>_. Some ''e''" "sample_entry ''a''"]
  by (auto simp: new_log_def entry_line_def)

text \<open>
  A checkpoint truncates the log. Before it, a log file without rotation holds a line for
  every entry ever recorded; after a successful one it holds the lines of the entries in the
  ring alone, so the older lines are gone from disk.
\<close>

theorem checkpoint_truncates_log:
  assumes "fs_fails fs = (\<lambda>_. False)" and "fs_files fs p = None"
  shows "let full = link_all digest render None hist;
       state = fold (record_entry digest render) hist (new_log n (Some p) None None mf, fs)
     in file_text (snd state) p = render_entries render full \<and>
        fst (checkpoint render pretty ts state) = Inr (checkpoint_of ts (chain_end None full) (fst state)) \<and>
        file_text (snd (checkpoint render pretty ts state)) p =
          render_entries render (drop (length hist - max n 1) full)"
proof -
  let ?full = "link_all digest render None hist"
  obtain log' fs' where st: "fold (record_entry digest render) hist (new_log n (Some p) None None mf, fs) = (log', fs')"
    by (cases "fold (record_entry digest render) hist (new_log n (Some p) None None mf, fs)")
  from record_history [of "new_log n (Some p) None None mf" digest render hist fs]
  have ents: "al_entries log' = drop (length hist - max n 1) ?full"
    and h: "al_last_hash log' = chain_end None ?full" and m: "al_max_entries log' = max n 1"
    by (simp_all add: st Let_def)
  note unrotated_file [OF assms(1), of "new_log n (Some p) None None mf" p digest render hist]
  with assms(2)
  have body: "file_text fs' p = render_entries render ?full" and ok: "fs_fails fs' = (\<lambda>_. False)"
    and paths: "al_log_path log' = Some p" "al_checkpoint_path log' = None"
    by (simp_all add: st file_text_def)
  have "snapshot log' (al_max_entries log') = al_entries log'"
    by (simp add: snapshot_drop ents m)
  then show ?thesis
    using body ok paths ents h
    by (simp add: st checkpoint_def write_file_def file_text_def Let_def)
qed

theorem checkpoint_truncates_log_witness:
  "file_text (snd (checkpoint (\<lambda>e. Some (ae_request_id e)) (\<lambda>_. None) ''t''
     (fold (record_entry id (\<lambda>e. Some (ae_request_id e))) [sample_entry ''a'', sample_entry ''b'']
        (new_log 1 (Some ''l'') None None 0, \<lparr>fs_files = Map.empty, fs_fails = (\<lambda>_. False)\<rparr>)))) ''l''
   = ''b'' @ newline"
  using checkpoint_truncates_log [of "\<lparr>fs_files = Map.empty, fs_fails = (\<lambda>_. False)\<rparr>" "''l''" id
      "\<lambda>e. Some (ae_request_id e)" "[sample_entry ''a'', sample_entry ''b'']" 1 0 "\<lambda>_. None" "''t''"]
  by (simp add: Let_def render_entries_def entry_line_def sample_entry_def del: fold.simps)

text \<open>
  C18: However recordings and checkpoints interleave, the entries in memory, with the one in
  flight, are a linked chain that ends in the last hash, the ring keeps its bound, and what a
  checkpoint has read to write is itself a linked chain.
\<close>

theorem interleaved_chain_invariant:
  assumes "(audit_step digest render)\<^sup>*\<^sup>* (init_system (new_log n lp cp mb mf) fs) s"
  shows "(\<exists>prev. linked digest render prev (al_entries (sy_log s) @ in_flight s) \<and>
      al_last_hash (sy_log s) = chain_end prev (al_entries (sy_log s) @ in_flight s)) \<and>
    length (al_entries (sy_log s)) \<le> al_max_entries (sy_log s) \<and>
    (\<forall>h es. sy_checkpoint s = CkSnapped h es \<longrightarrow> (\<exists>prev. linked digest render prev es))"
proof -
  have "system_inv digest render s"
    using assms
  proof (induction rule: rtranclp_induct)
    case base
    show ?case by (auto simp: system_inv_def init_system_def in_flight_def)
  next
    case (step s s')
    then show ?case by (blast intro: system_inv_step)
  qed
  then show ?thesis unfolding system_inv_def by blast
qed

theorem interleaved_chain_invariant_witness:
  "\<exists>s. sy_recording s \<noteq> None \<and>
     (\<exists>prev. linked id (\<lambda>_. None) prev (al_entries (sy_log s) @ in_flight s))"
proof -
  let ?s = "init_system (new_log 1 None None None 0) \<lparr>fs_files = Map.empty, fs_fails = (\<lambda>_. False)\<rparr>"
  have "audit_step id (\<lambda>_. None) ?s (?s\<lparr>sy_log := (sy_log ?s)\<lparr>al_last_hash :=
       ae_hash (link_entry id (\<lambda>_. None) (sy_log ?s) (sample_entry ''a''))\<rparr>,
     sy_fs := write_entry (\<lambda>_. None) (sy_log ?s) (sy_fs ?s) (link_entry id (\<lambda>_. None) (sy_log ?s) (sample_entry ''a'')),
     sy_recording := Some (link_entry id (\<lambda>_. None) (sy_log ?s) (sample_entry ''a''))\<rparr>)" (is "audit_step _ _ _ ?s'")
    by (rule record_begin) (simp_all add: init_system_def)
  then have "(audit_step id (\<lambda>_. None))\<^sup>*\<^sup>* ?s ?s'" by blast
  from interleaved_chain_invariant [OF this]
  have "\<exists>prev. linked id (\<lambda>_. None) prev (al_entries (sy_log ?s') @ in_flight ?s')" by blast
  moreover have "sy_recording ?s' \<noteq> None" by simp
  ultimately show ?thesis by blast
qed

text \<open>
  A checkpoint that runs beside a recording can lose its line: there is an interleaving
  after which nothing is in flight, the entry is in the ring and its hash is the last hash,
  and the log file, written without a fault, is empty.
\<close>

theorem checkpoint_race_loses_line:
  fixes e :: audit_entry
  shows "\<exists>s. (audit_step digest render)\<^sup>*\<^sup>* (init_system (new_log 1 (Some p) None None 0)
        \<lparr>fs_files = Map.empty, fs_fails = (\<lambda>_. False)\<rparr>) s \<and>
     sy_recording s = None \<and> sy_checkpoint s = CkIdle \<and>
     (\<exists>e'. al_entries (sy_log s) = [e'] \<and> ae_tool e' = ae_tool e \<and> al_last_hash (sy_log s) = ae_hash e') \<and>
     fs_files (sy_fs s) p = Some []"
proof -
  let ?log = "new_log 1 (Some p) None None 0"
  let ?fs = "\<lparr>fs_files = Map.empty, fs_fails = (\<lambda>_. False)\<rparr>"
  let ?e = "link_entry digest render ?log e"
  let ?step = "audit_step digest render"
  define s0 where "s0 = init_system ?log ?fs"
  define s1 where "s1 = s0\<lparr>sy_checkpoint := CkRead None\<rparr>"
  define s2 where "s2 = s1\<lparr>sy_checkpoint := CkSnapped None []\<rparr>"
  define s3 where "s3 = s2\<lparr>sy_log := ?log\<lparr>al_last_hash := ae_hash ?e\<rparr>,
      sy_fs := write_entry render ?log ?fs ?e, sy_recording := Some ?e\<rparr>"
  define s4 where "s4 = s3\<lparr>sy_log := push_entry ?e (?log\<lparr>al_last_hash := ae_hash ?e\<rparr>), sy_recording := None\<rparr>"
  define s5 where "s5 = s4\<lparr>sy_fs := snd (write_file (sy_fs s4) p []), sy_checkpoint := CkIdle\<rparr>"
  note states = s0_def s1_def s2_def s3_def s4_def init_system_def
  have t1: "?step s0 s1" using checkpoint_read [of s0] by (simp add: states)
  have t2: "?step s1 s2" using checkpoint_snapshot [of s1 None] by (simp add: states snapshot_def)
  have t3: "?step s2 s3" using record_begin [of s2 ?e digest render e] by (simp add: states)
  have t4: "?step s3 s4" using record_end [of s3 ?e] by (simp add: states)
  have t5: "?step s4 s5"
    using checkpoint_write [of s4 None "[]" "snd (write_file (sy_fs s4) p [])" render]
    unfolding s5_def by (simp add: states push_entry_def render_entries_def)
  have "?step\<^sup>*\<^sup>* s0 s5"
    by (rule converse_rtranclp_into_rtranclp [OF t1 converse_rtranclp_into_rtranclp [OF t2
          converse_rtranclp_into_rtranclp [OF t3 converse_rtranclp_into_rtranclp [OF t4 r_into_rtranclp [where r = "audit_step digest render", OF t5]]]]])
  moreover have "fs_fails (write_entry render ?log ?fs ?e) = (\<lambda>_. False)"
    by (simp add: write_entry_def rotate_if_needed_def append_line_ok)
  ultimately show ?thesis
    unfolding s0_def
    by (intro exI [of _ s5]) (simp add: s5_def states push_entry_def write_file_def link_entry_def Let_def)
qed

end
