(* ===== verification/Mcp_Server.thy ===== *)
theory Mcp_Server
  imports Mcp_Tools Audit_Log
begin

text \<open>
  The server handler (\<open>server.rs\<close>): which tools it lists, and how it runs a tool, counts the call and
  records it in the audit log. The router is the tool it chose; the clock, the log context and the
  toolkit's tool-list tracker are parameters. A panic is \<open>None\<close>.
\<close>

section \<open>State and calls\<close>

record 't server_state =
  sv_metrics :: metrics
  sv_audit_log :: audit_log
  sv_files :: file_system
  sv_tracker :: 't

text \<open>
  The configuration, the names of all registered tools, and the code that is not in the
  repository: the digest, the serializer, and \<open>observe\<close> of the tool-list tracker, which says
  whether the list of a session changed.
\<close>

record 't server_env =
  sn_config :: mcp_config
  sn_tools :: "string list"
  sn_digest :: "string \<Rightarrow> string"
  sn_render :: "audit_entry \<Rightarrow> string option"
  sn_observe :: "string \<Rightarrow> string list \<Rightarrow> 't \<Rightarrow> bool \<times> 't"

text \<open>What the handler knows of a call besides the tool: its name, times, protocol id, caller and session.\<close>

record call_info =
  ci_tool_name :: string
  ci_ts :: string
  ci_duration_ms :: "64 word"
  ci_context_id :: string
  ci_parts :: "caller option"
  ci_session_id :: "string option"

definition effective_tools :: "'t server_env \<Rightarrow> string list" where
  "effective_tools srv =
     (if mc_enable_secret_tools (sn_config srv) then sn_tools srv
      else filter (\<lambda>name. \<not> starts_with ''clients.secrets.'' name) (sn_tools srv))"

text \<open>\<open>list_tools\<close> tells the tracker what a session has seen.\<close>

definition list_tools :: "'t server_env \<Rightarrow> string option \<Rightarrow> 't server_state \<Rightarrow> string list \<times> 't server_state" where
  "list_tools srv session_id st =
     (let tools = effective_tools srv in
      case session_id of
        None \<Rightarrow> (tools, st)
      | Some session_id \<Rightarrow> (tools, st\<lparr>sv_tracker := snd (sn_observe srv session_id tools (sv_tracker st))\<rparr>))"

definition extract_audit_actor :: "string \<Rightarrow> caller option \<Rightarrow> string \<times> audit_actor option" where
  "extract_audit_actor context_id parts =
     (case parts of
        Some auth_ctx \<Rightarrow>
          (cl_request_id auth_ctx,
           Some \<lparr>aa_subject = cl_subject auth_ctx, aa_client_id = cl_client_id auth_ctx,
             aa_scopes = cl_scopes auth_ctx, aa_roles = cl_roles auth_ctx,
             aa_actor_id = cl_actor_id auth_ctx\<rparr>)
      | None \<Rightarrow> (context_id, None))"

definition tool_status :: "mcp_error + tool_result \<Rightarrow> string" where
  "tool_status result =
     (case result of
        Inr r \<Rightarrow> (if is_error r then ''error'' else ''success'')
      | Inl _ \<Rightarrow> ''error'')"

definition call_entry :: "call_info \<Rightarrow> string \<Rightarrow> audit_entry" where
  "call_entry info status =
     (let (request_id, actor) = extract_audit_actor (ci_context_id info) (ci_parts info) in
      \<lparr>ae_schema_version = ''v1'', ae_event_type = ''tool.call'', ae_ts = ci_ts info,
       ae_request_id = request_id, ae_prev_hash = None, ae_hash = None, ae_actor = actor,
       ae_tool = ci_tool_name info,
       ae_outcome = \<lparr>ao_status = status, ao_duration_ms = ci_duration_ms info\<rparr>\<rparr>)"

text \<open>Whether the client is told that its tool list changed, and the tracker afterwards.\<close>

definition maybe_notify_tool_list_changed ::
  "'t server_env \<Rightarrow> string option \<Rightarrow> 't \<Rightarrow> bool \<times> 't" where
  "maybe_notify_tool_list_changed srv session_id tracker =
     (case Option.bind session_id non_empty of
        None \<Rightarrow> (False, tracker)
      | Some session_id \<Rightarrow> sn_observe srv session_id (effective_tools srv) tracker)"

text \<open>The result, and whether a notification was sent before it.\<close>

definition call_tool ::
  "'t server_env \<Rightarrow> ('w \<Rightarrow> gateway_call \<Rightarrow> gateway_reply \<times> 'w) \<Rightarrow> call_info \<Rightarrow> tool \<Rightarrow> 't server_state \<times> 'w \<Rightarrow>
     ((mcp_error + tool_result) \<times> bool \<times> 't server_state \<times> 'w) option" where
  "call_tool srv serve info tool state =
     (let (st, w) = state;
          (result, trace, w) = run_prog serve tool w;
          status = tool_status result;
          counted = count_timeouts trace (sv_metrics st)
      in Option.bind (record_tool_call (ci_tool_name info) status (ci_duration_ms info) counted) (\<lambda>m.
           let (log, fs) = record_entry (sn_digest srv) (sn_render srv) (call_entry info status)
                 (sv_audit_log st, sv_files st);
               (notified, tracker) =
                 (case result of
                    Inr payload \<Rightarrow>
                      if is_error payload then (False, sv_tracker st)
                      else maybe_notify_tool_list_changed srv (ci_session_id info) (sv_tracker st)
                  | Inl _ \<Rightarrow> (False, sv_tracker st))
           in Some (result, notified,
                \<lparr>sv_metrics = m, sv_audit_log = log, sv_files = fs, sv_tracker = tracker\<rparr>, w)))"

fun call_tools ::
  "'t server_env \<Rightarrow> ('w \<Rightarrow> gateway_call \<Rightarrow> gateway_reply \<times> 'w) \<Rightarrow> (call_info \<times> tool) list \<Rightarrow>
     't server_state \<times> 'w \<Rightarrow> ((mcp_error + tool_result) list \<times> 't server_state \<times> 'w) option" where
  "call_tools srv serve [] state = Some ([], state)"
| "call_tools srv serve ((info, tool) # calls) state =
     Option.bind (call_tool srv serve info tool state) (\<lambda>(result, notified, state).
       map_option (\<lambda>(results, state). (result # results, state))
         (call_tools srv serve calls state))"

definition new_server :: "audit_log \<Rightarrow> file_system \<Rightarrow> 't \<Rightarrow> 't server_state" where
  "new_server log fs tracker =
     \<lparr>sv_metrics = new_metrics, sv_audit_log = log, sv_files = fs, sv_tracker = tracker\<rparr>"

section \<open>Lemmas\<close>

lemma call_entry_simps [simp]:
  "ae_tool (call_entry info status) = ci_tool_name info"
  "ao_status (ae_outcome (call_entry info status)) = status"
  by (simp_all add: call_entry_def split: prod.split)

lemma count_timeouts_calls [simp]:
  "tool_calls_total (count_timeouts trace m) = tool_calls_total m"
  "tool_call_duration_ms (count_timeouts trace m) = tool_call_duration_ms m"
  by (induction trace arbitrary: m) (auto simp: record_request_timeout_def)

text \<open>What a call adds: its entry to the log, one to its counter.\<close>

definition entry_label :: "audit_entry \<Rightarrow> label_key \<times> 64 word" where
  "entry_label e = ([(''tool'', ae_tool e), (''status'', ao_status (ae_outcome e))], 1)"

lemma call_tool_adds:
  assumes "durations_valid (tool_call_duration_ms (sv_metrics st))"
  shows "\<exists>result notified st' w'. call_tool srv serve info tool (st, w) = Some (result, notified, st', w') \<and>
    (sv_audit_log st', sv_files st') =
      record_entry (sn_digest srv) (sn_render srv) (call_entry info (tool_status result))
        (sv_audit_log st, sv_files st) \<and>
    tool_calls_total (sv_metrics st') =
      inc (fst (entry_label (call_entry info (tool_status result)))) 1 (tool_calls_total (sv_metrics st)) \<and>
    durations_valid (tool_call_duration_ms (sv_metrics st'))"
proof -
  obtain result trace w' where run: "run_prog serve tool w = (result, trace, w')" by (cases "run_prog serve tool w")
  let ?m = "count_timeouts trace (sv_metrics st)"
  obtain h where h: "observe [(''tool'', ci_tool_name info)] (ci_duration_ms info) (tool_call_duration_ms ?m) = Some h"
    "durations_valid h"
    using durations.update_valid [of "tool_call_duration_ms ?m"] assms by auto
  let ?t = "case result of Inr payload \<Rightarrow> if is_error payload then (False, sv_tracker st)
      else maybe_notify_tool_list_changed srv (ci_session_id info) (sv_tracker st)
    | Inl _ \<Rightarrow> (False, sv_tracker st)"
  obtain log fs where rec: "record_entry (sn_digest srv) (sn_render srv) (call_entry info (tool_status result))
      (sv_audit_log st, sv_files st) = (log, fs)" by fastforce
  obtain notified tracker where t: "?t = (notified, tracker)" by fastforce
  show ?thesis
    by (rule exI [of _ result], rule exI [of _ notified],
        rule exI [of _ "\<lparr>sv_metrics = ?m\<lparr>tool_calls_total := inc [(''tool'', ci_tool_name info),
          (''status'', tool_status result)] 1 (tool_calls_total ?m), tool_call_duration_ms := h\<rparr>,
          sv_audit_log = log, sv_files = fs, sv_tracker = tracker\<rparr>"], rule exI [of _ w'])
      (use run h rec t in \<open>simp add: call_tool_def record_tool_call_def entry_label_def Let_def\<close>)
qed

definition call_entries :: "(call_info \<times> tool) list \<Rightarrow> (mcp_error + tool_result) list \<Rightarrow> audit_entry list" where
  "call_entries calls results =
     map2 (\<lambda>(info, tool) result. call_entry info (tool_status result)) calls results"

lemma call_tools_history:
  assumes "durations_valid (tool_call_duration_ms (sv_metrics st))"
  shows "\<exists>results st' w'. call_tools srv serve calls (st, w) = Some (results, st', w') \<and>
    length results = length calls \<and>
    (sv_audit_log st', sv_files st') =
      fold (record_entry (sn_digest srv) (sn_render srv)) (call_entries calls results)
        (sv_audit_log st, sv_files st) \<and>
    counters.update_all (map entry_label (call_entries calls results)) (tool_calls_total (sv_metrics st)) =
      Some (tool_calls_total (sv_metrics st'))"
  using assms
proof (induction calls arbitrary: st w)
  case Nil
  then show ?case by (simp add: call_entries_def)
next
  case (Cons call calls)
  obtain info tool where c: "call = (info, tool)" by (cases call)
  from call_tool_adds [OF Cons.prems, of srv serve info tool w]
  obtain result notified st1 w1 where one: "call_tool srv serve info tool (st, w) = Some (result, notified, st1, w1)"
    "record_entry (sn_digest srv) (sn_render srv) (call_entry info (tool_status result)) (sv_audit_log st, sv_files st) =
      (sv_audit_log st1, sv_files st1)"
    "tool_calls_total (sv_metrics st1) =
      inc (fst (entry_label (call_entry info (tool_status result)))) 1 (tool_calls_total (sv_metrics st))"
    "durations_valid (tool_call_duration_ms (sv_metrics st1))" by metis
  from Cons.IH [OF one(4), of w1] obtain results st' w' where
    rest: "call_tools srv serve calls (st1, w1) = Some (results, st', w')"
    "length results = length calls"
    "(sv_audit_log st', sv_files st') = fold (record_entry (sn_digest srv) (sn_render srv))
       (call_entries calls results) (sv_audit_log st1, sv_files st1)"
    "counters.update_all (map entry_label (call_entries calls results)) (tool_calls_total (sv_metrics st1)) =
       Some (tool_calls_total (sv_metrics st'))"
    by auto
  have entries: "call_entries (call # calls) (result # results) =
      call_entry info (tool_status result) # call_entries calls results"
    by (simp add: call_entries_def c)
  obtain k where label: "entry_label (call_entry info (tool_status result)) = (k, 1)"
    by (simp add: entry_label_def)
  have "call_tools srv serve (call # calls) (st, w) = Some (result # results, st', w')"
    using one rest by (simp add: c)
  then show ?case
    using one rest label entries by (intro exI [of _ "result # results"] exI [of _ st'] exI [of _ w']) simp
qed

lemma length_call_entries: "length results = length calls \<Longrightarrow> length (call_entries calls results) = length calls"
  by (simp add: call_entries_def)

lemma entry_label_values:
  "counters.values_of [(''tool'', tool), (''status'', status)] (map entry_label entries) =
     replicate (length (filter (\<lambda>e. ae_tool e = tool \<and> ao_status (ae_outcome e) = status) entries)) 1"
  by (induction entries) (auto simp: entry_label_def)

section \<open>Property\<close>

text \<open>
  C28: The audit log and the metrics of the server agree. After any sequence of tool calls from a
  fresh server, whatever the tools are and whatever the gateway answers, no call has panicked; there
  is one audit entry per call, with the name of the tool, its caller and the status of its result;
  the ring holds the newest of them, linked, and the last hash ends the chain of all of them; and the
  counter of a tool and a status is the number of such entries (modulo 2 to the 64).
\<close>

theorem audit_and_metrics_agree:
  "\<exists>results st w'.
     call_tools srv serve calls (new_server (new_log n lp cp mb mf) fs tracker, w) = Some (results, st, w') \<and>
     length results = length calls \<and>
     (let entries = map2 (\<lambda>(info, tool) result. call_entry info (tool_status result)) calls results;
          full = link_all (sn_digest srv) (sn_render srv) None entries
      in al_entries (sv_audit_log st) = drop (length calls - max n 1) full \<and>
         al_last_hash (sv_audit_log st) = chain_end None full \<and>
         (\<forall>tool status. map_of (tool_calls_total (sv_metrics st)) [(''tool'', tool), (''status'', status)] =
            (let k = length (filter (\<lambda>e. ae_tool e = tool \<and> ao_status (ae_outcome e) = status) entries)
             in if k = 0 then None else Some (of_nat k))))"
proof -
  let ?new = "new_server (new_log n lp cp mb mf) fs tracker"
  have "durations_valid (tool_call_duration_ms (sv_metrics ?new))"
    by (simp add: new_server_def durations_valid_def new_metrics_def)
  from call_tools_history [OF this, of srv serve calls w] obtain results st w' where
    run: "call_tools srv serve calls (?new, w) = Some (results, st, w')" "length results = length calls"
    and log: "(sv_audit_log st, sv_files st) = fold (record_entry (sn_digest srv) (sn_render srv))
        (call_entries calls results) (new_log n lp cp mb mf, fs)"
    and counts: "counters.update_all (map entry_label (call_entries calls results)) [] =
        Some (tool_calls_total (sv_metrics st))"
    by (auto simp: new_server_def new_metrics_def)
  have "sv_audit_log st = fst (fold (record_entry (sn_digest srv) (sn_render srv))
      (call_entries calls results) (new_log n lp cp mb mf, fs))"
    by (simp flip: log)
  with record_history [of "new_log n lp cp mb mf" "sn_digest srv" "sn_render srv" "call_entries calls results" fs]
  have ring: "al_entries (sv_audit_log st) = drop (length calls - max n 1)
      (link_all (sn_digest srv) (sn_render srv) None (call_entries calls results))"
    "al_last_hash (sv_audit_log st) = chain_end None
      (link_all (sn_digest srv) (sn_render srv) None (call_entries calls results))"
    by (simp_all add: Let_def length_call_entries [OF run(2)])
  from counters.update_all_lookup [OF TrueI counts]
  have "map_of (tool_calls_total (sv_metrics st)) [(''tool'', tool), (''status'', status)] =
      (let k = length (filter (\<lambda>e. ae_tool e = tool \<and> ao_status (ae_outcome e) = status)
         (call_entries calls results)) in if k = 0 then None else Some (of_nat k))" for tool status
    by (simp add: entry_label_values fold_plus_ones Let_def)
  with run ring show ?thesis
    unfolding call_entries_def Let_def by blast
qed

end
