(* ===== verification/Tools_Observability.thy ===== *)
theory Tools_Observability
  imports Mcp_Server
begin

text \<open>
  The observability tools (\<open>tools/observability.rs\<close>): status, metrics, the recent audit entries and the
  checkpoint of the audit log. They work on the state of the server, not through the gateway. The uptime,
  the timestamp, the text of an I/O error and the printed checkpoint are fields of \<open>observability_env\<close>.
\<close>

section \<open>Representations\<close>

record observability_env =
  oe_uptime_s :: nat
  oe_ts :: string
  oe_error_text :: "io_error \<Rightarrow> string"
  oe_pretty :: "audit_checkpoint \<Rightarrow> string option"

definition strings_json :: "string list \<Rightarrow> json" where
  "strings_json vs = JArr (map JStr vs)"

definition json_int :: "int \<Rightarrow> json" where
  "json_int i = JNum (if i < 0 then NegInt (of_int i) else PosInt (of_int i))"

abbreviation json_u64 :: "64 word \<Rightarrow> json" where
  "json_u64 w \<equiv> JNum (PosInt w)"

definition actor_json :: "audit_actor \<Rightarrow> json" where
  "actor_json v = JObj [(''subject'', json_opt_str (aa_subject v)), (''client_id'', json_opt_str (aa_client_id v)),
     (''scopes'', strings_json (aa_scopes v)), (''roles'', strings_json (aa_roles v)),
     (''actor_id'', json_opt_str (aa_actor_id v))]"

definition entry_json :: "audit_entry \<Rightarrow> json" where
  "entry_json v = JObj [(''schema_version'', JStr (ae_schema_version v)),
     (''event_type'', JStr (ae_event_type v)), (''ts'', JStr (ae_ts v)),
     (''request_id'', JStr (ae_request_id v)), (''prev_hash'', json_opt_str (ae_prev_hash v)),
     (''hash'', json_opt_str (ae_hash v)), (''actor'', json_opt actor_json (ae_actor v)),
     (''tool'', JObj [(''name'', JStr (ae_tool v))]),
     (''outcome'', JObj [(''status'', JStr (ao_status (ae_outcome v))),
        (''duration_ms'', json_u64 (ao_duration_ms (ae_outcome v)))])]"

definition labels_json :: "label_key \<Rightarrow> json" where
  "labels_json labels = JArr (map (\<lambda>(k, v). JObj [(''key'', JStr k), (''value'', JStr v)]) labels)"

definition counter_json :: "(label_key \<times> 64 word) list \<Rightarrow> json" where
  "counter_json counters = JArr (map (\<lambda>(labels, v).
     JObj [(''labels'', labels_json labels), (''value'', json_u64 v)]) counters)"

definition histogram_json :: "histogram_snapshot list \<Rightarrow> json" where
  "histogram_json hs = JArr (map (\<lambda>h.
     JObj [(''labels'', labels_json (hn_labels h)), (''buckets'', JArr (map json_u64 (hn_buckets h))),
       (''counts'', JArr (map json_u64 (hn_counts h))), (''sum'', json_u64 (hn_sum h)),
       (''count'', json_u64 (hn_count h))]) hs)"

fun auth_mode_text :: "auth_mode \<Rightarrow> string" where
  "auth_mode_text Introspection = ''introspection''"
| "auth_mode_text Jwks = ''jwks''"

fun auth_method_text :: "client_auth_method \<Rightarrow> string" where
  "auth_method_text ClientSecretBasic = ''client_secret_basic''"
| "auth_method_text ClientSecretPost = ''client_secret_post''"

fun mtls_mode_text :: "mtls_mode \<Rightarrow> string" where
  "mtls_mode_text MtlsDisabled = ''disabled''"
| "mtls_mode_text Native = ''native''"
| "mtls_mode_text ProxyHeader = ''proxy''"

definition read_write_json :: "'a tool_scopes_scheme \<Rightarrow> (string \<times> json) list" where
  "read_write_json s = [(''read'', strings_json (ts_read s)), (''write'', strings_json (ts_write s))]"

definition scope_map_json :: "scope_map \<Rightarrow> json" where
  "scope_map_json m = JObj [
     (''users'', JObj (read_write_json (sm_users m))),
     (''groups'', JObj (read_write_json (sm_groups m))),
     (''roles'', JObj (read_write_json (sm_roles m))),
     (''clients'', JObj (read_write_json (sm_clients m) @ [(''secrets'', strings_json (ts_secrets (sm_clients m)))])),
     (''client_scopes'', JObj (read_write_json (sm_client_scopes m))),
     (''identity_providers'', JObj (read_write_json (sm_identity_providers m))),
     (''realms'', JObj (read_write_json (sm_realms m) @ [(''admin'', strings_json (ts_admin (sm_realms m)))])),
     (''events'', JObj [(''read'', strings_json (es_read (sm_events m))), (''admin'', strings_json (es_admin (sm_events m)))]),
     (''tokens'', JObj [(''read'', strings_json (sm_tokens_read m))]),
     (''observability'', JObj [(''read'', strings_json (sm_observability_read m))])]"

abbreviation configured :: "string option \<Rightarrow> json" where
  "configured v \<equiv> JBool (v \<noteq> None)"

definition config_snapshot :: "mcp_config \<Rightarrow> json" where
  "config_snapshot cfg =
     (let auth = mc_auth cfg; tls = mc_server_tls cfg; gateway = mc_gateway cfg in
      JObj [(''bind_addr'', JStr (mc_bind_addr cfg)), (''resource_url'', JStr (mc_resource_url cfg)),
        (''resource_metadata_url'', JStr (mc_resource_metadata_url cfg)),
        (''authorization_servers'', strings_json (mc_authorization_servers cfg)),
        (''scopes_supported'', strings_json (mc_scopes_supported cfg)),
        (''scope_map'', scope_map_json (mc_scope_map cfg)),
        (''auth_mode'', JStr (auth_mode_text (ac_mode auth))), (''issuer'', json_opt_str (ac_issuer auth)),
        (''audience'', json_opt_str (ac_audience auth)),
        (''clock_skew_seconds'', json_int (ac_clock_skew_seconds auth)),
        (''introspection_url'', JStr (ac_introspection_url auth)),
        (''introspection_auth_method'', JStr (auth_method_text (ac_introspection_auth_method auth))),
        (''jwks_url'', json_opt_str (ac_jwks_url auth)), (''dpop_required'', JBool (ac_dpop_required auth)),
        (''mtls_mode'', JStr (mtls_mode_text (ac_mtls_mode auth))),
        (''mtls_client_cert_header'', json_opt_str (ac_mtls_client_cert_header auth)),
        (''server_tls_cert_configured'', configured (st_cert_pem tls)),
        (''server_tls_key_configured'', configured (st_key_pem tls)),
        (''server_tls_client_ca_configured'', configured (st_client_ca_pem tls)),
        (''gateway_base_url'', JStr (mg_base_url gateway)),
        (''gateway_timeout_ms'', json_nat (mg_request_timeout gateway)),
        (''gateway_tls_ca_configured'', configured (mg_tls_ca_pem gateway)),
        (''gateway_tls_client_cert_configured'', configured (mg_tls_client_cert_pem gateway)),
        (''gateway_tls_client_key_configured'', configured (mg_tls_client_key_pem gateway)),
        (''keycloak_base_url'', JStr (mc_keycloak_base_url cfg)),
        (''keycloak_admin_realm'', JStr (mc_keycloak_admin_realm cfg)),
        (''keycloak_client_id'', JStr (mc_keycloak_client_id cfg)),
        (''enable_secret_tools'', JBool (mc_enable_secret_tools cfg)),
        (''audit_log_max'', json_nat (mc_audit_log_max cfg)),
        (''audit_log_path'', json_opt_str (mc_audit_log_path cfg)),
        (''audit_checkpoint_path'', json_opt_str (mc_audit_checkpoint_path cfg)),
        (''audit_log_max_bytes'', json_opt json_nat (mc_audit_log_max_bytes cfg)),
        (''audit_log_max_files'', json_nat (mc_audit_log_max_files cfg))])"

section \<open>The tools\<close>

definition status_get :: "observability_env \<Rightarrow> mcp_config \<Rightarrow> tool_result" where
  "status_get oe cfg = Structured (JObj [(''status'', JStr ''ok''), (''uptime_s'', json_nat (oe_uptime_s oe)),
     (''config'', config_snapshot cfg)])"

definition metrics_get :: "observability_env \<Rightarrow> metrics \<Rightarrow> tool_result" where
  "metrics_get oe m =
     (let metrics = snapshot_metrics m in
      Structured (JObj [(''uptime_s'', json_nat (oe_uptime_s oe)),
        (''auth_rejects_total'', counter_json (sp_auth_rejects_total metrics)),
        (''request_timeouts_total'', counter_json (sp_request_timeouts_total metrics)),
        (''tool_calls_total'', counter_json (sp_tool_calls_total metrics)),
        (''tool_call_duration_ms'', histogram_json (sp_tool_call_duration_ms metrics))]))"

definition audit_list :: "audit_log \<Rightarrow> 32 word option \<Rightarrow> tool_result" where
  "audit_list log limit = Structured (JObj [(''entries'',
     JArr (map entry_json (snapshot log (unat (or_else 50 limit)))))])"

definition audit_checkpoint_tool ::
  "'t server_env \<Rightarrow> observability_env \<Rightarrow> caller \<Rightarrow> audit_log \<times> file_system \<Rightarrow> tool_result \<times> file_system" where
  "audit_checkpoint_tool srv oe ctx state =
     (let (result, fs) = checkpoint (sn_render srv) (oe_pretty oe) (oe_ts oe) state in
      case result of
        Inl err \<Rightarrow>
          (tool_error ''audit.checkpoint_failed'' (''Checkpoint failed: '' @ oe_error_text oe err)
             (cl_request_id ctx), fs)
      | Inr ck \<Rightarrow>
          (Structured (JObj [(''schema_version'', JStr (ck_schema_version ck)), (''ts'', JStr (ck_ts ck)),
             (''last_hash'', json_opt_str (ck_last_hash ck)), (''log_path'', json_opt_str (ck_log_path ck)),
             (''state_path'', json_opt_str (ck_state_path ck)),
             (''checkpoint_path'', json_opt_str (ck_checkpoint_path ck))]), fs))"

datatype observability_call = StatusGet | MetricsGet | AuditList "32 word option" | AuditCheckpoint

text \<open>All four open with the same gate: the observability read scope.\<close>

fun observe_server ::
  "'t server_env \<Rightarrow> observability_env \<Rightarrow> caller \<Rightarrow> observability_call \<Rightarrow> 't server_state \<Rightarrow>
     tool_result \<times> 't server_state" where
  "observe_server srv oe ctx StatusGet st = (status_get oe (sn_config srv), st)"
| "observe_server srv oe ctx MetricsGet st = (metrics_get oe (sv_metrics st), st)"
| "observe_server srv oe ctx (AuditList limit) st = (audit_list (sv_audit_log st) limit, st)"
| "observe_server srv oe ctx AuditCheckpoint st =
     (let (result, fs) = audit_checkpoint_tool srv oe ctx (sv_audit_log st, sv_files st)
      in (result, st\<lparr>sv_files := fs\<rparr>))"

definition observability_tool ::
  "'t server_env \<Rightarrow> observability_env \<Rightarrow> caller option \<Rightarrow> observability_call \<Rightarrow> 't server_state \<Rightarrow>
     tool_result \<times> 't server_state" where
  "observability_tool srv oe parts call st =
     (let cfg = sn_config srv in
      case authorize_tool cfg parts (sm_observability_read (mc_scope_map cfg)) of
        Inl err \<Rightarrow> (err, st)
      | Inr ctx \<Rightarrow> observe_server srv oe ctx call st)"

section \<open>What they show and what they change\<close>

text \<open>The configuration with other credentials in the places of its own.\<close>

definition with_credentials ::
  "(string \<Rightarrow> string) \<Rightarrow> mcp_config \<Rightarrow> mcp_config" where
  "with_credentials f cfg =
     (let auth = mc_auth cfg; tls = mc_server_tls cfg; gateway = mc_gateway cfg; http = mc_streamable_http cfg in
      cfg\<lparr>mc_auth := auth\<lparr>ac_introspection_client_secret := f (ac_introspection_client_secret auth)\<rparr>,
        mc_streamable_http := http\<lparr>sh_event_store_key := map_option f (sh_event_store_key http)\<rparr>,
        mc_server_tls := tls\<lparr>st_cert_pem := map_option f (st_cert_pem tls),
          st_key_pem := map_option f (st_key_pem tls), st_client_ca_pem := map_option f (st_client_ca_pem tls)\<rparr>,
        mc_gateway := gateway\<lparr>mg_tls_ca_pem := map_option f (mg_tls_ca_pem gateway),
          mg_tls_client_cert_pem := map_option f (mg_tls_client_cert_pem gateway),
          mg_tls_client_key_pem := map_option f (mg_tls_client_key_pem gateway)\<rparr>\<rparr>)"

lemma with_credentials_gate [simp]:
  "mc_scope_map (with_credentials f cfg) = mc_scope_map cfg"
  "authorize_tool (with_credentials f cfg) parts scopes = authorize_tool cfg parts scopes"
  by (simp_all add: with_credentials_def authorize_tool_def require_roles_for_scopes_def Let_def)

lemma config_snapshot_credentials: "config_snapshot (with_credentials f cfg) = config_snapshot cfg"
  by (simp add: config_snapshot_def with_credentials_def Let_def)

text \<open>
  The observability tools show no credential: with any other client secret, event-store key, TLS key or
  certificate in the configuration, every one of them gives the same result and the same state.
\<close>

theorem observability_shows_no_credential:
  "observability_tool (srv\<lparr>sn_config := with_credentials f (sn_config srv)\<rparr>) oe parts call st =
     observability_tool srv oe parts call st"
  by (cases call) (auto simp: observability_tool_def status_get_def audit_checkpoint_tool_def
      config_snapshot_credentials Let_def split: sum.split)

text \<open>The files other than the log and the checkpoint.\<close>

definition other_files :: "audit_log \<Rightarrow> file_system \<Rightarrow> string \<Rightarrow> string option" where
  "other_files log fs = fs_files fs |` (- (set_option (al_log_path log) \<union> set_option (al_checkpoint_path log)))"

lemma write_file_files: "q \<noteq> p \<Longrightarrow> fs_files (snd (write_file fs p s)) q = fs_files fs q"
  by (simp add: write_file_def)

lemma checkpoint_files:
  assumes "q \<notin> set_option (al_log_path log) \<union> set_option (al_checkpoint_path log)"
  shows "fs_files (snd (checkpoint render pretty ts (log, fs))) q = fs_files fs q"
proof -
  have written: "fs_files fs' q = fs_files fs q" if "write_file fs p s = (r, fs')" and "q \<noteq> p" for fs fs' p s r
    using write_file_files [of q p fs s] that by simp
  show ?thesis
    using assms by (cases "al_log_path log"; cases "al_checkpoint_path log")
      (auto simp: checkpoint_def Let_def written split: prod.split sum.split)
qed

lemma checkpoint_other_files:
  "other_files log (snd (checkpoint render pretty ts (log, fs))) = other_files log fs"
  by (rule ext) (simp add: other_files_def restrict_map_def checkpoint_files)

lemma audit_checkpoint_files [simp]:
  "snd (audit_checkpoint_tool srv oe ctx state) = snd (checkpoint (sn_render srv) (oe_pretty oe) (oe_ts oe) state)"
  by (simp add: audit_checkpoint_tool_def split: prod.split sum.split)

text \<open>
  The observability tools leave metrics, tool-list tracker and the audit entries in memory alone. Only the
  checkpoint of a caller with the observability scope touches files, and no file but the log and the
  checkpoint; where writing works and no checkpoint file is configured, it replaces the log file by the
  entries still in memory.
\<close>

theorem observability_frame:
  "let (result, st') = observability_tool srv oe parts call st; log = sv_audit_log st in
   st' = st\<lparr>sv_files := sv_files st'\<rparr> \<and> other_files log (sv_files st') = other_files log (sv_files st) \<and>
   (case (authorize_tool (sn_config srv) parts (sm_observability_read (mc_scope_map (sn_config srv))), call) of
      (Inr ctx, AuditCheckpoint) \<Rightarrow>
        (case (al_log_path log, al_checkpoint_path log) of
           (Some path, None) \<Rightarrow>
             if fs_fails (sv_files st) (Open path) then sv_files st' = sv_files st
             else if fs_fails (sv_files st) (WriteAll path) then file_text (sv_files st') path = []
             else file_text (sv_files st') path =
               render_entries (sn_render srv) (snapshot log (al_max_entries log))
         | _ \<Rightarrow> True)
    | _ \<Rightarrow> sv_files st' = sv_files st)"
proof (cases "authorize_tool (sn_config srv) parts (sm_observability_read (mc_scope_map (sn_config srv)))")
  case (Inr ctx)
  show ?thesis
  proof (cases call)
    case AuditCheckpoint
    let ?log = "sv_audit_log st"
    let ?ck = "checkpoint (sn_render srv) (oe_pretty oe) (oe_ts oe) (?log, sv_files st)"
    have "observability_tool srv oe parts call st =
        (fst (audit_checkpoint_tool srv oe ctx (?log, sv_files st)), st\<lparr>sv_files := snd ?ck\<rparr>)"
      by (simp add: observability_tool_def Inr AuditCheckpoint split_beta)
    moreover have "case (al_log_path ?log, al_checkpoint_path ?log) of
        (Some path, None) \<Rightarrow>
          if fs_fails (sv_files st) (Open path) then snd ?ck = sv_files st
          else if fs_fails (sv_files st) (WriteAll path) then file_text (snd ?ck) path = []
          else file_text (snd ?ck) path = render_entries (sn_render srv) (snapshot ?log (al_max_entries ?log))
      | _ \<Rightarrow> True"
      by (auto simp: checkpoint_def write_file_def file_text_def Let_def split: option.split)
    ultimately show ?thesis
      by (cases "al_log_path ?log"; cases "al_checkpoint_path ?log")
        (simp_all add: Inr AuditCheckpoint checkpoint_other_files Let_def)
  qed (simp_all add: observability_tool_def Inr Let_def)
qed (simp add: observability_tool_def Let_def)

end
