(* ===== verification/Tls_Setup.thy ===== *)
theory Tls_Setup
  imports Mcp_Tools
begin

text \<open>
  The TLS settings of the two servers (\<open>tls.rs\<close> of each) and of the client with which the MCP server
  reaches the gateway (\<open>gateway.rs\<close>, \<open>GatewayClient::new\<close>). What \<open>rustls\<close> and \<open>reqwest\<close> decide is
  the record of functions \<open>rustls\<close>; the settings handed to them are data, so what a server demands of
  its clients can be read off the result.
\<close>

section \<open>What the TLS library decides\<close>

text \<open>
  \<open>pem_certs\<close> gives the certificates of a PEM text, \<open>None\<close> when one is malformed; \<open>parsable\<close> is the part
  of them a root store takes (\<open>add_parsable_certificates\<close>); \<open>verifier_ok\<close>, \<open>identity_ok\<close>,
  \<open>client_identity_ok\<close> and \<open>client_builds\<close> tell whether a builder accepts what it is given.
\<close>

datatype pem_error = NoItemsFound | OtherPemError

datatype 'c client_auth = NoClientAuth | RequireClientCert "'c list"

record ('c, 'k) server_tls =
  tls_chain :: "'c list"
  tls_key :: 'k
  tls_client_auth :: "'c client_auth"

record ('c, 'k) client_tls =
  ct_roots :: "'c list"
  ct_identity :: "('c list \<times> 'k) option"

datatype ('c, 'k) http_client = DefaultTls nat | CustomTls nat "('c, 'k) client_tls"

record ('c, 'k) rustls =
  pem_certs :: "string \<Rightarrow> 'c list option"
  pem_key :: "string \<Rightarrow> pem_error + 'k"
  parsable :: "'c list \<Rightarrow> 'c list"
  verifier_ok :: "'c list \<Rightarrow> bool"
  identity_ok :: "'c list \<Rightarrow> 'k \<Rightarrow> bool"
  client_identity_ok :: "'c list \<Rightarrow> 'k \<Rightarrow> bool"
  client_builds :: "('c, 'k) http_client \<Rightarrow> bool"

section \<open>The gateway (tls.rs)\<close>

definition load_certs :: "('c, 'k) rustls \<Rightarrow> string \<Rightarrow> gateway_error + 'c list" where
  "load_certs lib pem =
     (case pem_certs lib pem of
        None \<Rightarrow> Inl (InvalidConfig ''Failed to parse TLS certificate PEM'')
      | Some certs \<Rightarrow> Inr certs)"

definition load_key :: "('c, 'k) rustls \<Rightarrow> string \<Rightarrow> gateway_error + 'k" where
  "load_key lib pem =
     (case pem_key lib pem of
        Inr key \<Rightarrow> Inr key
      | Inl NoItemsFound \<Rightarrow> Inl (InvalidConfig ''TLS private key PEM is required'')
      | Inl _ \<Rightarrow> Inl (InvalidConfig ''Failed to parse TLS private key PEM''))"

definition load_root_store :: "('c, 'k) rustls \<Rightarrow> string \<Rightarrow> gateway_error + 'c list" where
  "load_root_store lib pem =
     and_then (load_certs lib pem) (\<lambda>certs.
       let store = parsable lib certs in
       if length store = 0 then Inl (InvalidConfig ''No valid CA certificates found'') else Inr store)"

definition ok_or :: "'e \<Rightarrow> 'a option \<Rightarrow> 'e + 'a" where
  "ok_or e v = (case v of None \<Rightarrow> Inl e | Some a \<Rightarrow> Inr a)"

definition build_tls_config ::
  "('c, 'k) rustls \<Rightarrow> gateway_config \<Rightarrow> gateway_error + ('c, 'k) server_tls option" where
  "build_tls_config lib cfg =
     (case gc_tls_cert_pem cfg of
        None \<Rightarrow>
          (if gc_tls_key_pem cfg \<noteq> None \<or> gc_tls_client_ca_pem cfg \<noteq> None \<or> gc_mtls_required cfg
           then Inl (InvalidConfig ''KC_GATEWAY_TLS_CERT is required when TLS is enabled'')
           else Inr None)
      | Some cert_pem \<Rightarrow>
          and_then (ok_or (InvalidConfig ''KC_GATEWAY_TLS_KEY is required when TLS is enabled'')
            (gc_tls_key_pem cfg)) (\<lambda>key_pem.
          and_then (load_certs lib cert_pem) (\<lambda>certs.
          and_then (load_key lib key_pem) (\<lambda>key.
          and_then
            (if gc_mtls_required cfg then
               and_then (ok_or (InvalidConfig ''KC_GATEWAY_TLS_CLIENT_CA is required when mTLS is enabled'')
                 (gc_tls_client_ca_pem cfg)) (\<lambda>ca_pem.
               and_then (load_root_store lib ca_pem) (\<lambda>roots.
               if verifier_ok lib roots then Inr (RequireClientCert roots)
               else Inl (InvalidConfig ''Failed to build client cert verifier'')))
             else Inr NoClientAuth) (\<lambda>verifier.
          if identity_ok lib certs key
          then Inr (Some \<lparr>tls_chain = certs, tls_key = key, tls_client_auth = verifier\<rparr>)
          else Inl (InvalidConfig ''Invalid TLS certificate or key''))))))"

section \<open>The MCP server (tls.rs)\<close>

definition mcp_load_certs :: "('c, 'k) rustls \<Rightarrow> string \<Rightarrow> string + 'c list" where
  "mcp_load_certs lib pem =
     (case pem_certs lib pem of
        None \<Rightarrow> Inl ''Failed to parse TLS certificate PEM''
      | Some certs \<Rightarrow> Inr certs)"

definition mcp_load_key :: "('c, 'k) rustls \<Rightarrow> string \<Rightarrow> string + 'k" where
  "mcp_load_key lib pem =
     (case pem_key lib pem of
        Inr key \<Rightarrow> Inr key
      | Inl NoItemsFound \<Rightarrow> Inl ''TLS private key PEM is required''
      | Inl _ \<Rightarrow> Inl ''Failed to parse TLS private key PEM'')"

definition mcp_load_root_store :: "('c, 'k) rustls \<Rightarrow> string \<Rightarrow> string + 'c list" where
  "mcp_load_root_store lib pem =
     and_then (mcp_load_certs lib pem) (\<lambda>certs.
       let store = parsable lib certs in
       if length store = 0 then Inl ''No valid CA certificates found'' else Inr store)"

definition mcp_build_tls_config ::
  "('c, 'k) rustls \<Rightarrow> mcp_config \<Rightarrow> string + ('c, 'k) server_tls option" where
  "mcp_build_tls_config lib cfg =
     (let tls = mc_server_tls cfg; native = (ac_mtls_mode (mc_auth cfg) = Native)
      in case st_cert_pem tls of
        None \<Rightarrow>
          (if st_key_pem tls \<noteq> None \<or> st_client_ca_pem tls \<noteq> None \<or> native
           then Inl ''KC_ADMIN_MCP_TLS_CERT is required when TLS is enabled''
           else Inr None)
      | Some cert_pem \<Rightarrow>
          and_then (ok_or ''KC_ADMIN_MCP_TLS_KEY is required when TLS is enabled'' (st_key_pem tls)) (\<lambda>key_pem.
          and_then (mcp_load_certs lib cert_pem) (\<lambda>certs.
          and_then (mcp_load_key lib key_pem) (\<lambda>key.
          and_then
            (if native then
               and_then (ok_or ''KC_ADMIN_MCP_TLS_CLIENT_CA is required when mTLS is enabled''
                 (st_client_ca_pem tls)) (\<lambda>ca_pem.
               and_then (mcp_load_root_store lib ca_pem) (\<lambda>roots.
               if verifier_ok lib roots then Inr (RequireClientCert roots)
               else Inl ''Failed to build client cert verifier''))
             else Inr NoClientAuth) (\<lambda>verifier.
          if identity_ok lib certs key
          then Inr (Some \<lparr>tls_chain = certs, tls_key = key, tls_client_auth = verifier\<rparr>)
          else Inl ''Invalid TLS certificate or key'')))))"

section \<open>The client of the gateway (gateway.rs)\<close>

definition parse_certs :: "('c, 'k) rustls \<Rightarrow> string \<Rightarrow> gateway_failure + 'c list" where
  "parse_certs lib pem =
     (case pem_certs lib pem of
        None \<Rightarrow> Inl (TlsConfig ''invalid certificate PEM'')
      | Some certs \<Rightarrow> Inr certs)"

definition parse_key :: "('c, 'k) rustls \<Rightarrow> string \<Rightarrow> gateway_failure + 'k" where
  "parse_key lib pem =
     (case pem_key lib pem of
        Inr key \<Rightarrow> Inr key
      | Inl NoItemsFound \<Rightarrow> Inl (TlsConfig ''private key PEM required'')
      | Inl _ \<Rightarrow> Inl (TlsConfig ''invalid private key PEM''))"

definition build_rustls_client_config ::
  "('c, 'k) rustls \<Rightarrow> mcp_gateway_config \<Rightarrow> gateway_failure + ('c, 'k) client_tls" where
  "build_rustls_client_config lib cfg =
     and_then
       (case mg_tls_ca_pem cfg of
          Some ca_pem \<Rightarrow>
            and_then (parse_certs lib ca_pem) (\<lambda>certs.
              let roots = parsable lib certs in
              if length roots = 0 then Inl (TlsConfig ''no valid CA certificates found for gateway'')
              else Inr roots)
        | None \<Rightarrow> Inl (TlsConfig ''gateway CA is required for mTLS'')) (\<lambda>roots.
     case (mg_tls_client_cert_pem cfg, mg_tls_client_key_pem cfg) of
       (Some cert, Some key) \<Rightarrow>
         and_then (parse_certs lib cert) (\<lambda>certs.
         and_then (parse_key lib key) (\<lambda>key.
         if client_identity_ok lib certs key
         then Inr \<lparr>ct_roots = roots, ct_identity = Some (certs, key)\<rparr>
         else Inl (TlsConfig ''invalid client TLS identity'')))
     | (None, None) \<Rightarrow> Inr \<lparr>ct_roots = roots, ct_identity = None\<rparr>
     | _ \<Rightarrow> Inl (TlsConfig ''client cert and key must be provided together''))"

definition build_client ::
  "('c, 'k) rustls \<Rightarrow> mcp_gateway_config \<Rightarrow> nat \<Rightarrow> gateway_failure + ('c, 'k) http_client" where
  "build_client lib cfg timeout =
     (let needs_custom_tls = (mg_tls_ca_pem cfg \<noteq> None \<or> mg_tls_client_cert_pem cfg \<noteq> None \<or>
            mg_tls_client_key_pem cfg \<noteq> None)
      in and_then
           (if needs_custom_tls
            then map_sum id (CustomTls timeout) (build_rustls_client_config lib cfg)
            else Inr (DefaultTls timeout)) (\<lambda>client.
         if client_builds lib client then Inr client else Inl RequestFailed))"

record ('u, 'c, 'k) gateway_client =
  gcl_base_url :: 'u
  gcl_client :: "('c, 'k) http_client"

definition new_gateway_client ::
  "(string \<Rightarrow> 'u option) \<Rightarrow> ('c, 'k) rustls \<Rightarrow> mcp_gateway_config \<Rightarrow>
     gateway_failure + ('u, 'c, 'k) gateway_client" where
  "new_gateway_client parse_url lib cfg =
     and_then (ok_or InvalidUrl (parse_url (mg_base_url cfg))) (\<lambda>base_url.
     and_then (build_client lib cfg (mg_request_timeout cfg)) (\<lambda>client.
     Inr \<lparr>gcl_base_url = base_url, gcl_client = client\<rparr>))"

section \<open>The contract of a TLS set-up\<close>

text \<open>
  What either server promises of its settings: without a certificate nothing else may be set, and then
  it serves plain HTTP; otherwise it serves the certificate and key it was given, and asks its clients
  for certificates of the configured authorities exactly when mutual TLS is on.
\<close>

locale tls_setup =
  fixes build :: "'cfg \<Rightarrow> 'e + ('c, 'k) server_tls option"
    and lib :: "('c, 'k) rustls"
    and cert :: "'cfg \<Rightarrow> string option"
    and private_key :: "'cfg \<Rightarrow> string option"
    and authority :: "'cfg \<Rightarrow> string option"
    and mutual :: "'cfg \<Rightarrow> bool"
  assumes plain: "build cfg = Inr None \<Longrightarrow>
      cert cfg = None \<and> private_key cfg = None \<and> authority cfg = None \<and> \<not> mutual cfg"
    and served: "build cfg = Inr (Some s) \<Longrightarrow>
      Option.bind (cert cfg) (pem_certs lib) = Some (tls_chain s) \<and>
      map_option (pem_key lib) (private_key cfg) = Some (Inr (tls_key s)) \<and>
      identity_ok lib (tls_chain s) (tls_key s)"
    and asks: "build cfg = Inr (Some s) \<Longrightarrow>
      tls_client_auth s =
        (if mutual cfg
         then RequireClientCert (parsable lib (the (Option.bind (authority cfg) (pem_certs lib))))
         else NoClientAuth)"
    and authorities: "\<lbrakk>build cfg = Inr (Some s); mutual cfg\<rbrakk> \<Longrightarrow>
      \<exists>cas. Option.bind (authority cfg) (pem_certs lib) = Some cas \<and> parsable lib cas \<noteq> [] \<and>
            verifier_ok lib (parsable lib cas)"
begin

lemma mutual_enforced:
  assumes "build cfg = Inr r" and "mutual cfg"
  shows "\<exists>s cas. r = Some s \<and> Option.bind (authority cfg) (pem_certs lib) = Some cas \<and>
     parsable lib cas \<noteq> [] \<and> tls_client_auth s = RequireClientCert (parsable lib cas)"
proof (cases r)
  case None
  with assms plain show ?thesis by blast
next
  case (Some s)
  with assms authorities [of cfg s] asks [of cfg s] show ?thesis by auto
qed

lemma plain_only_unset:
  "build cfg = Inr None \<Longrightarrow> cert cfg = None \<and> private_key cfg = None \<and> authority cfg = None"
  using plain by blast

lemma served_identity:
  "build cfg = Inr (Some s) \<Longrightarrow> \<exists>pem key_pem. cert cfg = Some pem \<and> private_key cfg = Some key_pem \<and>
     pem_certs lib pem = Some (tls_chain s) \<and> pem_key lib key_pem = Inr (tls_key s)"
  using served [of cfg s] by (auto simp: bind_eq_Some_conv)

end

lemma ok_or_Inr [simp]: "ok_or e v = Inr a \<longleftrightarrow> v = Some a"
  by (cases v) (auto simp: ok_or_def)

lemma load_Inr [simp]:
  "load_certs lib pem = Inr cs \<longleftrightarrow> pem_certs lib pem = Some cs"
  "mcp_load_certs lib pem = Inr cs \<longleftrightarrow> pem_certs lib pem = Some cs"
  "parse_certs lib pem = Inr cs \<longleftrightarrow> pem_certs lib pem = Some cs"
  "load_key lib pem = Inr k \<longleftrightarrow> pem_key lib pem = Inr k"
  "mcp_load_key lib pem = Inr k \<longleftrightarrow> pem_key lib pem = Inr k"
  "parse_key lib pem = Inr k \<longleftrightarrow> pem_key lib pem = Inr k"
  by (auto simp: load_certs_def mcp_load_certs_def parse_certs_def load_key_def mcp_load_key_def
      parse_key_def split: option.splits sum.splits pem_error.splits)

lemma load_root_store_Inr [simp]:
  "load_root_store lib pem = Inr roots \<longleftrightarrow>
     (\<exists>cs. pem_certs lib pem = Some cs \<and> roots = parsable lib cs \<and> roots \<noteq> [])"
  "mcp_load_root_store lib pem = Inr roots \<longleftrightarrow>
     (\<exists>cs. pem_certs lib pem = Some cs \<and> roots = parsable lib cs \<and> roots \<noteq> [])"
  by (auto simp: load_root_store_def mcp_load_root_store_def Let_def)

interpretation gw_tls: tls_setup "build_tls_config lib" lib gc_tls_cert_pem gc_tls_key_pem
  gc_tls_client_ca_pem gc_mtls_required for lib
  by unfold_locales (auto simp: build_tls_config_def split: option.splits if_splits)

interpretation mcp_tls: tls_setup "mcp_build_tls_config lib" lib "\<lambda>cfg. st_cert_pem (mc_server_tls cfg)"
  "\<lambda>cfg. st_key_pem (mc_server_tls cfg)" "\<lambda>cfg. st_client_ca_pem (mc_server_tls cfg)"
  "\<lambda>cfg. ac_mtls_mode (mc_auth cfg) = Native" for lib
  by unfold_locales (auto simp: mcp_build_tls_config_def Let_def split: option.splits if_splits)

section \<open>Properties\<close>

lemma build_rustls_client_config_Inr:
  "build_rustls_client_config lib cfg = Inr c \<longleftrightarrow>
     (\<exists>ca cas. mg_tls_ca_pem cfg = Some ca \<and> pem_certs lib ca = Some cas \<and> parsable lib cas \<noteq> [] \<and>
        ct_roots c = parsable lib cas) \<and>
     (case (mg_tls_client_cert_pem cfg, mg_tls_client_key_pem cfg) of
        (Some cert, Some key_pem) \<Rightarrow> (\<exists>certs key. pem_certs lib cert = Some certs \<and>
           pem_key lib key_pem = Inr key \<and> client_identity_ok lib certs key \<and> ct_identity c = Some (certs, key))
      | (None, None) \<Rightarrow> ct_identity c = None
      | _ \<Rightarrow> False)"
  by (cases c) (auto simp: build_rustls_client_config_def Let_def split: option.splits if_splits)

lemma new_gateway_client_Inr:
  "new_gateway_client parse_url lib cfg = Inr client \<longleftrightarrow>
     parse_url (mg_base_url cfg) = Some (gcl_base_url client) \<and>
     build_client lib cfg (mg_request_timeout cfg) = Inr (gcl_client client)"
  by (cases client) (auto simp: new_gateway_client_def)

lemma build_client_Inr:
  "build_client lib cfg timeout = Inr client \<longleftrightarrow> client_builds lib client \<and>
     (if mg_tls_ca_pem cfg = None \<and> mg_tls_client_cert_pem cfg = None \<and> mg_tls_client_key_pem cfg = None
      then client = DefaultTls timeout
      else \<exists>c. build_rustls_client_config lib cfg = Inr c \<and> client = CustomTls timeout c)"
  by (auto simp: build_client_def Let_def)


definition sample_rustls :: "(string, string) rustls" where
  "sample_rustls = \<lparr>pem_certs = (\<lambda>pem. if pem = ''bad'' then None else Some [pem]),
     pem_key = (\<lambda>pem. if pem = [] then Inl NoItemsFound else Inr pem), parsable = id,
     verifier_ok = (\<lambda>_. True), identity_ok = (\<lambda>_ _. True), client_identity_ok = (\<lambda>_ _. True),
     client_builds = (\<lambda>_. True)\<rparr>"

definition sample_gateway_settings :: mcp_gateway_config where
  "sample_gateway_settings = \<lparr>mg_base_url = ''https://gw'', mg_request_timeout = 5000,
     mg_tls_ca_pem = Some ''ca'', mg_tls_client_cert_pem = Some ''cert'', mg_tls_client_key_pem = Some ''key''\<rparr>"


text \<open>The settings a server may serve with, for the PEM texts it is given.\<close>

definition tls_spec ::
  "('c, 'k) rustls \<Rightarrow> string option \<Rightarrow> string option \<Rightarrow> string option \<Rightarrow> bool \<Rightarrow>
     ('c, 'k) server_tls option \<Rightarrow> bool" where
  "tls_spec lib cert private_key authority mutual r \<longleftrightarrow>
     (case r of
        None \<Rightarrow> cert = None \<and> private_key = None \<and> authority = None \<and> \<not> mutual
      | Some s \<Rightarrow> Option.bind cert (pem_certs lib) = Some (tls_chain s) \<and>
          map_option (pem_key lib) private_key = Some (Inr (tls_key s)) \<and>
          identity_ok lib (tls_chain s) (tls_key s) \<and>
          (if mutual
           then \<exists>ca cas. authority = Some ca \<and> pem_certs lib ca = Some cas \<and> parsable lib cas \<noteq> [] \<and>
             verifier_ok lib (parsable lib cas) \<and> tls_client_auth s = RequireClientCert (parsable lib cas)
           else tls_client_auth s = NoClientAuth))"

lemma build_tls_config_Inr:
  "build_tls_config lib g = Inr r \<longleftrightarrow>
     tls_spec lib (gc_tls_cert_pem g) (gc_tls_key_pem g) (gc_tls_client_ca_pem g) (gc_mtls_required g) r"
  by (cases r; cases "the r"; cases "gc_tls_cert_pem g"; cases "gc_tls_key_pem g"; cases "gc_mtls_required g")
    (auto simp: build_tls_config_def tls_spec_def)

lemma mcp_build_tls_config_Inr:
  "mcp_build_tls_config lib m = Inr r \<longleftrightarrow>
     tls_spec lib (st_cert_pem (mc_server_tls m)) (st_key_pem (mc_server_tls m))
       (st_client_ca_pem (mc_server_tls m)) (ac_mtls_mode (mc_auth m) = Native) r"
  by (cases r; cases "the r"; cases "st_cert_pem (mc_server_tls m)"; cases "st_key_pem (mc_server_tls m)";
      cases "ac_mtls_mode (mc_auth m) = Native")
    (auto simp: mcp_build_tls_config_def tls_spec_def Let_def)

lemma sum_eq_by_Inr:
  assumes "\<And>r. a = Inr r \<longleftrightarrow> b = Inr r"
  shows "map_err (\<lambda>_. ()) a = map_err (\<lambda>_. ()) b"
proof (cases a)
  case (Inl e)
  then have "b \<noteq> Inr r" for r using assms [of r] by simp
  then obtain e' where "b = Inl e'" by (cases b) blast+
  with Inl show ?thesis by simp
next
  case (Inr x)
  then have "b = Inr x" using assms [of x] by simp
  with Inr show ?thesis by simp
qed

text \<open>
  The two servers set up TLS alike: for the same certificate, key and authorities and the same
  demand for client certificates, either both refuse their configuration or both serve with the same
  settings.
\<close>

theorem tls_builders_agree:
  assumes "gc_tls_cert_pem g = st_cert_pem (mc_server_tls m)"
    and "gc_tls_key_pem g = st_key_pem (mc_server_tls m)"
    and "gc_tls_client_ca_pem g = st_client_ca_pem (mc_server_tls m)"
    and "gc_mtls_required g \<longleftrightarrow> ac_mtls_mode (mc_auth m) = Native"
  shows "map_err (\<lambda>_. ()) (build_tls_config lib g) = map_err (\<lambda>_. ()) (mcp_build_tls_config lib m)"
  by (rule sum_eq_by_Inr) (simp only: build_tls_config_Inr mcp_build_tls_config_Inr assms)

definition sample_native_config :: mcp_config where
  "sample_native_config = sample_mcp_config\<lparr>
     mc_auth := (mc_auth sample_mcp_config)\<lparr>ac_mtls_mode := Native\<rparr>,
     mc_server_tls := \<lparr>st_cert_pem = Some ''cert'', st_key_pem = Some ''key'', st_client_ca_pem = Some ''ca''\<rparr>\<rparr>"

theorem tls_builders_agree_witness:
  "map_err (\<lambda>_. ()) (mcp_build_tls_config sample_rustls sample_native_config) =
     Inr (Some \<lparr>tls_chain = [''cert''], tls_key = ''key'', tls_client_auth = RequireClientCert [''ca'']\<rparr>)"
proof -
  let ?g = "sample_config\<lparr>gc_tls_cert_pem := Some ''cert'', gc_tls_key_pem := Some ''key'',
    gc_tls_client_ca_pem := Some ''ca'', gc_mtls_required := True\<rparr>"
  have "map_err (\<lambda>_. ()) (build_tls_config sample_rustls ?g) =
      map_err (\<lambda>_. ()) (mcp_build_tls_config sample_rustls sample_native_config)"
    by (rule tls_builders_agree) (simp_all add: sample_native_config_def)
  moreover have "build_tls_config sample_rustls ?g =
      Inr (Some \<lparr>tls_chain = [''cert''], tls_key = ''key'', tls_client_auth = RequireClientCert [''ca'']\<rparr>)"
    by (simp add: build_tls_config_def load_certs_def load_key_def load_root_store_def ok_or_def
        sample_rustls_def)
  ultimately show ?thesis by simp
qed

end
