(* ===== verification/Mcp_Sessions.thy ===== *)
theory Mcp_Sessions
  imports Tls_Setup Mcp_Server Admission
begin

text \<open>
  The HTTP face of the MCP server (\<open>main.rs\<close>): the documents that describe its authorization server,
  the state it is started with, and the dispatch of \<open>/mcp\<close> requests to the stateful and stateless
  services of the toolkit, with the replay of missed events. The toolkit's session manager, event store
  and services act on a state of any type; the JSON decoder, the reading of a body and the URL and TLS
  libraries are functions.
\<close>

section \<open>The published authorization server\<close>

record authorization_server_metadata =
  as_issuer :: string
  as_authorization_endpoint :: string
  as_token_endpoint :: string
  as_registration_endpoint :: "string option"
  as_jwks_uri :: "string option"
  as_introspection_endpoint :: "string option"
  as_device_authorization_endpoint :: "string option"
  as_grant_types_supported :: "string list option"
  as_client_id_metadata_document_supported :: "bool option"
  as_token_endpoint_auth_methods_supported :: "string list option"
  as_code_challenge_methods_supported :: "string list option"

definition clean_issuer :: "string \<Rightarrow> string" where
  "clean_issuer value = trim_end_by (\<lambda>c. c = CHR ''/'') (trim value)"

definition keycloak_auth_surface_issuer :: "mcp_config \<Rightarrow> string + string" where
  "keycloak_auth_surface_issuer cfg =
     (case filter (\<lambda>value. value \<noteq> []) (map clean_issuer (mc_authorization_servers cfg)) of
        [issuer] \<Rightarrow> Inr issuer
      | [] \<Rightarrow>
          (case map_option clean_issuer (ac_issuer (mc_auth cfg)) of
             None \<Rightarrow> Inl ''No authorization server is configured.''
           | Some value \<Rightarrow> if value \<noteq> [] then Inr value else Inl ''No authorization server is configured.'')
      | many \<Rightarrow> Inl (''kc-admin-mcp auth surface requires exactly one authorization server; got '' @
          show_nat (length many)))"

text \<open>The two grant types are constants of the toolkit: parameters.\<close>

definition keycloak_authorization_server_metadata ::
  "string \<Rightarrow> string \<Rightarrow> mcp_config \<Rightarrow> string + authorization_server_metadata" where
  "keycloak_authorization_server_metadata code_grant device_grant cfg =
     and_then (keycloak_auth_surface_issuer cfg) (\<lambda>issuer. Inr \<lparr>
       as_issuer = issuer,
       as_authorization_endpoint = issuer @ ''/protocol/openid-connect/auth'',
       as_token_endpoint = issuer @ ''/protocol/openid-connect/token'',
       as_registration_endpoint = Some (issuer @ ''/clients-registrations/openid-connect''),
       as_jwks_uri = Some (issuer @ ''/protocol/openid-connect/certs''),
       as_introspection_endpoint = Some (issuer @ ''/protocol/openid-connect/token/introspect''),
       as_device_authorization_endpoint = Some (issuer @ ''/protocol/openid-connect/auth/device''),
       as_grant_types_supported = Some [code_grant, device_grant],
       as_client_id_metadata_document_supported = None,
       as_token_endpoint_auth_methods_supported = None,
       as_code_challenge_methods_supported = None\<rparr>)"

definition strip_suffix :: "string \<Rightarrow> string \<Rightarrow> string option" where
  "strip_suffix suffix s =
     (if length suffix \<le> length s \<and> drop (length s - length suffix) s = suffix
      then Some (take (length s - length suffix) s) else None)"

definition auth_surface_public_base_url :: "string \<Rightarrow> string + string" where
  "auth_surface_public_base_url resource_url =
     (let trimmed = trim_end_by (\<lambda>c. c = CHR ''/'') (trim resource_url) in
      case strip_suffix ''/mcp'' trimmed of
        None \<Rightarrow> Inl (''KC_ADMIN_MCP_RESOURCE_URL must end with /mcp for auth-surface publication; got '' @ resource_url)
      | Some public_base_url \<Rightarrow>
          (if public_base_url = []
           then Inl (''KC_ADMIN_MCP_RESOURCE_URL must include a base URL before /mcp; got '' @ resource_url)
           else Inr public_base_url))"

text \<open>The settings handed to the toolkit's auth surface; the set of client ids is a list here.\<close>

record issuer_metadata_config =
  im_resource_path :: string
  im_metadata :: authorization_server_metadata
  im_realm :: string
  im_scopes_supported :: "string list"
  im_allowed_client_ids :: "string list"
  im_resource_url_override :: "string option"

definition keycloak_auth_surface_config ::
  "(string \<Rightarrow> issuer_metadata_config \<Rightarrow> string option) \<Rightarrow> mcp_config \<Rightarrow> authorization_server_metadata \<Rightarrow> string + unit" where
  "keycloak_auth_surface_config surface_error cfg metadata =
     and_then (auth_surface_public_base_url (mc_resource_url cfg)) (\<lambda>public_base_url.
       case surface_error public_base_url \<lparr>
           im_resource_path = ''/mcp'',
           im_metadata = metadata,
           im_realm = ''kc-admin-mcp'',
           im_scopes_supported = mc_scopes_supported cfg,
           im_allowed_client_ids = ac_allowed_client_ids (mc_auth cfg),
           im_resource_url_override = Some (mc_resource_url cfg)\<rparr> of
         Some err \<Rightarrow> Inl err
       | None \<Rightarrow> Inr ())"

section \<open>The event store\<close>

record event_store_config =
  es_max_streams :: nat
  es_max_events :: nat
  es_ttl :: "nat option"
  es_encryption :: "string option"

datatype event_store = MemoryStore event_store_config | SqliteStore string event_store_config

definition build_event_store ::
  "(string \<Rightarrow> event_store_config \<Rightarrow> string option) \<Rightarrow> streamable_http_config \<Rightarrow> string + event_store option" where
  "build_event_store sqlite_error cfg =
     (if \<not> replay_enabled cfg then Inr None
      else
        (let store_config = \<lparr>es_max_streams = sh_max_streams cfg, es_max_events = sh_max_events cfg,
               es_ttl = sh_ttl cfg, es_encryption = sh_event_store_key cfg\<rparr>
         in case sh_event_store_mode cfg of
              StoreOff \<Rightarrow> Inr None
            | StoreMemory \<Rightarrow> Inr (Some (MemoryStore store_config))
            | StoreSqlite \<Rightarrow>
                (case sh_event_store_path cfg of
                   None \<Rightarrow> Inl ''KC_ADMIN_MCP_HTTP_EVENT_STORE_PATH must be set for sqlite event store.''
                 | Some path \<Rightarrow>
                     (case sqlite_error path store_config of
                        Some err \<Rightarrow> Inl err
                      | None \<Rightarrow> Inr (Some (SqliteStore path store_config))))))"

section \<open>The state of the application\<close>

record session_limits =
  sl_max_streams :: nat
  sl_resume_enabled :: bool
  sl_channel_capacity :: nat
  sl_keep_alive :: "nat option"

record service_settings =
  ss_sse_retry :: "nat option"
  ss_stateful_mode :: bool

record ('a, 'u, 'c, 'k) app_state =
  ap_config :: mcp_config
  ap_authenticator :: 'a
  ap_metadata :: authorization_server_metadata
  ap_oidc_metadata_url :: string
  ap_gateway :: "('u, 'c, 'k) gateway_client"
  ap_audit_log :: audit_log
  ap_metrics :: metrics
  ap_sessions :: session_limits
  ap_stateful :: service_settings
  ap_stateless :: "service_settings option"
  ap_event_store :: "event_store option"
  ap_resume_mode :: resume_mode

record ('a, 'u, 'c, 'k) app_env =
  pe_new_authenticator :: "toolkit_auth_config \<Rightarrow> string + 'a"
  pe_code_grant :: string
  pe_device_grant :: string
  pe_oidc_metadata_url :: "string \<Rightarrow> string"
  pe_surface_error :: "string \<Rightarrow> issuer_metadata_config \<Rightarrow> string option"
  pe_parse_url :: "string \<Rightarrow> 'u option"
  pe_rustls :: "('c, 'k) rustls"
  pe_sqlite_error :: "string \<Rightarrow> event_store_config \<Rightarrow> string option"

fun gateway_failure_text :: "gateway_failure \<Rightarrow> string" where
  "gateway_failure_text InvalidUrl = ''gateway url is invalid''"
| "gateway_failure_text (TlsConfig m) = ''gateway tls configuration invalid: '' @ m"
| "gateway_failure_text RequestFailed = ''gateway request failed''"
| "gateway_failure_text (UpstreamStatus status _) = ''gateway returned non-success status '' @ show_nat status"

text \<open>The stateful service starts from the toolkit's defaults, which are stateful.\<close>

definition new_app_state ::
  "('a, 'u, 'c, 'k) app_env \<Rightarrow> mcp_config \<Rightarrow> string + ('a, 'u, 'c, 'k) app_state" where
  "new_app_state pe cfg =
     (let http = mc_streamable_http cfg in
      and_then (map_err (\<lambda>err. ''failed to initialize authenticator: '' @ err)
        (build_authenticator (pe_new_authenticator pe) cfg)) (\<lambda>authenticator.
      and_then (map_err (\<lambda>err. ''failed to derive auth-surface metadata: '' @ err)
        (keycloak_authorization_server_metadata (pe_code_grant pe) (pe_device_grant pe) cfg)) (\<lambda>metadata.
      and_then (map_err (\<lambda>err. ''failed to validate auth-surface configuration: '' @ err)
        (keycloak_auth_surface_config (pe_surface_error pe) cfg metadata)) (\<lambda>_.
      and_then (map_err (\<lambda>err. ''failed to build gateway client: '' @ gateway_failure_text err)
        (new_gateway_client (pe_parse_url pe) (pe_rustls pe) (mc_gateway cfg))) (\<lambda>gateway.
      and_then (build_event_store (pe_sqlite_error pe) http) (\<lambda>store.
      Inr \<lparr>ap_config = cfg, ap_authenticator = authenticator, ap_metadata = metadata,
        ap_oidc_metadata_url = pe_oidc_metadata_url pe (as_issuer metadata),
        ap_gateway = gateway,
        ap_audit_log = new_log (mc_audit_log_max cfg) (mc_audit_log_path cfg)
          (mc_audit_checkpoint_path cfg) (mc_audit_log_max_bytes cfg) (mc_audit_log_max_files cfg),
        ap_metrics = new_metrics,
        ap_sessions = \<lparr>sl_max_streams = sh_max_streams http, sl_resume_enabled = resume_enabled http,
          sl_channel_capacity = sh_max_events http, sl_keep_alive = sh_ttl http\<rparr>,
        ap_stateful = \<lparr>ss_sse_retry = sh_retry_interval http, ss_stateful_mode = True\<rparr>,
        ap_stateless =
          (if sh_stateless_fallback http then Some \<lparr>ss_sse_retry = None, ss_stateful_mode = False\<rparr> else None),
        ap_event_store = store,
        ap_resume_mode = sh_resume_mode http\<rparr>))))))"

section \<open>Metadata handlers\<close>

definition json_response :: "json \<Rightarrow> mcp_response" where
  "json_response payload = \<lparr>mr_status = 200, mr_headers = [(''content-type'', ''application/json'')],
     mr_body = JsonText payload\<rparr>"

definition json_strs :: "string list \<Rightarrow> json" where
  "json_strs vs = JArr (map JStr vs)"

text \<open>\<open>ResourceMetadata\<close> (\<open>config.rs\<close>) with its derived serializer.\<close>

definition resource_metadata :: "('a, 'u, 'c, 'k) app_state \<Rightarrow> mcp_response" where
  "resource_metadata st = json_response (JObj (
     [(''resource'', JStr (mc_resource_url (ap_config st))),
      (''authorization_servers'', json_strs [as_issuer (ap_metadata st)])] @
     (if mc_scopes_supported (ap_config st) = [] then []
      else [(''scopes_supported'', json_strs (mc_scopes_supported (ap_config st)))])))"

text \<open>The serializer of the toolkit's metadata type is a parameter.\<close>

definition authorization_server_metadata_response ::
  "(authorization_server_metadata \<Rightarrow> json) \<Rightarrow> ('a, 'u, 'c, 'k) app_state \<Rightarrow> mcp_response" where
  "authorization_server_metadata_response metadata_json st = json_response (metadata_json (ap_metadata st))"

definition oidc_metadata_redirect :: "('a, 'u, 'c, 'k) app_state \<Rightarrow> mcp_response" where
  "oidc_metadata_redirect st = \<lparr>mr_status = 307, mr_headers = [(''location'', ap_oidc_metadata_url st)],
     mr_body = OtherBody []\<rparr>"

section \<open>Sessions\<close>

text \<open>
  A request and what the toolkit does with one. \<open>to_bytes\<close> reads a body up to a limit, \<open>of_bytes\<close> makes
  one; \<open>from_slice\<close> decodes JSON; \<open>has_session\<close> fails or tells whether a session is known;
  \<open>replay_after\<close> gives the events of a session after an id. The services answer a request. The names of
  the two session headers and of the type of an event stream are the toolkit's constants.
\<close>

record 'b mcp_request =
  mq_method :: http_method
  mq_path :: string
  mq_headers :: headers
  mq_body :: 'b
  mq_caller :: "caller option"
  mq_context :: "log_context option"

datatype mcp_service = Stateful | Stateless

record replay_message =
  rm_event_id :: "string option"
  rm_retry :: "nat option"
  rm_text :: "string option"

record ('b, 'w) session_env =
  se_session_header :: string
  se_last_event_header :: string
  se_event_stream_type :: string
  se_to_bytes :: "'b \<Rightarrow> nat \<Rightarrow> string option"
  se_of_bytes :: "string \<Rightarrow> 'b"
  se_from_slice :: "string \<Rightarrow> json option"
  se_has_session :: "string \<Rightarrow> 'w \<Rightarrow> bool option \<times> 'w"
  se_replay_after :: "event_store \<Rightarrow> string \<Rightarrow> string \<Rightarrow> 'w \<Rightarrow> replay_message list option \<times> 'w"
  se_serve :: "mcp_service \<Rightarrow> 'b mcp_request \<Rightarrow> 'w \<Rightarrow> mcp_response \<times> 'w"

text \<open>What a dispatch does, in order.\<close>

datatype 'b session_event =
    Probed string bool
  | BodyRead nat
  | ReplayAsked string string
  | Served mcp_service "'b mcp_request"

definition header_word :: "string \<Rightarrow> headers \<Rightarrow> string option" where
  "header_word name hs = Option.bind (Option.bind (header_get hs name) to_str) non_empty"

definition session_id_from_headers :: "('b, 'w) session_env \<Rightarrow> headers \<Rightarrow> string option" where
  "session_id_from_headers se hs = header_word (se_session_header se) hs"

definition last_event_id_from_headers :: "('b, 'w) session_env \<Rightarrow> headers \<Rightarrow> string option" where
  "last_event_id_from_headers se hs = header_word (se_last_event_header se) hs"

definition is_initialize_payload :: "(string \<Rightarrow> json option) \<Rightarrow> string \<Rightarrow> bool" where
  "is_initialize_payload from_slice body =
     (if body = [] then False
      else (case from_slice body of
              Some (JObj fs) \<Rightarrow> Option.bind (map_of fs ''method'') as_str = Some ''initialize''
            | _ \<Rightarrow> False))"

definition jsonrpc_request_id :: "(string \<Rightarrow> json option) \<Rightarrow> string \<Rightarrow> json option" where
  "jsonrpc_request_id from_slice body =
     (if body = [] then None
      else (case from_slice body of
              Some (JObj fs) \<Rightarrow>
                (if Option.bind (map_of fs ''jsonrpc'') as_str = Some ''2.0''
                 then Some (case map_of fs ''id'' of None \<Rightarrow> JNull | Some v \<Rightarrow> v)
                 else None)
            | _ \<Rightarrow> None))"

definition session_error :: "nat \<Rightarrow> string \<Rightarrow> string \<Rightarrow> json option \<Rightarrow> mcp_response" where
  "session_error status message hint jsonrpc_id =
     \<lparr>mr_status = status, mr_headers = [(''content-type'', ''application/json'')],
      mr_body = JsonText (case jsonrpc_id of
          Some i \<Rightarrow> JObj [(''jsonrpc'', JStr ''2.0''), (''id'', i),
            (''error'', JObj [(''code'', JNum (NegInt (- 32600))), (''message'', JStr message),
               (''data'', JObj [(''hint'', JStr hint), (''http_status'', json_nat status)])])]
        | None \<Rightarrow> JObj [(''status'', JStr ''error''), (''error'', JStr message), (''hint'', JStr hint)])\<rparr>"

abbreviation unknown_session :: "json option \<Rightarrow> mcp_response" where
  "unknown_session \<equiv> session_error 404 ''Invalid or expired session ID.''
     ''Re-initialize with POST /mcp to obtain a new session id.''"

abbreviation missing_session :: "json option \<Rightarrow> mcp_response" where
  "missing_session \<equiv> session_error 400 ''Missing session ID.''
     ''Initialize with POST /mcp to obtain a new session id.''"

text \<open>The state travels with the response through the recorded calls.\<close>

type_synonym ('b, 'w) session_run = "(mcp_response \<times> 'w, 'b session_event) traced"

definition forward_service ::
  "('b, 'w) session_env \<Rightarrow> mcp_service \<Rightarrow> 'b mcp_request \<Rightarrow> 'w \<Rightarrow> ('b, 'w) session_run" where
  "forward_service se service req w = emit (Served service req) (done_with (se_serve se service req w))"

definition session_exists ::
  "('b, 'w) session_env \<Rightarrow> string \<Rightarrow> 'w \<Rightarrow> (bool \<Rightarrow> 'w \<Rightarrow> ('b, 'w) session_run) \<Rightarrow> ('b, 'w) session_run" where
  "session_exists se session_id w k =
     (let (known, w) = se_has_session se session_id w;
          known = (case known of None \<Rightarrow> False | Some b \<Rightarrow> b)
      in emit (Probed session_id known) (k known w))"

definition replay_event :: "replay_message \<Rightarrow> sse_event" where
  "replay_event message =
     \<lparr>ev_data = (case rm_text message of None \<Rightarrow> [] | Some t \<Rightarrow> t), ev_id = rm_event_id message,
      ev_retry = rm_retry message\<rparr>"

definition replay_from_event_store ::
  "('b, 'w) session_env \<Rightarrow> event_store option \<Rightarrow> string \<Rightarrow> string \<Rightarrow> 'w \<Rightarrow>
     (mcp_response option \<times> 'w, 'b session_event) traced" where
  "replay_from_event_store se store session_id last_event_id w =
     (case store of
        None \<Rightarrow> done_with (None, w)
      | Some es \<Rightarrow>
          emit (ReplayAsked session_id last_event_id)
            (case se_replay_after se es session_id last_event_id w of
               (None, w) \<Rightarrow> done_with (None, w)
             | (Some events, w) \<Rightarrow>
                 done_with
                   (if events = [] then (None, w)
                    else (Some \<lparr>mr_status = 200,
                       mr_headers = [(''content-type'', se_event_stream_type se), (''cache-control'', ''no-cache'')],
                       mr_body = EventStream (map replay_event events)\<rparr>, w))))"

section \<open>The dispatch of /mcp\<close>

text \<open>\<open>usize::MAX\<close> of a 64-bit target.\<close>

definition usize_max :: nat where "usize_max = 2 ^ 64 - 1"

definition handle_post ::
  "('b, 'w) session_env \<Rightarrow> ('a, 'u, 'c, 'k) app_state \<Rightarrow> 'b mcp_request \<Rightarrow> 'w \<Rightarrow> ('b, 'w) session_run" where
  "handle_post se st req w =
     (case session_id_from_headers se (mq_headers req) of
        Some session_id \<Rightarrow>
          session_exists se session_id w (\<lambda>known w.
            if known then forward_service se Stateful req w
            else if ap_stateless st \<noteq> None then forward_service se Stateless req w
            else emit (BodyRead usize_max)
              (case se_to_bytes se (mq_body req) usize_max of
                 None \<Rightarrow> done_with (unknown_session None, w)
               | Some bytes \<Rightarrow> done_with (unknown_session (jsonrpc_request_id (se_from_slice se) bytes), w)))
      | None \<Rightarrow>
          (let limit = sh_initialize_body_limit_bytes (mc_streamable_http (ap_config st)) in
           emit (BodyRead limit)
             (case se_to_bytes se (mq_body req) limit of
                None \<Rightarrow> done_with (session_error 400 ''Failed to read request body.'' ''Retry the request.'' None, w)
              | Some bytes \<Rightarrow>
                  (let req = req\<lparr>mq_body := se_of_bytes se bytes\<rparr> in
                   if is_initialize_payload (se_from_slice se) bytes then forward_service se Stateful req w
                   else if ap_stateless st \<noteq> None then forward_service se Stateless req w
                   else done_with (missing_session (jsonrpc_request_id (se_from_slice se) bytes), w)))))"

definition handle_get_or_delete ::
  "('b, 'w) session_env \<Rightarrow> ('a, 'u, 'c, 'k) app_state \<Rightarrow> 'b mcp_request \<Rightarrow> 'w \<Rightarrow> ('b, 'w) session_run" where
  "handle_get_or_delete se st req w =
     (case session_id_from_headers se (mq_headers req) of
        None \<Rightarrow> done_with (missing_session None, w)
      | Some session_id \<Rightarrow>
          session_exists se session_id w (\<lambda>known w.
            if \<not> known then
              (case (if mq_method req = GET \<and> ap_resume_mode st = Replay
                     then last_event_id_from_headers se (mq_headers req) else None) of
                 None \<Rightarrow> done_with (unknown_session None, w)
               | Some last_event_id \<Rightarrow>
                   (let ((replayed, w), evs) =
                          replay_from_event_store se (ap_event_store st) session_id last_event_id w
                    in ((case replayed of Some response \<Rightarrow> response | None \<Rightarrow> unknown_session None, w), evs)))
            else forward_service se Stateful req w))"

definition handle_mcp ::
  "('b, 'w) session_env \<Rightarrow> ('a, 'u, 'c, 'k) app_state \<Rightarrow> 'b mcp_request \<Rightarrow> 'w \<Rightarrow> ('b, 'w) session_run" where
  "handle_mcp se st req w =
     (if mq_method req = POST then handle_post se st req w
      else if mq_method req = GET \<or> mq_method req = DELETE then handle_get_or_delete se st req w
      else done_with (session_error 405 ''Method not allowed.''
        ''Use POST /mcp to initialize, then reuse the session id for later requests.'' None, w))"

section \<open>Lemmas on the dispatch\<close>

text \<open>
  What a dispatch may do: at most one service runs, last of all; the stateful service takes a request of a
  session that was just found known, or an initialize payload that fits the limit; the stateless one
  runs only when there is one, for a \<open>POST\<close>. A body is read without the limit only in the one case of
  an unknown session with no stateless service.
\<close>

fun services :: "'b session_event list \<Rightarrow> (mcp_service \<times> 'b mcp_request) list" where
  "services [] = []"
| "services (Served service req # evs) = (service, req) # services evs"
| "services (Probed _ _ # evs) = services evs"
| "services (BodyRead _ # evs) = services evs"
| "services (ReplayAsked _ _ # evs) = services evs"

lemma services_iff: "(service, req) \<in> set (services evs) \<longleftrightarrow> Served service req \<in> set evs"
  by (induction evs rule: services.induct) auto

definition initialize_probe :: "('b, 'w) session_env \<Rightarrow> nat \<Rightarrow> 'b mcp_request \<Rightarrow> string \<Rightarrow> bool" where
  "initialize_probe se limit req bytes \<longleftrightarrow> mq_method req = POST \<and>
     session_id_from_headers se (mq_headers req) = None \<and> se_to_bytes se (mq_body req) limit = Some bytes"

definition admitted ::
  "('b, 'w) session_env \<Rightarrow> ('a, 'u, 'c, 'k) app_state \<Rightarrow> 'b mcp_request \<Rightarrow> 'w \<Rightarrow>
     mcp_service \<Rightarrow> 'b mcp_request \<Rightarrow> bool" where
  "admitted se st req w service req' \<longleftrightarrow>
     (let limit = sh_initialize_body_limit_bytes (mc_streamable_http (ap_config st)) in
      (case service of
         Stateful \<Rightarrow>
           (req' = req \<and> mq_method req \<in> {POST, GET, DELETE} \<and>
              (\<exists>sid. session_id_from_headers se (mq_headers req) = Some sid \<and>
                 fst (se_has_session se sid w) = Some True)) \<or>
           (\<exists>bytes. initialize_probe se limit req bytes \<and> is_initialize_payload (se_from_slice se) bytes \<and>
              req' = req\<lparr>mq_body := se_of_bytes se bytes\<rparr>)
       | Stateless \<Rightarrow> ap_stateless st \<noteq> None \<and> mq_method req = POST \<and>
           (req' = req \<and> (\<exists>sid. session_id_from_headers se (mq_headers req) = Some sid \<and>
              fst (se_has_session se sid w) \<noteq> Some True) \<or>
            (\<exists>bytes. initialize_probe se limit req bytes \<and>
              \<not> is_initialize_payload (se_from_slice se) bytes \<and>
              req' = req\<lparr>mq_body := se_of_bytes se bytes\<rparr>))))"

lemma forward_service_simps [simp]:
  "fst (forward_service se service req w) = se_serve se service req w"
  "snd (forward_service se service req w) = [Served service req]"
  by (simp_all add: forward_service_def)

lemma session_exists_unfold:
  "session_exists se sid w k =
     (let known = (fst (se_has_session se sid w) = Some True)
      in emit (Probed sid known) (k known (snd (se_has_session se sid w))))"
  by (auto simp: session_exists_def Let_def split: prod.splits option.splits)

lemma replay_events [simp]:
  "snd (replay_from_event_store se store sid ev w) =
     (case store of None \<Rightarrow> [] | Some _ \<Rightarrow> [ReplayAsked sid ev])"
  by (simp add: replay_from_event_store_def split: option.split prod.split)

lemma handle_post_services:
  assumes "mq_method req = POST" and "services (snd (handle_post se st req w)) = (service, req') # rest"
  shows "rest = [] \<and> admitted se st req w service req'"
proof (cases "session_id_from_headers se (mq_headers req)")
  case (Some sid)
  with assms show ?thesis
    by (auto simp: handle_post_def session_exists_unfold Let_def admitted_def split: if_splits option.splits)
next
  case None
  with assms show ?thesis
    by (auto simp: handle_post_def Let_def admitted_def initialize_probe_def split: if_splits option.splits)
qed

lemma handle_get_or_delete_services:
  assumes "mq_method req \<in> {GET, DELETE}"
    and "services (snd (handle_get_or_delete se st req w)) = (service, req') # rest"
  shows "rest = [] \<and> admitted se st req w service req'"
proof (cases "session_id_from_headers se (mq_headers req)")
  case None
  with assms show ?thesis by (simp add: handle_get_or_delete_def)
next
  case (Some sid)
  let ?known = "fst (se_has_session se sid w) = Some True"
  show ?thesis
  proof (cases ?known)
    case True
    with Some assms show ?thesis
      by (auto simp: handle_get_or_delete_def session_exists_unfold admitted_def)
  next
    case False
    have "services (snd (handle_get_or_delete se st req w)) = []"
      using Some False
      by (simp add: handle_get_or_delete_def session_exists_unfold case_prod_beta split: option.split)
    with assms show ?thesis by simp
  qed
qed

lemma handle_mcp_services:
  assumes "services (snd (handle_mcp se st req w)) = (service, req') # rest"
  shows "rest = [] \<and> admitted se st req w service req'"
  using assms handle_post_services [of req se st w] handle_get_or_delete_services [of req se st w]
  by (auto simp: handle_mcp_def split: if_splits)

text \<open>The id of the JSON-RPC request in the body, if the body was read and holds one.\<close>

definition echoed_id ::
  "('b, 'w) session_env \<Rightarrow> ('a, 'u, 'c, 'k) app_state \<Rightarrow> 'b mcp_request \<Rightarrow> json option" where
  "echoed_id se st req =
     (if mq_method req = POST then
        Option.bind (se_to_bytes se (mq_body req)
            (if session_id_from_headers se (mq_headers req) = None
             then sh_initialize_body_limit_bytes (mc_streamable_http (ap_config st)) else usize_max))
          (jsonrpc_request_id (se_from_slice se))
      else None)"

definition dispatch_status :: "('b, 'w) session_env \<Rightarrow> 'b mcp_request \<Rightarrow> nat" where
  "dispatch_status se req =
     (if mq_method req \<notin> {POST, GET, DELETE} then 405
      else if session_id_from_headers se (mq_headers req) = None then 400 else 404)"

definition replayed ::
  "('b, 'w) session_env \<Rightarrow> ('a, 'u, 'c, 'k) app_state \<Rightarrow> 'b mcp_request \<Rightarrow> 'w \<Rightarrow> replay_message list option" where
  "replayed se st req w =
     (if mq_method req = GET \<and> ap_resume_mode st = Replay then
        Option.bind (session_id_from_headers se (mq_headers req)) (\<lambda>sid.
        Option.bind (last_event_id_from_headers se (mq_headers req)) (\<lambda>ev.
        Option.bind (ap_event_store st) (\<lambda>es.
        Option.bind (fst (se_replay_after se es sid ev (snd (se_has_session se sid w)))) (\<lambda>events.
        if events = [] then None else Some events))))
      else None)"

definition event_stream :: "('b, 'w) session_env \<Rightarrow> replay_message list \<Rightarrow> mcp_response" where
  "event_stream se events = \<lparr>mr_status = 200,
     mr_headers = [(''content-type'', se_event_stream_type se), (''cache-control'', ''no-cache'')],
     mr_body = EventStream (map replay_event events)\<rparr>"

lemma replay_from_event_store_fst:
  "fst (fst (replay_from_event_store se store sid ev w)) =
     Option.bind store (\<lambda>es. Option.bind (fst (se_replay_after se es sid ev w)) (\<lambda>events.
       if events = [] then None else Some (event_stream se events)))"
  by (simp add: replay_from_event_store_def event_stream_def split: option.split prod.split)

lemma handle_post_own_answer:
  assumes "mq_method req = POST" and "services (snd (handle_post se st req w)) = []"
  shows "\<exists>message hint. fst (fst (handle_post se st req w)) =
    session_error (dispatch_status se req) message hint (echoed_id se st req)"
proof (cases "session_id_from_headers se (mq_headers req)")
  case (Some sid)
  with assms show ?thesis
    by (auto simp: handle_post_def session_exists_unfold Let_def dispatch_status_def echoed_id_def
        split: if_splits option.splits)
next
  case None
  with assms show ?thesis
    by (auto simp: handle_post_def Let_def dispatch_status_def echoed_id_def split: if_splits option.splits)
qed

lemma handle_get_or_delete_own_answer:
  assumes "mq_method req \<in> {GET, DELETE}" and "services (snd (handle_get_or_delete se st req w)) = []"
  shows "case replayed se st req w of
     Some events \<Rightarrow> fst (fst (handle_get_or_delete se st req w)) = event_stream se events
   | None \<Rightarrow> \<exists>message hint. fst (fst (handle_get_or_delete se st req w)) =
       session_error (dispatch_status se req) message hint (echoed_id se st req)"
proof (cases "session_id_from_headers se (mq_headers req)")
  case None
  with assms show ?thesis
    by (auto simp: handle_get_or_delete_def dispatch_status_def echoed_id_def replayed_def)
next
  case (Some sid)
  have unknown: "fst (se_has_session se sid w) \<noteq> Some True"
    using assms Some by (auto simp: handle_get_or_delete_def session_exists_unfold)
  have get: "mq_method req \<noteq> POST" using assms(1) by auto
  show ?thesis
  proof (cases "mq_method req = GET \<and> ap_resume_mode st = Replay \<and>
      last_event_id_from_headers se (mq_headers req) \<noteq> None")
    case False
    with Some unknown get assms(1) show ?thesis
      by (auto simp: handle_get_or_delete_def session_exists_unfold dispatch_status_def echoed_id_def
          replayed_def)
  next
    case True
    then obtain ev where ev: "last_event_id_from_headers se (mq_headers req) = Some ev" by auto
    let ?r = "fst (fst (replay_from_event_store se (ap_event_store st) sid ev (snd (se_has_session se sid w))))"
    have "fst (fst (handle_get_or_delete se st req w)) =
        (case ?r of Some response \<Rightarrow> response | None \<Rightarrow> unknown_session None)"
      using Some unknown True ev
      by (simp add: handle_get_or_delete_def session_exists_unfold split: prod.split)
    moreover have "?r = map_option (event_stream se) (replayed se st req w)"
      using Some True ev by (simp add: replay_from_event_store_fst replayed_def split: bind_splits)
    ultimately show ?thesis
      using Some True by (auto simp: dispatch_status_def echoed_id_def split: option.split)
  qed
qed

lemma dispatch_own_answer:
  assumes "services (snd (handle_mcp se st req w)) = []"
  shows "case replayed se st req w of
     Some events \<Rightarrow> fst (fst (handle_mcp se st req w)) = event_stream se events
   | None \<Rightarrow> \<exists>message hint. fst (fst (handle_mcp se st req w)) =
       session_error (dispatch_status se req) message hint (echoed_id se st req)"
proof -
  consider "mq_method req = POST" | "mq_method req \<in> {GET, DELETE}" | "mq_method req \<notin> {POST, GET, DELETE}"
    by auto
  then show ?thesis
  proof cases
    case 1
    then show ?thesis
      using assms handle_post_own_answer [of req se st w] by (simp add: handle_mcp_def replayed_def)
  next
    case 2
    then have "handle_mcp se st req w = handle_get_or_delete se st req w" by (auto simp: handle_mcp_def)
    with assms handle_get_or_delete_own_answer [OF 2, of se st w] show ?thesis by (simp only:)
  next
    case 3
    then show ?thesis by (auto simp: handle_mcp_def replayed_def dispatch_status_def echoed_id_def)
  qed
qed

section \<open>Properties\<close>


text \<open>
  C39: What the server answers without a service is the replay a resuming client asked for, or an error
  that fits the request: 405 for another method, 400 without a session id, 404 for a session it does not
  know, in the shape of JSON-RPC with the request's own id exactly when the body was read and is a
  JSON-RPC request.
\<close>

theorem dispatch_errors_answer:
  assumes "services (snd (handle_mcp se st req w)) = []"
  shows "case replayed se st req w of
     Some events \<Rightarrow> fst (fst (handle_mcp se st req w)) = event_stream se events
   | None \<Rightarrow> \<exists>message hint. fst (fst (handle_mcp se st req w)) =
       session_error (dispatch_status se req) message hint (echoed_id se st req)"
  by (rule dispatch_own_answer [OF assms])

section \<open>Coming back after a lost session\<close>

text \<open>
  What the hints of the errors tell a client to do: when a request is refused, initialize without a
  session id and send the request again with the id of the new session.
\<close>

definition with_session :: "('b, 'w) session_env \<Rightarrow> string \<Rightarrow> 'b mcp_request \<Rightarrow> 'b mcp_request" where
  "with_session se sid req = req\<lparr>mq_headers := header_insert (mq_headers req) (se_session_header se) sid\<rparr>"

definition reconnect ::
  "('b, 'w) session_env \<Rightarrow> ('a, 'u, 'c, 'k) app_state \<Rightarrow> 'b mcp_request \<Rightarrow> 'b mcp_request \<Rightarrow> 'w \<Rightarrow>
     ('b, 'w) session_run option" where
  "reconnect se st init req w =
     (let w = snd (fst (handle_mcp se st req w));
          (response, w) = fst (handle_mcp se st init w)
      in map_option (\<lambda>sid. handle_mcp se st (with_session se sid req) w)
           (session_id_from_headers se (mr_headers response)))"

lemma header_get_insert [simp]: "header_get (header_insert hs name v) name = Some v"
proof -
  have "map_of (header_remove hs name) (to_ascii_lowercase name) = None"
    by (auto simp: header_remove_def map_of_eq_None_iff)
  then show ?thesis by (simp add: header_get_def header_insert_def map_add_def)
qed

lemma non_empty_idem: "non_empty v = Some t \<Longrightarrow> non_empty t = Some t \<and> set t \<subseteq> set v"
  by (auto simp: non_empty_def Let_def dest: set_mp [OF set_trim] split: if_splits)

lemma session_id_with_session:
  assumes "session_id_from_headers se hs = Some sid"
  shows "session_id_from_headers se (mq_headers (with_session se sid req)) = Some sid"
proof -
  from assms obtain v where "to_str v = Some v" "non_empty v = Some sid"
    by (auto simp: session_id_from_headers_def header_word_def bind_eq_Some_conv to_str_def split: if_splits)
  with non_empty_idem [of v sid] have "non_empty sid = Some sid" "to_str sid = Some sid"
    by (auto simp: to_str_def list_all_iff split: if_splits)
  then show ?thesis
    by (simp add: session_id_from_headers_def header_word_def with_session_def)
qed

text \<open>An initialize request the server reads: a \<open>POST\<close> without a session id, its payload within the limit.\<close>

definition initializes ::
  "('b, 'w) session_env \<Rightarrow> ('a, 'u, 'c, 'k) app_state \<Rightarrow> 'b mcp_request \<Rightarrow> string \<Rightarrow> bool" where
  "initializes se st init bytes \<longleftrightarrow>
     initialize_probe se (sh_initialize_body_limit_bytes (mc_streamable_http (ap_config st))) init bytes \<and>
     is_initialize_payload (se_from_slice se) bytes"

lemma handle_mcp_initialize:
  assumes "initializes se st init bytes"
  shows "handle_mcp se st init w = forward_service se Stateful (init\<lparr>mq_body := se_of_bytes se bytes\<rparr>) w \<or>
    handle_mcp se st init w =
      emit (BodyRead (sh_initialize_body_limit_bytes (mc_streamable_http (ap_config st))))
        (forward_service se Stateful (init\<lparr>mq_body := se_of_bytes se bytes\<rparr>) w)"
  using assms by (simp add: initializes_def initialize_probe_def handle_mcp_def handle_post_def Let_def)

lemma handle_mcp_known:
  assumes "mq_method req \<in> {POST, GET, DELETE}" and "session_id_from_headers se (mq_headers req) = Some sid"
    and "fst (se_has_session se sid w) = Some True"
  shows "services (snd (handle_mcp se st req w)) = [(Stateful, req)]"
  using assms
  by (auto simp: handle_mcp_def handle_post_def handle_get_or_delete_def session_exists_unfold)


text \<open>A server with one session to give, its bodies texts and its state the list of the known sessions.\<close>

definition sample_session_env :: "(string, string list) session_env" where
  "sample_session_env = \<lparr>se_session_header = ''mcp-session-id'', se_last_event_header = ''last-event-id'',
     se_event_stream_type = ''text/event-stream'',
     se_to_bytes = (\<lambda>b n. if length b \<le> n then Some b else None), se_of_bytes = id,
     se_from_slice = (\<lambda>b. if b = ''init'' then Some (JObj [(''method'', JStr ''initialize'')])
        else if b = ''call'' then Some (JObj [(''jsonrpc'', JStr ''2.0''), (''id'', json_nat 7)]) else None),
     se_has_session = (\<lambda>sid known. (Some (sid \<in> set known), known)),
     se_replay_after = (\<lambda>_ _ _ known. (Some [\<lparr>rm_event_id = Some ''2'', rm_retry = None, rm_text = Some ''x''\<rparr>], known)),
     se_serve = (\<lambda>service req known. (\<lparr>mr_status = 200, mr_headers = [(''mcp-session-id'', ''s1'')],
        mr_body = OtherBody []\<rparr>, ''s1'' # known))\<rparr>"

definition sample_app_env :: "(toolkit_auth_config, string, string, string) app_env" where
  "sample_app_env = \<lparr>pe_new_authenticator = Inr, pe_code_grant = ''authorization_code'',
     pe_device_grant = ''device_code'', pe_oidc_metadata_url = (\<lambda>issuer. issuer @ ''/oidc''),
     pe_surface_error = (\<lambda>_ _. None), pe_parse_url = Some, pe_rustls = sample_rustls,
     pe_sqlite_error = (\<lambda>_ _. None)\<rparr>"

definition sample_app_state :: "(toolkit_auth_config, string, string, string) app_state" where
  "sample_app_state = (case new_app_state sample_app_env sample_mcp_config of Inr st \<Rightarrow> st)"

definition sample_mcp_request :: "http_method \<Rightarrow> headers \<Rightarrow> string \<Rightarrow> string mcp_request" where
  "sample_mcp_request m hs body = \<lparr>mq_method = m, mq_path = ''/mcp'', mq_headers = hs, mq_body = body,
     mq_caller = None, mq_context = None\<rparr>"

lemma sample_surface:
  "keycloak_auth_surface_issuer sample_mcp_config = Inr ''https://kc/realms/master''"
  "auth_surface_public_base_url (mc_resource_url sample_mcp_config) = Inr ''http://127.0.0.1:9400''"
proof -
  have "mc_authorization_servers sample_mcp_config = [''https://kc/realms/master'']"
    by (simp add: sample_mcp_config_def)
  then show "keycloak_auth_surface_issuer sample_mcp_config = Inr ''https://kc/realms/master''"
    by (simp add: keycloak_auth_surface_issuer_def clean_issuer_def str_defs)
  have "mc_resource_url sample_mcp_config = ''http://127.0.0.1:9400/mcp''" by (simp add: sample_mcp_config_def)
  then show "auth_surface_public_base_url (mc_resource_url sample_mcp_config) = Inr ''http://127.0.0.1:9400''"
    by (simp add: auth_surface_public_base_url_def strip_suffix_def str_defs Let_def)
qed

lemma sample_settings:
  "mc_gateway sample_mcp_config = \<lparr>mg_base_url = ''http://127.0.0.1:9300'', mg_request_timeout = 5000,
     mg_tls_ca_pem = None, mg_tls_client_cert_pem = None, mg_tls_client_key_pem = None\<rparr>"
  "sh_resume_mode (mc_streamable_http sample_mcp_config) = Historyless"
  "sh_initialize_body_limit_bytes (mc_streamable_http sample_mcp_config) = 16777216"
  by (simp_all add: sample_mcp_config_def DEFAULT_INITIALIZE_BODY_LIMIT_BYTES_def)

lemma sample_app_started: "new_app_state sample_app_env sample_mcp_config = Inr sample_app_state"
proof -
  have "\<exists>st. new_app_state sample_app_env sample_mcp_config = Inr st"
    by (simp add: new_app_state_def build_authenticator_def keycloak_authorization_server_metadata_def
        keycloak_auth_surface_config_def sample_surface sample_app_env_def new_gateway_client_def
        build_client_def build_event_store_def replay_enabled_def sample_settings
        sample_rustls_def ok_or_def Let_def)
  then show ?thesis by (auto simp: sample_app_state_def)
qed

lemma new_app_state_fields:
  assumes "new_app_state pe cfg = Inr st"
  shows "ap_config st = cfg" and "ap_resume_mode st = sh_resume_mode (mc_streamable_http cfg)"
    and "build_event_store (pe_sqlite_error pe) (mc_streamable_http cfg) = Inr (ap_event_store st)"
    and "build_authenticator (pe_new_authenticator pe) cfg = Inr (ap_authenticator st)"
    and "keycloak_authorization_server_metadata (pe_code_grant pe) (pe_device_grant pe) cfg = Inr (ap_metadata st)"
    and "new_gateway_client (pe_parse_url pe) (pe_rustls pe) (mc_gateway cfg) = Inr (ap_gateway st)"
    and "ap_sessions st = \<lparr>sl_max_streams = sh_max_streams (mc_streamable_http cfg),
      sl_resume_enabled = resume_enabled (mc_streamable_http cfg),
      sl_channel_capacity = sh_max_events (mc_streamable_http cfg), sl_keep_alive = sh_ttl (mc_streamable_http cfg)\<rparr>"
    and "ap_stateless st \<noteq> None \<longleftrightarrow> sh_stateless_fallback (mc_streamable_http cfg)"
    and "ap_oidc_metadata_url st = pe_oidc_metadata_url pe (as_issuer (ap_metadata st))"
  using assms by (auto simp: new_app_state_def Let_def split: if_splits)

lemma sample_app_config [simp]: "ap_config sample_app_state = sample_mcp_config"
  using new_app_state_fields(1) [OF sample_app_started] .

theorem dispatch_errors_answer_witness:
  "\<exists>message hint. fst (fst (handle_mcp sample_session_env (sample_app_state\<lparr>ap_stateless := None\<rparr>)
       (sample_mcp_request POST [(''mcp-session-id'', ''s9'')] ''call'') [''s1''])) =
     session_error 404 message hint (Some (json_nat 7))"
proof -
  let ?st = "sample_app_state\<lparr>ap_stateless := None\<rparr>"
  let ?req = "sample_mcp_request POST [(''mcp-session-id'', ''s9'')] ''call''"
  have sid: "session_id_from_headers sample_session_env (mq_headers ?req) = Some ''s9''" by code_simp
  have has: "fst (se_has_session sample_session_env ''s9'' [''s1'']) = Some False" by code_simp
  have m: "mq_method ?req = POST" by (simp add: sample_mcp_request_def)
  have read: "se_to_bytes sample_session_env (mq_body ?req) usize_max = Some ''call''"
    by (simp add: sample_session_env_def sample_mcp_request_def usize_max_def)
  have rpc: "jsonrpc_request_id (se_from_slice sample_session_env) ''call'' = Some (json_nat 7)"
    by (simp add: jsonrpc_request_id_def sample_session_env_def)
  have "services (snd (handle_mcp sample_session_env ?st ?req [''s1''])) = []"
    using sid has m read by (simp add: handle_mcp_def handle_post_def session_exists_unfold)
  from dispatch_errors_answer [OF this] show ?thesis
    using sid m read rpc by (simp add: replayed_def dispatch_status_def echoed_id_def)
qed



end
