(* ===== verification/Mcp_Service.thy ===== *)
theory Mcp_Service
  imports Mcp_Sessions
begin

text \<open>
  The MCP server as a whole (\<open>main.rs\<close>): the order in which it checks and builds before it listens, and
  the HTTP service it listens with, whose \<open>/mcp\<close> route lies behind the edge middleware and the
  authentication of the caller and whose metadata routes do not.
\<close>

section \<open>Start-up\<close>

datatype mcp_start_failure =
    McpCryptoFailed
  | McpConfigFailed config_error
  | ProvenanceFailed string
  | AdmissionRejected "string option \<times> string"
  | AppStateFailed string
  | BadBindAddress
  | McpTlsFailed string

record ('a, 'u, 'c, 'k, 'addr) mcp_start_env =
  mt_install_crypto :: bool
  mt_now :: instant
  mt_key_of :: "string \<Rightarrow> string + string"
  mt_current_exe :: "string + string"
  mt_build :: build_provenance
  mt_pid :: nat
  mt_world :: admission_world
  mt_app :: "('a, 'u, 'c, 'k) app_env"
  mt_parse_addr :: "string \<Rightarrow> 'addr option"

record ('a, 'u, 'c, 'k, 'addr) mcp_server =
  ms_state :: "('a, 'u, 'c, 'k) app_state"
  ms_provenance :: runtime_provenance
  ms_admission :: runtime_admission
  ms_addr :: 'addr
  ms_tls :: "('c, 'k) server_tls option"

text \<open>The snapshot (\<open>provenance.rs\<close>) names the running executable; size and time of the file are not read.\<close>

definition capture_runtime_provenance ::
  "build_provenance \<Rightarrow> nat \<Rightarrow> string + string \<Rightarrow> string + (string \<times> runtime_provenance)" where
  "capture_runtime_provenance build pid current_exe =
     and_then current_exe (\<lambda>executable_path. Inr (executable_path,
       \<lparr>rp_build = build, rp_pid = pid, rp_executable_path = executable_path,
        rp_file_size_bytes = None, rp_modified_unix_ms = None\<rparr>))"

definition start_mcp ::
  "('a, 'u, 'c, 'k, 'addr) mcp_start_env \<Rightarrow> env_vars \<Rightarrow> file_contents \<Rightarrow>
     mcp_start_failure + ('a, 'u, 'c, 'k, 'addr) mcp_server" where
  "start_mcp mt vars files =
     (if \<not> mt_install_crypto mt then Inl McpCryptoFailed
      else
        and_then (map_err McpConfigFailed (load_mcp_config (mt_now mt) (mt_key_of mt) vars files)) (\<lambda>cfg.
        and_then (map_err ProvenanceFailed
          (capture_runtime_provenance (mt_build mt) (mt_pid mt) (mt_current_exe mt))) (\<lambda>(executable_path, runtime).
        and_then (map_err AdmissionRejected (admit_startup (mc_startup_admission cfg)
          (evaluate_startup_admission (mt_world mt) (mc_startup_admission cfg) executable_path runtime))) (\<lambda>admission.
        and_then (map_err AppStateFailed (new_app_state (mt_app mt) cfg)) (\<lambda>st.
        and_then (ok_or BadBindAddress (mt_parse_addr mt (mc_bind_addr cfg))) (\<lambda>addr.
        and_then (map_err McpTlsFailed (mcp_build_tls_config (pe_rustls (mt_app mt)) cfg)) (\<lambda>tls.
        Inr \<lparr>ms_state = st, ms_provenance = runtime, ms_admission = admission, ms_addr = addr, ms_tls = tls\<rparr>)))))))"

section \<open>The HTTP service\<close>

datatype mcp_route = ResourceMetadataRoute | AuthorizationServerRoute | OidcRedirectRoute | McpRoute

definition mcp_routes :: "(string \<times> mcp_route) list" where
  "mcp_routes =
     [(''/.well-known/oauth-protected-resource'', ResourceMetadataRoute),
      (''/.well-known/oauth-protected-resource/mcp'', ResourceMetadataRoute),
      (''/mcp/.well-known/oauth-protected-resource'', ResourceMetadataRoute),
      (''/.well-known/oauth-authorization-server'', AuthorizationServerRoute),
      (''/mcp/.well-known/oauth-authorization-server'', AuthorizationServerRoute),
      (''/.well-known/oauth-authorization-server/mcp'', AuthorizationServerRoute),
      (''/.well-known/openid-configuration'', OidcRedirectRoute),
      (''/mcp/.well-known/openid-configuration'', OidcRedirectRoute),
      (''/.well-known/openid-configuration/mcp'', OidcRedirectRoute),
      (''/mcp'', McpRoute)]"

definition bare_status :: "nat \<Rightarrow> mcp_response" where
  "bare_status status = \<lparr>mr_status = status, mr_headers = [], mr_body = OtherBody []\<rparr>"

text \<open>A route made with \<open>get\<close> answers \<open>GET\<close> and, without the body, \<open>HEAD\<close>.\<close>

definition get_only :: "http_method \<Rightarrow> mcp_response \<Rightarrow> mcp_response" where
  "get_only m response =
     (if m = GET then response
      else if m = HEAD then response\<lparr>mr_body := OtherBody []\<rparr>
      else bare_status 405)"

text \<open>
  The guarded route: the edge middleware is the outer layer, the authentication the inner one. The handler
  finds the caller in the extensions of the request and runs under the logging context. The calls of the
  dispatch are recorded beside the state; the services share the metrics with the guard.
\<close>

definition guarded_mcp ::
  "guard_env \<Rightarrow> ('b, 'w \<times> metrics) session_env \<Rightarrow> ('a, 'u, 'c, 'k) app_state \<Rightarrow> 'b mcp_request \<Rightarrow>
     ('w \<times> 'b session_event list) \<times> metrics \<Rightarrow> mcp_response \<times> ('w \<times> 'b session_event list) \<times> metrics" where
  "guarded_mcp ge se st req state =
     (case mcp_edge_guard (mq_path req) (mq_headers req) () of
        Inl status \<Rightarrow> (bare_status status, state)
      | Inr _ \<Rightarrow>
          auth_guard ge (ap_config st) (method_str (mq_method req)) (mq_path req) (mq_headers req)
            (\<lambda>caller context ((w, evs), m).
               let ((response, w, m), evs') =
                 handle_mcp se st (req\<lparr>mq_caller := Some caller, mq_context := Some context\<rparr>) (w, m)
               in (response, (w, evs @ evs'), m))
            state)"

text \<open>\<open>fallback\<close> is the router's answer to a path without a route.\<close>

definition mcp_app ::
  "guard_env \<Rightarrow> ('b, 'w \<times> metrics) session_env \<Rightarrow> (authorization_server_metadata \<Rightarrow> json) \<Rightarrow>
     ('b mcp_request \<Rightarrow> mcp_response) \<Rightarrow> ('a, 'u, 'c, 'k) app_state \<Rightarrow> 'b mcp_request \<Rightarrow>
     ('w \<times> 'b session_event list) \<times> metrics \<Rightarrow> mcp_response \<times> ('w \<times> 'b session_event list) \<times> metrics" where
  "mcp_app ge se metadata_json fallback st req state =
     (case map_of mcp_routes (mq_path req) of
        None \<Rightarrow> (fallback req, state)
      | Some ResourceMetadataRoute \<Rightarrow> (get_only (mq_method req) (resource_metadata st), state)
      | Some AuthorizationServerRoute \<Rightarrow>
          (get_only (mq_method req) (authorization_server_metadata_response metadata_json st), state)
      | Some OidcRedirectRoute \<Rightarrow> (get_only (mq_method req) (oidc_metadata_redirect st), state)
      | Some McpRoute \<Rightarrow> guarded_mcp ge se st req state)"

section \<open>Lemmas\<close>

lemma start_mcpD:
  assumes "start_mcp mt vars files = Inr srv"
  obtains exe where
    "load_mcp_config (mt_now mt) (mt_key_of mt) vars files = Inr (ap_config (ms_state srv))"
    and "mt_current_exe mt = Inr exe" and "rp_executable_path (ms_provenance srv) = exe"
    and "rp_build (ms_provenance srv) = mt_build mt"
    and "admit_startup (mc_startup_admission (ap_config (ms_state srv)))
      (evaluate_startup_admission (mt_world mt) (mc_startup_admission (ap_config (ms_state srv))) exe
        (ms_provenance srv)) = Inr (ms_admission srv)"
    and "new_app_state (mt_app mt) (ap_config (ms_state srv)) = Inr (ms_state srv)"
    and "mcp_build_tls_config (pe_rustls (mt_app mt)) (ap_config (ms_state srv)) = Inr (ms_tls srv)"
proof -
  from assms obtain cfg exe where
    "load_mcp_config (mt_now mt) (mt_key_of mt) vars files = Inr cfg" "mt_current_exe mt = Inr exe"
    "ms_provenance srv = \<lparr>rp_build = mt_build mt, rp_pid = mt_pid mt, rp_executable_path = exe,
       rp_file_size_bytes = None, rp_modified_unix_ms = None\<rparr>"
    "admit_startup (mc_startup_admission cfg) (evaluate_startup_admission (mt_world mt)
       (mc_startup_admission cfg) exe (ms_provenance srv)) = Inr (ms_admission srv)"
    "new_app_state (mt_app mt) cfg = Inr (ms_state srv)"
    "mcp_build_tls_config (pe_rustls (mt_app mt)) cfg = Inr (ms_tls srv)"
    by (auto simp: start_mcp_def capture_runtime_provenance_def split: if_splits)
  moreover from this(5) have "ap_config (ms_state srv) = cfg" by (rule new_app_state_fields(1))
  ultimately show ?thesis using that by auto
qed

lemma published_issuer:
  assumes "keycloak_auth_surface_issuer cfg = Inr issuer"
  shows "issuer \<noteq> [] \<and> last issuer \<noteq> CHR ''/'' \<and>
    (\<exists>value. issuer = clean_issuer value \<and> (value \<in> set (mc_authorization_servers cfg) \<or> ac_issuer (mc_auth cfg) = Some value))"
proof -
  have slash: "clean_issuer v \<noteq> [] \<Longrightarrow> last (clean_issuer v) \<noteq> CHR ''/''" for v
    using trim_end_by_last [of "\<lambda>c. c = CHR ''/''" "trim v"] by (simp add: clean_issuer_def)
  have member: "issuer \<noteq> [] \<and> (\<exists>v \<in> set (mc_authorization_servers cfg). issuer = clean_issuer v)"
    if "filter (\<lambda>value. value \<noteq> []) (map clean_issuer (mc_authorization_servers cfg)) = [issuer]"
  proof -
    from that have "issuer \<in> set (filter (\<lambda>value. value \<noteq> []) (map clean_issuer (mc_authorization_servers cfg)))"
      by simp
    then show ?thesis by auto
  qed
  show ?thesis
    using assms slash member
    by (auto simp: keycloak_auth_surface_issuer_def split: list.splits option.splits if_splits)
qed

lemma metadata_issuer:
  "keycloak_authorization_server_metadata c d cfg = Inr md \<Longrightarrow> keycloak_auth_surface_issuer cfg = Inr (as_issuer md)"
  by (cases md) (auto simp: keycloak_authorization_server_metadata_def)

lemma build_event_store_present:
  assumes "load_streamable_http_config key_of vars = Inr http"
    and "build_event_store sqlite_error http = Inr store"
  shows "sh_resume_mode http = Replay \<longleftrightarrow> store \<noteq> None"
  using assms(2) load_streamable_InrD(1) [OF assms(1)]
  by (auto simp: build_event_store_def replay_enabled_def Let_def split: event_store_mode.splits option.splits if_splits)

lemma built_authenticator:
  assumes "build_authenticator new_authenticator cfg = Inr a"
  shows "\<exists>tc. new_authenticator tc = Inr a \<and> tc_mode tc = ac_mode (mc_auth cfg) \<and> tc_strict_oauth tc \<and>
    tc_introspection_cache_ttl_s tc = 0 \<and> tc_issuer tc = ac_issuer (mc_auth cfg) \<and>
    tc_audience tc = ac_audience (mc_auth cfg) \<and> tc_jwks_url tc = ac_jwks_url (mc_auth cfg)"
  using assms unfolding build_authenticator_def Let_def
  by - (rule exI, rule conjI, assumption, simp)

section \<open>Properties\<close>


definition sample_mcp_start :: "(toolkit_auth_config, string, string, string, string) mcp_start_env" where
  "sample_mcp_start = \<lparr>mt_install_crypto = True, mt_now = 0, mt_key_of = Inr, mt_current_exe = Inr ''/bin/x'',
     mt_build = rp_build sample_runtime, mt_pid = 1, mt_world = sample_world, mt_app = sample_app_env,
     mt_parse_addr = Some\<rparr>"

lemma sample_loaded:
  "\<exists>cfg. load_mcp_config 0 Inr sample_env (\<lambda>_. None) = Inr cfg \<and>
     mc_authorization_servers cfg = [''iss''] \<and> mc_resource_url cfg = ''http://127.0.0.1:9400/mcp'' \<and>
     mc_gateway cfg = load_gateway_settings sample_env (\<lambda>_. None) \<and>
     mc_server_tls cfg = \<lparr>st_cert_pem = None, st_key_pem = None, st_client_ca_pem = None\<rparr> \<and>
     ac_mtls_mode (mc_auth cfg) = MtlsDisabled \<and> mc_startup_admission cfg = sample_admission \<and>
     replay_enabled (mc_streamable_http cfg) = False"
proof -
  have adm: "load_startup_admission_config sample_env = Inr sample_admission" by code_simp
  have prod_mode: "sa_production_mode sample_admission" by (simp add: sample_admission_def)
  obtain http where http: "load_streamable_http_config Inr sample_env = Inr http" using sample_http by blast
  obtain auth where auth: "check_auth_config 0 sample_env True (load_auth_config sample_env (\<lambda>_. None) MtlsDisabled) = Inr auth"
    using sample_auth by blast
  have vars: "resolve_authorization_servers (env_list sample_env ''KC_ADMIN_MCP_AUTH_SERVERS'' []) (Some ''iss'') = [''iss'']"
    "env sample_env ''KC_ADMIN_MCP_RESOURCE_URL'' ''http://127.0.0.1:9400/mcp'' = ''http://127.0.0.1:9400/mcp''"
    "env_secret_optional sample_env (\<lambda>_. None) ''KC_ADMIN_MCP_TLS_CERT'' ''kc_admin_mcp_tls_cert'' = None"
    "env_secret_optional sample_env (\<lambda>_. None) ''KC_ADMIN_MCP_TLS_KEY'' ''kc_admin_mcp_tls_key'' = None"
    "env_secret_optional sample_env (\<lambda>_. None) ''KC_ADMIN_MCP_TLS_CLIENT_CA'' ''kc_admin_mcp_tls_client_ca'' = None"
    "env_optional sample_env ''KC_ADMIN_MCP_ISSUER'' = Some ''iss''"
    "parse_event_store_mode (to_ascii_lowercase (trim (env sample_env ''KC_ADMIN_MCP_HTTP_EVENT_STORE'' ''off''))) = Inr StoreOff"
    by code_simp+
  have "ac_issuer auth = Some ''iss''" "ac_mtls_mode auth = MtlsDisabled"
    using check_auth_config_InrD [OF auth] vars by (auto simp: load_auth_config_def)
  moreover have "sh_event_store_mode http = StoreOff"
    using http vars by (auto simp: load_streamable_http_config_def Let_def)
  then have "replay_enabled http = False" using load_streamable_InrD(1) [OF http] by (simp add: replay_enabled_def)
  ultimately show ?thesis
    using adm prod_mode http auth sample_mtls vars by (simp add: load_mcp_config_def Let_def)
qed

lemma sample_mcp_started: "\<exists>srv. start_mcp sample_mcp_start sample_env (\<lambda>_. None) = Inr srv"
proof -
  obtain cfg where cfg: "load_mcp_config 0 Inr sample_env (\<lambda>_. None) = Inr cfg"
    and fields: "mc_authorization_servers cfg = [''iss'']" "mc_resource_url cfg = ''http://127.0.0.1:9400/mcp''"
    "mc_gateway cfg = load_gateway_settings sample_env (\<lambda>_. None)"
    "mc_server_tls cfg = \<lparr>st_cert_pem = None, st_key_pem = None, st_client_ca_pem = None\<rparr>"
    "ac_mtls_mode (mc_auth cfg) = MtlsDisabled" "mc_startup_admission cfg = sample_admission"
    "replay_enabled (mc_streamable_http cfg) = False"
    using sample_loaded by blast
  have "isl (admit_startup sample_admission
      (evaluate_startup_admission sample_world sample_admission ''/bin/x'' sample_runtime)) = False"
    by code_simp
  then obtain admission where adm: "admit_startup sample_admission
      (evaluate_startup_admission sample_world sample_admission ''/bin/x'' sample_runtime) = Inr admission"
    by (metis isl_def sum.exhaust)
  have gw: "mg_tls_ca_pem (mc_gateway cfg) = None" "mg_tls_client_cert_pem (mc_gateway cfg) = None"
    "mg_tls_client_key_pem (mc_gateway cfg) = None"
    unfolding fields by code_simp+
  have issuer: "keycloak_auth_surface_issuer cfg = Inr ''iss''"
    by (simp add: keycloak_auth_surface_issuer_def clean_issuer_def fields str_defs)
  have base: "auth_surface_public_base_url (mc_resource_url cfg) = Inr ''http://127.0.0.1:9400''"
    by (simp add: auth_surface_public_base_url_def strip_suffix_def str_defs Let_def fields)
  obtain st where st: "new_app_state sample_app_env cfg = Inr st"
    by (simp add: new_app_state_def build_authenticator_def keycloak_authorization_server_metadata_def
        keycloak_auth_surface_config_def issuer base sample_app_env_def new_gateway_client_def gw
        build_client_def build_event_store_def fields(7) sample_rustls_def ok_or_def Let_def)
  have runtime: "capture_runtime_provenance (mt_build sample_mcp_start) (mt_pid sample_mcp_start)
      (mt_current_exe sample_mcp_start) = Inr (''/bin/x'', sample_runtime)"
    by (simp add: capture_runtime_provenance_def sample_mcp_start_def sample_runtime_def)
  have tls: "mcp_build_tls_config (pe_rustls (mt_app sample_mcp_start)) cfg = Inr None"
    by (simp add: mcp_build_tls_config_def fields)
  show ?thesis
    unfolding start_mcp_def runtime
    using cfg adm st tls fields by (simp add: sample_mcp_start_def ok_or_def)
qed


text \<open>
  C6: Whatever runs a tool was let in: a service runs only for a request to \<open>/mcp\<close> with an unambiguous
  path and at most one, well-formed authorization header, and it finds in that request the caller
  that the authenticator accepted for its headers, under a logging context with the caller's own request
  id, and everything else as it was sent.
\<close>

theorem served_requests_authenticated:
  assumes "mcp_app ge se metadata_json fallback st req ((w, []), m) = (response, (w', evs), m')"
    and "Served service req' \<in> set evs"
  shows "mq_path req = ''/mcp'' \<and> \<not> mcp_contains_matrix_params (mq_path req) \<and>
    \<not> contains_path_confusion (mq_path req) \<and> mcp_ensure_strict_bearer (mq_headers req) = Inr () \<and>
    (\<exists>caller context. authenticate_request (ge_authenticate ge) (ge_now ge) (ge_unix_now ge)
         (mc_auth (ap_config st)) (mq_headers req) (mcp_request_id (ge_uuid ge) (mq_headers req))
         (mcp_actor_id (mq_headers req)) = Inr caller \<and>
       mq_caller req' = Some caller \<and> mq_context req' = Some context \<and>
       lc_request_id context = Some (cl_request_id caller) \<and> lc_actor_id context = cl_actor_id caller \<and>
       mq_method req' = mq_method req \<and> mq_path req' = mq_path req \<and> mq_headers req' = mq_headers req \<and>
       admitted se st (req\<lparr>mq_caller := Some caller, mq_context := Some context\<rparr>) (w, m) service req')"
proof -
  have path: "mq_path req = ''/mcp''"
    and guarded: "guarded_mcp ge se st req ((w, []), m) = (response, (w', evs), m')"
    using assms by (auto simp: mcp_app_def mcp_routes_def split: if_splits option.splits mcp_route.splits)
  have edge: "\<not> mcp_contains_matrix_params (mq_path req)" "\<not> contains_path_confusion (mq_path req)"
    "mcp_ensure_strict_bearer (mq_headers req) = Inr ()"
    using assms(2) guarded by (auto simp: guarded_mcp_def mcp_edge_guard_def split: if_splits sum.splits)
  let ?auth = "authenticate_request (ge_authenticate ge) (ge_now ge) (ge_unix_now ge) (mc_auth (ap_config st))
    (mq_headers req) (mcp_request_id (ge_uuid ge) (mq_headers req)) (mcp_actor_id (mq_headers req))"
  have run: "auth_guard ge (ap_config st) (method_str (mq_method req)) (mq_path req) (mq_headers req)
      (\<lambda>caller context ((w, evs), m). let ((response, w, m), evs') =
          handle_mcp se st (req\<lparr>mq_caller := Some caller, mq_context := Some context\<rparr>) (w, m)
        in (response, (w, evs @ evs'), m)) ((w, []), m) = (response, (w', evs), m')"
    using guarded edge by (simp add: guarded_mcp_def mcp_edge_guard_def)
  obtain caller where caller: "?auth = Inr caller"
    using run assms(2) by (cases ?auth) (auto simp: auth_guard_def auth_error_response_def Let_def)
  define context' where "context' = new_log_context (mcp_request_id (ge_uuid ge) (mq_headers req))
    (mcp_actor_id (mq_headers req)) (header_value (mq_headers req) ''mcp-session-id'')
    (Some (method_str (mq_method req))) (Some (mq_path req))"
  let ?req = "req\<lparr>mq_caller := Some caller, mq_context := Some context'\<rparr>"
  have evs: "evs = snd (handle_mcp se st ?req (w, m))"
    using run caller by (auto simp: auth_guard_def Let_def context'_def split: prod.splits if_splits)
  from assms(2) have "(service, req') \<in> set (services (snd (handle_mcp se st ?req (w, m))))"
    by (simp add: services_iff evs)
  then have adm: "admitted se st ?req (w, m) service req'"
    using handle_mcp_services [of se st ?req "(w, m)"]
    by (cases "services (snd (handle_mcp se st ?req (w, m)))") auto
  have ids: "cl_request_id caller = mcp_request_id (ge_uuid ge) (mq_headers req)"
    "cl_actor_id caller = mcp_actor_id (mq_headers req)"
    using caller by (auto elim: authenticate_request_InrD)
  have "mq_caller req' = Some caller \<and> mq_context req' = Some context' \<and> mq_method req' = mq_method req \<and>
      mq_path req' = mq_path req \<and> mq_headers req' = mq_headers req"
    using adm by (cases service) (auto simp: admitted_def Let_def)
  with path edge caller adm ids show ?thesis
    by (intro conjI exI [of _ caller] exI [of _ context']) (simp_all add: context'_def new_log_context_def)
qed

definition sample_guard :: guard_env where
  "sample_guard = \<lparr>ge_authenticate = (\<lambda>hs. Inr \<lparr>tk_raw_token = ''t'', tk_token_ref = ''r'', tk_subject = None,
       tk_scopes = [], tk_roles = [], tk_azp = Some ''cli'', tk_claims = JObj [(''exp'', JNum (PosInt 90))]\<rparr>),
     ge_now = 0, ge_unix_now = 100, ge_value_ok = (\<lambda>_. True),
     ge_bearer_challenge = (\<lambda>realm url. ''Bearer realm='' @ realm), ge_uuid = ''rid''\<rparr>"

definition sample_shared_env :: "(string, string list \<times> metrics) session_env" where
  "sample_shared_env = \<lparr>se_session_header = ''mcp-session-id'', se_last_event_header = ''last-event-id'',
     se_event_stream_type = ''text/event-stream'',
     se_to_bytes = (\<lambda>b n. if length b \<le> n then Some b else None), se_of_bytes = id,
     se_from_slice = (\<lambda>b. if b = ''init'' then Some (JObj [(''method'', JStr ''initialize'')]) else None),
     se_has_session = (\<lambda>sid (known, m). (Some (sid \<in> set known), known, m)),
     se_replay_after = (\<lambda>_ _ _ state. (None, state)),
     se_serve = (\<lambda>service req (known, m). (\<lparr>mr_status = 200, mr_headers = [(''mcp-session-id'', ''s1'')],
        mr_body = OtherBody []\<rparr>, ''s1'' # known, m))\<rparr>"

lemma sample_authenticated_caller:
  "\<exists>caller. authenticate_request (ge_authenticate sample_guard) (ge_now sample_guard) (ge_unix_now sample_guard)
     (mc_auth sample_mcp_config) hs rid actor = Inr caller"
proof -
  have auth: "mc_auth sample_mcp_config = sample_auth_config" by (simp add: sample_mcp_config_def)
  have lists: "ac_allowed_azp sample_auth_config = [''chat'', ''cli'']"
    "ac_allowed_client_ids sample_auth_config = []" "ac_dpop_required sample_auth_config = False"
    by code_simp+
  have fields: "ac_mtls_mode sample_auth_config = MtlsDisabled" "ac_clock_skew_seconds sample_auth_config = 30"
    "ac_open_caller_allowlists_expires_at sample_auth_config = None"
    by (simp_all add: sample_auth_config_def load_auth_config_def)
  show ?thesis
    by (simp add: authenticate_request_def check_client_certificate_def check_expiry_def claim_i64_def
        caller_allowlists_break_glass_expired_def lists fields auth sample_guard_def Let_def)
qed

theorem served_requests_authenticated_witness:
  "\<exists>response state' evs req'. mcp_app sample_guard sample_shared_env (\<lambda>_. JNull) (\<lambda>_. bare_status 404)
       sample_app_state (sample_mcp_request POST [] ''init'') (([], []), new_metrics) = (response, (state', evs), new_metrics) \<and>
     Served Stateful req' \<in> set evs \<and> mq_caller req' \<noteq> None"
proof -
  let ?req = "sample_mcp_request POST [] ''init''"
  obtain caller where caller: "authenticate_request (ge_authenticate sample_guard) (ge_now sample_guard)
      (ge_unix_now sample_guard) (mc_auth sample_mcp_config) [] (mcp_request_id (ge_uuid sample_guard) [])
      (mcp_actor_id []) = Inr caller"
    using sample_authenticated_caller by blast
  have edge: "mcp_edge_guard ''/mcp'' [] () = Inr ()" by code_simp
  let ?ctx = "new_log_context (mcp_request_id (ge_uuid sample_guard) []) (mcp_actor_id [])
      (header_value [] ''mcp-session-id'') (Some (method_str POST)) (Some ''/mcp'')"
  let ?in = "?req\<lparr>mq_caller := Some caller, mq_context := Some ?ctx\<rparr>"
  have init: "initializes sample_shared_env sample_app_state ?in ''init''"
    unfolding initializes_def initialize_probe_def
    by (simp add: sample_settings sample_shared_env_def sample_mcp_request_def is_initialize_payload_def
        session_id_from_headers_def header_word_def header_get_def)
  let ?done = "?in\<lparr>mq_body := se_of_bytes sample_shared_env ''init''\<rparr>"
  obtain response where served: "se_serve sample_shared_env Stateful ?done ([], new_metrics) =
      (response, [''s1''], new_metrics)"
    by (simp add: sample_shared_env_def)
  then obtain evs where run: "handle_mcp sample_shared_env sample_app_state ?in ([], new_metrics) =
      ((response, [''s1''], new_metrics), evs)" "Served Stateful ?done \<in> set evs"
    using handle_mcp_initialize [OF init, of "([], new_metrics)"]
    by (auto simp: forward_service_def emit_def done_with_def)
  have req: "mq_path ?req = ''/mcp''" "mq_headers ?req = []" "mq_method ?req = POST"
    by (simp_all add: sample_mcp_request_def)
  have "\<exists>out. mcp_app sample_guard sample_shared_env (\<lambda>_. JNull) (\<lambda>_. bare_status 404)
       sample_app_state ?req (([], []), new_metrics) = (out, ([''s1''], evs), new_metrics)"
    using caller edge run(1)
    by (simp add: mcp_app_def mcp_routes_def guarded_mcp_def auth_guard_def req Let_def)
  with run(2) have "\<exists>response state' evs. mcp_app sample_guard sample_shared_env (\<lambda>_. JNull) (\<lambda>_. bare_status 404)
       sample_app_state ?req (([], []), new_metrics) = (response, (state', evs), new_metrics) \<and>
       Served Stateful ?done \<in> set evs" by blast
  then show ?thesis
    using served_requests_authenticated [of sample_guard sample_shared_env "\<lambda>_. JNull" "\<lambda>_. bare_status 404"
      sample_app_state ?req "[]" new_metrics] by blast
qed

end
