(* ===== verification/Gateway_Exchange.thy ===== *)
theory Gateway_Exchange
  imports Gateway_Scopes
begin

text \<open>
  RFC 8693 token exchange (\<open>exchange.rs\<close>) over the form client of \<open>http.rs\<close>. The token
  endpoint is the parameter \<open>endpoint\<close> (the transport error's text or a reply), the JSON
  decoder that \<open>derive(Deserialize)\<close> generates for \<open>ExchangeResponse\<close> is the parameter
  \<open>decode\<close>, the toolkit's redaction of an error body is the parameter \<open>redact\<close>. Every call to the
  endpoint and every log record is an event, in order.
\<close>

section \<open>Requests, replies and events\<close>

record token_request =
  tr_url :: string
  tr_basic_auth :: "(string \<times> string) option"
  tr_form :: "(string \<times> string) list"

text \<open>A reply's body is \<open>Inl\<close> of the transport error's text when reading it fails.\<close>

record http_reply =
  rp_status :: nat
  rp_headers :: headers
  rp_body :: "string + string"

record upstream_request =
  ur_method :: http_method
  ur_url :: string
  ur_headers :: headers
  ur_body :: string

datatype log_level = Info | Warn

type_synonym log_fields = "(string \<times> string) list"

datatype gateway_event =
    RequestStart
  | RequestFinish nat bool
  | AuthStart
  | Introspect headers string
  | AuthFinish nat bool "string option"
  | ExchangeStart string
  | ExchangeFinish nat bool "string option"
  | TokenRequest token_request
  | UpstreamRequest upstream_request
  | AuthLog log_level string log_fields
  | AccessLog log_level string log_fields

definition is_success :: "nat \<Rightarrow> bool" where
  "is_success status = (200 \<le> status \<and> status < 300)"

section \<open>Posting a form (http.rs)\<close>

definition authenticated_form ::
  "string \<Rightarrow> client_auth_method \<Rightarrow> string \<Rightarrow> string \<Rightarrow> (string \<times> string) list \<Rightarrow> token_request" where
  "authenticated_form url auth_method client_id client_secret form =
     (case auth_method of
        ClientSecretBasic \<Rightarrow>
          \<lparr>tr_url = url, tr_basic_auth = Some (client_id, client_secret), tr_form = form\<rparr>
      | ClientSecretPost \<Rightarrow>
          \<lparr>tr_url = url, tr_basic_auth = None,
           tr_form = form @ [(''client_id'', client_id), (''client_secret'', client_secret)]\<rparr>)"

definition post_form_with_auth ::
  "(token_request \<Rightarrow> string + http_reply) \<Rightarrow> string \<Rightarrow> client_auth_method \<Rightarrow> string \<Rightarrow> string \<Rightarrow>
     (string \<times> string) list \<Rightarrow> (gateway_error + http_reply, gateway_event) traced" where
  "post_form_with_auth endpoint url auth_method client_id client_secret form =
     (let request = authenticated_form url auth_method client_id client_secret form in
      emit (TokenRequest request) (done_with
        (map_err (\<lambda>err. Upstream (''request to '' @ url @ '' failed: '' @ err)) (endpoint request))))"

section \<open>Exchanging a token (exchange.rs)\<close>

record exchange_response =
  er_access_token :: string
  er_token_type :: "string option"
  er_expires_in :: "64 word option"

definition access_token_type :: string where
  "access_token_type = ''urn:ietf:params:oauth:token-type:access_token''"

definition exchange_form :: "gateway_config \<Rightarrow> string \<Rightarrow> string list \<Rightarrow> (string \<times> string) list" where
  "exchange_form cfg subject_token requested_scopes =
     [(''grant_type'', ''urn:ietf:params:oauth:grant-type:token-exchange''),
      (''subject_token_type'', access_token_type),
      (''requested_token_type'', access_token_type),
      (''subject_token'', subject_token)] @
     (case gc_exchange_audience cfg of Some audience \<Rightarrow> [(''audience'', audience)] | None \<Rightarrow> []) @
     (case gc_exchange_resource cfg of Some resource \<Rightarrow> [(''resource'', resource)] | None \<Rightarrow> []) @
     (if requested_scopes \<noteq> [] then [(''scope'', join '' '' requested_scopes)] else [])"

definition exchange_token ::
  "(token_request \<Rightarrow> string + http_reply) \<Rightarrow> (string \<Rightarrow> exchange_response option) \<Rightarrow>
     (string \<Rightarrow> nat \<Rightarrow> string) \<Rightarrow> gateway_config \<Rightarrow> string \<Rightarrow> string list \<Rightarrow> string \<Rightarrow>
     (gateway_error + exchange_response, gateway_event) traced" where
  "exchange_token endpoint decode redact cfg subject_token requested_scopes request_id =
     (if gc_exchange_url cfg = [] then
        done_with (Inl (InvalidConfig ''KC_GATEWAY_EXCHANGE_URL is required''))
      else if \<not> gc_exchange_enabled cfg then
        done_with (Inl (InvalidConfig ''token exchange disabled''))
      else then_try
        (post_form_with_auth endpoint (gc_exchange_url cfg) (gc_exchange_auth_method cfg)
           (gc_exchange_client_id cfg) (gc_exchange_client_secret cfg)
           (exchange_form cfg subject_token requested_scopes))
        (\<lambda>response.
          if \<not> is_success (rp_status response) then
            (let status = show_nat (rp_status response) in
             emit (AuthLog Warn ''token exchange failed''
               (if gc_log_exchange_body cfg then
                  (let body = (case rp_body response of Inr b \<Rightarrow> b | Inl _ \<Rightarrow> []);
                       sanitized = redact body (gc_log_exchange_body_max_bytes cfg)
                   in [(''request_id'', request_id), (''status'', status), (''body'', sanitized)])
                else [(''request_id'', request_id), (''status'', status)]))
               (done_with (Inl ExchangeFailed)))
          else (case (case rp_body response of Inr b \<Rightarrow> decode b | Inl _ \<Rightarrow> None) of
              Some exchange \<Rightarrow> done_with (Inr exchange)
            | None \<Rightarrow> emit (AuthLog Warn ''token exchange response parse failed''
                         [(''request_id'', request_id)]) (done_with (Inl ExchangeFailed)))))"

definition extract_access_token ::
  "exchange_response \<Rightarrow> string \<Rightarrow> (gateway_error + string, gateway_event) traced" where
  "extract_access_token exchange request_id =
     (if er_access_token exchange = [] then done_with (Inl ExchangeFailed)
      else (case er_token_type exchange of
          None \<Rightarrow> emit (AuthLog Warn ''token exchange missing token_type''
                     [(''request_id'', request_id)]) (done_with (Inl ExchangeFailed))
        | Some token_type \<Rightarrow>
            (if \<not> eq_ignore_ascii_case token_type ''Bearer'' then
               emit (AuthLog Warn ''token exchange returned unexpected token_type''
                 [(''request_id'', request_id), (''token_type'', token_type)])
                 (done_with (Inl ExchangeFailed))
             else (case er_expires_in exchange of
                 None \<Rightarrow> emit (AuthLog Warn ''token exchange missing expires_in''
                            [(''request_id'', request_id)]) (done_with (Inl ExchangeFailed))
               | Some expires_in \<Rightarrow>
                   (if expires_in = 0 then
                      emit (AuthLog Warn ''token exchange returned zero expires_in''
                        [(''request_id'', request_id)]) (done_with (Inl ExchangeFailed))
                    else
                      emit (AuthLog Info ''token exchange issued access token''
                        [(''request_id'', request_id), (''token_type'', token_type),
                         (''expires_in'', show_nat (unat expires_in))])
                        (done_with (Inr (er_access_token exchange))))))))"

section \<open>Lemmas\<close>

lemma post_form_with_auth_simps [simp]:
  "fst (post_form_with_auth endpoint url m i s form) =
     map_err (\<lambda>err. Upstream (''request to '' @ url @ '' failed: '' @ err))
       (endpoint (authenticated_form url m i s form))"
  "snd (post_form_with_auth endpoint url m i s form) =
     [TokenRequest (authenticated_form url m i s form)]"
  by (simp_all add: post_form_with_auth_def Let_def)

lemma exchange_token_InrD:
  assumes "fst (exchange_token endpoint decode redact cfg tok scopes rid) = Inr e"
  shows "gc_exchange_enabled cfg" and "gc_exchange_url cfg \<noteq> []"
    and "\<exists>reply b. endpoint (authenticated_form (gc_exchange_url cfg) (gc_exchange_auth_method cfg)
           (gc_exchange_client_id cfg) (gc_exchange_client_secret cfg)
           (exchange_form cfg tok scopes)) = Inr reply \<and> is_success (rp_status reply) \<and>
           rp_body reply = Inr b \<and> decode b = Some e"
  using assms
  by (auto simp: exchange_token_def then_try_Inr_iff Let_def
      split: if_splits option.splits sum.splits)

lemma extract_access_token_Inr_iff:
  "fst (extract_access_token exchange rid) = Inr t \<longleftrightarrow>
     t = er_access_token exchange \<and> t \<noteq> [] \<and>
     (\<exists>ty. er_token_type exchange = Some ty \<and> to_ascii_lowercase ty = ''bearer'') \<and>
     (\<exists>s. er_expires_in exchange = Some s \<and> s \<noteq> 0)"
proof -
  have "to_ascii_lowercase ''Bearer'' = ''bearer''" by code_simp
  then have b: "eq_ignore_ascii_case ty ''Bearer'' \<longleftrightarrow> to_ascii_lowercase ty = ''bearer''" for ty
    by (simp add: eq_ignore_ascii_case_def)
  show ?thesis
    by (auto simp: extract_access_token_def b split: option.splits)
qed

lemma extract_access_token_errors:
  "fst (extract_access_token exchange rid) = Inl e \<Longrightarrow> e = ExchangeFailed"
  by (auto simp: extract_access_token_def split: option.splits if_splits)

lemma exchange_token_errors:
  "fst (exchange_token endpoint decode redact cfg tok scopes rid) = Inl e \<Longrightarrow>
     e = ExchangeFailed \<or> (\<exists>m. e = InvalidConfig m) \<or> (\<exists>m. e = Upstream m)"
  by (auto simp: exchange_token_def then_try_Inl_iff map_err_def Let_def
      split: option.splits if_splits sum.splits)

lemma exchange_token_events:
  "ev \<in> set (snd (exchange_token endpoint decode redact cfg tok scopes rid)) \<Longrightarrow>
     (\<exists>l m fs. ev = AuthLog l m fs) \<or>
     (gc_exchange_enabled cfg \<and> ev = TokenRequest (authenticated_form (gc_exchange_url cfg)
        (gc_exchange_auth_method cfg) (gc_exchange_client_id cfg) (gc_exchange_client_secret cfg)
        (exchange_form cfg tok scopes)))"
  by (auto simp: exchange_token_def then_try_events Let_def split: option.splits if_splits)

lemma extract_access_token_events:
  "ev \<in> set (snd (extract_access_token exchange rid)) \<Longrightarrow> \<exists>l m fs. ev = AuthLog l m fs"
  by (auto simp: extract_access_token_def split: option.splits if_splits)

lemma exchange_form_lookup:
  "map_of (exchange_form cfg tok scopes) ''subject_token'' = Some tok"
  "map_of (exchange_form cfg tok scopes) ''scope'' =
     (if scopes = [] then None else Some (join '' '' scopes))"
  "map_of (exchange_form cfg tok scopes) ''audience'' = gc_exchange_audience cfg"
  "map_of (exchange_form cfg tok scopes) ''resource'' = gc_exchange_resource cfg"
  by (simp_all add: exchange_form_def split: option.split)

section \<open>Properties\<close>

text \<open>
  The gateway takes a token from an exchange response exactly when the token is not empty,
  its type is \<open>Bearer\<close> in any letter case, and its lifetime is present and not zero; every other
  response is refused with the exchange error.
\<close>

theorem exchanged_token_accepted_iff:
  "fst (extract_access_token exchange request_id) =
     (if er_access_token exchange \<noteq> [] \<and>
         map_option to_ascii_lowercase (er_token_type exchange) = Some ''bearer'' \<and>
         er_expires_in exchange \<notin> {None, Some 0}
      then Inr (er_access_token exchange) else Inl ExchangeFailed)"
proof (cases "fst (extract_access_token exchange request_id)")
  case (Inl e)
  moreover have "\<nexists>t. fst (extract_access_token exchange request_id) = Inr t" using Inl by simp
  ultimately show ?thesis
    using extract_access_token_errors [OF Inl]
    unfolding extract_access_token_Inr_iff by (cases "er_expires_in exchange") auto
next
  case (Inr t)
  with extract_access_token_Inr_iff [of exchange request_id t] show ?thesis by auto
qed

text \<open>
  A token exchange asks for the caller's subject token and for exactly the scopes the
  gateway chose, which the endpoint reads back from the space-separated parameter; it is
  bound to the configured audience and resource; and the client secret travels in the basic
  credentials or in the form, as configured, never in both.
\<close>

theorem exchange_request_scoped:
  assumes "TokenRequest rq \<in> set (snd (exchange_token endpoint decode redact cfg tok scopes rid))"
    and "\<forall>s \<in> set scopes. CHR '' '' \<notin> set s"
  shows "tr_url rq = gc_exchange_url cfg \<and>
    map_of (tr_form rq) ''subject_token'' = Some tok \<and>
    map_of (tr_form rq) ''audience'' = gc_exchange_audience cfg \<and>
    map_of (tr_form rq) ''resource'' = gc_exchange_resource cfg \<and>
    (case map_of (tr_form rq) ''scope'' of None \<Rightarrow> [] | Some v \<Rightarrow> split_on (CHR '' '') v) = scopes \<and>
    (case gc_exchange_auth_method cfg of
       ClientSecretBasic \<Rightarrow>
         tr_basic_auth rq = Some (gc_exchange_client_id cfg, gc_exchange_client_secret cfg) \<and>
         map_of (tr_form rq) ''client_secret'' = None
     | ClientSecretPost \<Rightarrow>
         tr_basic_auth rq = None \<and>
         map_of (tr_form rq) ''client_secret'' = Some (gc_exchange_client_secret cfg))"
proof -
  from exchange_token_events [OF assms(1)]
  have rq: "rq = authenticated_form (gc_exchange_url cfg)
        (gc_exchange_auth_method cfg) (gc_exchange_client_id cfg) (gc_exchange_client_secret cfg)
        (exchange_form cfg tok scopes)" by simp
  have secret: "map_of (exchange_form cfg tok scopes) ''client_secret'' = None"
    by (simp add: exchange_form_def split: option.split)
  have "scopes \<noteq> [] \<longrightarrow> split_on (CHR '' '') (join '' '' scopes) = scopes"
    using assms(2) by (simp add: split_on_join)
  with secret show ?thesis
    unfolding rq
    by (cases "gc_exchange_auth_method cfg")
       (simp_all add: authenticated_form_def map_add_def exchange_form_lookup split: option.split)
qed

theorem exchange_request_scoped_witness:
  "tr_basic_auth (authenticated_form ''http://kc/t'' ClientSecretPost ''gw'' ''s2''
     (exchange_form sample_config ''tok'' [''a'', ''b''])) = None"
proof -
  let ?m = "exchange_token (\<lambda>_. Inl ''down'') (\<lambda>_. None) (\<lambda>b _. b) sample_config ''tok'' [''a'', ''b''] ''rid''"
  let ?rq = "authenticated_form ''http://kc/t'' ClientSecretPost ''gw'' ''s2''
               (exchange_form sample_config ''tok'' [''a'', ''b''])"
  have "TokenRequest ?rq \<in> set (snd ?m)"
    by (simp add: exchange_token_def sample_config_def then_try_events)
  moreover have "\<forall>s \<in> set [''a'', ''b'']. CHR '' '' \<notin> set s" by simp
  moreover have "gc_exchange_auth_method sample_config = ClientSecretPost"
    by (simp add: sample_config_def)
  ultimately show ?thesis using exchange_request_scoped [of ?rq] by fastforce
qed

text \<open>
  What an exchange writes to the log is the request id, the status and, only when body
  logging is switched on, the redacted body cut to the configured size: neither the subject
  token nor the client secret is a field of any record.
\<close>

theorem exchange_log_redacted:
  assumes "AuthLog level msg fs \<in>
      set (snd (exchange_token endpoint decode redact cfg tok scopes rid))"
  shows "fst ` set fs \<subseteq> {''request_id'', ''status'', ''body''} \<and>
    (\<forall>b. (''body'', b) \<in> set fs \<longrightarrow> gc_log_exchange_body cfg \<and>
       (\<exists>raw. b = redact raw (gc_log_exchange_body_max_bytes cfg)))"
  using assms
  by (auto simp: exchange_token_def then_try_events Let_def split: option.splits if_splits)

theorem exchange_log_redacted_witness:
  "fst ` set [(''request_id'', ''r''), (''status'', show_nat 400), (''body'', ''xx'')]
     \<subseteq> {''request_id'', ''status'', ''body''}"
proof -
  let ?fs = "[(''request_id'', ''r''), (''status'', show_nat 400), (''body'', ''xx'')]"
  have "AuthLog Warn ''token exchange failed'' ?fs \<in> set (snd (exchange_token
      (\<lambda>_. Inr \<lparr>rp_status = 400, rp_headers = [], rp_body = Inr ''raw''\<rparr>) (\<lambda>_. None)
      (\<lambda>_ _. ''xx'') sample_config ''tok'' [] ''r''))"
    by (simp add: exchange_token_def sample_config_def then_try_events is_success_def Let_def)
  from exchange_log_redacted [OF this] show ?thesis by blast
qed

end
