(* ===== verification/Gateway_Proxy.thy ===== *)
theory Gateway_Proxy
  imports Gateway_Exchange "HOL-Library.Sublist"
begin

text \<open>
  The proxy handler (\<open>handlers.rs\<close>): authentication, authorization, token exchange and
  forwarding of one admin request, in the stages the handler runs them. What the handler
  calls outside the repository is the record of functions \<open>gateway_deps\<close>: the toolkit's
  authenticator, the token endpoint, the upstream server, the redaction of log values. Each
  stage records its calls and its log records, in order.
\<close>

section \<open>What the handler uses\<close>

record auth_context =
  ctx_claims :: json
  ctx_scopes :: "string list"
  ctx_azp :: "string option"
  ctx_raw_token :: string

text \<open>The toolkit's error; \<open>TkOther\<close> stands for the variants the handler does not name.\<close>

datatype toolkit_error = TkMissingToken | TkTokenExpired | TkInvalidToken | TkReplayDetected | TkOther

record gateway_deps =
  dp_now :: instant
  dp_uuid :: string
  dp_sha :: "string \<Rightarrow> string"
  dp_sanitize :: "string \<Rightarrow> nat \<Rightarrow> string"
  dp_redact :: "string \<Rightarrow> nat \<Rightarrow> string"
  dp_header_value_ok :: "string \<Rightarrow> bool"
  dp_authenticate :: "headers \<Rightarrow> string \<Rightarrow> toolkit_error + auth_context"
  dp_token_endpoint :: "token_request \<Rightarrow> string + http_reply"
  dp_decode_exchange :: "string \<Rightarrow> exchange_response option"
  dp_send :: "upstream_request \<Rightarrow> string + http_reply"

text \<open>A request's body is \<open>None\<close> when reading it fails.\<close>

record proxy_request =
  rq_method :: http_method
  rq_path :: string
  rq_query :: "string option"
  rq_headers :: headers
  rq_body :: "string option"

datatype response_body = Bytes string | JsonBody json

record proxy_response =
  rs_status :: nat
  rs_headers :: headers
  rs_body :: response_body

section \<open>Request metadata\<close>

text \<open>The log sanitizer (\<open>log_sanitize.rs\<close>) gives the toolkit's redaction the limits of the gateway.\<close>

definition MAX_LOG_VALUE :: nat where "MAX_LOG_VALUE = 128"

definition sanitize_log_value_with_limit :: "gateway_deps \<Rightarrow> string \<Rightarrow> nat \<Rightarrow> string" where
  "sanitize_log_value_with_limit deps v max_len = dp_sanitize deps v max_len"

definition sanitize_log_value :: "gateway_deps \<Rightarrow> string \<Rightarrow> string" where
  "sanitize_log_value deps v = sanitize_log_value_with_limit deps v MAX_LOG_VALUE"

definition sanitize_exchange_error :: "gateway_deps \<Rightarrow> string \<Rightarrow> nat \<Rightarrow> string" where
  "sanitize_exchange_error deps raw max_bytes = dp_redact deps raw max_bytes"

definition extract_request_id :: "gateway_deps \<Rightarrow> headers \<Rightarrow> string" where
  "extract_request_id deps hs =
     (case Option.bind (header_get hs ''x-request-id'') to_str of
        Some v \<Rightarrow> sanitize_log_value deps v | None \<Rightarrow> dp_uuid deps)"

definition extract_actor_id :: "gateway_deps \<Rightarrow> headers \<Rightarrow> string option" where
  "extract_actor_id deps hs =
     map_option (sanitize_log_value deps) (Option.bind (header_get hs ''x-actor-id'') to_str)"

definition extract_session_id :: "gateway_deps \<Rightarrow> headers \<Rightarrow> string option" where
  "extract_session_id deps hs =
     map_option (sanitize_log_value deps) (Option.bind (header_get hs ''mcp-session-id'') to_str)"

definition extract_client :: "gateway_deps \<Rightarrow> headers \<Rightarrow> string" where
  "extract_client deps hs =
     (let header = (case header_get hs ''x-forwarded-for'' of Some v \<Rightarrow> Some v
          | None \<Rightarrow> (case header_get hs ''x-real-ip'' of Some v \<Rightarrow> Some v
          | None \<Rightarrow> header_get hs ''x-client-ip''))
      in case Option.bind header to_str of
           None \<Rightarrow> ''-''
         | Some v \<Rightarrow>
             (let first = trim (hd (split_on (CHR '','') v)) in
              if first = [] then ''-'' else sanitize_log_value deps first))"

fun auth_error_reason :: "gateway_error \<Rightarrow> string" where
  "auth_error_reason MissingToken = ''missing_token''"
| "auth_error_reason IntrospectionFailed = ''introspection_failed''"
| "auth_error_reason TokenInactive = ''token_inactive''"
| "auth_error_reason (Forbidden _) = ''forbidden''"
| "auth_error_reason (MissingScopes _) = ''missing_scopes''"
| "auth_error_reason ExchangeFailed = ''exchange_failed''"
| "auth_error_reason (InvalidConfig _) = ''invalid_config''"
| "auth_error_reason (Upstream _) = ''upstream_error''"

fun exchange_error_reason :: "gateway_error \<Rightarrow> string" where
  "exchange_error_reason ExchangeFailed = ''exchange_failed''"
| "exchange_error_reason (MissingScopes _) = ''missing_scopes''"
| "exchange_error_reason (Forbidden _) = ''forbidden''"
| "exchange_error_reason (InvalidConfig _) = ''invalid_config''"
| "exchange_error_reason (Upstream _) = ''upstream_error''"
| "exchange_error_reason _ = ''exchange_error''"

section \<open>The upstream request\<close>

definition should_forward_header :: "string \<Rightarrow> bool" where
  "should_forward_header name =
     (to_ascii_lowercase name \<notin>
        {''authorization'', ''host'', ''forwarded'', ''x-forwarded-host'', ''x-forwarded-port'',
         ''x-forwarded-proto'', ''x-forwarded-server'', ''x-forwarded-ssl'', ''content-length'',
         ''connection'', ''transfer-encoding''})"

definition apply_admin_origin_headers :: "gateway_config \<Rightarrow> headers \<Rightarrow> headers" where
  "apply_admin_origin_headers cfg upstream =
     (let upstream = (case gc_admin_host_header cfg of None \<Rightarrow> upstream
          | Some host \<Rightarrow> upstream @ [(''host'', host), (''x-forwarded-host'', host)])
      in case gc_admin_forwarded_proto cfg of None \<Rightarrow> upstream
         | Some proto \<Rightarrow> upstream @ [(''x-forwarded-proto'', proto)])"

definition build_upstream_url ::
  "gateway_config \<Rightarrow> string \<Rightarrow> string option \<Rightarrow> gateway_error + string" where
  "build_upstream_url cfg uri_path query =
     (if gc_admin_base_url cfg = [] then Inl (InvalidConfig ''KC_GATEWAY_ADMIN_BASE_URL is required'')
      else
        (let base = trim_end_by (\<lambda>c. c = CHR ''/'') (gc_admin_base_url cfg);
             path = dropWhile (\<lambda>c. c = CHR ''/'') uri_path;
             url = (if path = [] then base else base @ ''/'' @ path)
         in Inr (case query of None \<Rightarrow> url | Some q \<Rightarrow> url @ ''?'' @ q)))"

definition upstream_headers ::
  "gateway_config \<Rightarrow> headers \<Rightarrow> string \<Rightarrow> string \<Rightarrow> string option \<Rightarrow> headers" where
  "upstream_headers cfg hs admin_token request_id actor_id =
     (let upstream = filter (\<lambda>(name, value). should_forward_header name) hs;
          upstream = upstream @
            [(''authorization'', ''Bearer '' @ admin_token), (''x-request-id'', request_id)];
          upstream = apply_admin_origin_headers cfg upstream
      in case actor_id of None \<Rightarrow> upstream | Some a \<Rightarrow> upstream @ [(''x-actor-id'', a)])"

section \<open>Responses\<close>

text \<open>\<open>value_ok\<close> is the \<open>http\<close> crate's test of a header value; the entries of \<open>hs\<close> pass it.\<close>

definition build_response ::
  "(string \<Rightarrow> bool) \<Rightarrow> nat \<Rightarrow> headers \<Rightarrow> string \<Rightarrow> string \<Rightarrow> proxy_response" where
  "build_response value_ok status hs body request_id =
     (if value_ok request_id then
        \<lparr>rs_status = status,
         rs_headers = filter (\<lambda>(name, value). should_forward_header name) hs @
           [(''x-request-id'', request_id)],
         rs_body = Bytes body\<rparr>
      else
        \<lparr>rs_status = 502, rs_headers = [], rs_body = Bytes ''failed to build response''\<rparr>)"

definition error_response :: "gateway_error \<Rightarrow> string \<Rightarrow> proxy_response" where
  "error_response err request_id =
     \<lparr>rs_status = status_code err,
      rs_headers = [(''content-type'', ''application/json'')],
      rs_body = JsonBody (JObj [(''error'', JStr (error_text err)), (''request_id'', JStr request_id)])\<rparr>"

definition is_failure_status :: "nat \<Rightarrow> bool" where
  "is_failure_status status = (400 \<le> status \<and> status < 600)"

section \<open>The stages of the handler\<close>

type_synonym audit = "audit_identity option"
type_synonym 'a stage = "((gateway_error \<times> audit) + 'a, gateway_event) traced"

definition BODY_LIMIT_BYTES :: nat where "BODY_LIMIT_BYTES = 10 * 1024 * 1024"

definition read_body :: "proxy_request \<Rightarrow> string stage" where
  "read_body rq =
     (case rq_body rq of
        Some b \<Rightarrow>
          (if length b \<le> BODY_LIMIT_BYTES then done_with (Inr b)
           else done_with (Inl (Upstream ''request body too large'', None)))
      | None \<Rightarrow> done_with (Inl (Upstream ''request body too large'', None)))"

definition deny :: "gateway_error \<Rightarrow> audit \<Rightarrow> 'a stage" where
  "deny err audit =
     emit (AuthFinish (status_code err) True (Some (auth_error_reason err)))
       (done_with (Inl (err, audit)))"

definition deny_path :: "string \<Rightarrow> string \<Rightarrow> audit \<Rightarrow> 'a stage" where
  "deny_path reason message audit =
     emit (AuthFinish 200 False (Some reason)) (done_with (Inl (Forbidden message, audit)))"

fun of_toolkit_error :: "toolkit_error \<Rightarrow> gateway_error" where
  "of_toolkit_error TkMissingToken = MissingToken"
| "of_toolkit_error TkTokenExpired = TokenInactive"
| "of_toolkit_error TkInvalidToken = Forbidden ''invalid token''"
| "of_toolkit_error TkReplayDetected = Forbidden ''replay detected''"
| "of_toolkit_error TkOther = IntrospectionFailed"

definition authenticate_stage ::
  "gateway_deps \<Rightarrow> gateway_config \<Rightarrow> proxy_request \<Rightarrow> (auth_context \<times> audit) stage" where
  "authenticate_stage deps cfg rq =
     emit AuthStart
       (case extract_bearer_token (rq_headers rq) of
          Inl err \<Rightarrow> deny err None
        | Inr token \<Rightarrow>
            (let auth_headers = header_remove (rq_headers rq) ''authorization'' in
             emit (Introspect auth_headers token)
               (case dp_authenticate deps auth_headers token of
                  Inl err \<Rightarrow> deny (of_toolkit_error err) None
                | Inr context \<Rightarrow>
                    (case enforce_issuer_audience cfg (ctx_claims context) of
                       Inl err \<Rightarrow> deny err None
                     | Inr _ \<Rightarrow>
                         (case build_audit_identity (dp_sha deps) cfg (ctx_claims context) of
                            Inl e \<Rightarrow> done_with (Inl (e, None))
                          | Inr audit \<Rightarrow> done_with (Inr (context, audit)))))))"

definition authorized_party :: "auth_context \<Rightarrow> string option" where
  "authorized_party context =
     (case ctx_azp context of Some azp \<Rightarrow> Some azp
      | None \<Rightarrow> claim_str (ctx_claims context) ''client_id'')"

definition party_stage ::
  "gateway_deps \<Rightarrow> gateway_config \<Rightarrow> auth_context \<Rightarrow> audit \<Rightarrow> unit stage" where
  "party_stage deps cfg context audit =
     (if azp_allowlist_break_glass_expired (dp_now deps) cfg then
        deny (Forbidden ''break-glass AZP allowlist TTL expired'') audit
      else
        (let azp = authorized_party context in
         if gc_allowed_azp cfg \<noteq> [] then
           (let allowed = (case azp of None \<Rightarrow> False
                | Some v \<Rightarrow> list_ex (\<lambda>allowed. allowed = v) (gc_allowed_azp cfg))
            in if \<not> allowed then deny (Forbidden ''azp not in allowed list'') audit
               else done_with (Inr ()))
         else done_with (Inr ())))"

definition authorize_stage ::
  "proxy_request \<Rightarrow> auth_context \<Rightarrow> audit \<Rightarrow> scope_set stage" where
  "authorize_stage rq context audit =
     (let path = rq_path rq in
      if contains_matrix_params path then deny_path ''invalid_path'' ''invalid path segment'' audit
      else
        (let segments = path_segments path in
         if segments = [] then deny_path ''missing_realm'' ''missing realm segment in path'' audit
         else if \<not> is_allowlisted_admin_path segments then
           deny_path ''path_not_allowlisted'' ''path is not in the gateway allowlist'' audit
         else
           (let required = required_scopes (rq_method rq) segments (rq_query rq) (ctx_scopes context) in
            case enforce_scopes (ctx_scopes context) required of
              Inl err \<Rightarrow> deny err audit
            | Inr _ \<Rightarrow> emit (AuthFinish 200 False None) (done_with (Inr required)))))"

definition exchange_stage ::
  "gateway_deps \<Rightarrow> gateway_config \<Rightarrow> string \<Rightarrow> auth_context \<Rightarrow> audit \<Rightarrow> scope_set \<Rightarrow> string stage" where
  "exchange_stage deps cfg request_id context audit required =
     (let exchanged = exchange_token (dp_token_endpoint deps) (dp_decode_exchange deps)
            (sanitize_exchange_error deps) cfg (ctx_raw_token context) required request_id
      in emit (ExchangeStart (join '' '' required))
        (case fst exchanged of
           Inl err \<Rightarrow>
             (Inl (err, audit), snd exchanged @
                [ExchangeFinish (status_code err) True (Some (exchange_error_reason err))])
         | Inr exchange \<Rightarrow>
             (let extracted = extract_access_token exchange request_id in
              (map_err (\<lambda>err. (err, audit)) (fst extracted),
               snd exchanged @ [ExchangeFinish 200 False None] @ snd extracted))))"

definition forward_stage ::
  "gateway_deps \<Rightarrow> gateway_config \<Rightarrow> proxy_request \<Rightarrow> string \<Rightarrow> string option \<Rightarrow> audit \<Rightarrow>
     string \<Rightarrow> string \<Rightarrow> (proxy_response \<times> audit) stage" where
  "forward_stage deps cfg rq request_id actor_id audit body admin_token =
     (case build_upstream_url cfg (rq_path rq) (rq_query rq) of
        Inl err \<Rightarrow> done_with (Inl (err, audit))
      | Inr url \<Rightarrow>
          (let upstream = \<lparr>ur_method = rq_method rq, ur_url = url,
                 ur_headers = upstream_headers cfg (rq_headers rq) admin_token request_id actor_id,
                 ur_body = body\<rparr>
           in emit (UpstreamRequest upstream)
             (case dp_send deps upstream of
                Inl err \<Rightarrow> done_with (Inl (Upstream err, audit))
              | Inr reply \<Rightarrow>
                  (case rp_body reply of
                     Inl err \<Rightarrow> done_with (Inl (Upstream err, audit))
                   | Inr bytes \<Rightarrow> done_with (Inr
                       (build_response (dp_header_value_ok deps) (rp_status reply)
                          (rp_headers reply) bytes request_id, audit))))))"

definition handle_proxy ::
  "gateway_deps \<Rightarrow> gateway_config \<Rightarrow> proxy_request \<Rightarrow> string \<Rightarrow> string option \<Rightarrow>
     (proxy_response \<times> audit) stage" where
  "handle_proxy deps cfg rq request_id actor_id =
     then_try (read_body rq) (\<lambda>body.
     then_try (authenticate_stage deps cfg rq) (\<lambda>(context, audit).
     then_try (party_stage deps cfg context audit) (\<lambda>_.
     then_try (authorize_stage rq context audit) (\<lambda>required.
     then_try (exchange_stage deps cfg request_id context audit required) (\<lambda>admin_token.
       forward_stage deps cfg rq request_id actor_id audit body admin_token)))))"

section \<open>Access records\<close>

definition unknown_or :: "string option \<Rightarrow> string" where
  "unknown_or v = (case v of None \<Rightarrow> ''unknown'' | Some s \<Rightarrow> s)"

definition access_fields :: "string \<Rightarrow> string option \<Rightarrow> string option \<Rightarrow> audit \<Rightarrow> log_fields" where
  "access_fields request_id actor_id session_id audit =
     [(''request_id'', request_id), (''actor_id'', unknown_or actor_id),
      (''session_id'', unknown_or session_id)] @
     (case audit of None \<Rightarrow> []
      | Some a \<Rightarrow> [(''subject_hash'', unknown_or (subject_hash a)),
          (''client_id_hash'', unknown_or (client_id_hash a)),
          (''azp_hash'', unknown_or (azp_hash a))])"

definition audit_log_upstream_failure ::
  "nat \<Rightarrow> string \<Rightarrow> string option \<Rightarrow> string option \<Rightarrow> audit \<Rightarrow> gateway_event" where
  "audit_log_upstream_failure status request_id actor_id session_id audit =
     AccessLog Warn ''admin upstream request failed''
       (access_fields request_id actor_id session_id audit @ [(''status'', show_nat status)])"

definition audit_log_success ::
  "nat \<Rightarrow> string \<Rightarrow> string option \<Rightarrow> string option \<Rightarrow> audit \<Rightarrow> gateway_event" where
  "audit_log_success status request_id actor_id session_id audit =
     AccessLog Info ''admin request succeeded''
       (access_fields request_id actor_id session_id audit @ [(''status'', show_nat status)])"

definition audit_log_failure ::
  "gateway_error \<Rightarrow> string \<Rightarrow> string option \<Rightarrow> string option \<Rightarrow> audit \<Rightarrow> gateway_event" where
  "audit_log_failure err request_id actor_id session_id audit =
     AccessLog Warn ''admin request denied''
       (access_fields request_id actor_id session_id audit @
        [(''error'', error_text err), (''status'', show_nat (status_code err))])"

definition proxy_admin ::
  "gateway_deps \<Rightarrow> gateway_config \<Rightarrow> proxy_request \<Rightarrow> (proxy_response, gateway_event) traced" where
  "proxy_admin deps cfg rq =
     (let request_id = extract_request_id deps (rq_headers rq);
          actor_id = extract_actor_id deps (rq_headers rq);
          session_id = extract_session_id deps (rq_headers rq);
          handled = handle_proxy deps cfg rq request_id actor_id
      in (case fst handled of
            Inr (response, audit) \<Rightarrow>
              (let upstream_failed = is_failure_status (rs_status response) in
               (response,
                RequestStart # snd handled @
                [RequestFinish (rs_status response) upstream_failed,
                 if upstream_failed
                 then audit_log_upstream_failure (rs_status response) request_id actor_id session_id audit
                 else audit_log_success (rs_status response) request_id actor_id session_id audit]))
          | Inl (err, audit) \<Rightarrow>
              (error_response err request_id,
               RequestStart # snd handled @
               [RequestFinish (status_code err) True,
                audit_log_failure err request_id actor_id session_id audit])))"

section \<open>Lemmas\<close>

subsection \<open>Each stage on its own\<close>

lemma deny_simps [simp]:
  "fst (deny err audit) = Inl (err, audit)"
  "snd (deny err audit) = [AuthFinish (status_code err) True (Some (auth_error_reason err))]"
  "fst (deny_path reason msg audit) = Inl (Forbidden msg, audit)"
  "snd (deny_path reason msg audit) = [AuthFinish 200 False (Some reason)]"
  by (simp_all add: deny_def deny_path_def)

lemma read_body_Inr_iff:
  "fst (read_body rq) = Inr body \<longleftrightarrow> rq_body rq = Some body \<and> length body \<le> BODY_LIMIT_BYTES"
  by (auto simp: read_body_def split: option.splits)

lemma read_body_Inl: "fst (read_body rq) = Inl (e, a) \<Longrightarrow> \<exists>m. e = Upstream m"
  by (auto simp: read_body_def split: option.splits if_splits)

lemma read_body_events [simp]: "snd (read_body rq) = []"
  by (simp add: read_body_def split: option.splits)

definition authenticated ::
  "gateway_deps \<Rightarrow> gateway_config \<Rightarrow> proxy_request \<Rightarrow> string \<Rightarrow> auth_context \<Rightarrow> audit \<Rightarrow> bool" where
  "authenticated deps cfg rq token context audit =
     (extract_bearer_token (rq_headers rq) = Inr token \<and>
      dp_authenticate deps (header_remove (rq_headers rq) ''authorization'') token = Inr context \<and>
      enforce_issuer_audience cfg (ctx_claims context) = Inr () \<and>
      build_audit_identity (dp_sha deps) cfg (ctx_claims context) = Inr audit)"

lemma authenticate_stage_Inr_iff:
  "fst (authenticate_stage deps cfg rq) = Inr (context, audit) \<longleftrightarrow>
     (\<exists>token. authenticated deps cfg rq token context audit)"
  by (auto simp: authenticate_stage_def authenticated_def Let_def split: sum.splits)

lemma party_stage_Inr_iff:
  "fst (party_stage deps cfg context audit) = Inr u \<longleftrightarrow>
     \<not> azp_allowlist_break_glass_expired (dp_now deps) cfg \<and>
     (gc_allowed_azp cfg \<noteq> [] \<longrightarrow> (\<exists>azp. authorized_party context = Some azp \<and> azp \<in> set (gc_allowed_azp cfg)))"
  by (auto simp: party_stage_def Let_def list_ex_iff split: option.splits)

lemma authorize_stage_Inr_iff:
  "fst (authorize_stage rq context audit) = Inr required \<longleftrightarrow>
     CHR '';'' \<notin> set (rq_path rq) \<and> is_allowlisted_admin_path (path_segments (rq_path rq)) \<and>
     required = required_scopes (rq_method rq) (path_segments (rq_path rq)) (rq_query rq) (ctx_scopes context) \<and>
     set required \<subseteq> set (ctx_scopes context)"
  by (auto simp: authorize_stage_def contains_matrix_params_def Let_def split: sum.splits
      dest: enforce_scopes_Inl)

lemma authenticate_stage_errors:
  assumes "fst (authenticate_stage deps cfg rq) = Inl (e, a)"
  shows "e \<in> {MissingToken, TokenInactive, IntrospectionFailed} \<or> (\<exists>m. e = Forbidden m) \<or>
    (\<exists>m. e = InvalidConfig m)"
proof -
  have tk: "of_toolkit_error x \<in> {MissingToken, TokenInactive, IntrospectionFailed} \<or>
      (\<exists>m. of_toolkit_error x = Forbidden m)" for x
    by (cases x) auto
  show ?thesis
    using assms tk
    by (auto simp: authenticate_stage_def Let_def split: sum.splits
        dest!: extract_bearer_token_errors enforce_issuer_audience_errors build_audit_identity_errors)
qed

lemma party_stage_errors: "fst (party_stage deps cfg context audit) = Inl (e, a) \<Longrightarrow> \<exists>m. e = Forbidden m"
  by (auto simp: party_stage_def Let_def split: if_splits option.splits)

lemma authorize_stage_errors:
  "fst (authorize_stage rq context audit) = Inl (e, a) \<Longrightarrow> (\<exists>m. e = Forbidden m) \<or> (\<exists>m. e = MissingScopes m)"
  by (auto simp: authorize_stage_def Let_def split: if_splits sum.splits dest: enforce_scopes_Inl)

lemma sanitize_exchange_error_redacts [simp]: "sanitize_exchange_error deps = dp_redact deps"
  by (simp add: sanitize_exchange_error_def fun_eq_iff)

lemma exchange_stage_Inr_iff:
  "fst (exchange_stage deps cfg rid context audit required) = Inr t \<longleftrightarrow>
     (\<exists>exchange. fst (exchange_token (dp_token_endpoint deps) (dp_decode_exchange deps)
          (dp_redact deps) cfg (ctx_raw_token context) required rid) = Inr exchange \<and>
        fst (extract_access_token exchange rid) = Inr t)"
  by (auto simp: exchange_stage_def Let_def split: sum.splits)

lemma exchange_stage_errors:
  "fst (exchange_stage deps cfg rid context audit required) = Inl (e, a) \<Longrightarrow>
     e = ExchangeFailed \<or> (\<exists>m. e = InvalidConfig m) \<or> (\<exists>m. e = Upstream m)"
  by (auto simp: exchange_stage_def Let_def map_err_def split: sum.splits
      dest: extract_access_token_errors exchange_token_errors)

lemma forward_stage_errors:
  "fst (forward_stage deps cfg rq rid actor audit body t) = Inl (e, a) \<Longrightarrow>
     (\<exists>m. e = InvalidConfig m) \<or> (\<exists>m. e = Upstream m)"
  by (auto simp: forward_stage_def build_upstream_url_def Let_def split: sum.splits if_splits)

subsection \<open>What each stage sends\<close>

text \<open>The events that leave the process, as opposed to log records.\<close>

fun is_call :: "gateway_event \<Rightarrow> bool" where
  "is_call (Introspect _ _) = True"
| "is_call (TokenRequest _) = True"
| "is_call (UpstreamRequest _) = True"
| "is_call _ = False"

definition calls :: "('r, gateway_event) traced \<Rightarrow> gateway_event list" where
  "calls m = filter is_call (snd m)"

lemma calls_then_try:
  "calls (then_try m k) = calls m @ (case fst m of Inl _ \<Rightarrow> [] | Inr a \<Rightarrow> calls (k a))"
  by (simp add: calls_def then_try_def split: sum.split)

lemma calls_read_body [simp]: "calls (read_body rq) = []"
  by (simp add: calls_def)

lemma calls_authenticate_stage:
  "calls (authenticate_stage deps cfg rq) =
     (case extract_bearer_token (rq_headers rq) of Inl _ \<Rightarrow> []
      | Inr token \<Rightarrow> [Introspect (header_remove (rq_headers rq) ''authorization'') token])"
  by (simp add: calls_def authenticate_stage_def Let_def split: sum.split)

lemma calls_party_stage [simp]: "calls (party_stage deps cfg context audit) = []"
  by (simp add: calls_def party_stage_def Let_def split: option.split)

lemma calls_authorize_stage [simp]: "calls (authorize_stage rq context audit) = []"
  by (simp add: calls_def authorize_stage_def Let_def split: sum.split)

lemma exchange_logs_no_call: "filter is_call (snd (extract_access_token exchange rid)) = []"
  by (auto simp: filter_empty_conv dest!: extract_access_token_events)

lemma calls_exchange_token:
  "calls (exchange_token endpoint decode redact cfg tok scopes rid) =
     (if gc_exchange_url cfg \<noteq> [] \<and> gc_exchange_enabled cfg
      then [TokenRequest (authenticated_form (gc_exchange_url cfg) (gc_exchange_auth_method cfg)
        (gc_exchange_client_id cfg) (gc_exchange_client_secret cfg) (exchange_form cfg tok scopes))]
      else [])"
  by (simp add: calls_def exchange_token_def then_try_def Let_def split: sum.split option.split)

lemma calls_exchange_stage:
  "calls (exchange_stage deps cfg rid context audit required) =
     calls (exchange_token (dp_token_endpoint deps) (dp_decode_exchange deps) (dp_redact deps) cfg
       (ctx_raw_token context) required rid)"
  by (simp add: calls_def exchange_stage_def Let_def exchange_logs_no_call split: sum.split)

lemma calls_forward_stage:
  "calls (forward_stage deps cfg rq rid actor audit body t) =
     (case build_upstream_url cfg (rq_path rq) (rq_query rq) of Inl _ \<Rightarrow> []
      | Inr url \<Rightarrow> [UpstreamRequest \<lparr>ur_method = rq_method rq, ur_url = url,
                 ur_headers = upstream_headers cfg (rq_headers rq) t rid actor, ur_body = body\<rparr>])"
  by (simp add: calls_def forward_stage_def Let_def split: sum.split)

lemmas stage_calls = calls_then_try calls_authenticate_stage calls_exchange_stage
  calls_exchange_token calls_forward_stage

subsection \<open>The whole handler\<close>

lemma Inr_flip: "Inr a = fst m \<longleftrightarrow> fst m = Inr a" 
  "Inr url = build_upstream_url cfg p q \<longleftrightarrow> build_upstream_url cfg p q = Inr url"
  by auto

lemma upstream_callD:
  assumes "UpstreamRequest u \<in> set (calls (handle_proxy deps cfg rq rid actor))"
  obtains body ctx audit required t url where
    "fst (read_body rq) = Inr body"
    and "fst (authenticate_stage deps cfg rq) = Inr (ctx, audit)"
    and "fst (party_stage deps cfg ctx audit) = Inr ()"
    and "fst (authorize_stage rq ctx audit) = Inr required"
    and "fst (exchange_stage deps cfg rid ctx audit required) = Inr t"
    and "build_upstream_url cfg (rq_path rq) (rq_query rq) = Inr url"
    and "u = \<lparr>ur_method = rq_method rq, ur_url = url,
           ur_headers = upstream_headers cfg (rq_headers rq) t rid actor, ur_body = body\<rparr>"
  using assms unfolding handle_proxy_def
  by (simp add: stage_calls Inr_flip split: sum.splits if_splits prod.splits) blast

lemma handle_proxy_errors:
  assumes "fst (handle_proxy deps cfg rq rid actor) = Inl (e, a)"
  shows "status_code e \<in> {401, 403, 500, 502}"
  using assms unfolding handle_proxy_def then_try_Inl_iff
  by (cases e) simp_all

lemma handle_proxy_Inr_upstream:
  assumes "fst (handle_proxy deps cfg rq rid actor) = Inr ra"
  shows "\<exists>u. UpstreamRequest u \<in> set (calls (handle_proxy deps cfg rq rid actor))"
proof -
  have fwd: "\<exists>u. UpstreamRequest u \<in> set (calls (forward_stage deps cfg rq rid actor audit body t))"
    if "fst (forward_stage deps cfg rq rid actor audit body t) = Inr r" for audit body t r
  proof (cases "build_upstream_url cfg (rq_path rq) (rq_query rq)")
    case (Inl e)
    with that show ?thesis by (simp add: forward_stage_def)
  next
    case (Inr url)
    then show ?thesis by (simp add: calls_forward_stage)
  qed
  show ?thesis
    using assms unfolding handle_proxy_def then_try_Inr_iff
    by (auto simp: calls_then_try then_try_Inr_iff split: prod.splits simp del: then_try_Inr then_try_Inl dest!: fwd)
qed

lemma calls_proxy_admin:
  "calls (proxy_admin deps cfg rq) = calls (handle_proxy deps cfg rq
     (extract_request_id deps (rq_headers rq)) (extract_actor_id deps (rq_headers rq)))"
  by (simp add: calls_def proxy_admin_def audit_log_failure_def audit_log_success_def
      audit_log_upstream_failure_def Let_def split: sum.split prod.split)

lemma handle_proxy_call_order:
  "\<exists>hs token tr u. prefix (calls (handle_proxy deps cfg rq rid actor))
     [Introspect hs token, TokenRequest tr, UpstreamRequest u]"
proof -
  have auth: "\<exists>token. extract_bearer_token (rq_headers rq) = Inr token"
    if "fst (authenticate_stage deps cfg rq) = Inr (ctx, audit)" for ctx audit
    using that unfolding authenticate_stage_Inr_iff authenticated_def by blast
  have exch: "gc_exchange_url cfg \<noteq> [] \<and> gc_exchange_enabled cfg"
    if "fst (exchange_stage deps cfg rid ctx audit required) = Inr t" for ctx audit required t
    using that exchange_token_InrD unfolding exchange_stage_Inr_iff by blast
  show ?thesis
    unfolding handle_proxy_def
    by (auto simp: stage_calls split: sum.split dest: auth exch)
qed

lemma header_get_all_append [simp]:
  "header_get_all (xs @ ys) name = header_get_all xs name @ header_get_all ys name"
  by (simp add: header_get_all_def)

lemma header_get_all_Cons [simp]:
  "header_get_all ((k, v) # hs) name =
     (if k = to_ascii_lowercase name then v # header_get_all hs name else header_get_all hs name)"
  by (simp add: header_get_all_def)

lemma header_get_all_Nil [simp]: "header_get_all [] name = []"
  by (simp add: header_get_all_def)

lemma should_forward_header_lower [simp]:
  "should_forward_header (to_ascii_lowercase name) = should_forward_header name"
  by (simp add: should_forward_header_def)

lemma header_get_all_not_forwarded:
  "\<not> should_forward_header name \<Longrightarrow>
     header_get_all (filter (\<lambda>(name, value). should_forward_header name) hs) name = []"
  by (auto simp: header_get_all_def filter_empty_conv)

lemma not_forwarded_names:
  "\<not> should_forward_header ''authorization''" "\<not> should_forward_header ''host''"
  "\<not> should_forward_header ''x-forwarded-host''" "\<not> should_forward_header ''x-forwarded-proto''"
  by code_simp+

lemma upstream_authorization_single:
  "header_get_all (upstream_headers cfg hs t rid actor) ''authorization'' = [''Bearer '' @ t]"
  "header_get_all (upstream_headers cfg hs t rid actor) ''host'' =
     (case gc_admin_host_header cfg of None \<Rightarrow> [] | Some h \<Rightarrow> [h])"
  "header_get_all (upstream_headers cfg hs t rid actor) ''x-forwarded-host'' =
     (case gc_admin_host_header cfg of None \<Rightarrow> [] | Some h \<Rightarrow> [h])"
  "header_get_all (upstream_headers cfg hs t rid actor) ''x-forwarded-proto'' =
     (case gc_admin_forwarded_proto cfg of None \<Rightarrow> [] | Some p \<Rightarrow> [p])"
proof -
  have lower: "to_ascii_lowercase ''authorization'' = ''authorization''"
    "to_ascii_lowercase ''host'' = ''host''"
    "to_ascii_lowercase ''x-forwarded-host'' = ''x-forwarded-host''"
    "to_ascii_lowercase ''x-forwarded-proto'' = ''x-forwarded-proto''"
    by code_simp+
  show "header_get_all (upstream_headers cfg hs t rid actor) ''authorization'' = [''Bearer '' @ t]"
    "header_get_all (upstream_headers cfg hs t rid actor) ''host'' =
       (case gc_admin_host_header cfg of None \<Rightarrow> [] | Some h \<Rightarrow> [h])"
    "header_get_all (upstream_headers cfg hs t rid actor) ''x-forwarded-host'' =
       (case gc_admin_host_header cfg of None \<Rightarrow> [] | Some h \<Rightarrow> [h])"
    "header_get_all (upstream_headers cfg hs t rid actor) ''x-forwarded-proto'' =
       (case gc_admin_forwarded_proto cfg of None \<Rightarrow> [] | Some p \<Rightarrow> [p])"
    by (simp_all add: upstream_headers_def apply_admin_origin_headers_def Let_def lower
        header_get_all_not_forwarded [OF not_forwarded_names(1)]
        header_get_all_not_forwarded [OF not_forwarded_names(2)]
        header_get_all_not_forwarded [OF not_forwarded_names(3)]
        header_get_all_not_forwarded [OF not_forwarded_names(4)] split: option.split)
qed

lemma path_segments_leading_slashes:
  "path_segments (dropWhile (\<lambda>c. c = CHR ''/'') path) = path_segments path"
proof -
  have "dropWhile P (dropWhile P xs) = dropWhile P xs" for P and xs :: string
    by (induction xs) auto
  then show ?thesis by (simp add: path_segments_def trim_by_def)
qed

lemma path_segments_Nil [simp]: "path_segments [] = []"
  by (simp add: path_segments_def trim_by_def trim_end_by_def)

lemma snd_handled_calls: "filter is_call (snd m) = calls m"
  by (simp add: calls_def)

section \<open>Properties\<close>

text \<open>
  C3: Nothing reaches Keycloak unauthorized. When the handler sends a request upstream, the
  caller's bearer token was accepted by the authenticator without the authorization header in
  sight, the claims met the configured issuer and audience, the authorized party is allowed
  and no break-glass override has run out, the path is free of matrix parameters and inside
  the allowlist, the token covers a scope set that the route accepts, and the exchange issued
  a valid token for exactly the enforced scopes: that token, and no other credential, is what
  the upstream request carries.
\<close>

theorem upstream_request_authorized:
  assumes "UpstreamRequest u \<in> set (calls (handle_proxy deps cfg rq rid actor))"
  shows "\<exists>token ctx audit exchange.
    authenticated deps cfg rq token ctx audit \<and>
    \<not> azp_allowlist_break_glass_expired (dp_now deps) cfg \<and>
    (gc_allowed_azp cfg \<noteq> [] \<longrightarrow>
       (\<exists>azp. authorized_party ctx = Some azp \<and> azp \<in> set (gc_allowed_azp cfg))) \<and>
    CHR '';'' \<notin> set (rq_path rq) \<and> is_allowlisted_admin_path (path_segments (rq_path rq)) \<and>
    (\<exists>c \<in> set (scope_candidates (rq_method rq) (path_segments (rq_path rq)) (rq_query rq)).
       set c \<subseteq> set (ctx_scopes ctx)) \<and>
    fst (exchange_token (dp_token_endpoint deps) (dp_decode_exchange deps) (dp_redact deps) cfg
       (ctx_raw_token ctx) (required_scopes (rq_method rq) (path_segments (rq_path rq))
          (rq_query rq) (ctx_scopes ctx)) rid) = Inr exchange \<and>
    fst (extract_access_token exchange rid) = Inr (er_access_token exchange) \<and>
    header_get_all (ur_headers u) ''authorization'' = [''Bearer '' @ er_access_token exchange]"
  using assms
proof (rule upstream_callD)
  fix body ctx audit required t url
  assume auth: "fst (authenticate_stage deps cfg rq) = Inr (ctx, audit)"
    and party: "fst (party_stage deps cfg ctx audit) = Inr ()"
    and scoped: "fst (authorize_stage rq ctx audit) = Inr required"
    and exch: "fst (exchange_stage deps cfg rid ctx audit required) = Inr t"
    and u: "u = \<lparr>ur_method = rq_method rq, ur_url = url,
           ur_headers = upstream_headers cfg (rq_headers rq) t rid actor, ur_body = body\<rparr>"
  from auth obtain token where "authenticated deps cfg rq token ctx audit"
    unfolding authenticate_stage_Inr_iff by blast
  moreover from exch obtain exchange where "t = er_access_token exchange"
    "fst (extract_access_token exchange rid) = Inr t"
    "fst (exchange_token (dp_token_endpoint deps) (dp_decode_exchange deps) (dp_redact deps) cfg
       (ctx_raw_token ctx) required rid) = Inr exchange"
    unfolding exchange_stage_Inr_iff extract_access_token_Inr_iff by blast
  moreover have "header_get_all (ur_headers u) ''authorization'' = [''Bearer '' @ t]"
    unfolding u by (simp add: upstream_authorization_single)
  moreover from scoped have "\<exists>c \<in> set (scope_candidates (rq_method rq) (path_segments (rq_path rq))
       (rq_query rq)). set c \<subseteq> set (ctx_scopes ctx)"
    unfolding authorize_stage_Inr_iff
    using gw.chosen_member [of "(rq_method rq, path_segments (rq_path rq), rq_query rq)"] by auto
  ultimately show ?thesis
    using party scoped unfolding party_stage_Inr_iff authorize_stage_Inr_iff by blast
qed

text \<open>
  C14: The upstream request is the caller's, re-addressed: same method, same body (within the
  limit), and the same path, whose segments are the ones the scope check classified. Host,
  forwarded host and forwarded protocol come from the configuration alone, whatever the caller
  sent.
\<close>

theorem upstream_request_contents:
  assumes "UpstreamRequest u \<in> set (calls (handle_proxy deps cfg rq rid actor))"
  shows "ur_method u = rq_method rq \<and>
    rq_body rq = Some (ur_body u) \<and> length (ur_body u) \<le> 10485760 \<and>
    (\<exists>path. ur_url u = trim_end_by (\<lambda>c. c = CHR ''/'') (gc_admin_base_url cfg) @ ''/'' @ path @
         (case rq_query rq of None \<Rightarrow> [] | Some q \<Rightarrow> ''?'' @ q) \<and>
       path_segments path = path_segments (rq_path rq)) \<and>
    header_get_all (ur_headers u) ''host'' =
      (case gc_admin_host_header cfg of None \<Rightarrow> [] | Some h \<Rightarrow> [h]) \<and>
    header_get_all (ur_headers u) ''x-forwarded-host'' =
      (case gc_admin_host_header cfg of None \<Rightarrow> [] | Some h \<Rightarrow> [h]) \<and>
    header_get_all (ur_headers u) ''x-forwarded-proto'' =
      (case gc_admin_forwarded_proto cfg of None \<Rightarrow> [] | Some p \<Rightarrow> [p])"
  using assms
proof (rule upstream_callD)
  fix body ctx audit required t url
  assume body: "fst (read_body rq) = Inr body"
    and scoped: "fst (authorize_stage rq ctx audit) = Inr required"
    and url: "build_upstream_url cfg (rq_path rq) (rq_query rq) = Inr url"
    and u: "u = \<lparr>ur_method = rq_method rq, ur_url = url,
           ur_headers = upstream_headers cfg (rq_headers rq) t rid actor, ur_body = body\<rparr>"
  let ?path = "dropWhile (\<lambda>c. c = CHR ''/'') (rq_path rq)"
  have seg: "path_segments ?path = path_segments (rq_path rq)"
    by (rule path_segments_leading_slashes)
  from scoped have "path_segments (rq_path rq) \<noteq> path_segments []"
    unfolding authorize_stage_Inr_iff by (auto simp: path_segments_Nil)
  with seg have "?path \<noteq> []" by metis
  with url have "url = trim_end_by (\<lambda>c. c = CHR ''/'') (gc_admin_base_url cfg) @ ''/'' @ ?path @
         (case rq_query rq of None \<Rightarrow> [] | Some q \<Rightarrow> ''?'' @ q)"
    by (auto simp: build_upstream_url_def Let_def split: if_splits option.splits)
  moreover from body have "rq_body rq = Some body" and "length body \<le> 10485760"
    by (simp_all add: read_body_Inr_iff BODY_LIMIT_BYTES_def)
  ultimately show ?thesis
    using seg unfolding u
    by (intro conjI exI [of _ ?path]) (simp_all add: upstream_authorization_single)
qed

text \<open>A concrete run: a caller that lists the users of a realm.\<close>

definition sample_deps :: gateway_deps where
  "sample_deps = \<lparr>dp_now = 0, dp_uuid = ''uuid'', dp_sha = (\<lambda>s. ''#'' @ s), dp_sanitize = (\<lambda>s n. take n s),
     dp_redact = (\<lambda>s n. take n s), dp_header_value_ok = list_all visible,
     dp_authenticate = (\<lambda>hs token. if token = ''tok'' then Inr
        \<lparr>ctx_claims = JObj [(''iss'', JStr ''iss''), (''aud'', JStr ''gw''), (''sub'', JStr ''u1'')],
         ctx_scopes = [''keycloak-admin:users:read''], ctx_azp = Some ''mcp'', ctx_raw_token = token\<rparr>
        else Inl TkInvalidToken),
     dp_token_endpoint = (\<lambda>_. Inr \<lparr>rp_status = 200, rp_headers = [], rp_body = Inr ''json''\<rparr>),
     dp_decode_exchange = (\<lambda>_. Some \<lparr>er_access_token = ''admin-tok'', er_token_type = Some ''Bearer'',
        er_expires_in = Some 60\<rparr>),
     dp_send = (\<lambda>_. Inr \<lparr>rp_status = 200, rp_headers = [(''etag'', ''1'')], rp_body = Inr ''[]''\<rparr>)\<rparr>"

definition sample_request :: proxy_request where
  "sample_request = \<lparr>rq_method = GET, rq_path = ''/admin/realms/r/users'', rq_query = Some ''max=1'',
     rq_headers = [(''authorization'', ''Bearer tok''), (''host'', ''evil''), (''x-request-id'', ''rid'')],
     rq_body = Some []\<rparr>"

definition sample_upstream :: upstream_request where
  "sample_upstream = \<lparr>ur_method = GET, ur_url = ''http://kc/admin/realms/r/users?max=1'',
     ur_headers = [(''x-request-id'', ''rid''), (''authorization'', ''Bearer admin-tok''),
       (''x-request-id'', ''rid''), (''host'', ''id.example''), (''x-forwarded-host'', ''id.example''),
       (''x-forwarded-proto'', ''https'')],
     ur_body = []\<rparr>"

definition sample_context :: auth_context where
  "sample_context = \<lparr>
     ctx_claims = JObj [(''iss'', JStr ''iss''), (''aud'', JStr ''gw''), (''sub'', JStr ''u1'')],
     ctx_scopes = [''keycloak-admin:users:read''], ctx_azp = Some ''mcp'', ctx_raw_token = ''tok''\<rparr>"

definition sample_audit :: audit where
  "sample_audit = Some \<lparr>subject_hash = Some ''#saltu1'', client_id_hash = None, azp_hash = None\<rparr>"

lemma sample_body: "fst (read_body sample_request) = Inr []"
  by (simp add: read_body_def sample_request_def)

lemma sample_authenticated:
  "fst (authenticate_stage sample_deps sample_config sample_request) = Inr (sample_context, sample_audit)"
  by code_simp

lemma sample_party: "fst (party_stage sample_deps sample_config sample_context sample_audit) = Inr ()"
  by code_simp

lemma sample_authorized:
  "fst (authorize_stage sample_request sample_context sample_audit) = Inr [''keycloak-admin:users:read'']"
  by code_simp

lemma sample_exchanged:
  "fst (exchange_stage sample_deps sample_config ''rid'' sample_context sample_audit
     [''keycloak-admin:users:read'']) = Inr ''admin-tok''"
  by code_simp

lemma sample_forwarded:
  "calls (forward_stage sample_deps sample_config sample_request ''rid'' None sample_audit [] ''admin-tok'')
     = [UpstreamRequest sample_upstream]"
  by code_simp

lemmas sample_stages = sample_body sample_authenticated sample_party sample_authorized
  sample_exchanged sample_forwarded

lemma sample_run:
  "UpstreamRequest sample_upstream \<in>
     set (calls (handle_proxy sample_deps sample_config sample_request ''rid'' None))"
  by (simp add: handle_proxy_def calls_then_try sample_stages del: then_try_Inr then_try_Inl)

theorem upstream_request_authorized_witness:
  "is_allowlisted_admin_path (path_segments (rq_path sample_request))"
  using upstream_request_authorized [OF sample_run] by blast

theorem upstream_request_contents_witness:
  "ur_method sample_upstream = GET \<and> header_get_all (ur_headers sample_upstream) ''host'' = [''id.example'']"
  using upstream_request_contents [OF sample_run]
  by (simp add: sample_request_def sample_config_def)

text \<open>
  The handler calls out in one order and at most once each: the introspection of the
  caller's token, then the token exchange, then the upstream request. A request refused at any
  stage makes none of the later calls.
\<close>

theorem proxy_call_order:
  "\<exists>hs token tr u. prefix (calls (proxy_admin deps cfg rq))
     [Introspect hs token, TokenRequest tr, UpstreamRequest u]"
  unfolding calls_proxy_admin by (rule handle_proxy_call_order)



text \<open>
  Behind the edge middleware the handler's reading of the credentials is unambiguous: a
  request that passes carries no authorization header at all, and the handler refuses it as
  unauthenticated, or exactly one, from which the handler takes the bearer token.
\<close>

theorem edge_and_handler_agree:
  assumes "edge_guard matrix confusion path hs next_response = Inr r"
  shows "r = next_response \<and> \<not> matrix path \<and> \<not> confusion path \<and>
    (case header_get_all hs ''authorization'' of
       [] \<Rightarrow> extract_bearer_token hs = Inl MissingToken
     | v # rest \<Rightarrow> rest = [] \<and> (\<exists>scheme token. v = scheme @ CHR '' '' # token \<and>
         to_ascii_lowercase scheme = ''bearer'' \<and> extract_bearer_token hs = Inr token))"
proof -
  have lower: "to_ascii_lowercase ''authorization'' = ''authorization''" by code_simp
  have first: "header_get hs ''authorization'' =
      (case header_get_all hs ''authorization'' of [] \<Rightarrow> None | v # _ \<Rightarrow> Some v)"
    unfolding header_get_def header_get_all_def by (induction hs) auto
  from assms have "ensure_strict_bearer hs = Inr ()" and gate: "r = next_response \<and> \<not> matrix path \<and> \<not> confusion path"
    by (auto simp: edge_guard_def split: if_splits)
  then consider "header_get_all hs ''authorization'' = []"
    | v where "header_get_all hs ''authorization'' = [v]" "to_str v = Some v" "validate_bearer_header v = Inr ()"
    by (auto simp: ensure_strict_bearer_def to_str_def split: list.splits option.splits if_splits)
  then show ?thesis
  proof cases
    case 1
    with first gate show ?thesis by (simp add: extract_bearer_token_eq)
  next
    case 2
    from 2(3) obtain scheme token where "v = scheme @ CHR '' '' # token"
      "to_ascii_lowercase scheme = ''bearer''" "split_once (CHR '' '') v = Some (scheme, token)"
      by (rule validate_bearer_header_InrD)
    with 2 first gate show ?thesis by (simp add: extract_bearer_token_eq)
  qed
qed

theorem edge_and_handler_agree_witness:
  "\<exists>scheme token. ''Bearer t'' = scheme @ CHR '' '' # token \<and>
     extract_bearer_token [(''authorization'', ''Bearer t'')] = Inr token"
proof -
  have pass: "edge_guard (\<lambda>_. False) (\<lambda>_. False) ''/x'' [(''authorization'', ''Bearer t'')] () = Inr ()"
    by code_simp
  have "header_get_all [(''authorization'', ''Bearer t'')] ''authorization'' = [''Bearer t'']"
    by code_simp
  with edge_and_handler_agree [OF pass] show ?thesis by auto
qed

text \<open>
  The correlation headers are appended, not replaced: Keycloak receives every
  \<open>x-request-id\<close> the caller sent, unsanitized, followed by the gateway's own value, and the
  same for the actor id.
\<close>

theorem upstream_correlation_headers:
  "header_get_all (upstream_headers cfg hs t request_id actor_id) ''x-request-id'' =
     header_get_all hs ''x-request-id'' @ [request_id] \<and>
   header_get_all (upstream_headers cfg hs t request_id actor_id) ''x-actor-id'' =
     header_get_all hs ''x-actor-id'' @ (case actor_id of None \<Rightarrow> [] | Some a \<Rightarrow> [a])"
proof -
  have lower: "to_ascii_lowercase ''x-request-id'' = ''x-request-id''"
    "to_ascii_lowercase ''x-actor-id'' = ''x-actor-id''" by code_simp+
  have "header_get_all (filter (\<lambda>(name, value). should_forward_header name) hs) n = header_get_all hs n"
    if "should_forward_header n" and "to_ascii_lowercase n = n" for n
    using that by (induction hs) auto
  moreover have "should_forward_header ''x-request-id''" and "should_forward_header ''x-actor-id''"
    by code_simp+
  ultimately show ?thesis
    by (simp add: upstream_headers_def apply_admin_origin_headers_def Let_def lower split: option.split)
qed

end
