(* ===== verification/Gateway_Logging.thy ===== *)
theory Gateway_Logging
  imports Gateway_Proxy
begin

text \<open>
  The log lines of the gateway (\<open>logging.rs\<close>): the records that \<open>Gateway_Proxy\<close> emits in order are given
  the target, message and fields with which \<open>tracing\<close> receives them. The time between a start and its
  finish, a rounded number of milliseconds, is the parameter \<open>elapsed\<close>. \<open>Logging_Setup\<close> has the set-up of
  the subscriber they go to.
\<close>

section \<open>Lines\<close>

datatype log_target = AccessTarget | AuthTarget

fun target_name :: "log_target \<Rightarrow> string" where
  "target_name AccessTarget = ''kc_admin_gateway.access''"
| "target_name AuthTarget = ''kc_admin_gateway.auth''"

record log_line =
  ll_target :: log_target
  ll_level :: log_level
  ll_message :: string
  ll_fields :: log_fields

record log_meta =
  lm_endpoint :: string
  lm_method :: string
  lm_path :: string
  lm_client :: string
  lm_request_id :: string
  lm_actor :: "string option"
  lm_session :: "string option"

definition or_dash :: "string option \<Rightarrow> string" where
  "or_dash v = (case v of None \<Rightarrow> ''-'' | Some s \<Rightarrow> s)"

definition bool_text :: "bool \<Rightarrow> string" where
  "bool_text b = (if b then ''true'' else ''false'')"

definition request_fields :: "log_meta \<Rightarrow> log_fields" where
  "request_fields meta =
     [(''endpoint'', lm_endpoint meta), (''method'', lm_method meta), (''path'', lm_path meta),
      (''client'', lm_client meta), (''request_id'', lm_request_id meta)]"

definition log_request_start :: "gateway_deps \<Rightarrow> log_meta \<Rightarrow> log_line" where
  "log_request_start deps meta =
     (let actor = map_option (sanitize_log_value deps) (lm_actor meta);
          session_id = map_option (sanitize_log_value deps) (lm_session meta)
      in \<lparr>ll_target = AccessTarget, ll_level = Info, ll_message = ''gateway.request.start'',
          ll_fields = request_fields meta @
            [(''actor'', or_dash actor), (''session_id'', or_dash session_id)]\<rparr>)"

definition log_request_finish ::
  "gateway_deps \<Rightarrow> log_meta \<Rightarrow> string \<Rightarrow> nat \<Rightarrow> bool \<Rightarrow> log_line" where
  "log_request_finish deps meta elapsed status err =
     (let actor = map_option (sanitize_log_value deps) (lm_actor meta);
          session_id = map_option (sanitize_log_value deps) (lm_session meta)
      in \<lparr>ll_target = AccessTarget, ll_level = Info, ll_message = ''gateway.request.finish'',
          ll_fields = request_fields meta @
            [(''actor'', or_dash actor), (''session_id'', or_dash session_id),
             (''status'', show_nat status), (''duration_ms'', elapsed), (''error'', bool_text err)]\<rparr>)"

definition log_auth_start :: "log_meta \<Rightarrow> string \<Rightarrow> bool \<Rightarrow> log_line" where
  "log_auth_start meta auth_mode introspection =
     \<lparr>ll_target = AuthTarget, ll_level = Info, ll_message = ''gateway.auth.start'',
      ll_fields = request_fields meta @
        [(''auth_mode'', auth_mode), (''introspection'', bool_text introspection)]\<rparr>"

definition log_auth_finish ::
  "gateway_deps \<Rightarrow> log_meta \<Rightarrow> string \<Rightarrow> nat \<Rightarrow> bool \<Rightarrow> string \<Rightarrow> bool \<Rightarrow> string option \<Rightarrow> log_line" where
  "log_auth_finish deps meta elapsed status err auth_mode introspection reason =
     (let actor = map_option (sanitize_log_value deps) (lm_actor meta);
          session_id = map_option (sanitize_log_value deps) (lm_session meta)
      in \<lparr>ll_target = AuthTarget, ll_level = Info, ll_message = ''gateway.auth.finish'',
          ll_fields = request_fields meta @
            [(''status'', show_nat status), (''duration_ms'', elapsed), (''error'', bool_text err),
             (''auth_mode'', auth_mode), (''introspection'', bool_text introspection),
             (''actor'', or_dash actor), (''session_id'', or_dash session_id),
             (''reason'', or_dash reason)]\<rparr>)"

definition log_exchange_start :: "log_meta \<Rightarrow> string \<Rightarrow> log_line" where
  "log_exchange_start meta scopes =
     \<lparr>ll_target = AuthTarget, ll_level = Info, ll_message = ''gateway.exchange.start'',
      ll_fields = request_fields meta @ [(''scopes'', scopes)]\<rparr>"

definition log_exchange_finish ::
  "log_meta \<Rightarrow> string \<Rightarrow> string \<Rightarrow> nat \<Rightarrow> bool \<Rightarrow> string option \<Rightarrow> log_line" where
  "log_exchange_finish meta scopes elapsed status err reason =
     \<lparr>ll_target = AuthTarget, ll_level = Info, ll_message = ''gateway.exchange.finish'',
      ll_fields = request_fields meta @
        [(''scopes'', scopes), (''status'', show_nat status), (''duration_ms'', elapsed),
         (''error'', bool_text err), (''reason'', or_dash reason)]\<rparr>"

text \<open>An empty or blank variable names no file; the path keeps its surrounding blanks.\<close>

definition env_path :: "env_vars \<Rightarrow> string \<Rightarrow> string option" where
  "env_path vars name =
     (case vars name of None \<Rightarrow> None | Some value \<Rightarrow> if trim value = [] then None else Some value)"

section \<open>The lines of a request\<close>

text \<open>
  \<open>proxy_admin\<close> passes its request to every call; the exchange stage passes the joined scopes to
  both of its calls, the authentication stage the mode \<open>introspection\<close>. The calls that leave the
  process are no lines.
\<close>

fun log_lines :: "gateway_deps \<Rightarrow> string \<Rightarrow> log_meta \<Rightarrow> string \<Rightarrow> gateway_event list \<Rightarrow> log_line list" where
  "log_lines deps elapsed meta scopes [] = []"
| "log_lines deps elapsed meta scopes (ev # evs) =
     (case ev of
        RequestStart \<Rightarrow> log_request_start deps meta # log_lines deps elapsed meta scopes evs
      | RequestFinish status err \<Rightarrow>
          log_request_finish deps meta elapsed status err # log_lines deps elapsed meta scopes evs
      | AuthStart \<Rightarrow> log_auth_start meta ''introspection'' True # log_lines deps elapsed meta scopes evs
      | AuthFinish status err reason \<Rightarrow>
          log_auth_finish deps meta elapsed status err ''introspection'' True reason #
            log_lines deps elapsed meta scopes evs
      | ExchangeStart scopes' \<Rightarrow> log_exchange_start meta scopes' # log_lines deps elapsed meta scopes' evs
      | ExchangeFinish status err reason \<Rightarrow>
          log_exchange_finish meta scopes elapsed status err reason # log_lines deps elapsed meta scopes evs
      | AuthLog level message log_fields \<Rightarrow>
          \<lparr>ll_target = AuthTarget, ll_level = level, ll_message = message, ll_fields = log_fields\<rparr> #
            log_lines deps elapsed meta scopes evs
      | AccessLog level message log_fields \<Rightarrow>
          \<lparr>ll_target = AccessTarget, ll_level = level, ll_message = message, ll_fields = log_fields\<rparr> #
            log_lines deps elapsed meta scopes evs
      | _ \<Rightarrow> log_lines deps elapsed meta scopes evs)"

definition request_meta :: "gateway_deps \<Rightarrow> proxy_request \<Rightarrow> log_meta" where
  "request_meta deps rq =
     \<lparr>lm_endpoint = ''admin_proxy'', lm_method = method_str (rq_method rq), lm_path = rq_path rq,
      lm_client = extract_client deps (rq_headers rq),
      lm_request_id = extract_request_id deps (rq_headers rq),
      lm_actor = extract_actor_id deps (rq_headers rq),
      lm_session = extract_session_id deps (rq_headers rq)\<rparr>"

definition proxy_log :: "gateway_deps \<Rightarrow> gateway_config \<Rightarrow> string \<Rightarrow> proxy_request \<Rightarrow> log_line list" where
  "proxy_log deps cfg elapsed rq =
     log_lines deps elapsed (request_meta deps rq) [] (snd (proxy_admin deps cfg rq))"

section \<open>What reaches the log\<close>

definition scrubbed :: "gateway_deps \<Rightarrow> string \<Rightarrow> bool" where
  "scrubbed deps v \<longleftrightarrow> v = ''-'' \<or> v = ''unknown'' \<or> v = dp_uuid deps \<or> (\<exists>raw. v = sanitize_log_value deps raw)"

definition hashed :: "gateway_deps \<Rightarrow> gateway_config \<Rightarrow> string \<Rightarrow> bool" where
  "hashed deps cfg v \<longleftrightarrow> v = ''unknown'' \<or>
     (\<exists>salt raw. gc_audit_hash_salt cfg = Some salt \<and> v = dp_sha deps (salt @ raw))"

definition field_ok :: "gateway_deps \<Rightarrow> gateway_config \<Rightarrow> proxy_request \<Rightarrow> string \<times> string \<Rightarrow> bool" where
  "field_ok deps cfg rq kv \<longleftrightarrow>
     (let (k, v) = kv in
      if k \<in> {''client'', ''request_id'', ''actor'', ''actor_id'', ''session_id''} then scrubbed deps v
      else if k \<in> {''subject_hash'', ''client_id_hash'', ''azp_hash''} then
        hashed deps cfg v
      else if k = ''body'' then
        gc_log_exchange_body cfg \<and> (\<exists>raw. v = dp_redact deps raw (gc_log_exchange_body_max_bytes cfg))
      else if k = ''path'' then v = rq_path rq
      else if k = ''method'' then v = method_str (rq_method rq)
      else k \<in> {''endpoint'', ''status'', ''duration_ms'', ''error'', ''auth_mode'', ''introspection'',
        ''reason'', ''scopes'', ''token_type'', ''expires_in''})"

lemma scrubbed_simps [simp]:
  "scrubbed deps ''-''" "scrubbed deps ''unknown''" "scrubbed deps (sanitize_log_value deps raw)"
  "scrubbed deps (or_dash (map_option (sanitize_log_value deps) v))"
  "scrubbed deps (extract_request_id deps hs)" "scrubbed deps (extract_client deps hs)"
  "scrubbed deps (unknown_or (extract_actor_id deps hs))"
  "scrubbed deps (unknown_or (extract_session_id deps hs))"
  by (auto simp: scrubbed_def or_dash_def unknown_or_def extract_request_id_def extract_client_def
      extract_actor_id_def extract_session_id_def Let_def split: option.splits)

definition fields_ok :: "gateway_deps \<Rightarrow> gateway_config \<Rightarrow> proxy_request \<Rightarrow> log_fields \<Rightarrow> bool" where
  "fields_ok deps cfg rq fs = list_all (field_ok deps cfg rq) fs"

lemma fields_ok_simps [simp]:
  "fields_ok deps cfg rq []"
  "fields_ok deps cfg rq (kv # fs) \<longleftrightarrow> field_ok deps cfg rq kv \<and> fields_ok deps cfg rq fs"
  "fields_ok deps cfg rq (fs @ gs) \<longleftrightarrow> fields_ok deps cfg rq fs \<and> fields_ok deps cfg rq gs"
  by (simp_all add: fields_ok_def)

lemma field_ok_plain [simp]:
  "field_ok deps cfg rq (''endpoint'', v)" "field_ok deps cfg rq (''status'', v)"
  "field_ok deps cfg rq (''duration_ms'', v)" "field_ok deps cfg rq (''error'', v)"
  "field_ok deps cfg rq (''auth_mode'', v)" "field_ok deps cfg rq (''introspection'', v)"
  "field_ok deps cfg rq (''reason'', v)" "field_ok deps cfg rq (''scopes'', v)"
  "field_ok deps cfg rq (''token_type'', v)" "field_ok deps cfg rq (''expires_in'', v)"
  by (simp_all add: field_ok_def)

lemma field_ok_scrubbed [simp]:
  "field_ok deps cfg rq (''client'', v) \<longleftrightarrow> scrubbed deps v"
  "field_ok deps cfg rq (''request_id'', v) \<longleftrightarrow> scrubbed deps v"
  "field_ok deps cfg rq (''actor'', v) \<longleftrightarrow> scrubbed deps v"
  "field_ok deps cfg rq (''actor_id'', v) \<longleftrightarrow> scrubbed deps v"
  "field_ok deps cfg rq (''session_id'', v) \<longleftrightarrow> scrubbed deps v"
  "field_ok deps cfg rq (''path'', v) \<longleftrightarrow> v = rq_path rq"
  "field_ok deps cfg rq (''method'', v) \<longleftrightarrow> v = method_str (rq_method rq)"
  by (simp_all add: field_ok_def)

lemma request_fields_ok: "fields_ok deps cfg rq (request_fields (request_meta deps rq))"
  by (simp add: request_fields_def request_meta_def)

text \<open>The records of the stages.\<close>

definition records_ok :: "gateway_deps \<Rightarrow> gateway_config \<Rightarrow> proxy_request \<Rightarrow> gateway_event list \<Rightarrow> bool" where
  "records_ok deps cfg rq evs \<longleftrightarrow>
     (\<forall>l m fs. AuthLog l m fs \<in> set evs \<or> AccessLog l m fs \<in> set evs \<longrightarrow> fields_ok deps cfg rq fs)"

lemma records_ok_simps [simp]:
  "records_ok deps cfg rq []"
  "records_ok deps cfg rq (evs @ evs') \<longleftrightarrow> records_ok deps cfg rq evs \<and> records_ok deps cfg rq evs'"
  "records_ok deps cfg rq (AuthLog l m fs # evs) \<longleftrightarrow> fields_ok deps cfg rq fs \<and> records_ok deps cfg rq evs"
  "records_ok deps cfg rq (AccessLog l m fs # evs) \<longleftrightarrow> fields_ok deps cfg rq fs \<and> records_ok deps cfg rq evs"
  by (auto simp: records_ok_def)

lemma records_ok_other [simp]:
  "records_ok deps cfg rq (RequestStart # evs) \<longleftrightarrow> records_ok deps cfg rq evs"
  "records_ok deps cfg rq (RequestFinish n b # evs) \<longleftrightarrow> records_ok deps cfg rq evs"
  "records_ok deps cfg rq (AuthStart # evs) \<longleftrightarrow> records_ok deps cfg rq evs"
  "records_ok deps cfg rq (AuthFinish n b r # evs) \<longleftrightarrow> records_ok deps cfg rq evs"
  "records_ok deps cfg rq (Introspect hs t # evs) \<longleftrightarrow> records_ok deps cfg rq evs"
  "records_ok deps cfg rq (ExchangeStart s # evs) \<longleftrightarrow> records_ok deps cfg rq evs"
  "records_ok deps cfg rq (ExchangeFinish n b r # evs) \<longleftrightarrow> records_ok deps cfg rq evs"
  "records_ok deps cfg rq (TokenRequest tr # evs) \<longleftrightarrow> records_ok deps cfg rq evs"
  "records_ok deps cfg rq (UpstreamRequest u # evs) \<longleftrightarrow> records_ok deps cfg rq evs"
  by (auto simp: records_ok_def)

lemma log_lines_ok:
  "\<lbrakk>records_ok deps cfg rq evs; line \<in> set (log_lines deps elapsed (request_meta deps rq) scopes evs)\<rbrakk> \<Longrightarrow>
     fields_ok deps cfg rq (ll_fields line)"
proof (induction evs arbitrary: scopes)
  case Nil
  then show ?case by simp
next
  case (Cons ev evs)
  then show ?case
    using request_fields_ok [of deps cfg rq]
    by (cases ev) (auto simp: log_request_start_def log_request_finish_def log_auth_start_def
        log_auth_finish_def log_exchange_start_def log_exchange_finish_def request_meta_def Let_def)
qed

lemma records_ok_try:
  "\<lbrakk>records_ok deps cfg rq (snd m); \<And>a. fst m = Inr a \<Longrightarrow> records_ok deps cfg rq (snd (k a))\<rbrakk> \<Longrightarrow>
     records_ok deps cfg rq (snd (then_try m k))"
  by (simp add: then_try_def split: sum.splits)

lemma snd_if: "snd (if b then m else m') = (if b then snd m else snd m')"
  by simp

lemma authenticate_stage_records [simp]: "records_ok deps cfg rq (snd (authenticate_stage deps cfg rq))"
  by (auto simp: authenticate_stage_def deny_def Let_def split: sum.splits)

lemma party_stage_records [simp]: "records_ok deps cfg rq (snd (party_stage deps cfg context audit))"
  by (auto simp: party_stage_def deny_def Let_def)

lemma authorize_stage_records [simp]: "records_ok deps cfg rq (snd (authorize_stage rq context audit))"
  by (auto simp: authorize_stage_def deny_def deny_path_def Let_def split: sum.splits)

lemma exchange_token_records:
  "scrubbed deps rid \<Longrightarrow> records_ok deps cfg rq
     (snd (exchange_token (dp_token_endpoint deps) (dp_decode_exchange deps) (dp_redact deps) cfg tok scopes rid))"
  unfolding exchange_token_def post_form_with_auth_def
  by (auto intro!: records_ok_try simp: Let_def field_ok_def split: option.splits sum.splits)

lemma extract_access_token_records:
  "scrubbed deps rid \<Longrightarrow> records_ok deps cfg rq (snd (extract_access_token exchange rid))"
  by (auto simp: extract_access_token_def split: option.splits)

lemma exchange_stage_records:
  "scrubbed deps rid \<Longrightarrow> records_ok deps cfg rq (snd (exchange_stage deps cfg rid context audit required))"
  using exchange_token_records [of deps rid] extract_access_token_records [of deps rid]
  by (auto simp: exchange_stage_def Let_def split: sum.splits)

lemma forward_stage_records [simp]:
  "records_ok deps cfg rq' (snd (forward_stage deps cfg rq rid actor audit body t))"
  by (auto simp: forward_stage_def Let_def split: sum.splits)

lemma handle_proxy_records:
  "scrubbed deps rid \<Longrightarrow> records_ok deps cfg rq (snd (handle_proxy deps cfg rq rid actor))"
  unfolding handle_proxy_def
  by (intro records_ok_try) (auto simp: exchange_stage_records split: prod.splits intro!: records_ok_try)

text \<open>The identity that goes with a result is hashed.\<close>

definition audit_ok :: "gateway_deps \<Rightarrow> gateway_config \<Rightarrow> audit \<Rightarrow> bool" where
  "audit_ok deps cfg audit \<longleftrightarrow>
     (\<forall>a. audit = Some a \<longrightarrow> (\<exists>claims. build_audit_identity (dp_sha deps) cfg claims = Inr (Some a)))"

definition result_ok :: "gateway_deps \<Rightarrow> gateway_config \<Rightarrow> (gateway_error \<times> audit) + 'a \<Rightarrow> bool" where
  "result_ok deps cfg r \<longleftrightarrow> (\<forall>e audit. r = Inl (e, audit) \<longrightarrow> audit_ok deps cfg audit)"

lemma result_ok_simps [simp]:
  "result_ok deps cfg (Inr a)" "result_ok deps cfg (Inl (e, audit)) \<longleftrightarrow> audit_ok deps cfg audit"
  "audit_ok deps cfg None"
  by (auto simp: result_ok_def audit_ok_def)

lemma result_ok_try:
  "\<lbrakk>result_ok deps cfg (fst m); \<And>a. fst m = Inr a \<Longrightarrow> result_ok deps cfg (fst (k a))\<rbrakk> \<Longrightarrow>
     result_ok deps cfg (fst (then_try m k))"
  by (auto simp: then_try_def result_ok_def split: sum.splits)

lemma result_ok_map_err [simp]:
  "result_ok deps cfg (map_err (\<lambda>err. (err, audit)) r) \<longleftrightarrow> (\<forall>e. r = Inl e \<longrightarrow> audit_ok deps cfg audit)"
  by (cases r) auto

lemma read_body_result [simp]: "result_ok deps cfg (fst (read_body rq))"
  by (simp add: read_body_def split: option.split)

lemma authenticate_stage_result [simp]: "result_ok deps cfg (fst (authenticate_stage deps cfg rq))"
  by (auto simp: authenticate_stage_def deny_def Let_def split: sum.split)

lemma party_stage_result:
  "audit_ok deps cfg audit \<Longrightarrow> result_ok deps cfg (fst (party_stage deps cfg context audit))"
  by (simp add: party_stage_def deny_def Let_def)

lemma authorize_stage_result:
  "audit_ok deps cfg audit \<Longrightarrow> result_ok deps cfg (fst (authorize_stage rq context audit))"
  by (simp add: authorize_stage_def deny_def deny_path_def Let_def split: sum.split)

lemma exchange_stage_result:
  "audit_ok deps cfg audit \<Longrightarrow> result_ok deps cfg (fst (exchange_stage deps cfg rid context audit required))"
  by (simp add: exchange_stage_def Let_def split: sum.split)

lemma forward_stage_result:
  "audit_ok deps cfg audit \<Longrightarrow>
     result_ok deps cfg (fst (forward_stage deps cfg rq rid actor audit body t))"
  by (simp add: forward_stage_def Let_def split: sum.split)

lemmas stage_results_ok = read_body_result authenticate_stage_result party_stage_result
  authorize_stage_result exchange_stage_result forward_stage_result

lemma authenticated_audit_ok:
  "fst (authenticate_stage deps cfg rq) = Inr (context, audit) \<Longrightarrow> audit_ok deps cfg audit"
  by (auto simp: authenticate_stage_def deny_def audit_ok_def Let_def split: sum.splits)

lemma forwarded_audit: "fst (forward_stage deps cfg rq rid actor audit body t) = Inr (response, audit') \<Longrightarrow> audit' = audit"
  by (auto simp: forward_stage_def Let_def split: sum.splits)

lemma handle_proxy_result_ok: "result_ok deps cfg (fst (handle_proxy deps cfg rq rid actor))"
  unfolding handle_proxy_def
  by (intro result_ok_try stage_results_ok)
    (auto intro!: result_ok_try stage_results_ok dest: authenticated_audit_ok)

lemma handle_proxy_audit_ok:
  "fst (handle_proxy deps cfg rq rid actor) = Inr (response, audit) \<Longrightarrow> audit_ok deps cfg audit"
  by (auto simp: handle_proxy_def then_try_Inr_iff dest!: forwarded_audit authenticated_audit_ok
      split: prod.splits)

lemma field_ok_hashes [simp]:
  "field_ok deps cfg rq (''subject_hash'', v) \<longleftrightarrow> hashed deps cfg v"
  "field_ok deps cfg rq (''client_id_hash'', v) \<longleftrightarrow> hashed deps cfg v"
  "field_ok deps cfg rq (''azp_hash'', v) \<longleftrightarrow> hashed deps cfg v"
  by (simp_all add: field_ok_def)

lemma hashed_hash_value:
  assumes "gc_audit_hash_salt cfg = Some salt"
  shows "hashed deps cfg (unknown_or (map_option (hash_value (dp_sha deps) salt) v))"
proof (cases v)
  case None
  then show ?thesis by (simp add: hashed_def unknown_or_def)
next
  case (Some w)
  with assms show ?thesis unfolding hashed_def hash_value_def unknown_or_def by fastforce
qed

lemma access_fields_ok:
  assumes "scrubbed deps rid" and "scrubbed deps (unknown_or actor)" and "scrubbed deps (unknown_or session)"
    and "audit_ok deps cfg audit"
  shows "fields_ok deps cfg rq (access_fields rid actor session audit)"
proof (cases audit)
  case None
  with assms(1-3) show ?thesis by (simp add: access_fields_def)
next
  case (Some a)
  with assms(4) obtain claims where "build_audit_identity (dp_sha deps) cfg claims = Inr (Some a)"
    by (auto simp: audit_ok_def)
  then obtain salt s c z where "gc_audit_hash_salt cfg = Some salt"
    "subject_hash a = map_option (hash_value (dp_sha deps) salt) s"
    "client_id_hash a = map_option (hash_value (dp_sha deps) salt) c"
    "azp_hash a = map_option (hash_value (dp_sha deps) salt) z"
    by (auto simp: build_audit_identity_def split: if_splits option.splits)
  with Some assms(1-3) show ?thesis by (simp add: access_fields_def hashed_hash_value)
qed

lemma proxy_admin_records: "records_ok deps cfg rq (snd (proxy_admin deps cfg rq))"
proof -
  let ?rid = "extract_request_id deps (rq_headers rq)" and ?actor = "extract_actor_id deps (rq_headers rq)"
    and ?session = "extract_session_id deps (rq_headers rq)"
  let ?h = "handle_proxy deps cfg rq ?rid ?actor"
  have acc: "fields_ok deps cfg rq (access_fields ?rid ?actor ?session audit)" if "audit_ok deps cfg audit" for audit
    using that by (simp add: access_fields_ok)
  have "records_ok deps cfg rq (snd ?h)" by (simp add: handle_proxy_records)
  then show ?thesis
    using handle_proxy_result_ok [of deps cfg rq ?rid ?actor] handle_proxy_audit_ok [of deps cfg rq ?rid ?actor]
    by (auto simp: proxy_admin_def audit_log_upstream_failure_def audit_log_success_def audit_log_failure_def
        acc Let_def split: sum.splits)
qed

lemma proxy_admin_starts: "\<exists>evs. snd (proxy_admin deps cfg rq) = RequestStart # evs"
  by (auto simp: proxy_admin_def Let_def split: sum.splits)

section \<open>Properties\<close>



end
