(* ===== verification/Gateway_Service.thy ===== *)
theory Gateway_Service
  imports Tls_Setup Gateway_Logging
begin

text \<open>
  The gateway as a whole (\<open>main.rs\<close>): what it checks and builds, in which order, before it listens, and
  the service it listens with: the router, the edge middleware in front of it and the two
  handlers. The toolkit's authenticator, the HTTP client, the address parser and the TLS library are
  parameters, and so is the router's test of a path against a pattern.
\<close>

section \<open>The toolkit's authenticator\<close>

text \<open>Fields the gateway leaves to \<open>Default\<close> keep those of the parameter \<open>defaults\<close>.\<close>

definition build_auth_config :: "toolkit_auth_config \<Rightarrow> gateway_config \<Rightarrow> toolkit_auth_config" where
  "build_auth_config defaults cfg = defaults\<lparr>
     tc_mode := Introspection,
     tc_introspection_url := Some (gc_introspection_url cfg),
     tc_introspection_client_id := Some (gc_introspection_client_id cfg),
     tc_introspection_client_secret := Some (gc_introspection_client_secret cfg),
     tc_introspection_auth_method := gc_introspection_auth_method cfg,
     tc_introspection_cache_ttl_s := 0,
     tc_strict_oauth := True,
     tc_jwks_url := None,
     tc_issuer := gc_expected_issuer cfg,
     tc_audience := gc_expected_audience cfg,
     tc_required_scopes := [],
     tc_jti_ttl_s := 0,
     tc_jti_cache_size := 0\<rparr>"

section \<open>Start-up\<close>

text \<open>What \<open>main\<close> does when a step fails: it exits with status 1, or the parse of the address panics.\<close>

datatype start_failure =
    CryptoProviderFailed
  | InvalidGatewayConfig gateway_error
  | AuthenticatorFailed string
  | GatewayInitFailed gateway_error
  | InvalidHostPort
  | InvalidTls gateway_error

record ('a, 'addr, 'c, 'k) gateway_server =
  gv_config :: gateway_config
  gv_authenticator :: 'a
  gv_client_timeout :: nat
  gv_addr :: 'addr
  gv_tls :: "('c, 'k) server_tls option"

record ('a, 'addr, 'c, 'k) start_env =
  sn_install_crypto :: bool
  sn_defaults :: toolkit_auth_config
  sn_new_authenticator :: "toolkit_auth_config \<Rightarrow> string + 'a"
  sn_client_error :: "nat \<Rightarrow> string option"
  sn_parse_addr :: "string \<Rightarrow> 'addr option"
  sn_rustls :: "('c, 'k) rustls"

text \<open>\<open>build_client\<close> (\<open>http.rs\<close>): a client is its time-out.\<close>

definition gateway_build_client :: "(nat \<Rightarrow> string option) \<Rightarrow> gateway_config \<Rightarrow> gateway_error + nat" where
  "gateway_build_client client_error cfg =
     (case client_error (gc_request_timeout cfg) of
        Some err \<Rightarrow> Inl (InvalidConfig (''http client init failed: '' @ err))
      | None \<Rightarrow> Inr (gc_request_timeout cfg))"

definition start_gateway ::
  "('a, 'addr, 'c, 'k) start_env \<Rightarrow> instant \<Rightarrow> gateway_config \<Rightarrow> start_failure + ('a, 'addr, 'c, 'k) gateway_server" where
  "start_gateway sn now loaded =
     (if \<not> sn_install_crypto sn then Inl CryptoProviderFailed
      else
        and_then (map_err InvalidGatewayConfig (validate_config now loaded)) (\<lambda>cfg.
        and_then (map_err AuthenticatorFailed
          (sn_new_authenticator sn (build_auth_config (sn_defaults sn) cfg))) (\<lambda>authenticator.
        and_then (map_err GatewayInitFailed (gateway_build_client (sn_client_error sn) cfg)) (\<lambda>timeout.
        and_then (ok_or InvalidHostPort
          (sn_parse_addr sn (gc_host cfg @ '':'' @ show_nat (gc_port cfg)))) (\<lambda>addr.
        and_then (map_err InvalidTls (build_tls_config (sn_rustls sn) cfg)) (\<lambda>tls.
        Inr \<lparr>gv_config = cfg, gv_authenticator = authenticator, gv_client_timeout = timeout,
          gv_addr = addr, gv_tls = tls\<rparr>))))))"

section \<open>The service\<close>

datatype gateway_route = Health | ProxyAdmin

definition gateway_routes :: "(string \<times> gateway_route) list" where
  "gateway_routes = [(''/health'', Health), (''/admin'', ProxyAdmin), (''/admin/{*path}'', ProxyAdmin)]"

definition health :: proxy_response where
  "health = \<lparr>rs_status = 200, rs_headers = [(''content-type'', ''application/json'')],
     rs_body = JsonBody (JObj [(''status'', JStr ''ok'')])\<rparr>"

definition status_response :: "nat \<Rightarrow> proxy_response" where
  "status_response status = \<lparr>rs_status = status, rs_headers = [], rs_body = Bytes []\<rparr>"

text \<open>
  The layer wraps every route and the fallback: it runs first. A route made with \<open>get\<close> answers \<open>GET\<close> and,
  without the body, \<open>HEAD\<close>; one made with \<open>any\<close> every method.
\<close>

record service_env =
  sv_matches :: "string \<Rightarrow> string \<Rightarrow> bool"
  sv_matrix :: "string \<Rightarrow> bool"
  sv_confusion :: "string \<Rightarrow> bool"

definition serve_route ::
  "gateway_deps \<Rightarrow> gateway_config \<Rightarrow> proxy_request \<Rightarrow> gateway_route option \<Rightarrow> (proxy_response, gateway_event) traced" where
  "serve_route deps cfg rq route =
     (case route of
        None \<Rightarrow> done_with (status_response 404)
      | Some Health \<Rightarrow>
          (if rq_method rq = GET then done_with health
           else if rq_method rq = HEAD then done_with (health\<lparr>rs_body := Bytes []\<rparr>)
           else done_with (status_response 405))
      | Some ProxyAdmin \<Rightarrow> proxy_admin deps cfg rq)"

definition gateway_service ::
  "service_env \<Rightarrow> gateway_deps \<Rightarrow> gateway_config \<Rightarrow> proxy_request \<Rightarrow> (proxy_response, gateway_event) traced" where
  "gateway_service sv deps cfg rq =
     (case edge_guard (sv_matrix sv) (sv_confusion sv) (rq_path rq) (rq_headers rq) () of
        Inl status \<Rightarrow> done_with (status_response status)
      | Inr _ \<Rightarrow> serve_route deps cfg rq
          (map_option snd (find (\<lambda>(pattern, _). sv_matches sv pattern (rq_path rq)) gateway_routes)))"

section \<open>Lemmas\<close>

lemma start_gatewayD:
  assumes "start_gateway sn now loaded = Inr g"
  shows "validate_config now loaded = Inr (gv_config g)"
    and "sn_new_authenticator sn (build_auth_config (sn_defaults sn) (gv_config g)) = Inr (gv_authenticator g)"
    and "build_tls_config (sn_rustls sn) (gv_config g) = Inr (gv_tls g)"
    and "gv_client_timeout g = gc_request_timeout (gv_config g)"
  using assms
  by (auto simp: start_gateway_def gateway_build_client_def split: if_splits option.splits)

lemma gateway_service_calls:
  "calls (gateway_service sv deps cfg rq) \<noteq> [] \<Longrightarrow>
     edge_guard (sv_matrix sv) (sv_confusion sv) (rq_path rq) (rq_headers rq) () = Inr () \<and>
     (\<exists>pattern. (pattern, ProxyAdmin) \<in> set gateway_routes \<and> sv_matches sv pattern (rq_path rq)) \<and>
     calls (gateway_service sv deps cfg rq) = calls (proxy_admin deps cfg rq)"
  by (auto simp: gateway_service_def serve_route_def calls_def gateway_routes_def
      split: sum.splits if_splits)

lemma edge_guard_InrD:
  assumes "edge_guard matrix confusion path hs r = Inr r'"
  shows "\<not> matrix path" and "\<not> confusion path" and "ensure_strict_bearer hs = Inr ()"
  using assms by (auto simp: edge_guard_def split: if_splits)

lemma strict_bearer_token:
  assumes "ensure_strict_bearer hs = Inr ()" and "extract_bearer_token hs = Inr token"
  shows "\<exists>scheme. header_get_all hs ''authorization'' = [scheme @ CHR '' '' # token] \<and>
    to_ascii_lowercase scheme = ''bearer''"
proof -
  have lower: "to_ascii_lowercase ''authorization'' = ''authorization''" by code_simp
  have first: "header_get hs ''authorization'' =
      (case header_get_all hs ''authorization'' of [] \<Rightarrow> None | v # _ \<Rightarrow> Some v)"
    unfolding header_get_def header_get_all_def by (induction hs) auto
  from assms(2) obtain raw where raw: "header_get hs ''authorization'' = Some raw"
    and ok: "validate_bearer_header raw = Inr ()" and tok: "token = snd (the (split_once (CHR '' '') raw))"
    by (auto simp: extract_bearer_token_eq to_str_def split: option.splits sum.splits bind_splits if_splits)
  with assms(1) first have "header_get_all hs ''authorization'' = [raw]"
    by (auto simp: ensure_strict_bearer_def split: list.splits)
  with ok tok show ?thesis
    by (elim validate_bearer_header_InrD) auto
qed

lemma validated_callers:
  assumes "validate_config now loaded = Inr cfg" and "gc_build_production loaded"
  shows "gc_expected_issuer cfg = gc_expected_issuer loaded" and "\<not> blank (gc_expected_issuer loaded)"
    and "gc_expected_audience cfg = gc_expected_audience loaded" and "\<not> blank (gc_expected_audience loaded)"
    and "gc_allowed_azp cfg = gc_allowed_azp loaded" and "gc_mtls_required cfg = gc_mtls_required loaded"
    and "gc_allowed_azp loaded = [] \<Longrightarrow> \<not> blank (gc_allow_open_azp_reason loaded) \<and>
      (\<exists>t. gc_allow_open_azp_expires_at cfg = Some t \<and> now < t)"
proof -
  note d = validate_config_InrD [OF assms(1)]
  obtain t where c: "cfg = loaded\<lparr>gc_allow_open_azp_expires_at := t\<rparr>" using d(2) by blast
  show "gc_expected_issuer cfg = gc_expected_issuer loaded" "gc_expected_audience cfg = gc_expected_audience loaded"
    "gc_allowed_azp cfg = gc_allowed_azp loaded" "gc_mtls_required cfg = gc_mtls_required loaded"
    unfolding c by simp_all
  show "\<not> blank (gc_expected_issuer loaded)" "\<not> blank (gc_expected_audience loaded)"
    using d(3) assms(2) by auto
  show "\<not> blank (gc_allow_open_azp_reason loaded) \<and> (\<exists>t. gc_allow_open_azp_expires_at cfg = Some t \<and> now < t)"
    if "gc_allowed_azp loaded = []"
    using that d(1) assms(2) ensure_azp_allowlist_open [OF d(1)] ensure_azp_allowlist_closed [OF d(1)]
    by (cases "gc_allow_open_azp loaded") auto
qed

lemma started_authenticator:
  assumes "start_gateway sn now loaded = Inr g"
  shows "\<exists>tc. sn_new_authenticator sn tc = Inr (gv_authenticator g) \<and> tc_mode tc = Introspection \<and>
    tc_introspection_cache_ttl_s tc = 0 \<and> tc_strict_oauth tc \<and> tc_issuer tc = gc_expected_issuer loaded \<and>
    tc_audience tc = gc_expected_audience loaded"
proof -
  note start = start_gatewayD [OF assms]
  obtain t where c: "gv_config g = loaded\<lparr>gc_allow_open_azp_expires_at := t\<rparr>"
    using validate_config_InrD(2) [OF start(1)] by blast
  show ?thesis
    using start(2) unfolding c
    by (intro exI [of _ "build_auth_config (sn_defaults sn) (loaded\<lparr>gc_allow_open_azp_expires_at := t\<rparr>)"])
      (simp add: build_auth_config_def)
qed

lemma accepted_party:
  assumes "fst (party_stage deps cfg ctx audit) = Inr ()" and "gc_allowed_azp cfg = gc_allowed_azp loaded"
    and "gc_allowed_azp loaded = [] \<Longrightarrow> \<not> blank (gc_allow_open_azp_reason loaded) \<and>
      (\<exists>t. gc_allow_open_azp_expires_at cfg = Some t \<and> now < t)"
  shows "if gc_allowed_azp loaded = []
    then \<not> blank (gc_allow_open_azp_reason loaded) \<and>
      (\<exists>t. gc_allow_open_azp_expires_at cfg = Some t \<and> now < t \<and> dp_now deps < t)
    else \<exists>azp. authorized_party ctx = Some azp \<and> azp \<in> set (gc_allowed_azp loaded)"
  using assms by (auto simp: party_stage_Inr_iff azp_allowlist_break_glass_expired_def not_le)

section \<open>Properties\<close>


definition sample_start :: "(toolkit_auth_config, string, string, string) start_env" where
  "sample_start = \<lparr>sn_install_crypto = True,
     sn_defaults = \<lparr>tc_mode = Jwks, tc_strict_oauth = False, tc_jwks_url = None, tc_issuer = None,
       tc_audience = None, tc_required_scopes = [], tc_actor_claim = ''sub'', tc_introspection_url = None,
       tc_introspection_client_id = None, tc_introspection_client_secret = None,
       tc_introspection_auth_method = ClientSecretBasic, tc_introspection_cache_ttl_s = 30,
       tc_introspection_force = False, tc_delegation_secret = None, tc_delegation_issuer = ''mcp-toolkit'',
       tc_delegation_audience = ''mcp-toolkit'', tc_jti_ttl_s = 0, tc_jti_cache_size = 0,
       tc_jti_enforce_bearer = False, tc_clock_skew_s = 0\<rparr>,
     sn_new_authenticator = Inr, sn_client_error = (\<lambda>_. None), sn_parse_addr = Some,
     sn_rustls = sample_rustls\<rparr>"

definition sample_service :: service_env where
  "sample_service = \<lparr>sv_matches = (\<lambda>pattern path.
       if pattern = ''/admin/{*path}'' then starts_with ''/admin/'' path \<and> path \<noteq> ''/admin/'' else path = pattern),
     sv_matrix = contains_char (CHR '';''), sv_confusion = contains_path_confusion\<rparr>"

lemma sample_started:
  obtains g where "start_gateway sample_start 0 sample_config = Inr g" and "gv_config g = sample_config"
proof -
  have "validate_config 0 sample_config = Inr sample_config" by code_simp
  moreover have "build_tls_config sample_rustls sample_config = Inr None"
    by (simp add: build_tls_config_def sample_config_def)
  ultimately show ?thesis
    using that by (simp add: start_gateway_def sample_start_def gateway_build_client_def ok_or_def)
qed

lemma sample_served:
  "UpstreamRequest sample_upstream \<in> set (calls (gateway_service sample_service sample_deps sample_config sample_request))"
proof -
  have "edge_guard (sv_matrix sample_service) (sv_confusion sample_service) (rq_path sample_request)
      (rq_headers sample_request) () = Inr ()"
    by code_simp
  moreover have "find (\<lambda>(pattern, _). sv_matches sample_service pattern (rq_path sample_request)) gateway_routes =
      Some (''/admin/{*path}'', ProxyAdmin)"
    by code_simp
  moreover have "extract_request_id sample_deps (rq_headers sample_request) = ''rid''"
    "extract_actor_id sample_deps (rq_headers sample_request) = None"
    by code_simp+
  ultimately have "calls (gateway_service sample_service sample_deps sample_config sample_request) =
      calls (handle_proxy sample_deps sample_config sample_request ''rid'' None)"
    by (simp add: gateway_service_def serve_route_def calls_proxy_admin)
  then show ?thesis using sample_run by simp
qed


end
