(* ===== verification/Json_Types.thy ===== *)
theory Json_Types
  imports Mcp_Service Gateway_Service
begin

text \<open>
  The types of the JSON documents the two servers write themselves: a typing relation on JSON values, the
  types of the errors, metadata and health documents, and that every document a server answers with has
  its type.
\<close>

section \<open>Types\<close>

text \<open>An object type lists the fields an object must have and those it may have; there are no others.\<close>

datatype json_type =
    TAny
  | TBool
  | TNumber
  | TString
  | TArray json_type
  | TObject "(string \<times> json_type) list" "(string \<times> json_type) list"
  | TUnion json_type json_type

inductive has_type :: "json \<Rightarrow> json_type \<Rightarrow> bool" where
  any: "has_type j TAny"
| bool: "has_type (JBool b) TBool"
| num: "has_type (JNum n) TNumber"
| str: "has_type (JStr s) TString"
| arr: "(\<And>v. v \<in> set vs \<Longrightarrow> has_type v t) \<Longrightarrow> has_type (JArr vs) (TArray t)"
| obj: "\<lbrakk>distinct (map fst fs);
     \<And>k t. (k, t) \<in> set required \<Longrightarrow> k \<in> fst ` set fs;
     \<And>k v. (k, v) \<in> set fs \<Longrightarrow> \<exists>t. (k, t) \<in> set (required @ optional) \<and> has_type v t\<rbrakk> \<Longrightarrow>
     has_type (JObj fs) (TObject required optional)"
| left: "has_type j t \<Longrightarrow> has_type j (TUnion t u)"
| right: "has_type j u \<Longrightarrow> has_type j (TUnion t u)"

declare has_type.any [intro] has_type.left [intro] has_type.right [intro]

inductive_simps has_type_simps [simp]:
  "has_type j TBool" "has_type j TNumber" "has_type j TString" "has_type j (TArray t)"
  "has_type j (TUnion t u)" "has_type j TAny"

inductive_simps has_object_type: "has_type j (TObject required optional)"

text \<open>A reader that expects a type finds every field it must have, with its type.\<close>

lemma typed_field:
  assumes "has_type j (TObject required optional)" and "(k, t) \<in> set required"
    and "distinct (map fst (required @ optional))"
  shows "\<exists>v. json_get j k = Some v \<and> has_type v t"
  using assms(1)
proof cases
  case (obj fs)
  from obj(3) [OF assms(2)] obtain v where v: "(k, v) \<in> set fs" by auto
  with obj(2) have "map_of fs k = Some v" by simp
  moreover from obj(4) [OF v] obtain t' where "(k, t') \<in> set (required @ optional)" "has_type v t'" by blast
  with assms(2,3) have "has_type v t" by (metis UnCI eq_key_imp_eq_value set_append)
  ultimately show ?thesis by (simp add: obj(1))
qed

lemma has_object_type_optI:
  assumes "list_all2 (\<lambda>(k, v) (k', t). k = k' \<and> has_type v t) fs (required @ present)"
    and "distinct (map fst (required @ present))" and "set present \<subseteq> set optional"
  shows "has_type (JObj fs) (TObject required optional)"
proof (rule has_type.obj)
  have keys: "map fst fs = map fst (required @ present)"
    using assms(1) by (induction rule: list_all2_induct) auto
  with assms(2) show "distinct (map fst fs)" by simp
  show "k \<in> fst ` set fs" if "(k, t) \<in> set required" for k t
  proof -
    from that have "k \<in> set (map fst (required @ present))" by (auto intro: rev_image_eqI)
    then show ?thesis unfolding keys [symmetric] by simp
  qed
  have "\<exists>t. (k, t) \<in> set (required @ present) \<and> has_type v t" if "(k, v) \<in> set fs" for k v
    using assms(1) that by (induction rule: list_all2_induct) auto
  with assms(3) show "\<exists>t. (k, t) \<in> set (required @ optional) \<and> has_type v t" if "(k, v) \<in> set fs" for k v
    using that by fastforce
qed

lemmas has_object_typeI = has_object_type_optI [where present = "[]", simplified]

section \<open>The documents\<close>

definition plain_error_type :: json_type where
  "plain_error_type = TObject [(''status'', TString), (''error'', TString), (''hint'', TString)] []"

definition rpc_error_type :: json_type where
  "rpc_error_type = TObject [(''jsonrpc'', TString), (''id'', TAny),
     (''error'', TObject [(''code'', TNumber), (''message'', TString),
        (''data'', TObject [(''hint'', TString), (''http_status'', TNumber)] [])] [])] []"

definition auth_error_type :: json_type where
  "auth_error_type =
     TObject [(''status'', TString), (''code'', TString), (''message'', TString), (''request_id'', TString)] []"

definition resource_metadata_type :: json_type where
  "resource_metadata_type = TObject [(''resource'', TString), (''authorization_servers'', TArray TString)]
     [(''scopes_supported'', TArray TString)]"

definition mcp_answer_type :: json_type where
  "mcp_answer_type = TUnion (TUnion plain_error_type rpc_error_type) (TUnion auth_error_type resource_metadata_type)"

definition gateway_answer_type :: json_type where
  "gateway_answer_type = TUnion (TObject [(''error'', TString), (''request_id'', TString)] [])
     (TObject [(''status'', TString)] [])"

lemma session_error_typed:
  "\<exists>j. mr_body (session_error status message hint i) = JsonText j \<and> has_type j mcp_answer_type"
proof (cases i)
  case None
  have "has_type (JObj [(''status'', JStr ''error''), (''error'', JStr message), (''hint'', JStr hint)]) plain_error_type"
    unfolding plain_error_type_def by (rule has_object_typeI) simp_all
  with None show ?thesis by (simp add: session_error_def mcp_answer_type_def)
next
  case (Some v)
  have inner: "has_type (JObj [(''hint'', JStr hint), (''http_status'', json_nat status)])
      (TObject [(''hint'', TString), (''http_status'', TNumber)] [])"
    by (rule has_object_typeI) (simp_all add: json_nat_def)
  have err: "has_type (JObj [(''code'', JNum (NegInt (- 32600))), (''message'', JStr message),
      (''data'', JObj [(''hint'', JStr hint), (''http_status'', json_nat status)])])
      (TObject [(''code'', TNumber), (''message'', TString),
        (''data'', TObject [(''hint'', TString), (''http_status'', TNumber)] [])] [])"
    by (rule has_object_typeI) (simp_all add: inner)
  have "has_type (JObj [(''jsonrpc'', JStr ''2.0''), (''id'', v),
      (''error'', JObj [(''code'', JNum (NegInt (- 32600))), (''message'', JStr message),
        (''data'', JObj [(''hint'', JStr hint), (''http_status'', json_nat status)])])]) rpc_error_type"
    unfolding rpc_error_type_def by (rule has_object_typeI) (simp_all add: err)
  with Some show ?thesis by (simp add: session_error_def mcp_answer_type_def)
qed

lemma auth_error_typed:
  "\<exists>j. mr_body (fst (auth_error_response ch cfg m rid err)) = JsonText j \<and> has_type j mcp_answer_type"
proof -
  have "has_type (JObj [(''status'', JStr ''error''), (''code'', JStr (auth_code err)),
      (''message'', JStr (auth_error_text err)), (''request_id'', JStr rid)]) auth_error_type"
    unfolding auth_error_type_def by (rule has_object_typeI) simp_all
  then show ?thesis by (simp add: auth_error_response_def mcp_answer_type_def)
qed

lemma strings_typed [simp]: "has_type (json_strs vs) (TArray TString)"
  by (auto simp: json_strs_def)

lemma resource_metadata_typed:
  "\<exists>j. mr_body (resource_metadata st) = JsonText j \<and> has_type j mcp_answer_type"
proof -
  let ?fs = "[(''resource'', JStr (mc_resource_url (ap_config st))),
      (''authorization_servers'', json_strs [as_issuer (ap_metadata st)])]"
  have "has_type (JObj (?fs @ (if vs = [] then [] else [(''scopes_supported'', json_strs vs)]))) resource_metadata_type" for vs
  proof (cases "vs = []")
    case True
    then show ?thesis
      unfolding resource_metadata_type_def by (intro has_object_type_optI [where present = "[]"]) (simp_all add: json_strs_def)
  next
    case False
    then show ?thesis
      unfolding resource_metadata_type_def
      by (intro has_object_type_optI [where present = "[(''scopes_supported'', TArray TString)]"])
        (auto simp: json_strs_def)
  qed
  then show ?thesis by (simp add: resource_metadata_def json_response_def mcp_answer_type_def)
qed

lemma error_response_typed:
  "\<exists>j. rs_body (error_response err rid) = JsonBody j \<and> has_type j gateway_answer_type"
proof -
  have "has_type (JObj [(''error'', JStr (error_text err)), (''request_id'', JStr rid)])
      (TObject [(''error'', TString), (''request_id'', TString)] [])"
    by (rule has_object_typeI) simp_all
  then show ?thesis by (simp add: error_response_def gateway_answer_type_def)
qed

lemma health_typed: "\<exists>j. rs_body health = JsonBody j \<and> has_type j gateway_answer_type"
proof -
  have "has_type (JObj [(''status'', JStr ''ok'')]) (TObject [(''status'', TString)] [])"
    by (rule has_object_typeI) simp_all
  then show ?thesis by (simp add: health_def gateway_answer_type_def)
qed

section \<open>What the servers answer\<close>

definition well_typed_answer :: "string \<Rightarrow> mcp_response \<Rightarrow> bool" where
  "well_typed_answer stream_type response \<longleftrightarrow>
     (case mr_body response of
        JsonText j \<Rightarrow> has_type j mcp_answer_type \<and>
          header_get (mr_headers response) ''content-type'' = Some ''application/json''
      | EventStream events \<Rightarrow> events \<noteq> [] \<and>
          header_get (mr_headers response) ''content-type'' = Some stream_type
      | OtherBody b \<Rightarrow> b = [])"

lemma lower_content_type: "to_ascii_lowercase ''content-type'' = ''content-type''" by code_simp

lemma session_error_answer: "well_typed_answer t (session_error status message hint i)"
  using session_error_typed [of status message hint i]
  by (auto simp: well_typed_answer_def) (simp add: session_error_def header_get_def lower_content_type)

lemma event_stream_answer: "events \<noteq> [] \<Longrightarrow> well_typed_answer (se_event_stream_type se) (event_stream se events)"
  by (simp add: well_typed_answer_def event_stream_def header_get_def lower_content_type)

lemma auth_error_answer: "well_typed_answer t (fst (auth_error_response ch cfg m rid err))"
  using auth_error_typed [of ch cfg m rid err]
  by (auto simp: well_typed_answer_def) (simp add: auth_error_response_def header_get_def lower_content_type)

lemma resource_metadata_answer: "well_typed_answer t (resource_metadata st)"
  using resource_metadata_typed [of st]
  by (auto simp: well_typed_answer_def)
    (simp add: resource_metadata_def json_response_def header_get_def lower_content_type)

lemma bare_answers [simp]:
  "well_typed_answer t (bare_status status)" "well_typed_answer t (oidc_metadata_redirect st)"
  "well_typed_answer t response \<Longrightarrow> well_typed_answer t (get_only m response)"
  by (simp_all add: well_typed_answer_def bare_status_def oidc_metadata_redirect_def get_only_def)

lemma header_get_insert_other:
  "to_ascii_lowercase name \<noteq> to_ascii_lowercase other \<Longrightarrow> header_get (header_insert hs other v) name = header_get hs name"
  by (induction hs) (auto simp: header_get_def header_insert_def header_remove_def)

lemma well_typed_request_id:
  "well_typed_answer t response \<Longrightarrow>
     well_typed_answer t (response\<lparr>mr_headers := header_insert (mr_headers response) ''x-request-id'' v\<rparr>)"
proof -
  have "to_ascii_lowercase ''content-type'' \<noteq> to_ascii_lowercase ''x-request-id''" by code_simp
  then show "well_typed_answer t response \<Longrightarrow> ?thesis"
    by (simp add: well_typed_answer_def header_get_insert_other split: mcp_body.splits)
qed

lemma dispatch_answer_typed:
  assumes "services (snd (handle_mcp se st req w)) = []"
  shows "well_typed_answer (se_event_stream_type se) (fst (fst (handle_mcp se st req w)))"
proof (cases "replayed se st req w")
  case None
  then show ?thesis
    using dispatch_own_answer [OF assms] session_error_answer by fastforce
next
  case (Some events)
  moreover from Some have "events \<noteq> []" by (auto simp: replayed_def bind_eq_Some_conv split: if_splits)
  ultimately show ?thesis using dispatch_own_answer [OF assms] event_stream_answer by fastforce
qed

lemma guarded_answer_typed:
  assumes "guarded_mcp ge se st req ((w, []), m) = (response, (w', evs), m')" and "services evs = []"
  shows "well_typed_answer (se_event_stream_type se) response"
proof (cases "mcp_edge_guard (mq_path req) (mq_headers req) ()")
  case (Inl status)
  with assms(1) show ?thesis by (auto simp: guarded_mcp_def)
next
  case edge: (Inr u)
  show ?thesis
  proof (cases "authenticate_request (ge_authenticate ge) (ge_now ge) (ge_unix_now ge) (mc_auth (ap_config st))
      (mq_headers req) (mcp_request_id (ge_uuid ge) (mq_headers req)) (mcp_actor_id (mq_headers req))")
    case (Inl err)
    then show ?thesis
      using assms(1) edge auth_error_answer [of _ "ge_bearer_challenge ge" "ap_config st" m
          "mcp_request_id (ge_uuid ge) (mq_headers req)" err]
      by (auto simp: guarded_mcp_def auth_guard_def Let_def split: prod.splits)
  next
    case (Inr caller)
    let ?lc = "new_log_context (mcp_request_id (ge_uuid ge) (mq_headers req)) (mcp_actor_id (mq_headers req))
      (header_value (mq_headers req) ''mcp-session-id'') (Some (method_str (mq_method req))) (Some (mq_path req))"
    let ?req = "req\<lparr>mq_caller := Some caller, mq_context := Some ?lc\<rparr>"
    obtain out w2 m2 evs2 where run: "handle_mcp se st ?req (w, m) = ((out, w2, m2), evs2)"
      by (metis prod.exhaust)
    with assms edge Inr have "services (snd (handle_mcp se st ?req (w, m))) = []"
      and "response = out \<or> response = out\<lparr>mr_headers := header_insert (mr_headers out) ''x-request-id''
        (mcp_request_id (ge_uuid ge) (mq_headers req))\<rparr>"
      by (auto simp: guarded_mcp_def auth_guard_def Let_def split: if_splits)
    with dispatch_answer_typed [of se st ?req "(w, m)"] run show ?thesis
      using well_typed_request_id by auto
  qed
qed

lemma forwarded_bytes:
  "fst (forward_stage deps cfg rq rid actor audit body t) = Inr (response, audit') \<Longrightarrow> \<exists>b. rs_body response = Bytes b"
  by (auto simp: forward_stage_def build_response_def Let_def split: sum.splits if_splits)

lemma handled_bytes:
  "fst (handle_proxy deps cfg rq rid actor) = Inr (response, audit) \<Longrightarrow> \<exists>b. rs_body response = Bytes b"
  by (auto simp: handle_proxy_def then_try_Inr_iff dest!: forwarded_bytes split: prod.splits)

lemma proxy_body:
  assumes "rs_body (fst (proxy_admin deps cfg rq)) = JsonBody j"
  shows "\<exists>err rid. fst (proxy_admin deps cfg rq) = error_response err rid"
proof (cases "fst (handle_proxy deps cfg rq (extract_request_id deps (rq_headers rq))
    (extract_actor_id deps (rq_headers rq)))")
  case (Inl e)
  then show ?thesis by (cases e) (auto simp: proxy_admin_def Let_def)
next
  case (Inr r)
  with assms handled_bytes [of deps cfg rq] show ?thesis
    by (cases r) (fastforce simp: proxy_admin_def Let_def)
qed

lemma serve_route_answers:
  "fst (serve_route deps cfg rq route) \<in> {health, health\<lparr>rs_body := Bytes []\<rparr>, fst (proxy_admin deps cfg rq)} \<or>
     (\<exists>n. fst (serve_route deps cfg rq route) = status_response n)"
  by (cases route) (auto simp: serve_route_def split: gateway_route.split)

lemma gateway_service_answers:
  "fst (gateway_service sv deps cfg rq) \<in> {health, health\<lparr>rs_body := Bytes []\<rparr>, fst (proxy_admin deps cfg rq)} \<or>
     (\<exists>n. fst (gateway_service sv deps cfg rq) = status_response n)"
proof (cases "edge_guard (sv_matrix sv) (sv_confusion sv) (rq_path rq) (rq_headers rq) ()")
  case (Inl n)
  then show ?thesis by (auto simp: gateway_service_def)
next
  case (Inr u)
  with serve_route_answers [of deps cfg rq] show ?thesis by (simp add: gateway_service_def)
qed

lemma gateway_answer_typed:
  "case rs_body (fst (gateway_service sv deps cfg rq)) of
     JsonBody j \<Rightarrow> has_type j gateway_answer_type \<and>
       header_get (rs_headers (fst (gateway_service sv deps cfg rq))) ''content-type'' = Some ''application/json''
   | Bytes _ \<Rightarrow> True"
proof -
  have err: "has_type j gateway_answer_type \<and> header_get (rs_headers r) ''content-type'' = Some ''application/json''"
    if "r = error_response e rid \<or> r = health" "rs_body r = JsonBody j" for r e rid j
    using that error_response_typed [of e rid] health_typed
    by (auto simp: error_response_def health_def header_get_def lower_content_type)
  let ?r = "fst (gateway_service sv deps cfg rq)"
  consider n where "?r = status_response n" | "?r = health" | "?r = health\<lparr>rs_body := Bytes []\<rparr>"
    | "?r = fst (proxy_admin deps cfg rq)"
    using gateway_service_answers [of sv deps cfg rq] by blast
  then show ?thesis
  proof cases
    case 4
    then show ?thesis using err proxy_body [of deps cfg rq] by (cases "rs_body ?r") fastforce+
  next
    case 2
    then show ?thesis using err [of ?r] by (cases "rs_body ?r") simp_all
  qed (simp_all add: status_response_def)
qed



end
