(* ===== verification/Tools_Users.thy ===== *)
theory Tools_Users
  imports Mcp_Tools
begin

text \<open>
  The user tools of the MCP server (\<open>tools/users.rs\<close> and \<open>tools/users/\<close>). The decoders
  \<open>serde\<close> derives for the representations are fields of \<open>user_decoders\<close>; a summary is written as
  the object \<open>serde\<close> derives for it, an absent field as \<open>null\<close>. Integers are the bits of their type.
\<close>

section \<open>Arguments and representations\<close>

record users_list_args =
  ul_realm :: string
  ul_search :: "string option"
  ul_max :: "32 word option"

record users_get_args =
  ug_realm :: string
  ug_user_id :: string

record users_create_args =
  uc_realm :: string
  uc_username :: string
  uc_email :: "string option"
  uc_first_name :: "string option"
  uc_last_name :: "string option"
  uc_enabled :: "bool option"

record users_delete_args =
  ud_realm :: string
  ud_user_id :: string

record users_reset_password_args =
  up_realm :: string
  up_user_id :: string
  up_new_password :: string
  up_temporary :: "bool option"

record users_required_actions_args =
  ur_realm :: string
  ur_user_id :: string
  ur_actions :: "string list"

record users_groups_list_args =
  ugl_realm :: string
  ugl_user_id :: string
  ugl_brief_representation :: "bool option"

record users_group_modify_args =
  ugm_realm :: string
  ugm_user_id :: string
  ugm_group_id :: string

record user_representation =
  us_id :: "string option"
  us_username :: "string option"
  us_email :: "string option"
  us_enabled :: "bool option"
  us_first_name :: "string option"
  us_last_name :: "string option"

record user_consent_representation =
  co_client_id :: "string option"
  co_created_date :: "64 word option"
  co_last_updated_date :: "64 word option"
  co_granted_client_scopes :: "string list option"

record user_group_representation =
  gr_id :: "string option"
  gr_name :: "string option"
  gr_path :: "string option"
  gr_sub_group_count :: "32 word option"

record user_session_representation =
  se_id :: "string option"
  se_user_id :: "string option"
  se_username :: "string option"
  se_ip_address :: "string option"
  se_start :: "64 word option"
  se_last_access :: "64 word option"
  se_clients :: "(string \<times> string) list option"
  se_transient_user :: "bool option"

record role_representation =
  ro_id :: "string option"
  ro_name :: "string option"
  ro_description :: "string option"
  ro_composite :: "bool option"
  ro_client_role :: "bool option"
  ro_container_id :: "string option"

record client_role_mapping_summary =
  cm_client_id :: "string option"
  cm_client_name :: "string option"
  cm_roles :: "role_representation list"

record user_decoders =
  de_user :: "json \<Rightarrow> user_representation option"
  de_consent :: "json \<Rightarrow> user_consent_representation option"
  de_group :: "json \<Rightarrow> user_group_representation option"
  de_session :: "json \<Rightarrow> user_session_representation option"
  de_role :: "json \<Rightarrow> role_representation option"

section \<open>Summaries\<close>

text \<open>A summary has the fields of its representation under other names.\<close>

definition user_summary :: "user_representation \<Rightarrow> json" where
  "user_summary v = JObj [(''id'', json_opt_str (us_id v)), (''username'', json_opt_str (us_username v)),
     (''email'', json_opt_str (us_email v)), (''enabled'', json_opt JBool (us_enabled v)),
     (''first_name'', json_opt_str (us_first_name v)), (''last_name'', json_opt_str (us_last_name v))]"

definition user_consent_summary :: "user_consent_representation \<Rightarrow> json" where
  "user_consent_summary v = JObj [(''client_id'', json_opt_str (co_client_id v)),
     (''created_date'', json_opt json_i64 (co_created_date v)),
     (''last_updated_date'', json_opt json_i64 (co_last_updated_date v)),
     (''granted_client_scopes'', json_opt (\<lambda>ss. JArr (map JStr ss)) (co_granted_client_scopes v))]"

definition user_group_summary :: "user_group_representation \<Rightarrow> json" where
  "user_group_summary v = JObj [(''id'', json_opt_str (gr_id v)), (''name'', json_opt_str (gr_name v)),
     (''path'', json_opt_str (gr_path v)), (''sub_group_count'', json_opt json_u32 (gr_sub_group_count v))]"

definition user_session_summary :: "user_session_representation \<Rightarrow> json" where
  "user_session_summary v = JObj [(''id'', json_opt_str (se_id v)), (''user_id'', json_opt_str (se_user_id v)),
     (''username'', json_opt_str (se_username v)), (''ip_address'', json_opt_str (se_ip_address v)),
     (''start'', json_opt json_i64 (se_start v)), (''last_access'', json_opt json_i64 (se_last_access v)),
     (''clients'', json_opt (\<lambda>kvs. JObj (map (\<lambda>(k, s). (k, JStr s)) kvs)) (se_clients v)),
     (''transient_user'', json_opt JBool (se_transient_user v))]"

definition role_summary :: "role_representation \<Rightarrow> json" where
  "role_summary v = JObj [(''id'', json_opt_str (ro_id v)), (''name'', json_opt_str (ro_name v)),
     (''description'', json_opt_str (ro_description v)), (''composite'', json_opt JBool (ro_composite v)),
     (''client_role'', json_opt JBool (ro_client_role v)),
     (''container_id'', json_opt_str (ro_container_id v))]"

definition role_summary_from_value ::
  "(json \<Rightarrow> role_representation option) \<Rightarrow> json \<Rightarrow> role_representation" where
  "role_summary_from_value decode v =
     (case decode v of
        Some r \<Rightarrow> r
      | None \<Rightarrow> \<lparr>ro_id = None, ro_name = None, ro_description = None, ro_composite = None,
          ro_client_role = None, ro_container_id = None\<rparr>)"

definition client_role_mapping_json :: "client_role_mapping_summary \<Rightarrow> json" where
  "client_role_mapping_json v = JObj [(''client_id'', json_opt_str (cm_client_id v)),
     (''client_name'', json_opt_str (cm_client_name v)), (''roles'', JArr (map role_summary (cm_roles v)))]"

definition summaries :: "(json \<Rightarrow> 'a option) \<Rightarrow> ('a \<Rightarrow> json) \<Rightarrow> json \<Rightarrow> json" where
  "summaries decode summarize payload =
     JArr (map summarize (decode_items decode payload))"

section \<open>Paths\<close>

definition users_path :: "string \<Rightarrow> string" where
  "users_path realm = ''/admin/realms/'' @ realm @ ''/users''"

definition user_path :: "string \<Rightarrow> string \<Rightarrow> string" where
  "user_path realm user_id = users_path realm @ ''/'' @ user_id"

section \<open>Users (users/core.rs)\<close>

definition users_list ::
  "tool_env \<Rightarrow> user_decoders \<Rightarrow> caller option \<Rightarrow> users_list_args \<Rightarrow> tool" where
  "users_list te de parts args =
     validated (validate_realm_name (ul_realm args))
     (let scopes = ts_read (sm_users (mc_scope_map (te_config te))) in
      or_return (authorize_tool (te_config te) parts scopes) (\<lambda>ctx.
      let query = (case ul_search args of Some search \<Rightarrow> [(''search'', search)] | None \<Rightarrow> []) @
            (case ul_max args of Some n \<Rightarrow> [(''max'', show_u32 n)] | None \<Rightarrow> [])
      in try_prog (call_gateway te ctx GET (users_path (ul_realm args)) query None) (\<lambda>payload.
           reply_json [(''users'', summaries (de_user de) user_summary payload)])))"

definition users_get ::
  "tool_env \<Rightarrow> user_decoders \<Rightarrow> caller option \<Rightarrow> users_get_args \<Rightarrow> tool" where
  "users_get te de parts args =
     validated (validate_realm_name (ug_realm args))
     (validated (validate_uuid (te_parse_uuid te) (ug_user_id args) ''user_id'')
     (let scopes = ts_read (sm_users (mc_scope_map (te_config te))) in
      or_return (authorize_tool (te_config te) parts scopes) (\<lambda>ctx.
      try_prog (call_gateway te ctx GET (user_path (ug_realm args) (ug_user_id args)) [] None) (\<lambda>payload.
        case de_user de payload of
          Some user \<Rightarrow> reply_json [(''user'', user_summary user)]
        | None \<Rightarrow> Done (Inl (InternalError ''unexpected response from gateway'' NoData))))))"

definition users_create :: "tool_env \<Rightarrow> caller option \<Rightarrow> users_create_args \<Rightarrow> tool" where
  "users_create te parts args =
     validated (validate_realm_name (uc_realm args))
     (validated (validate_no_path_traversal (uc_username args) ''username'')
     (let scopes = ts_write (sm_users (mc_scope_map (te_config te))) in
      or_return (authorize_tool (te_config te) parts scopes) (\<lambda>ctx.
      let body = JObj [(''username'', JStr (uc_username args)), (''email'', json_opt_str (uc_email args)),
            (''firstName'', json_opt_str (uc_first_name args)),
            (''lastName'', json_opt_str (uc_last_name args)),
            (''enabled'', JBool (case uc_enabled args of Some b \<Rightarrow> b | None \<Rightarrow> True))]
      in try_prog (call_gateway te ctx POST (users_path (uc_realm args)) [] (Some body))
           (\<lambda>_. Done (Inr (tool_text_result ''User created.''))))))"

definition users_delete :: "tool_env \<Rightarrow> caller option \<Rightarrow> users_delete_args \<Rightarrow> tool" where
  "users_delete te parts args =
     validated (validate_realm_name (ud_realm args))
     (validated (validate_uuid (te_parse_uuid te) (ud_user_id args) ''user_id'')
     (let scopes = ts_write (sm_users (mc_scope_map (te_config te))) in
      or_return (authorize_tool (te_config te) parts scopes) (\<lambda>ctx.
      try_prog (call_gateway te ctx DELETE (user_path (ud_realm args) (ud_user_id args)) [] None)
        (\<lambda>_. reply_json [(''deleted'', JBool True)]))))"

section \<open>Credentials (users/password.rs)\<close>

definition users_reset_password ::
  "tool_env \<Rightarrow> caller option \<Rightarrow> users_reset_password_args \<Rightarrow> tool" where
  "users_reset_password te parts args =
     validated (validate_realm_name (up_realm args))
     (validated (validate_uuid (te_parse_uuid te) (up_user_id args) ''user_id'')
     (let scopes = ts_write (sm_users (mc_scope_map (te_config te))) in
      or_return (authorize_tool (te_config te) parts scopes) (\<lambda>ctx.
      if trim (up_new_password args) = [] then
        Done (Inr (tool_error ''users.reset_password.invalid_password''
          ''new_password is required.'' (cl_request_id ctx)))
      else
        (let body = JObj [(''type'', JStr ''password''), (''value'', JStr (up_new_password args)),
               (''temporary'', JBool (case up_temporary args of Some b \<Rightarrow> b | None \<Rightarrow> True))]
         in try_prog (call_gateway te ctx PUT
              (user_path (up_realm args) (up_user_id args) @ ''/reset-password'') [] (Some body))
              (\<lambda>_. reply_json [(''reset'', JBool True)])))))"

definition users_required_actions_set ::
  "tool_env \<Rightarrow> caller option \<Rightarrow> users_required_actions_args \<Rightarrow> tool" where
  "users_required_actions_set te parts args =
     validated (validate_realm_name (ur_realm args))
     (validated (validate_uuid (te_parse_uuid te) (ur_user_id args) ''user_id'')
     (let scopes = ts_write (sm_users (mc_scope_map (te_config te))) in
      or_return (authorize_tool (te_config te) parts scopes) (\<lambda>ctx.
      let body = JObj [(''requiredActions'', JArr (map JStr (ur_actions args)))]
      in try_prog (call_gateway te ctx PUT (user_path (ur_realm args) (ur_user_id args)) [] (Some body))
           (\<lambda>_. reply_json [(''ok'', JBool True)]))))"

section \<open>Group membership (users/groups.rs)\<close>

definition users_groups_list ::
  "tool_env \<Rightarrow> user_decoders \<Rightarrow> caller option \<Rightarrow> users_groups_list_args \<Rightarrow> tool" where
  "users_groups_list te de parts args =
     validated (validate_realm_name (ugl_realm args))
     (validated (validate_uuid (te_parse_uuid te) (ugl_user_id args) ''user_id'')
     (let scopes = ts_read (sm_users (mc_scope_map (te_config te))) in
      or_return (authorize_tool (te_config te) parts scopes) (\<lambda>ctx.
      let query = (case ugl_brief_representation args of
              Some brief \<Rightarrow> [(''briefRepresentation'', show_bool brief)] | None \<Rightarrow> [])
      in try_prog (call_gateway te ctx GET (user_path (ugl_realm args) (ugl_user_id args) @ ''/groups'') query None)
           (\<lambda>payload.
              reply_json [(''groups'', summaries (de_group de) user_group_summary payload)]))))"

definition users_groups_add :: "tool_env \<Rightarrow> caller option \<Rightarrow> users_group_modify_args \<Rightarrow> tool" where
  "users_groups_add te parts args =
     validated (validate_realm_name (ugm_realm args))
     (validated (validate_uuid (te_parse_uuid te) (ugm_user_id args) ''user_id'')
     (validated (validate_uuid (te_parse_uuid te) (ugm_group_id args) ''group_id'')
     (let scopes = ts_write (sm_users (mc_scope_map (te_config te))) in
      or_return (authorize_tool (te_config te) parts scopes) (\<lambda>ctx.
      try_prog (call_gateway te ctx PUT
        (user_path (ugm_realm args) (ugm_user_id args) @ ''/groups/'' @ ugm_group_id args) [] None)
        (\<lambda>_. reply_json [(''ok'', JBool True)])))))"

text \<open>The removal checks neither scopes nor roles.\<close>

definition users_groups_remove :: "tool_env \<Rightarrow> caller option \<Rightarrow> users_group_modify_args \<Rightarrow> tool" where
  "users_groups_remove te parts args =
     validated (validate_realm_name (ugm_realm args))
     (validated (validate_uuid (te_parse_uuid te) (ugm_user_id args) ''user_id'')
     (validated (validate_uuid (te_parse_uuid te) (ugm_group_id args) ''group_id'')
     (or_return (auth_from_parts parts) (\<lambda>ctx.
      try_prog (call_gateway te ctx DELETE
        (user_path (ugm_realm args) (ugm_user_id args) @ ''/groups/'' @ ugm_group_id args) [] None)
        (\<lambda>_. reply_json [(''ok'', JBool True)])))))"

section \<open>Access (users/access.rs)\<close>

definition users_role_mappings_realm ::
  "tool_env \<Rightarrow> user_decoders \<Rightarrow> caller option \<Rightarrow> users_get_args \<Rightarrow> tool" where
  "users_role_mappings_realm te de parts args =
     validated (validate_realm_name (ug_realm args))
     (validated (validate_uuid (te_parse_uuid te) (ug_user_id args) ''user_id'')
     (let scopes = ts_read (sm_users (mc_scope_map (te_config te))) in
      or_return (authorize_tool (te_config te) parts scopes) (\<lambda>ctx.
      try_prog (call_gateway te ctx GET (user_path (ug_realm args) (ug_user_id args) @ ''/role-mappings/realm'')
        [] None)
        (\<lambda>payload. reply_json [(''roles'', summaries (de_role de) role_summary payload)]))))"

definition client_role_mapping ::
  "(json \<Rightarrow> role_representation option) \<Rightarrow> string \<times> json \<Rightarrow> client_role_mapping_summary" where
  "client_role_mapping decode entry =
     (let (client_id, mapping_value) = entry in
      \<lparr>cm_client_id = Some client_id,
       cm_client_name = Option.bind (json_get mapping_value ''client'') as_str,
       cm_roles = map (role_summary_from_value decode)
         (case json_get mapping_value ''mappings'' of Some v \<Rightarrow> json_items v | None \<Rightarrow> [])\<rparr>)"

definition users_role_mappings_clients ::
  "tool_env \<Rightarrow> user_decoders \<Rightarrow> caller option \<Rightarrow> users_get_args \<Rightarrow> tool" where
  "users_role_mappings_clients te de parts args =
     validated (validate_realm_name (ug_realm args))
     (validated (validate_uuid (te_parse_uuid te) (ug_user_id args) ''user_id'')
     (let scopes = ts_read (sm_users (mc_scope_map (te_config te))) in
      or_return (authorize_tool (te_config te) parts scopes) (\<lambda>ctx.
      try_prog (call_gateway te ctx GET (user_path (ug_realm args) (ug_user_id args) @ ''/role-mappings'') [] None)
        (\<lambda>payload.
           let mappings = (case json_get payload ''clientMappings'' of Some (JObj fs) \<Rightarrow> fs | _ \<Rightarrow> [])
           in reply_json [(''clients'',
                JArr (map (client_role_mapping_json \<circ> client_role_mapping (de_role de)) mappings))]))))"

definition users_consent_list ::
  "tool_env \<Rightarrow> user_decoders \<Rightarrow> caller option \<Rightarrow> users_get_args \<Rightarrow> tool" where
  "users_consent_list te de parts args =
     validated (validate_realm_name (ug_realm args))
     (validated (validate_uuid (te_parse_uuid te) (ug_user_id args) ''user_id'')
     (let scopes = ts_read (sm_users (mc_scope_map (te_config te))) in
      or_return (authorize_tool (te_config te) parts scopes) (\<lambda>ctx.
      try_prog (call_gateway te ctx GET (user_path (ug_realm args) (ug_user_id args) @ ''/consents'') [] None)
        (\<lambda>payload. reply_json [(''consents'',
           summaries (de_consent de) user_consent_summary payload)]))))"

definition users_sessions_list ::
  "tool_env \<Rightarrow> user_decoders \<Rightarrow> caller option \<Rightarrow> users_get_args \<Rightarrow> tool" where
  "users_sessions_list te de parts args =
     validated (validate_realm_name (ug_realm args))
     (validated (validate_uuid (te_parse_uuid te) (ug_user_id args) ''user_id'')
     (let scopes = ts_read (sm_users (mc_scope_map (te_config te))) in
      or_return (authorize_tool (te_config te) parts scopes) (\<lambda>ctx.
      try_prog (call_gateway te ctx GET (user_path (ug_realm args) (ug_user_id args) @ ''/sessions'') [] None)
        (\<lambda>payload. reply_json [(''sessions'',
           summaries (de_session de) user_session_summary payload)]))))"

definition users_sessions_logout :: "tool_env \<Rightarrow> caller option \<Rightarrow> users_get_args \<Rightarrow> tool" where
  "users_sessions_logout te parts args =
     validated (validate_realm_name (ug_realm args))
     (validated (validate_uuid (te_parse_uuid te) (ug_user_id args) ''user_id'')
     (let scopes = ts_write (sm_users (mc_scope_map (te_config te))) in
      or_return (authorize_tool (te_config te) parts scopes) (\<lambda>ctx.
      try_prog (call_gateway te ctx POST (user_path (ug_realm args) (ug_user_id args) @ ''/logout'') [] None)
        (\<lambda>_. reply_json [(''ok'', JBool True)]))))"

section \<open>The router of the user tools (users.rs)\<close>

datatype users_call =
    UsersList users_list_args
  | UsersGet users_get_args
  | UsersCreate users_create_args
  | UsersDelete users_delete_args
  | UsersResetPassword users_reset_password_args
  | UsersRequiredActionsSet users_required_actions_args
  | UsersGroupsList users_groups_list_args
  | UsersGroupsAdd users_group_modify_args
  | UsersGroupsRemove users_group_modify_args
  | UsersRoleMappingsRealm users_get_args
  | UsersRoleMappingsClients users_get_args
  | UsersConsentList users_get_args
  | UsersSessionsList users_get_args
  | UsersSessionsLogout users_get_args

fun users_tool_name :: "users_call \<Rightarrow> string" where
  "users_tool_name (UsersList _) = ''users.list''"
| "users_tool_name (UsersGet _) = ''users.get''"
| "users_tool_name (UsersCreate _) = ''users.create''"
| "users_tool_name (UsersDelete _) = ''users.delete''"
| "users_tool_name (UsersResetPassword _) = ''users.reset_password''"
| "users_tool_name (UsersRequiredActionsSet _) = ''users.required_actions.set''"
| "users_tool_name (UsersGroupsList _) = ''users.groups.list''"
| "users_tool_name (UsersGroupsAdd _) = ''users.groups.add''"
| "users_tool_name (UsersGroupsRemove _) = ''users.groups.remove''"
| "users_tool_name (UsersRoleMappingsRealm _) = ''users.role_mappings.realm''"
| "users_tool_name (UsersRoleMappingsClients _) = ''users.role_mappings.clients''"
| "users_tool_name (UsersConsentList _) = ''users.consent.list''"
| "users_tool_name (UsersSessionsList _) = ''users.sessions.list''"
| "users_tool_name (UsersSessionsLogout _) = ''users.sessions.logout''"

fun users_tool :: "tool_env \<Rightarrow> user_decoders \<Rightarrow> caller option \<Rightarrow> users_call \<Rightarrow> tool" where
  "users_tool te de parts (UsersList args) = users_list te de parts args"
| "users_tool te de parts (UsersGet args) = users_get te de parts args"
| "users_tool te de parts (UsersCreate args) = users_create te parts args"
| "users_tool te de parts (UsersDelete args) = users_delete te parts args"
| "users_tool te de parts (UsersResetPassword args) = users_reset_password te parts args"
| "users_tool te de parts (UsersRequiredActionsSet args) = users_required_actions_set te parts args"
| "users_tool te de parts (UsersGroupsList args) = users_groups_list te de parts args"
| "users_tool te de parts (UsersGroupsAdd args) = users_groups_add te parts args"
| "users_tool te de parts (UsersGroupsRemove args) = users_groups_remove te parts args"
| "users_tool te de parts (UsersRoleMappingsRealm args) = users_role_mappings_realm te de parts args"
| "users_tool te de parts (UsersRoleMappingsClients args) = users_role_mappings_clients te de parts args"
| "users_tool te de parts (UsersConsentList args) = users_consent_list te de parts args"
| "users_tool te de parts (UsersSessionsList args) = users_sessions_list te de parts args"
| "users_tool te de parts (UsersSessionsLogout args) = users_sessions_logout te parts args"

section \<open>What each user tool sends, and when\<close>

text \<open>The specification of the family as tables: method, path, query, body, arguments and gate.\<close>

fun users_target :: "users_call \<Rightarrow> string \<times> string list" where
  "users_target (UsersList a) = (ul_realm a, [])"
| "users_target (UsersGet a) = (ug_realm a, [ug_user_id a])"
| "users_target (UsersCreate a) = (uc_realm a, [])"
| "users_target (UsersDelete a) = (ud_realm a, [ud_user_id a])"
| "users_target (UsersResetPassword a) = (up_realm a, [up_user_id a, ''reset-password''])"
| "users_target (UsersRequiredActionsSet a) = (ur_realm a, [ur_user_id a])"
| "users_target (UsersGroupsList a) = (ugl_realm a, [ugl_user_id a, ''groups''])"
| "users_target (UsersGroupsAdd a) = (ugm_realm a, [ugm_user_id a, ''groups'', ugm_group_id a])"
| "users_target (UsersGroupsRemove a) = (ugm_realm a, [ugm_user_id a, ''groups'', ugm_group_id a])"
| "users_target (UsersRoleMappingsRealm a) = (ug_realm a, [ug_user_id a, ''role-mappings'', ''realm''])"
| "users_target (UsersRoleMappingsClients a) = (ug_realm a, [ug_user_id a, ''role-mappings''])"
| "users_target (UsersConsentList a) = (ug_realm a, [ug_user_id a, ''consents''])"
| "users_target (UsersSessionsList a) = (ug_realm a, [ug_user_id a, ''sessions''])"
| "users_target (UsersSessionsLogout a) = (ug_realm a, [ug_user_id a, ''logout''])"

fun users_method :: "users_call \<Rightarrow> http_method" where
  "users_method (UsersCreate _) = POST"
| "users_method (UsersDelete _) = DELETE"
| "users_method (UsersResetPassword _) = PUT"
| "users_method (UsersRequiredActionsSet _) = PUT"
| "users_method (UsersGroupsAdd _) = PUT"
| "users_method (UsersGroupsRemove _) = DELETE"
| "users_method (UsersSessionsLogout _) = POST"
| "users_method _ = GET"

fun users_query :: "users_call \<Rightarrow> (string \<times> string) list" where
  "users_query (UsersList a) = opt_param ''search'' id (ul_search a) @
     opt_param ''max'' show_u32 (ul_max a)"
| "users_query (UsersGroupsList a) =
     opt_param ''briefRepresentation'' show_bool (ugl_brief_representation a)"
| "users_query _ = []"

fun users_body :: "users_call \<Rightarrow> json option" where
  "users_body (UsersCreate a) = Some (JObj [(''username'', JStr (uc_username a)),
     (''email'', json_opt_str (uc_email a)), (''firstName'', json_opt_str (uc_first_name a)),
     (''lastName'', json_opt_str (uc_last_name a)),
     (''enabled'', JBool (case uc_enabled a of Some b \<Rightarrow> b | None \<Rightarrow> True))])"
| "users_body (UsersResetPassword a) = Some (JObj [(''type'', JStr ''password''),
     (''value'', JStr (up_new_password a)),
     (''temporary'', JBool (case up_temporary a of Some b \<Rightarrow> b | None \<Rightarrow> True))])"
| "users_body (UsersRequiredActionsSet a) =
     Some (JObj [(''requiredActions'', JArr (map JStr (ur_actions a)))])"
| "users_body _ = None"

definition users_path_segments :: "users_call \<Rightarrow> string list" where
  "users_path_segments call =
     [''admin'', ''realms'', fst (users_target call), ''users''] @ snd (users_target call)"

definition users_request :: "caller \<Rightarrow> users_call \<Rightarrow> gateway_call" where
  "users_request ctx call = gateway_request ctx (users_method call)
     (''/'' @ join ''/'' (users_path_segments call)) (users_query call) (users_body call)"

definition users_gate :: "scope_map \<Rightarrow> users_call \<Rightarrow> string list" where
  "users_gate m call =
     (case call of
        UsersGroupsRemove _ \<Rightarrow> []
      | _ \<Rightarrow> if users_method call = GET then ts_read (sm_users m) else ts_write (sm_users m))"

text \<open>The first segment after \<open>users\<close> is the user id, the third the group id.\<close>

definition users_valid :: "tool_env \<Rightarrow> users_call \<Rightarrow> bool" where
  "users_valid te call =
     (let is_uuid = (\<lambda>s. te_parse_uuid te s \<noteq> None) in
      validate_realm_name (fst (users_target call)) = Inr () \<and>
      (case call of
         UsersCreate a \<Rightarrow> validate_no_path_traversal (uc_username a) ''username'' = Inr ()
       | UsersResetPassword a \<Rightarrow> is_uuid (up_user_id a) \<and> trim (up_new_password a) \<noteq> []
       | UsersGroupsAdd a \<Rightarrow> is_uuid (ugm_user_id a) \<and> is_uuid (ugm_group_id a)
       | UsersGroupsRemove a \<Rightarrow> is_uuid (ugm_user_id a) \<and> is_uuid (ugm_group_id a)
       | _ \<Rightarrow> list_all is_uuid (take 1 (snd (users_target call)))))"

lemmas users_tool_defs = users_list_def users_get_def users_create_def users_delete_def
  users_reset_password_def users_required_actions_set_def users_groups_list_def users_groups_add_def
  users_groups_remove_def users_role_mappings_realm_def users_role_mappings_clients_def
  users_consent_list_def users_sessions_list_def users_sessions_logout_def

lemma users_tool_sends:
  "q \<in> calls_of (users_tool te de parts call) \<longleftrightarrow>
     users_valid te call \<and>
     (\<exists>ctx. authorize_tool (te_config te) parts (users_gate (mc_scope_map (te_config te)) call) = Inr ctx \<and>
            te_joins te (gq_path (users_request ctx call)) \<and> q = users_request ctx call)"
  by (cases call)
    (auto simp: users_tool_defs users_valid_def users_gate_def users_request_def users_path_segments_def
       users_path_def user_path_def opt_param_def Let_def authorize_ungated prog_simps
       split: if_splits option.splits)

declare users_tool.simps [simp del]

interpretation users: single_request_family users_tool users_gate users_valid users_request
  by unfold_locales (auto simp: users_tool_sends users_request_def)

interpretation users: reading_family users_tool users_gate
  by unfold_locales
    (auto simp: sends_def users.exact is_get_def users_request_def gateway_request_def users_gate_def
       split: users_call.splits if_splits)

section \<open>Where the requests go\<close>

lemma users_path_plain:
  assumes "parses_uuid_text (te_parse_uuid te)" and "users_valid te call"
  shows "\<forall>s \<in> set (users_path_segments call). plain_segment s"
  using assms
  by (cases call)
    (auto simp: users_valid_def users_path_segments_def word_plain Let_def
       intro: realm_plain uuid_plain)

lemma users_required_scopes:
  "required_scopes m ([''admin'', ''realms'', realm, ''users''] @ rest) query held =
     (if is_read_method m then USERS_READ_SCOPE else USERS_WRITE_SCOPE)"
  by (simp add: required_scopes_def candidates_by_family rw_scope_candidates_def scope_family_def)

section \<open>Properties\<close>


text \<open>
  C27: The path of a user tool's request names the users of the realm of its arguments and nothing
  else: no argument adds, drops or escapes a segment, the gateway's allowlist, matrix and edge checks
  pass, and the scopes the gateway then enforces are the read or write scope of users, as the tool's
  own default gate. It rests on what \<open>Uuid::parse_str\<close> accepts.
\<close>

theorem users_requests_confined:
  assumes "parses_uuid_text (te_parse_uuid te)"
    and "q \<in> calls_of (users_tool te de parts call)"
  shows "path_segments (gq_path q) =
      [''admin'', ''realms'', fst (users_target call), ''users''] @ snd (users_target call) \<and>
    is_allowlisted_admin_path (path_segments (gq_path q)) \<and>
    \<not> contains_matrix_params (gq_path q) \<and> \<not> contains_path_confusion (gq_path q) \<and>
    required_scopes (gq_method q) (path_segments (gq_path q)) query held =
      (if gq_method q = GET then ts_read (sm_users default_scope_map)
       else ts_write (sm_users default_scope_map))"
proof (intro conjI)
  from assms(2) obtain ctx where valid: "users_valid te call" and q: "q = users_request ctx call"
    unfolding users.exact by blast
  have path: "gq_path q = ''/'' @ join ''/'' (users_path_segments call)"
    by (simp add: q users_request_def)
  note plain = users_path_plain [OF assms(1) valid]
  show segments: "path_segments (gq_path q) =
      [''admin'', ''realms'', fst (users_target call), ''users''] @ snd (users_target call)"
    unfolding path plain_segments_path(1) [OF plain] by (simp add: users_path_segments_def)
  show "is_allowlisted_admin_path (path_segments (gq_path q))" unfolding segments by simp
  show "\<not> contains_matrix_params (gq_path q)" "\<not> contains_path_confusion (gq_path q)"
    unfolding path using plain_segments_path(2,3) [OF plain] by simp_all
  have "gq_method q = users_method call" by (simp add: q users_request_def)
  then have "is_read_method (gq_method q) \<longleftrightarrow> gq_method q = GET"
    by (cases call) (simp_all add: is_read_method_def)
  then show "required_scopes (gq_method q) (path_segments (gq_path q)) query held =
      (if gq_method q = GET then ts_read (sm_users default_scope_map)
       else ts_write (sm_users default_scope_map))"
    unfolding segments users_required_scopes
    by (simp add: default_scope_map_def USERS_READ_SCOPE_def USERS_WRITE_SCOPE_def)
qed

definition sample_delete :: users_call where
  "sample_delete = UsersDelete \<lparr>ud_realm = ''master'', ud_user_id = sample_uuid\<rparr>"

lemma sample_delete_sends:
  "users_request sample_caller sample_delete \<in>
     calls_of (users_tool sample_tool_env de (Some sample_caller) sample_delete)"
  unfolding users_tool_sends
  by (simp add: authorize_tool_Inr require_roles_Inr classify_scopes_def write_scopes_def
      read_scopes_def users_valid_def users_gate_def sample_delete_def sample_tool_env_def
      sample_caller_def sample_mcp_config_def default_scope_map_def validate_realm_name_def realm_char_def is_alpha_def Let_def)

theorem users_requests_confined_witness:
  "path_segments (gq_path (users_request sample_caller sample_delete)) =
     [''admin'', ''realms'', ''master'', ''users'', sample_uuid]"
  using users_requests_confined [OF sample_uuid_text sample_delete_sends]
  by (simp add: sample_delete_def)

text \<open>
  \<open>users.groups.remove\<close> is not gated: a caller whose token has no scope and no role at all makes
  the same DELETE request as one that has them. What stops it is the gateway, which asks for the write
  scope of users on that path.
\<close>

theorem group_removal_ungated:
  "calls_of (users_tool te de (Some (ctx\<lparr>cl_scopes := [], cl_roles := []\<rparr>)) (UsersGroupsRemove args)) =
     calls_of (users_tool te de (Some ctx) (UsersGroupsRemove args)) \<and>
   (enforce_scopes held (required_scopes DELETE
       [''admin'', ''realms'', ugm_realm args, ''users'', ugm_user_id args, ''groups'', ugm_group_id args]
       query held) = Inr () \<longleftrightarrow> ''keycloak-admin:users:write'' \<in> set held)"
proof
  have "gateway_request (ctx\<lparr>cl_scopes := [], cl_roles := []\<rparr>) = gateway_request ctx"
    by (intro ext) (simp add: gateway_request_def)
  then show "calls_of (users_tool te de (Some (ctx\<lparr>cl_scopes := [], cl_roles := []\<rparr>)) (UsersGroupsRemove args)) =
     calls_of (users_tool te de (Some ctx) (UsersGroupsRemove args))"
    by (auto simp: users_tool_sends users_gate_def authorize_ungated users_request_def users_valid_def Let_def)
  show "enforce_scopes held (required_scopes DELETE
       [''admin'', ''realms'', ugm_realm args, ''users'', ugm_user_id args, ''groups'', ugm_group_id args]
       query held) = Inr () \<longleftrightarrow> ''keycloak-admin:users:write'' \<in> set held"
    using users_required_scopes [of DELETE "ugm_realm args" "[ugm_user_id args, ''groups'', ugm_group_id args]"]
    by (simp add: is_read_method_def USERS_WRITE_SCOPE_def del: enforce_scopes.simps)
qed

end
