(* ===== verification/Client_Lookup.thy ===== *)
theory Client_Lookup
  imports Mcp_Tools "HOL-Library.Product_Lexorder" "HOL-Library.Multiset"
begin

text \<open>
  What the client tools share (\<open>tools/clients.rs\<close>): the representations, the search ranking, and
  the programs that resolve a client, the client scopes of a realm, and scope tokens to ids.
  The decoders \<open>serde\<close> derives, the texts of an \<open>McpError\<close> and of a \<open>MutationOutcome\<close>, the text of a
  truncated summary (whose ellipsis is no \<open>char\<close>) and \<open>Regex::new\<close> are fields of \<open>client_env\<close>.
\<close>

section \<open>Representations and summaries\<close>

record client_representation =
  cr_id :: "string option"
  cr_client_id :: "string option"
  cr_name :: "string option"
  cr_enabled :: "bool option"
  cr_protocol :: "string option"
  cr_public_client :: "bool option"
  cr_created_timestamp :: "64 word option"
  cr_service_accounts_enabled :: "bool option"

record client_scope_representation =
  sr_id :: "string option"
  sr_name :: "string option"
  sr_protocol :: "string option"
  sr_description :: "string option"

record protocol_mapper_representation =
  pm_id :: "string option"
  pm_name :: "string option"
  pm_protocol :: "string option"
  pm_protocol_mapper :: "string option"
  pm_config :: "(string \<times> string) list option"

record client_role_representation =
  rr_id :: "string option"
  rr_name :: "string option"
  rr_description :: "string option"
  rr_composite :: "bool option"
  rr_client_role :: "bool option"
  rr_container_id :: "string option"

record client_role_mappings =
  crm_client :: "string option"
  crm_mappings :: "client_role_representation list option"

record role_mappings =
  rm_realm_mappings :: "client_role_representation list option"
  rm_client_mappings :: "(string \<times> client_role_mappings) list option"

record client_summary =
  cs_id :: "string option"
  cs_keycloak_id :: "string option"
  cs_client_id :: "string option"
  cs_name :: "string option"
  cs_enabled :: "bool option"
  cs_protocol :: "string option"
  cs_created_at :: "64 word option"
  cs_public_client :: "bool option"
  cs_service_accounts_enabled :: "bool option"

text \<open>The outcomes of a mutation (\<open>MutationOutcome\<close> of the toolkit) the tools report.\<close>

datatype mutation_outcome =
    AlreadyBound | AlreadyUnbound | AlreadyMatch | WouldAdd | WouldRemove | WouldUpdate
  | Added | Removed | Updated

record client_env =
  ce_client :: "json \<Rightarrow> client_representation option"
  ce_scope :: "json \<Rightarrow> client_scope_representation option"
  ce_mapper :: "json \<Rightarrow> protocol_mapper_representation option"
  ce_role :: "json \<Rightarrow> client_role_representation option"
  ce_role_mappings :: "json \<Rightarrow> role_mappings option"
  ce_error_text :: "mcp_error \<Rightarrow> string"
  ce_summary_text :: "string \<times> bool \<Rightarrow> string"
  ce_regex :: "string \<Rightarrow> (string \<Rightarrow> bool) option"
  ce_outcome_text :: "mutation_outcome \<Rightarrow> string"

definition client_summary_of :: "client_representation \<Rightarrow> client_summary" where
  "client_summary_of v =
     \<lparr>cs_id = cr_id v, cs_keycloak_id = cr_id v, cs_client_id = cr_client_id v, cs_name = cr_name v,
      cs_enabled = cr_enabled v, cs_protocol = cr_protocol v, cs_created_at = cr_created_timestamp v,
      cs_public_client = cr_public_client v,
      cs_service_accounts_enabled = cr_service_accounts_enabled v\<rparr>"

definition client_summary_json :: "client_summary \<Rightarrow> json" where
  "client_summary_json v = JObj [(''id'', json_opt_str (cs_id v)),
     (''keycloak_id'', json_opt_str (cs_keycloak_id v)), (''client_id'', json_opt_str (cs_client_id v)),
     (''name'', json_opt_str (cs_name v)), (''enabled'', json_opt JBool (cs_enabled v)),
     (''protocol'', json_opt_str (cs_protocol v)), (''created_at'', json_opt json_i64 (cs_created_at v)),
     (''public_client'', json_opt JBool (cs_public_client v)),
     (''service_accounts_enabled'', json_opt JBool (cs_service_accounts_enabled v))]"

definition client_scope_summary :: "client_scope_representation \<Rightarrow> json" where
  "client_scope_summary v = JObj [(''id'', json_opt_str (sr_id v)), (''name'', json_opt_str (sr_name v)),
     (''protocol'', json_opt_str (sr_protocol v)), (''description'', json_opt_str (sr_description v))]"

text \<open>The configuration of a mapper is skipped when there is none.\<close>

definition protocol_mapper_summary :: "protocol_mapper_representation \<Rightarrow> json" where
  "protocol_mapper_summary v = JObj ([(''id'', json_opt_str (pm_id v)), (''name'', json_opt_str (pm_name v)),
     (''protocol'', json_opt_str (pm_protocol v)),
     (''protocol_mapper'', json_opt_str (pm_protocol_mapper v))] @
     (case pm_config v of None \<Rightarrow> []
      | Some kvs \<Rightarrow> [(''config'', JObj (map (\<lambda>(k, s). (k, JStr s)) kvs))]))"

definition client_role_summary :: "client_role_representation \<Rightarrow> json" where
  "client_role_summary v = JObj [(''id'', json_opt_str (rr_id v)), (''name'', json_opt_str (rr_name v)),
     (''description'', json_opt_str (rr_description v)), (''composite'', json_opt JBool (rr_composite v)),
     (''client_role'', json_opt JBool (rr_client_role v)),
     (''container_id'', json_opt_str (rr_container_id v))]"

section \<open>Search ranking\<close>

definition normalized_client_search_term :: "string \<Rightarrow> string" where
  "normalized_client_search_term term = trim (to_ascii_lowercase term)"

definition or_default :: "string option \<Rightarrow> string" where
  "or_default s = (case s of None \<Rightarrow> [] | Some t \<Rightarrow> t)"

definition client_search_score :: "client_summary \<Rightarrow> string \<Rightarrow> nat" where
  "client_search_score candidate term =
     (if term = [] then 0
      else
        (let lowered_id = to_ascii_lowercase (or_default (cs_id candidate));
             lowered_client_id = to_ascii_lowercase (or_default (cs_client_id candidate));
             lowered_name = to_ascii_lowercase (or_default (cs_name candidate));
             lowered_term = to_ascii_lowercase term
         in if lowered_id = lowered_term then 220
            else if lowered_client_id = lowered_term then 200
            else if lowered_name = lowered_term then 180
            else if starts_with lowered_term lowered_id then 160
            else if contains_str lowered_term lowered_id then 120
            else if starts_with lowered_term lowered_client_id \<or> starts_with lowered_term lowered_name then 140
            else if contains_str lowered_term lowered_client_id \<or> contains_str lowered_term lowered_name
            then 100
            else 0))"

text \<open>\<open>sort_by\<close> is stable; it compares scores downwards, then client ids, then ids.\<close>

definition rank_key :: "nat \<times> client_summary \<Rightarrow> int \<times> string \<times> string" where
  "rank_key ranked =
     (- int (fst ranked), or_default (cs_client_id (snd ranked)), or_default (cs_id (snd ranked)))"

definition scored_candidates :: "string \<Rightarrow> client_summary list \<Rightarrow> (nat \<times> client_summary) list" where
  "scored_candidates term candidates =
     filter (\<lambda>ranked. 0 < fst ranked) (map (\<lambda>candidate. (client_search_score candidate term, candidate)) candidates)"

definition rank_client_search_results ::
  "client_summary list \<Rightarrow> string \<Rightarrow> 32 word option \<Rightarrow> client_summary list" where
  "rank_client_search_results candidates term limit =
     (let term = normalized_client_search_term term;
          ranked = sort_key rank_key (scored_candidates term candidates);
          limit = (case limit of Some n \<Rightarrow> unat n | None \<Rightarrow> 100)
      in map snd (take limit ranked))"

section \<open>Resolving a client\<close>

definition upstream_failure :: "gateway_failure \<Rightarrow> mcp_error" where
  "upstream_failure err =
     (case err of
        UpstreamStatus status summary \<Rightarrow>
          InternalError ''gateway request failed'' (UpstreamData status summary)
      | _ \<Rightarrow> InternalError ''gateway request failed'' NoData)"

text \<open>A request whose failures keep the status and summary of an upstream error.\<close>

definition call_upstream ::
  "tool_env \<Rightarrow> caller \<Rightarrow> http_method \<Rightarrow> string \<Rightarrow> (string \<times> string) list \<Rightarrow> json option \<Rightarrow>
     (mcp_error + json) prog" where
  "call_upstream te ctx m path query body =
     map_prog (map_err upstream_failure) (request_json te ctx m path query body)"

definition clients_path :: "string \<Rightarrow> string" where
  "clients_path realm = ''/admin/realms/'' @ realm @ ''/clients''"

definition client_path :: "string \<Rightarrow> string \<Rightarrow> string" where
  "client_path realm client_id = clients_path realm @ ''/'' @ client_id"

definition validate_client_lookup_input ::
  "tool_env \<Rightarrow> string option \<Rightarrow> string option \<Rightarrow> mcp_error + unit" where
  "validate_client_lookup_input te ident client_id =
     and_then (case ident of None \<Rightarrow> Inr () | Some ident \<Rightarrow> validate_uuid (te_parse_uuid te) ident ''id'') (\<lambda>_.
     and_then (case client_id of None \<Rightarrow> Inr ()
               | Some client_id \<Rightarrow> validate_no_path_traversal client_id ''client_id'') (\<lambda>_.
     Inr ()))"

text \<open>\<open>sort_unstable\<close> and \<open>dedup\<close> of strings.\<close>

definition sorted_distinct :: "string list \<Rightarrow> string list" where
  "sorted_distinct ss = remdups_adj (sort ss)"

definition matching_client_ids :: "client_env \<Rightarrow> string \<Rightarrow> json \<Rightarrow> string list" where
  "matching_client_ids ce client_id payload =
     sorted_distinct (List.map_filter cr_id
       (filter (\<lambda>client. cr_client_id client = Some client_id) (decode_items (ce_client ce) payload)))"

definition pick_client_id :: "string \<Rightarrow> string list \<Rightarrow> mcp_error + string option" where
  "pick_client_id client_id matching_ids =
     (if 1 < length matching_ids then
        Inl (InternalError ''ambiguous client_id lookup'' (JsonData (JObj [
          (''client_id'', JStr client_id), (''matches'', JArr (map JStr matching_ids)),
          (''hint'', JStr ''Retry with id/keycloak_id to select the Keycloak internal unique identifier.'')])))
      else Inr (case matching_ids of [] \<Rightarrow> None | ident # _ \<Rightarrow> Some ident))"

definition resolve_client_id ::
  "tool_env \<Rightarrow> client_env \<Rightarrow> caller \<Rightarrow> string \<Rightarrow> string option \<Rightarrow> string option \<Rightarrow>
     (mcp_error + string option) prog" where
  "resolve_client_id te ce ctx realm ident client_id =
     (case validate_client_lookup_input te ident client_id of
        Inl err \<Rightarrow> Done (Inl err)
      | Inr _ \<Rightarrow>
          (case ident of
             Some ident \<Rightarrow>
               Done (Inr (Some (case te_parse_uuid te ident of Some canonical \<Rightarrow> canonical | None \<Rightarrow> ident)))
           | None \<Rightarrow>
               (case client_id of
                  None \<Rightarrow> Done (Inr None)
                | Some client_id \<Rightarrow>
                    try_prog (call_upstream te ctx GET (clients_path realm) [(''clientId'', client_id)] None)
                      (\<lambda>payload. Done (pick_client_id client_id (matching_client_ids ce client_id payload))))))"

section \<open>The client scopes of a realm\<close>

record client_scope_lookup =
  lk_by_id :: "string \<Rightarrow> string option"
  lk_by_name :: "string \<Rightarrow> string option"

definition resolve_scope_lookup :: "tool_env \<Rightarrow> string \<Rightarrow> client_scope_lookup \<Rightarrow> string option" where
  "resolve_scope_lookup te scope_token lookup =
     (case Option.bind (te_parse_uuid te scope_token) (lk_by_id lookup) of
        Some scope_id \<Rightarrow> Some scope_id
      | None \<Rightarrow> lk_by_name lookup scope_token)"

definition client_scopes_path :: "string \<Rightarrow> string" where
  "client_scopes_path realm = ''/admin/realms/'' @ realm @ ''/client-scopes''"

text \<open>\<open>u32::saturating_add\<close>.\<close>

definition saturating_add_u32 :: "32 word \<Rightarrow> 32 word \<Rightarrow> 32 word" where
  "saturating_add_u32 a b = (if 2 ^ 32 \<le> unat a + unat b then 4294967295 else a + b)"

definition scope_page_size :: "32 word" where "scope_page_size = 100"

text \<open>
  The loop over the pages. The cursor grows at every turn until it saturates, where the loop ends
  with an error, so it needs no fuel.
\<close>

function load_scope_pages ::
  "tool_env \<Rightarrow> client_env \<Rightarrow> caller \<Rightarrow> string \<Rightarrow> 32 word \<Rightarrow> client_scope_representation list \<Rightarrow>
     (mcp_error + client_scope_representation list) prog" where
  "load_scope_pages te ce ctx realm first scopes =
     try_prog (call_upstream te ctx GET (client_scopes_path realm)
       [(''first'', show_u32 first), (''max'', show_u32 scope_page_size)] None) (\<lambda>payload.
       let page = decode_items (ce_scope ce) payload;
           scopes = scopes @ page;
           next_first = saturating_add_u32 first scope_page_size
       in if length page < unat scope_page_size then Done (Inr scopes)
          else if next_first \<le> first then
            Done (Inl (InternalError ''gateway request failed'' (JsonData (JObj [
              (''upstream_error'', JStr ''scope lookup pagination cursor did not advance''),
              (''first'', json_u32 first), (''max'', json_u32 scope_page_size)]))))
          else load_scope_pages te ce ctx realm next_first scopes)"
  by pat_completeness auto

lemma cursor_measure:
  fixes a b :: "32 word"
  assumes "\<not> b \<le> a"
  shows "4294967296 - unat b < 4294967296 - unat a"
proof -
  have "unat a < unat b" using assms by (simp add: word_le_nat_alt)
  moreover have "unat b < 4294967296" using unsigned_less [of b, where ?'a = nat] by simp
  ultimately show ?thesis by linarith
qed

termination load_scope_pages
  by (relation "measure (\<lambda>(te, ce, ctx, realm, first, scopes). 4294967296 - unat first)")
    (simp_all add: cursor_measure)

definition canonical_uuid :: "tool_env \<Rightarrow> string \<Rightarrow> string" where
  "canonical_uuid te s = (case te_parse_uuid te s of Some canonical \<Rightarrow> canonical | None \<Rightarrow> s)"

text \<open>A later scope replaces an earlier one of the same id; the first of a name stays.\<close>

definition add_scope ::
  "tool_env \<Rightarrow> client_scope_representation \<Rightarrow> client_scope_lookup \<Rightarrow> client_scope_lookup" where
  "add_scope te scope lookup =
     (case sr_id scope of
        None \<Rightarrow> lookup
      | Some scope_id \<Rightarrow>
          lookup\<lparr>lk_by_id := (lk_by_id lookup)(canonical_uuid te scope_id \<mapsto> scope_id),
            lk_by_name :=
              (case sr_name scope of
                 None \<Rightarrow> lk_by_name lookup
               | Some name \<Rightarrow>
                   (if lk_by_name lookup name = None then (lk_by_name lookup)(name \<mapsto> scope_id)
                    else lk_by_name lookup))\<rparr>)"

definition scope_lookup :: "tool_env \<Rightarrow> client_scope_representation list \<Rightarrow> client_scope_lookup" where
  "scope_lookup te scopes = fold (add_scope te) scopes \<lparr>lk_by_id = Map.empty, lk_by_name = Map.empty\<rparr>"

definition load_client_scope_lookup ::
  "tool_env \<Rightarrow> client_env \<Rightarrow> caller \<Rightarrow> string \<Rightarrow> (mcp_error + client_scope_lookup) prog" where
  "load_client_scope_lookup te ce ctx realm =
     try_prog (load_scope_pages te ce ctx realm 0 []) (\<lambda>scopes. Done (Inr (scope_lookup te scopes)))"

section \<open>Resolving client scopes\<close>

record scope_tokens =
  tk_scope_id :: "string option"
  tk_scope_ids :: "string list option"
  tk_scope_name :: "string option"
  tk_scope_names :: "string list option"

record scope_ids_result =
  si_ids :: "string list"
  si_missing_names :: "string list"

text \<open>Every token with the text that stands for it when it is missing.\<close>

definition labelled_tokens :: "scope_tokens \<Rightarrow> (string \<times> string) list" where
  "labelled_tokens args =
     map (\<lambda>token. (token, ''scope_id:'' @ token))
       (case tk_scope_id args of None \<Rightarrow> [] | Some token \<Rightarrow> [token]) @
     map (\<lambda>token. (token, ''scope_id:'' @ token))
       (case tk_scope_ids args of None \<Rightarrow> [] | Some tokens \<Rightarrow> tokens) @
     map (\<lambda>token. (token, token)) (case tk_scope_name args of None \<Rightarrow> [] | Some token \<Rightarrow> [token]) @
     map (\<lambda>token. (token, token)) (case tk_scope_names args of None \<Rightarrow> [] | Some tokens \<Rightarrow> tokens)"

fun take_token ::
  "tool_env \<Rightarrow> client_scope_lookup \<Rightarrow> string \<times> string \<Rightarrow> string list \<times> string list \<Rightarrow> string list \<times> string list" where
  "take_token te lookup (token, label) (ids, missing) =
     (case resolve_scope_lookup te token lookup of
        Some scope_id \<Rightarrow> (ids @ [scope_id], missing)
      | None \<Rightarrow> (ids, missing @ [label]))"

definition resolve_scope_ids ::
  "tool_env \<Rightarrow> client_env \<Rightarrow> caller \<Rightarrow> string \<Rightarrow> scope_tokens \<Rightarrow> (mcp_error + scope_ids_result) prog" where
  "resolve_scope_ids te ce ctx realm args =
     try_prog (load_client_scope_lookup te ce ctx realm) (\<lambda>lookup.
       let (ids, missing_names) = fold (take_token te lookup) (labelled_tokens args) ([], [])
       in Done (Inr \<lparr>si_ids = sorted_distinct ids, si_missing_names = sorted_distinct missing_names\<rparr>))"

definition resolve_client_scope_id ::
  "tool_env \<Rightarrow> client_env \<Rightarrow> caller \<Rightarrow> string \<Rightarrow> string option \<Rightarrow> string option \<Rightarrow>
     (mcp_error + string option) prog" where
  "resolve_client_scope_id te ce ctx realm scope_id scope_name =
     try_prog (load_client_scope_lookup te ce ctx realm) (\<lambda>lookup.
       case scope_id of
         None \<Rightarrow> Done (Inr (Option.bind scope_name (\<lambda>name. resolve_scope_lookup te name lookup)))
       | Some scope_id \<Rightarrow>
           (case validate_no_path_traversal scope_id ''scope_id'' of
              Inl err \<Rightarrow> Done (Inl err)
            | Inr _ \<Rightarrow> Done (Inr (resolve_scope_lookup te scope_id lookup))))"

section \<open>Lemmas\<close>

declare load_scope_pages.simps [simp del]

lemma sends_upstream [sends_intros]:
  "(te_joins te path \<Longrightarrow> P (gateway_request ctx m path query body)) \<Longrightarrow>
     sends P (call_upstream te ctx m path query body)"
  by (simp add: sends_def call_upstream_def prog_simps)

lemma within_upstream [within_intros]: "0 < n \<Longrightarrow> within (call_upstream te ctx m path query body) n"
  by (simp add: call_upstream_def within_intros)

lemma resolve_client_id_sends [sends_intros]:
  "(\<And>client_id. \<lbrakk>ident = None; te_joins te (clients_path realm)\<rbrakk> \<Longrightarrow>
      P (gateway_request ctx GET (clients_path realm) [(''clientId'', client_id)] None)) \<Longrightarrow>
     sends P (resolve_client_id te ce ctx realm ident client_id)"
  by (cases "validate_client_lookup_input te ident client_id"; cases ident; cases client_id)
    (simp_all add: resolve_client_id_def sends_intros)

lemma within_resolve_client_id [within_intros]:
  "0 < n \<Longrightarrow> within (resolve_client_id te ce ctx realm ident client_id) n"
  by (auto simp: resolve_client_id_def split: sum.split option.split intro!: within_intros)

lemma load_scope_pages_sends [sends_intros]:
  "(\<And>first. te_joins te (client_scopes_path realm) \<Longrightarrow>
      P (gateway_request ctx GET (client_scopes_path realm)
        [(''first'', show_u32 first), (''max'', show_u32 scope_page_size)] None)) \<Longrightarrow>
     sends P (load_scope_pages te ce ctx realm first scopes)"
  by (induction te ce ctx realm first scopes rule: load_scope_pages.induct)
    (subst load_scope_pages.simps, auto intro!: sends_intros simp: Let_def)

lemma scope_lookup_sends [sends_intros]:
  assumes "\<And>first. te_joins te (client_scopes_path realm) \<Longrightarrow>
      P (gateway_request ctx GET (client_scopes_path realm)
        [(''first'', show_u32 first), (''max'', show_u32 scope_page_size)] None)"
  shows "sends P (load_client_scope_lookup te ce ctx realm)"
    and "sends P (resolve_scope_ids te ce ctx realm args)"
    and "sends P (resolve_client_scope_id te ce ctx realm scope_id scope_name)"
proof -
  show lookup: "sends P (load_client_scope_lookup te ce ctx realm)"
    unfolding load_client_scope_lookup_def by (intro sends_intros assms)
  show "sends P (resolve_scope_ids te ce ctx realm args)"
    unfolding resolve_scope_ids_def Let_def by (intro sends_intros lookup)
  show "sends P (resolve_client_scope_id te ce ctx realm scope_id scope_name)"
    unfolding resolve_client_scope_id_def by (intro sends_intros lookup)
qed

subsection \<open>The number of pages\<close>

definition page_bound :: "32 word \<Rightarrow> nat" where
  "page_bound first = (4294967295 - unat first + 99) div 100 + 1"

lemma within_load_scope_pages: "within (load_scope_pages te ce ctx realm first scopes) (page_bound first)"
proof (induction te ce ctx realm first scopes rule: load_scope_pages.induct)
  case (1 te ce ctx realm first scopes)
  let ?next = "saturating_add_u32 first scope_page_size"
  have step: "page_bound ?next = page_bound first - 1" if "\<not> ?next \<le> first"
  proof (cases "unat first + 100 < 4294967296")
    case True
    then have "unat ?next = unat first + 100"
      by (simp add: saturating_add_u32_def scope_page_size_def unat_word_ariths)
    with True show ?thesis by (simp add: page_bound_def)
  next
    case False
    then have top: "?next = 4294967295" by (simp add: saturating_add_u32_def scope_page_size_def)
    have "unat first < unat ?next" using that by (simp add: word_le_nat_alt)
    with False top show ?thesis by (simp add: page_bound_def)
  qed
  show ?case
    by (subst load_scope_pages.simps, rule within_then)
      (use 1 step in \<open>auto simp: page_bound_def within_intros Let_def\<close>)
qed

subsection \<open>Scores\<close>

lemma contains_str_self: "contains_str s s"
  unfolding contains_str_iff by (metis append.right_neutral append_Nil)

lemma starts_with_contains: "starts_with p s \<Longrightarrow> contains_str p s"
  unfolding contains_str_iff starts_with_def by (metis append.left_neutral append_take_drop_id)

text \<open>A client scores when the term occurs in its id, its client id or its name, in any case.\<close>

definition matches_term :: "string \<Rightarrow> client_summary \<Rightarrow> bool" where
  "matches_term term c = (term \<noteq> [] \<and>
     list_ex (\<lambda>v. contains_str (to_ascii_lowercase term) (to_ascii_lowercase (or_default v)))
       [cs_id c, cs_client_id c, cs_name c])"

lemma score_positive: "0 < client_search_score c term \<longleftrightarrow> matches_term term c"
  using contains_str_self starts_with_contains
  by (auto simp: client_search_score_def matches_term_def Let_def)

lemma page_size_text: "show_u32 scope_page_size = ''100''"
  unfolding scope_page_size_def by code_simp

lemma unat_small: "n < 4294967296 \<Longrightarrow> unat (of_nat n :: 32 word) = n"
  by (simp add: unat_of_nat)

lemma run_try_upstream:
  assumes "te_joins te path" and "serve w (gateway_request ctx m path query body) = (reply, w1)"
    and "answer te reply = Inr payload"
  shows "run_prog serve (try_prog (call_upstream te ctx m path query body) f) w =
    (let (r, trace, w') = run_prog serve (f payload) w1
     in (r, (gateway_request ctx m path query body, reply) # trace, w'))"
  using assms by (simp add: try_prog_def call_upstream_def map_prog_def request_json_def)

section \<open>Properties\<close>

text \<open>
  The results of a client search. They are the clients in whose id, client id or name the
  normalized term occurs, ignoring case, each as often as it was fetched; in the order of
  the score downwards, then of the client id, then of the id; and when there are more than the limit
  (100 by default), the first of that order.
\<close>

theorem client_search_ranked:
  "\<exists>rest.
     mset (rank_client_search_results candidates query limit @ rest) =
       mset (filter (matches_term (trim (to_ascii_lowercase query))) candidates) \<and>
     sorted (map (\<lambda>c. rank_key (client_search_score c (trim (to_ascii_lowercase query)), c))
       (rank_client_search_results candidates query limit @ rest)) \<and>
     length (rank_client_search_results candidates query limit) =
       min (case limit of Some n \<Rightarrow> unat n | None \<Rightarrow> 100)
         (length (filter (matches_term (trim (to_ascii_lowercase query))) candidates))"
proof -
  let ?t = "trim (to_ascii_lowercase query)"
  let ?n = "case limit of Some n \<Rightarrow> unat n | None \<Rightarrow> 100"
  let ?ranked = "sort_key rank_key (scored_candidates ?t candidates)"
  let ?rest = "map snd (drop ?n ?ranked)"
  have scored: "scored_candidates ?t candidates =
      map (\<lambda>c. (client_search_score c ?t, c)) (filter (matches_term ?t) candidates)"
    by (simp add: scored_candidates_def filter_map comp_def score_positive)
  have split: "rank_client_search_results candidates query limit @ ?rest = map snd ?ranked"
    by (simp add: rank_client_search_results_def normalized_client_search_term_def Let_def
        flip: map_append)
  have pairs: "set ?ranked \<subseteq> range (\<lambda>c. (client_search_score c ?t, c))"
    by (auto simp: scored)
  have keys: "map (\<lambda>c. rank_key (client_search_score c ?t, c)) (map snd ?ranked) = map rank_key ?ranked"
    unfolding map_map using pairs by (intro map_cong) auto
  have "sorted (map (\<lambda>c. rank_key (client_search_score c ?t, c)) (map snd ?ranked))"
    unfolding keys by (rule sorted_sort_key)
  moreover have "mset (map snd ?ranked) = mset (filter (matches_term ?t) candidates)"
  proof -
    have "map snd (scored_candidates ?t candidates) = filter (matches_term ?t) candidates"
      by (simp add: scored comp_def)
    then show ?thesis by (metis mset_map mset_sort)
  qed
  moreover have "length (rank_client_search_results candidates query limit) =
      min ?n (length (filter (matches_term ?t) candidates))"
    by (simp add: rank_client_search_results_def normalized_client_search_term_def Let_def scored)
  ultimately show ?thesis
    unfolding split [symmetric] by blast
qed

text \<open>
  C33: Loading the client scopes of a realm ends whatever the gateway answers, even with full pages
  for ever: every run makes at most 42949674 requests, each a GET of the realm's client scopes with
  the caller's token and a cursor, and then gives a lookup or an error.
\<close>

theorem scope_lookup_terminates:
  "within (load_client_scope_lookup te ce ctx realm) 42949674 \<and>
   length (fst (snd (run_prog serve (load_client_scope_lookup te ce ctx realm) w))) \<le> 42949674 \<and>
   calls_of (load_client_scope_lookup te ce ctx realm) \<subseteq>
     {gateway_request ctx GET (client_scopes_path realm)
        [(''first'', show_u32 first), (''max'', ''100'')] None |first. True}"
proof -
  have "within (load_client_scope_lookup te ce ctx realm) (42949674 + 0)"
    unfolding load_client_scope_lookup_def
    using within_load_scope_pages [of te ce ctx realm 0 "[]"]
    by (intro within_try) (simp_all add: page_bound_def)
  then have bound: "within (load_client_scope_lookup te ce ctx realm) 42949674" by simp
  obtain r trace w' where run: "run_prog serve (load_client_scope_lookup te ce ctx realm) w = (r, trace, w')"
    by (metis prod_cases3)
  have gets: "sends (\<lambda>q. \<exists>first. q = gateway_request ctx GET (client_scopes_path realm)
      [(''first'', show_u32 first), (''max'', ''100'')] None) (load_client_scope_lookup te ce ctx realm)"
    by (intro scope_lookup_sends) (auto simp: page_size_text)
  show ?thesis
    using bound run_prog_trace(3) [OF run bound] run gets unfolding sends_def by fastforce
qed

text \<open>A gateway that serves the pages of a list of scopes.\<close>

definition serves_pages ::
  "tool_env \<Rightarrow> caller \<Rightarrow> string \<Rightarrow> ('w \<Rightarrow> gateway_call \<Rightarrow> gateway_reply \<times> 'w) \<Rightarrow> 'w \<Rightarrow> json list \<Rightarrow> bool" where
  "serves_pages te ctx realm serve w items \<longleftrightarrow>
     te_joins te (client_scopes_path realm) \<and>
     (\<forall>n. \<exists>bytes. serve w (gateway_request ctx GET (client_scopes_path realm)
             [(''first'', show_u32 n), (''max'', ''100'')] None) = (Reply 200 bytes, w) \<and>
          bytes \<noteq> [] \<and> te_from_slice te bytes = Some (JArr (take 100 (drop (unat n) items))))"

lemma map_filter_all: "list_all (\<lambda>x. f x \<noteq> None) xs \<Longrightarrow> List.map_filter f xs = map (the \<circ> f) xs"
  by (induction xs) (auto simp: List.map_filter_simps)

lemma run_scope_pages:
  assumes "serves_pages te ctx realm serve w items" and "list_all (\<lambda>i. ce_scope ce i \<noteq> None) items"
    and "length items < 4294967100"
  shows "100 * k \<le> length items \<Longrightarrow>
    \<exists>trace. run_prog serve (load_scope_pages te ce ctx realm (of_nat (100 * k))
        (map (the \<circ> ce_scope ce) (take (100 * k) items))) w =
      (Inr (map (the \<circ> ce_scope ce) items), trace, w) \<and> length trace + k = length items div 100 + 1"
proof (induction "length items - 100 * k" arbitrary: k rule: less_induct)
  case less
  let ?decode = "map (the \<circ> ce_scope ce)"
  let ?first = "of_nat (100 * k) :: 32 word"
  have small: "100 * k < 4294967196" using less.prems assms(3) by linarith
  have first: "unat ?first = 100 * k" by (rule unat_small) (use small in linarith)
  obtain bytes where reply: "serve w (gateway_request ctx GET (client_scopes_path realm)
        [(''first'', show_u32 ?first), (''max'', ''100'')] None) = (Reply 200 bytes, w)"
    "bytes \<noteq> []" "te_from_slice te bytes = Some (JArr (take 100 (drop (100 * k) items)))"
    and joins: "te_joins te (client_scopes_path realm)"
    using assms(1) unfolding serves_pages_def by (metis first)
  have "list_all (\<lambda>i. ce_scope ce i \<noteq> None) (take 100 (drop (100 * k) items))"
    using assms(2) by (auto simp: list_all_iff dest!: in_set_takeD in_set_dropD)
  then have page: "decode_items (ce_scope ce) (JArr (take 100 (drop (100 * k) items))) =
      ?decode (take 100 (drop (100 * k) items))"
    by (simp add: decode_items_def json_items_def map_filter_all)
  have all: "take (100 * k) items @ take 100 (drop (100 * k) items) = take (100 * Suc k) items"
    by (metis add.commute mult_Suc_right take_add)
  have nxt: "saturating_add_u32 ?first scope_page_size = of_nat (100 * Suc k)"
    using small first by (simp add: saturating_add_u32_def scope_page_size_def)
  have grows: "\<not> (of_nat (100 * Suc k) :: 32 word) \<le> ?first"
  proof -
    have "unat (of_nat (100 * Suc k) :: 32 word) = 100 * Suc k"
      by (rule unat_small) (use small in simp)
    then show ?thesis unfolding word_le_nat_alt first by simp
  qed
  have ok: "answer te (Reply 200 bytes) = Inr (JArr (take 100 (drop (100 * k) items)))"
    using reply by (simp add: read_reply_def status_success_def)
  have size: "unat scope_page_size = 100" by (simp add: scope_page_size_def)
  have short: "length (take 100 (drop (100 * k) items)) < 100 \<longleftrightarrow> length items < 100 * Suc k"
    using less.prems by auto
  have run: "run_prog serve (load_scope_pages te ce ctx realm ?first (?decode (take (100 * k) items))) w =
    (let (r, trace, w) = run_prog serve
        (if length items < 100 * Suc k then Done (Inr (?decode (take (100 * Suc k) items)))
         else load_scope_pages te ce ctx realm (of_nat (100 * Suc k)) (?decode (take (100 * Suc k) items))) w
     in (r, (gateway_request ctx GET (client_scopes_path realm)
        [(''first'', show_u32 ?first), (''max'', ''100'')] None, Reply 200 bytes) # trace, w))"
    unfolding load_scope_pages.simps [of te ce ctx realm ?first "?decode (take (100 * k) items)"]
      page_size_text run_try_upstream [where serve = serve and w = w, OF joins reply(1) ok] Let_def page size length_map short nxt
      map_append [symmetric] all if_not_P [OF grows] ..
  show ?case
  proof (cases "length items < 100 * Suc k")
    case True
    have "length items div 100 = k" using True less.prems by (intro div_nat_eqI) simp_all
    then show ?thesis unfolding run using True by simp
  next
    case False
    then have "length items - 100 * Suc k < length items - 100 * k" "100 * Suc k \<le> length items" by simp_all
    from less.hyps [OF this] obtain trace where
      "run_prog serve (load_scope_pages te ce ctx realm (of_nat (100 * Suc k))
         (?decode (take (100 * Suc k) items))) w = (Inr (?decode items), trace, w)"
      "length trace + Suc k = length items div 100 + 1" by blast
    then show ?thesis unfolding run using False by simp
  qed
qed

text \<open>
  C34: Paging misses nothing: against a gateway that serves the pages of a list of client scopes, all
  of which the tools can decode, the lookup is built from the whole list, in its order, after one
  request for every hundred scopes and one more.
\<close>

theorem scope_pages_complete:
  assumes "serves_pages te ctx realm serve w items" and "list_all (\<lambda>i. ce_scope ce i \<noteq> None) items"
    and "length items < 4294967100"
  shows "\<exists>trace. run_prog serve (load_client_scope_lookup te ce ctx realm) w =
      (Inr (scope_lookup te (map (the \<circ> ce_scope ce) items)), trace, w) \<and>
    length trace = length items div 100 + 1"
proof -
  from run_scope_pages [OF assms, of 0] obtain trace where
    "run_prog serve (load_scope_pages te ce ctx realm 0 []) w =
      (Inr (map (the \<circ> ce_scope ce) items), trace, w)" "length trace = length items div 100 + 1"
    by auto
  then show ?thesis
    by (simp add: load_client_scope_lookup_def try_prog_def run_bind split: prod.split)
qed

definition sample_pages_env :: tool_env where
  "sample_pages_env = sample_tool_env\<lparr>te_from_slice :=
     (\<lambda>bytes. Some (JArr (if bytes = ''0'' then [JStr ''profile''] else [])))\<rparr>"

definition sample_client_env :: client_env where
  "sample_client_env = \<lparr>ce_client = (\<lambda>_. None),
     ce_scope = (\<lambda>v. map_option (\<lambda>s. \<lparr>sr_id = Some s, sr_name = Some s, sr_protocol = None,
        sr_description = None\<rparr>) (as_str v)),
     ce_mapper = (\<lambda>_. None), ce_role = (\<lambda>_. None), ce_role_mappings = (\<lambda>_. None),
     ce_error_text = (\<lambda>_. []), ce_summary_text = fst, ce_regex = (\<lambda>_. None),
     ce_outcome_text = (\<lambda>_. [])\<rparr>"

lemma sample_pages:
  "serves_pages sample_pages_env ctx realm (\<lambda>w q. (Reply 200 (snd (hd (gq_query q))), w)) () [JStr ''profile'']"
proof -
  have zero: "show_u32 n = ''0'' \<longleftrightarrow> n = 0" for n
  proof -
    have "show_nat 0 = ''0''" by code_simp
    then have "show_u32 n = ''0'' \<longleftrightarrow> show_nat (unat n) = show_nat 0" by (simp add: show_u32_def)
    then show ?thesis by (simp add: show_nat_inject unat_eq_0)
  qed
  have "show_u32 n \<noteq> []" for n by (simp add: show_u32_def show_nat.simps)
  moreover have "drop (unat n) [JStr ''profile''] = (if n = 0 then [JStr ''profile''] else [])" for n :: "32 word"
    by (cases "unat n") (auto simp: unat_eq_0)
  ultimately show ?thesis
    by (simp add: serves_pages_def sample_pages_env_def sample_tool_env_def zero)
qed

theorem scope_pages_complete_witness:
  "\<exists>trace. run_prog (\<lambda>w q. (Reply 200 (snd (hd (gq_query q))), w))
      (load_client_scope_lookup sample_pages_env sample_client_env sample_caller ''master'') () =
      (Inr (scope_lookup sample_pages_env [\<lparr>sr_id = Some ''profile'', sr_name = Some ''profile'',
        sr_protocol = None, sr_description = None\<rparr>]), trace, ()) \<and> length trace = 1"
  using scope_pages_complete [OF sample_pages, of sample_client_env sample_caller "''master''"]
  by (simp add: sample_client_env_def)

end
