(* ===== verification/Tools_Clients.thy ===== *)
theory Tools_Clients
  imports Client_Lookup
begin

text \<open>
  The core client tools (\<open>tools/clients/core.rs\<close>): list, search, get, create, update, toggle and
  delete, the hardened introspection client, bulk update and pruning.
\<close>

section \<open>Arguments\<close>

record clients_list_args =
  cl_list_realm :: string
  cl_list_search :: "string option"
  cl_list_max :: "32 word option"

record client_target =
  ct_realm :: string
  ct_id :: "string option"
  ct_client_id :: "string option"

type_synonym clients_toggle_args = client_target
type_synonym clients_delete_args = client_target

record clients_search_args =
  csa_realm :: string
  csa_query :: string
  csa_exact :: "bool option"
  csa_limit :: "32 word option"

record clients_create_args =
  cc_realm :: string
  cc_client_id :: string
  cc_name :: "string option"
  cc_protocol :: "string option"
  cc_public_client :: "bool option"
  cc_service_accounts_enabled :: "bool option"
  cc_enabled :: "bool option"

text \<open>The fields a single and a bulk update have in common.\<close>

record client_changes =
  cu_name :: "string option"
  cu_description :: "string option"
  cu_enabled :: "bool option"
  cu_public_client :: "bool option"
  cu_service_accounts_enabled :: "bool option"
  cu_standard_flow_enabled :: "bool option"
  cu_direct_access_grants_enabled :: "bool option"
  cu_consent_required :: "bool option"
  cu_bearer_only :: "bool option"

record clients_update_args = client_changes +
  cu_realm :: string
  cu_id :: "string option"
  cu_client_id :: "string option"

record clients_bulk_update_item = client_changes +
  bi_id :: "string option"
  bi_client_id :: "string option"

record clients_bulk_update_args =
  ba_realm :: string
  ba_confirm :: bool
  ba_dry_run :: "bool option"
  ba_updates :: "clients_bulk_update_item list"

record clients_introspection_create_args =
  ic_realm :: string
  ic_client_id :: string
  ic_name :: "string option"
  ic_confirm :: bool

datatype clients_prune_action = PruneDisable | PruneDelete

record clients_prune_args =
  pr_realm :: string
  pr_confirm :: bool
  pr_dry_run :: "bool option"
  pr_action :: "clients_prune_action option"
  pr_search :: "string option"
  pr_name :: "string option"
  pr_client_id_prefix :: "string option"
  pr_client_id_pattern :: "string option"
  pr_exclude_client_ids :: "string list option"
  pr_max :: "32 word option"
  pr_limit :: "32 word option"

section \<open>Shared steps\<close>

abbreviation read_clients :: "tool_env \<Rightarrow> string list" where
  "read_clients te \<equiv> ts_read (sm_clients (mc_scope_map (te_config te)))"

abbreviation write_clients :: "tool_env \<Rightarrow> string list" where
  "write_clients te \<equiv> ts_write (sm_clients (mc_scope_map (te_config te)))"

definition client_not_found :: "caller \<Rightarrow> tool" where
  "client_not_found ctx =
     Done (Inr (tool_error ''clients.not_found'' ''Client not found.'' (cl_request_id ctx)))"

definition with_client ::
  "tool_env \<Rightarrow> client_env \<Rightarrow> caller \<Rightarrow> string \<Rightarrow> string option \<Rightarrow> string option \<Rightarrow> (string \<Rightarrow> tool) \<Rightarrow> tool" where
  "with_client te ce ctx realm ident client_id k =
     try_prog (resolve_client_id te ce ctx realm ident client_id) (\<lambda>client_id.
       case client_id of None \<Rightarrow> client_not_found ctx | Some client_id \<Rightarrow> k client_id)"

text \<open>A request on a client: an upstream 404 is the tool's own \<open>not found\<close>.\<close>

definition or_client_not_found ::
  "caller \<Rightarrow> (gateway_failure + json) prog \<Rightarrow> (json \<Rightarrow> tool) \<Rightarrow> tool" where
  "or_client_not_found ctx request k =
     bind_prog request (\<lambda>r.
       case r of
         Inr payload \<Rightarrow> k payload
       | Inl err \<Rightarrow>
           (case err of
              UpstreamStatus status summary \<Rightarrow>
                if status = 404 then client_not_found ctx else Done (Inl (upstream_failure err))
            | _ \<Rightarrow> Done (Inl (upstream_failure err))))"

definition change_entries :: "'a client_changes_scheme \<Rightarrow> (string \<times> json) list" where
  "change_entries c =
     extra ''name'' JStr (cu_name c) @
     extra ''description'' JStr (cu_description c) @
     extra ''enabled'' JBool (cu_enabled c) @
     extra ''publicClient'' JBool (cu_public_client c) @
     extra ''serviceAccountsEnabled'' JBool (cu_service_accounts_enabled c) @
     extra ''standardFlowEnabled'' JBool (cu_standard_flow_enabled c) @
     extra ''directAccessGrantsEnabled'' JBool (cu_direct_access_grants_enabled c) @
     extra ''consentRequired'' JBool (cu_consent_required c) @
     extra ''bearerOnly'' JBool (cu_bearer_only c)"

section \<open>Reading\<close>

definition clients_list ::
  "tool_env \<Rightarrow> client_env \<Rightarrow> caller option \<Rightarrow> clients_list_args \<Rightarrow> tool" where
  "clients_list te ce parts args =
     validated (validate_realm_name (cl_list_realm args))
     (or_return (authorize_tool (te_config te) parts (read_clients te)) (\<lambda>ctx.
      let query = opt_param ''search'' (\<lambda>s. s) (cl_list_search args) @
            opt_param ''max'' show_u32 (cl_list_max args)
      in try_prog (call_gateway te ctx GET (clients_path (cl_list_realm args)) query None) (\<lambda>payload.
           reply_json [(''clients'', JArr (map (client_summary_json \<circ> client_summary_of)
             (decode_items (ce_client ce) payload)))])))"

text \<open>A fetched client is added unless its id is there already.\<close>

definition add_client :: "client_summary \<Rightarrow> client_summary list \<Rightarrow> client_summary list" where
  "add_client client clients =
     (let is_duplicate =
            (case cs_id client of
               None \<Rightarrow> False
             | Some ident \<Rightarrow> list_ex (\<lambda>existing. cs_id existing = Some ident) clients)
      in if is_duplicate then clients else clients @ [client])"

definition is_exact_match :: "string \<Rightarrow> client_summary \<Rightarrow> bool" where
  "is_exact_match normalized_query client =
     ((case cs_id client of None \<Rightarrow> False | Some ident \<Rightarrow> eq_ignore_ascii_case ident normalized_query) \<or>
      (case cs_client_id client of None \<Rightarrow> False
       | Some client_id \<Rightarrow> eq_ignore_ascii_case client_id normalized_query))"

definition search_lookup ::
  "tool_env \<Rightarrow> client_env \<Rightarrow> caller \<Rightarrow> string \<Rightarrow> string option \<Rightarrow> (mcp_error + client_summary list) prog" where
  "search_lookup te ce ctx realm id_query =
     (case id_query of
        None \<Rightarrow> Done (Inr [])
      | Some id_query \<Rightarrow>
          bind_prog (request_json te ctx GET (client_path realm id_query) [] None) (\<lambda>r.
            case r of
              Inr payload \<Rightarrow>
                Done (Inr (case ce_client ce payload of None \<Rightarrow> [] | Some c \<Rightarrow> [client_summary_of c]))
            | Inl err \<Rightarrow>
                (case err of
                   UpstreamStatus status summary \<Rightarrow>
                     if status \<noteq> 404 then Done (Inl (upstream_failure err)) else Done (Inr [])
                 | _ \<Rightarrow> Done (Inl (upstream_failure err)))))"

definition search_hits ::
  "client_env \<Rightarrow> string \<Rightarrow> bool \<Rightarrow> client_summary list \<Rightarrow> json \<Rightarrow> client_summary list" where
  "search_hits ce query only_exact clients payload =
     (let fetched_clients = map client_summary_of (decode_items (ce_client ce) payload);
          clients = fold add_client fetched_clients clients
      in if only_exact then filter (is_exact_match (to_ascii_lowercase query)) clients else clients)"

definition clients_search ::
  "tool_env \<Rightarrow> client_env \<Rightarrow> caller option \<Rightarrow> clients_search_args \<Rightarrow> tool" where
  "clients_search te ce parts args =
     validated (validate_realm_name (csa_realm args))
     (let query = trim (csa_query args) in
      if query = [] then
        Done (Inr (tool_error_with_context ''clients.invalid_input'' ''query is required.''
          ''req-client-search'' (Some ''clients'') None None
          (Some (JObj [(''hint'', JStr ''Provide a non-empty query and optional limit'')]))))
      else
      or_return (authorize_tool (te_config te) parts (read_clients te)) (\<lambda>ctx.
      let exact = or_else False (csa_exact args);
          too_many = (case csa_limit args of None \<Rightarrow> False | Some limit \<Rightarrow> limit = 0 \<or> 100 < limit)
      in if too_many then
           Done (Inr (tool_error_with_context ''clients.invalid_input'' ''limit must be between 1 and 100.''
             (cl_request_id ctx) (Some ''clients'') None None
             (Some (JObj [(''limit'', json_opt json_u32 (csa_limit args))]))))
         else
         let query_params = ((if exact then ''clientId'' else ''search''), query) #
               opt_param ''max'' show_u32 (csa_limit args);
             id_query = te_parse_uuid te query
         in try_prog (search_lookup te ce ctx (csa_realm args) id_query) (\<lambda>clients.
            try_prog (call_gateway te ctx GET (clients_path (csa_realm args)) query_params None) (\<lambda>payload.
            let clients = search_hits ce query (exact \<or> id_query \<noteq> None) clients payload;
                results = rank_client_search_results clients query (csa_limit args)
            in reply_json [(''query'', JStr query),
                 (''results'', JArr (map client_summary_json results))]))))"

definition clients_get :: "tool_env \<Rightarrow> client_env \<Rightarrow> caller option \<Rightarrow> client_target \<Rightarrow> tool" where
  "clients_get te ce parts args =
     validated (validate_realm_name (ct_realm args))
     (validated (validate_client_lookup_input te (ct_id args) (ct_client_id args))
     (or_return (authorize_tool (te_config te) parts (read_clients te)) (\<lambda>ctx.
      with_client te ce ctx (ct_realm args) (ct_id args) (ct_client_id args) (\<lambda>client_id.
      or_client_not_found ctx
        (request_json te ctx GET (client_path (ct_realm args) client_id) [] None) (\<lambda>payload.
      case ce_client ce payload of
        None \<Rightarrow> Done (Inl (InternalError ''unexpected response from gateway'' NoData))
      | Some client \<Rightarrow> reply_json [(''client'', client_summary_json (client_summary_of client))])))))"

section \<open>Writing\<close>

definition clients_create ::
  "tool_env \<Rightarrow> caller option \<Rightarrow> clients_create_args \<Rightarrow> tool" where
  "clients_create te parts args =
     validated (validate_realm_name (cc_realm args))
     (validated (validate_no_path_traversal (cc_client_id args) ''client_id'')
     (validated (case cc_name args of None \<Rightarrow> Inr ()
                 | Some name \<Rightarrow> validate_no_path_traversal name ''name'')
     (or_return (authorize_tool (te_config te) parts (write_clients te)) (\<lambda>ctx.
      let body = JObj [(''clientId'', JStr (cc_client_id args)), (''name'', json_opt_str (cc_name args)),
            (''protocol'', JStr (or_else ''openid-connect'' (cc_protocol args))),
            (''publicClient'', JBool (or_else False (cc_public_client args))),
            (''serviceAccountsEnabled'', JBool (or_else False (cc_service_accounts_enabled args))),
            (''enabled'', JBool (or_else True (cc_enabled args)))]
      in try_prog (call_gateway te ctx POST (clients_path (cc_realm args)) [] (Some body)) (\<lambda>payload.
           reply_json [(''id'', json_opt_str (Option.bind (json_get payload ''id'') as_str))])))))"

definition clients_update ::
  "tool_env \<Rightarrow> client_env \<Rightarrow> caller option \<Rightarrow> clients_update_args \<Rightarrow> tool" where
  "clients_update te ce parts args =
     validated (validate_realm_name (cu_realm args))
     (validated (validate_client_lookup_input te (cu_id args) (cu_client_id args))
     (or_return (authorize_tool (te_config te) parts (write_clients te)) (\<lambda>ctx.
      with_client te ce ctx (cu_realm args) (cu_id args) (cu_client_id args) (\<lambda>client_id.
      validated (case cu_name args of None \<Rightarrow> Inr ()
                 | Some name \<Rightarrow> validate_no_path_traversal name ''name'')
      (validated (case cu_description args of None \<Rightarrow> Inr ()
                 | Some description \<Rightarrow> validate_no_path_traversal description ''description'')
      (let updates = change_entries args in
       if updates = [] then
         Done (Inr (tool_error ''clients.no_updates'' ''No update fields provided.'' (cl_request_id ctx)))
       else
       or_client_not_found ctx
         (request_json te ctx PUT (client_path (cu_realm args) client_id) [] (Some (JObj updates)))
         (\<lambda>_. reply_json [(''updated'', JBool True), (''id'', JStr client_id)])))))))"

text \<open>\<open>clients_enable\<close> and \<open>clients_disable\<close> differ in the value they set.\<close>

definition clients_toggle ::
  "bool \<Rightarrow> tool_env \<Rightarrow> client_env \<Rightarrow> caller option \<Rightarrow> client_target \<Rightarrow> tool" where
  "clients_toggle enabled te ce parts args =
     validated (validate_realm_name (ct_realm args))
     (validated (validate_client_lookup_input te (ct_id args) (ct_client_id args))
     (or_return (authorize_tool (te_config te) parts (write_clients te)) (\<lambda>ctx.
      with_client te ce ctx (ct_realm args) (ct_id args) (ct_client_id args) (\<lambda>client_id.
      or_client_not_found ctx
        (request_json te ctx PUT (client_path (ct_realm args) client_id) []
          (Some (JObj [(''enabled'', JBool enabled)])))
        (\<lambda>_. reply_json [(''enabled'', JBool enabled), (''id'', JStr client_id)])))))"

definition clients_enable :: "tool_env \<Rightarrow> client_env \<Rightarrow> caller option \<Rightarrow> clients_toggle_args \<Rightarrow> tool" where
  "clients_enable = clients_toggle True"

definition clients_disable :: "tool_env \<Rightarrow> client_env \<Rightarrow> caller option \<Rightarrow> clients_toggle_args \<Rightarrow> tool" where
  "clients_disable = clients_toggle False"

definition clients_delete :: "tool_env \<Rightarrow> client_env \<Rightarrow> caller option \<Rightarrow> clients_delete_args \<Rightarrow> tool" where
  "clients_delete te ce parts args =
     validated (validate_realm_name (ct_realm args))
     (validated (validate_client_lookup_input te (ct_id args) (ct_client_id args))
     (or_return (authorize_tool (te_config te) parts (write_clients te)) (\<lambda>ctx.
      with_client te ce ctx (ct_realm args) (ct_id args) (ct_client_id args) (\<lambda>client_id.
      or_client_not_found ctx
        (request_json te ctx DELETE (client_path (ct_realm args) client_id) [] None)
        (\<lambda>_. reply_json [(''deleted'', JBool True)])))))"

text \<open>The realm and the client id of this tool are not validated.\<close>

definition clients_introspection_create ::
  "tool_env \<Rightarrow> caller option \<Rightarrow> clients_introspection_create_args \<Rightarrow> tool" where
  "clients_introspection_create te parts args =
     or_return (authorize_tool (te_config te) parts
       (write_clients te @ ts_secrets (sm_clients (mc_scope_map (te_config te))))) (\<lambda>ctx.
     or_return (ensure_secret_tools_enabled ctx (te_config te)) (\<lambda>_.
     if \<not> ic_confirm args then
       Done (Inr (tool_error ''clients.confirm_required''
         ''confirm=true is required to create introspection clients.'' (cl_request_id ctx)))
     else
     let body = JObj [(''clientId'', JStr (ic_client_id args)), (''name'', json_opt_str (ic_name args)),
           (''protocol'', JStr ''openid-connect''), (''publicClient'', JBool False),
           (''serviceAccountsEnabled'', JBool False), (''standardFlowEnabled'', JBool False),
           (''directAccessGrantsEnabled'', JBool False), (''enabled'', JBool True)]
     in try_prog (call_gateway te ctx POST (clients_path (ic_realm args)) [] (Some body)) (\<lambda>payload.
        case Option.bind (json_get payload ''id'') as_str of
          None \<Rightarrow> Done (Inr (tool_error ''clients.no_id'' ''Client created but no id returned.''
            (cl_request_id ctx)))
        | Some ident \<Rightarrow>
            try_prog (call_gateway te ctx POST (client_path (ic_realm args) ident @ ''/client-secret'') [] None)
              (\<lambda>secret_payload. reply_json [(''id'', JStr ident),
                 (''secret'', json_opt_str (Option.bind (json_get secret_payload ''value'') as_str))]))))"

section \<open>Bulk update\<close>

record bulk_state =
  bu_updated :: "string list"
  bu_skipped :: "string list"
  bu_errors :: "(string \<times> string) list"

definition add_error :: "string \<Rightarrow> string \<Rightarrow> bulk_state \<Rightarrow> bulk_state" where
  "add_error client err st = st\<lparr>bu_errors := bu_errors st @ [(client, err)]\<rparr>"

definition bulk_failure_text :: "client_env \<Rightarrow> gateway_failure \<Rightarrow> string" where
  "bulk_failure_text ce err =
     (case err of
        UpstreamStatus status summary \<Rightarrow>
          (case summary of Some s \<Rightarrow> ce_summary_text ce s
           | None \<Rightarrow> ''upstream_status='' @ show_nat status)
      | _ \<Rightarrow> ''gateway request failed'')"

text \<open>One turn of the loop; no error ends it.\<close>

definition bulk_update_step ::
  "tool_env \<Rightarrow> client_env \<Rightarrow> caller \<Rightarrow> string \<Rightarrow> bool \<Rightarrow> clients_bulk_update_item \<Rightarrow> bulk_state \<Rightarrow>
     (mcp_error + bulk_state) prog" where
  "bulk_update_step te ce ctx realm dry_run update st =
     (if bi_id update = None \<and> bi_client_id update = None then
        Done (Inr (add_error ''unknown'' ''id or client_id is required.'' st))
      else
      let label = (case bi_client_id update of Some label \<Rightarrow> label
            | None \<Rightarrow> or_else ''unknown'' (bi_id update))
      in bind_prog (resolve_client_id te ce ctx realm (bi_id update) (bi_client_id update)) (\<lambda>client_id.
         case client_id of
           Inl err \<Rightarrow> Done (Inr (add_error label (ce_error_text ce err) st))
         | Inr None \<Rightarrow> Done (Inr (add_error label ''Client not found.'' st))
         | Inr (Some client_id) \<Rightarrow>
             (let updates = change_entries update in
              if updates = [] then Done (Inr (st\<lparr>bu_skipped := bu_skipped st @ [client_id]\<rparr>))
              else if dry_run then Done (Inr (st\<lparr>bu_updated := bu_updated st @ [client_id]\<rparr>))
              else
                bind_prog (request_json te ctx PUT (client_path realm client_id) [] (Some (JObj updates)))
                  (\<lambda>r. case r of
                         Inl err \<Rightarrow> Done (Inr (add_error client_id (bulk_failure_text ce err) st))
                       | Inr _ \<Rightarrow> Done (Inr (st\<lparr>bu_updated := bu_updated st @ [client_id]\<rparr>))))))"

definition bulk_update_summary :: "bool \<Rightarrow> bulk_state \<Rightarrow> tool_result" where
  "bulk_update_summary dry_run st = Structured (JObj [(''updated'', JArr (map JStr (bu_updated st))),
     (''skipped'', JArr (map JStr (bu_skipped st))),
     (''errors'', JArr (map (\<lambda>(client, err). JObj [(''client'', JStr client), (''error'', JStr err)])
       (bu_errors st))),
     (''dry_run'', JBool dry_run)])"

definition clients_bulk_update ::
  "tool_env \<Rightarrow> client_env \<Rightarrow> caller option \<Rightarrow> clients_bulk_update_args \<Rightarrow> tool" where
  "clients_bulk_update te ce parts args =
     or_return (authorize_tool (te_config te) parts (write_clients te)) (\<lambda>ctx.
     if \<not> ba_confirm args then
       Done (Inr (tool_error ''clients.confirm_required''
         ''confirm=true is required to bulk update clients.'' (cl_request_id ctx)))
     else if ba_updates args = [] then
       Done (Inr (tool_error ''clients.invalid_input'' ''updates must include at least one entry.''
         (cl_request_id ctx)))
     else if 50 < length (ba_updates args) then
       Done (Inr (tool_error ''clients.too_many'' ''updates must include at most 50 entries.''
         (cl_request_id ctx)))
     else
     let dry_run = or_else False (ba_dry_run args)
     in try_prog (fold_prog (bulk_update_step te ce ctx (ba_realm args) dry_run) (ba_updates args)
          \<lparr>bu_updated = [], bu_skipped = [], bu_errors = []\<rparr>) (\<lambda>st.
          Done (Inr (bulk_update_summary dry_run st))))"

section \<open>Pruning\<close>

text \<open>\<open>str::to_lowercase\<close> on the characters of the model.\<close>

definition char_lowercase :: "char \<Rightarrow> char" where
  "char_lowercase c = (let n = (of_char c :: nat) in
     if 192 \<le> n \<and> n \<le> 222 \<and> n \<noteq> 215 then char_of (n + 32) else ascii_lower c)"

definition to_lowercase :: "string \<Rightarrow> string" where
  "to_lowercase s = map char_lowercase s"

definition has_filter :: "clients_prune_args \<Rightarrow> bool" where
  "has_filter args = list_ex (\<lambda>v. or_default v \<noteq> [])
     [pr_search args, pr_name args, pr_client_id_prefix args, pr_client_id_pattern args]"

definition prune_regex :: "client_env \<Rightarrow> clients_prune_args \<Rightarrow> unit + (string \<Rightarrow> bool) option" where
  "prune_regex ce args =
     (case pr_client_id_pattern args of
        None \<Rightarrow> Inr None
      | Some pattern \<Rightarrow> (case ce_regex ce pattern of None \<Rightarrow> Inl () | Some regex \<Rightarrow> Inr (Some regex)))"

definition passes :: "('a \<Rightarrow> bool) \<Rightarrow> 'a option \<Rightarrow> bool" where
  "passes f v = (case v of None \<Rightarrow> True | Some x \<Rightarrow> f x)"

definition prune_selects ::
  "clients_prune_args \<Rightarrow> (string \<Rightarrow> bool) option \<Rightarrow> client_representation \<Rightarrow> bool" where
  "prune_selects args regex client =
     (case cr_client_id client of
        None \<Rightarrow> False
      | Some client_id \<Rightarrow>
          \<not> List.member (or_else [] (pr_exclude_client_ids args)) client_id \<and>
          passes (\<lambda>term. contains_str (to_lowercase term)
            (to_lowercase (client_id @ '' '' @ or_default (cr_name client)))) (pr_search args) \<and>
          passes (\<lambda>name. cr_name client = Some name) (pr_name args) \<and>
          passes (\<lambda>prefix. starts_with prefix client_id) (pr_client_id_prefix args) \<and>
          passes (\<lambda>regex. regex client_id) regex)"

definition prune_matches ::
  "client_env \<Rightarrow> clients_prune_args \<Rightarrow> (string \<Rightarrow> bool) option \<Rightarrow> json \<Rightarrow> string list" where
  "prune_matches ce args regex payload =
     List.map_filter cr_id (filter (prune_selects args regex) (decode_items (ce_client ce) payload))"

fun prune_request :: "clients_prune_action \<Rightarrow> http_method \<times> json option" where
  "prune_request PruneDelete = (DELETE, None)"
| "prune_request PruneDisable = (PUT, Some (JObj [(''enabled'', JBool False)]))"

fun prune_action_text :: "clients_prune_action \<Rightarrow> string" where
  "prune_action_text PruneDelete = ''delete''"
| "prune_action_text PruneDisable = ''disable''"

definition prune_step ::
  "tool_env \<Rightarrow> caller \<Rightarrow> string \<Rightarrow> clients_prune_action \<Rightarrow> string \<Rightarrow> string list \<Rightarrow>
     (mcp_error + string list) prog" where
  "prune_step te ctx realm action client_id processed =
     try_prog (call_gateway te ctx (fst (prune_request action)) (client_path realm client_id) []
         (snd (prune_request action)))
       (\<lambda>_. Done (Inr (processed @ [client_id])))"

definition prune_clients ::
  "tool_env \<Rightarrow> client_env \<Rightarrow> caller \<Rightarrow> clients_prune_args \<Rightarrow> (string \<Rightarrow> bool) option \<Rightarrow> 32 word \<Rightarrow> nat \<Rightarrow> tool" where
  "prune_clients te ce ctx args regex max_clients limit =
     (let dry_run = or_else True (pr_dry_run args);
          action = or_else PruneDisable (pr_action args)
      in try_prog (call_gateway te ctx GET (clients_path (pr_realm args)) [(''max'', show_u32 max_clients)] None)
           (\<lambda>payload.
           let matched = prune_matches ce args regex payload;
               limited = take limit matched
           in try_prog
                (if dry_run then Done (Inr [])
                 else fold_prog (prune_step te ctx (pr_realm args) action) limited [])
                (\<lambda>processed. reply_json [(''dry_run'', JBool dry_run),
                   (''action'', JStr (prune_action_text action)), (''matched'', JArr (map JStr matched)),
                   (''processed'', JArr (map JStr processed)),
                   (''skipped'', JArr (map JStr (if dry_run then limited else [])))])))"

definition clients_prune ::
  "tool_env \<Rightarrow> client_env \<Rightarrow> caller option \<Rightarrow> clients_prune_args \<Rightarrow> tool" where
  "clients_prune te ce parts args =
     or_return (authorize_tool (te_config te) parts (write_clients te)) (\<lambda>ctx.
     if \<not> pr_confirm args then
       Done (Inr (tool_error ''clients.confirm_required''
         ''confirm=true is required to prune clients.'' (cl_request_id ctx)))
     else if \<not> has_filter args then
       Done (Inr (tool_error ''clients.invalid_input''
         ''At least one filter (search, name, client_id_prefix, client_id_pattern) is required.''
         (cl_request_id ctx)))
     else
     case prune_regex ce args of
       Inl _ \<Rightarrow> Done (Inr (tool_error ''clients.invalid_pattern''
         ''Invalid client_id_pattern; must be a valid regex.'' (cl_request_id ctx)))
     | Inr regex \<Rightarrow>
         (let max_clients = or_else 200 (pr_max args); limit_value = or_else 50 (pr_limit args)
          in if max_clients = 0 \<or> 200 < max_clients then
               Done (Inr (tool_error ''clients.invalid_input'' ''max must be between 1 and 200.''
                 (cl_request_id ctx)))
             else if limit_value = 0 \<or> 200 < limit_value then
               Done (Inr (tool_error ''clients.invalid_input'' ''limit must be between 1 and 200.''
                 (cl_request_id ctx)))
             else prune_clients te ce ctx args regex max_clients (unat limit_value)))"

section \<open>The router and the gate of the core tools\<close>

datatype clients_call =
    ClientsList clients_list_args
  | ClientsSearch clients_search_args
  | ClientsGet client_target
  | ClientsCreate clients_create_args
  | ClientsUpdate clients_update_args
  | ClientsEnable clients_toggle_args
  | ClientsDisable clients_toggle_args
  | ClientsDelete clients_delete_args
  | ClientsIntrospectionCreate clients_introspection_create_args
  | ClientsBulkUpdate clients_bulk_update_args
  | ClientsPrune clients_prune_args

fun clients_tool :: "tool_env \<Rightarrow> client_env \<Rightarrow> caller option \<Rightarrow> clients_call \<Rightarrow> tool" where
  "clients_tool te ce parts (ClientsList args) = clients_list te ce parts args"
| "clients_tool te ce parts (ClientsSearch args) = clients_search te ce parts args"
| "clients_tool te ce parts (ClientsGet args) = clients_get te ce parts args"
| "clients_tool te ce parts (ClientsCreate args) = clients_create te parts args"
| "clients_tool te ce parts (ClientsUpdate args) = clients_update te ce parts args"
| "clients_tool te ce parts (ClientsEnable args) = clients_enable te ce parts args"
| "clients_tool te ce parts (ClientsDisable args) = clients_disable te ce parts args"
| "clients_tool te ce parts (ClientsDelete args) = clients_delete te ce parts args"
| "clients_tool te ce parts (ClientsIntrospectionCreate args) = clients_introspection_create te parts args"
| "clients_tool te ce parts (ClientsBulkUpdate args) = clients_bulk_update te ce parts args"
| "clients_tool te ce parts (ClientsPrune args) = clients_prune te ce parts args"

fun clients_gate :: "scope_map \<Rightarrow> clients_call \<Rightarrow> string list" where
  "clients_gate m (ClientsList _) = ts_read (sm_clients m)"
| "clients_gate m (ClientsSearch _) = ts_read (sm_clients m)"
| "clients_gate m (ClientsGet _) = ts_read (sm_clients m)"
| "clients_gate m (ClientsIntrospectionCreate _) = ts_write (sm_clients m) @ ts_secrets (sm_clients m)"
| "clients_gate m _ = ts_write (sm_clients m)"

subsection \<open>Lemmas\<close>

lemma with_client_sends [sends_intros]:
  assumes "\<And>path query. P (gateway_request ctx GET path query None)"
    and "\<And>client_id. sends P (k client_id)"
  shows "sends P (with_client te ce ctx realm ident client_id k)"
  unfolding with_client_def client_not_found_def by (intro sends_intros assms)

lemma or_client_not_found_sends [sends_intros]:
  assumes "sends P request" and "\<And>payload. sends P (k payload)"
  shows "sends P (or_client_not_found ctx request k)"
  unfolding or_client_not_found_def client_not_found_def by (intro sends_intros assms)

lemma client_step_sends [sends_intros]:
  "sends (made_for ctx) (bulk_update_step te ce ctx realm dry_run update st)"
  "sends (made_for ctx) (prune_step te ctx realm action client_id processed)"
  unfolding bulk_update_step_def prune_step_def Let_def by (intro sends_intros made_for_request)+

lemmas clients_tool_defs = clients_list_def clients_search_def search_lookup_def clients_get_def
  clients_create_def clients_update_def clients_enable_def clients_disable_def clients_toggle_def
  clients_delete_def clients_introspection_create_def clients_bulk_update_def
  clients_prune_def prune_clients_def

lemma clients_tool_opens:
  "opens_with (te_config te) parts (clients_gate (mc_scope_map (te_config te)) call)
     (clients_tool te ce parts call)"
  by (cases call)
    (simp_all only: clients_tool.simps clients_gate.simps clients_tool_defs Let_def,
      (intro gate_intros sends_intros made_for_request)+)

declare clients_tool.simps [simp del]

lemma clients_tool_reads: "read_only (clients_gate default_scope_map call) \<Longrightarrow> sends is_get (clients_tool te ce parts call)"
  by (cases call)
    (simp_all only: clients_tool.simps clients_gate.simps clients_tool_defs write_not_read_only Let_def,
      (intro sends_intros is_get_request)+)

interpretation clients: reading_family clients_tool clients_gate
  by unfold_locales (rule opens_withD [OF clients_tool_opens] clients_tool_reads; assumption)+

section \<open>Properties\<close>

definition bulk_count :: "bulk_state \<Rightarrow> nat" where
  "bulk_count st = length (bu_updated st) + length (bu_skipped st) + length (bu_errors st)"

lemma bulk_count_step:
  "finishes (\<lambda>r. \<exists>st'. r = Inr st' \<and> bulk_count st' = Suc (bulk_count st))
     (bulk_update_step te ce ctx realm dry_run update st)"
  unfolding bulk_update_step_def Let_def
  by (intro ends_intros) (simp_all add: bulk_count_def add_error_def)

lemma bulk_loop_counts:
  assumes "r \<in> ends_of (fold_prog (bulk_update_step te ce ctx realm dry_run) updates
      \<lparr>bu_updated = [], bu_skipped = [], bu_errors = []\<rparr>)"
  shows "\<exists>st. r = Inr st \<and> bulk_count st = length updates"
proof -
  have "\<exists>st. r = Inr st \<and> bulk_count st = 0 + length updates"
    by (rule fold_prog_invariant [OF _ _ assms])
      (use bulk_count_step in \<open>auto simp: finishes_def bulk_count_def\<close>)
  then show ?thesis by simp
qed

lemma within_bulk_step: "within (bulk_update_step te ce ctx realm dry_run update st) 2"
  unfolding bulk_update_step_def Let_def
  by (auto intro!: within_intros split: sum.split option.split)

lemma bulk_step_dry: "sends (\<lambda>q. gq_method q = GET) (bulk_update_step te ce ctx realm True update st)"
  unfolding bulk_update_step_def Let_def if_True by (intro sends_intros gateway_request_simps)


text \<open>The clients a pruning works on, and what it sends for each.\<close>

definition prune_targets ::
  "tool_env \<Rightarrow> client_env \<Rightarrow> clients_prune_args \<Rightarrow> (string \<Rightarrow> bool) option \<Rightarrow> gateway_reply \<Rightarrow> string list" where
  "prune_targets te ce args regex reply =
     (case answer te reply of Inl _ \<Rightarrow> [] | Inr payload \<Rightarrow> prune_matches ce args regex payload)"

definition prune_call :: "caller \<Rightarrow> clients_prune_args \<Rightarrow> string \<Rightarrow> gateway_call" where
  "prune_call ctx args client_id =
     (let request = prune_request (or_else PruneDisable (pr_action args))
      in gateway_request ctx (fst request) (client_path (pr_realm args) client_id) [] (snd request))"

lemma run_prune_loop:
  "\<exists>n \<le> length ids. map fst (trace_of serve (fold_prog (prune_step te ctx realm action) ids processed) w) =
    take n (map (\<lambda>client_id. gateway_request ctx (fst (prune_request action))
      (client_path realm client_id) [] (snd (prune_request action))) ids)"
proof (induction ids arbitrary: processed w)
  case Nil
  then show ?case by simp
next
  case (Cons ident ids)
  let ?call = "\<lambda>client_id. gateway_request ctx (fst (prune_request action))
      (client_path realm client_id) [] (snd (prune_request action))"
  have run: "trace_of serve (fold_prog (prune_step te ctx realm action) (ident # ids) processed) w =
      (if te_joins te (client_path realm ident) then
         (let (reply, w1) = serve w (?call ident) in
          (?call ident, reply) #
          (case answer te reply of
             Inl _ \<Rightarrow> []
           | Inr _ \<Rightarrow> trace_of serve
               (fold_prog (prune_step te ctx realm action) ids (processed @ [ident])) w1))
       else [])"
    by (simp add: prune_step_def try_try trace_try_call split: prod.split sum.split)
  show ?case
  proof (cases "te_joins te (client_path realm ident)")
    case False
    then show ?thesis unfolding run by (intro exI [of _ 0]) simp
  next
    case True
    obtain reply w1 where r: "serve w (?call ident) = (reply, w1)" by fastforce
    show ?thesis
    proof (cases "answer te reply")
      case (Inl err)
      with True r show ?thesis unfolding run by (intro exI [of _ 1]) simp
    next
      case (Inr payload)
      from Cons.IH [of "processed @ [ident]" w1] obtain n where "n \<le> length ids"
        "map fst (trace_of serve
           (fold_prog (prune_step te ctx realm action) ids (processed @ [ident])) w1) =
         take n (map ?call ids)" by blast
      with True r Inr show ?thesis unfolding run by (intro exI [of _ "Suc n"]) simp
    qed
  qed
qed

lemma run_prune_clients:
  "trace_of serve (prune_clients te ce ctx args regex max_clients limit) w = [] \<or>
   (\<exists>reply rest n.
      trace_of serve (prune_clients te ce ctx args regex max_clients limit) w =
        (gateway_request ctx GET (clients_path (pr_realm args)) [(''max'', show_u32 max_clients)] None, reply) # rest \<and>
      map fst rest = take n (map (prune_call ctx args) (prune_targets te ce args regex reply)) \<and>
      n \<le> (if or_else True (pr_dry_run args) then 0 else limit))"
proof (cases "te_joins te (clients_path (pr_realm args))")
  case False
  then show ?thesis by (simp add: prune_clients_def run_try_call Let_def)
next
  case True
  let ?get = "gateway_request ctx GET (clients_path (pr_realm args)) [(''max'', show_u32 max_clients)] None"
  let ?limited = "\<lambda>payload. take limit (prune_matches ce args regex payload)"
  let ?action = "or_else PruneDisable (pr_action args)"
  obtain reply w1 where r: "serve w ?get = (reply, w1)" by fastforce
  have run: "trace_of serve (prune_clients te ce ctx args regex max_clients limit) w =
      (?get, reply) # (case answer te reply of
         Inl _ \<Rightarrow> []
       | Inr payload \<Rightarrow> if or_else True (pr_dry_run args) then []
           else trace_of serve (fold_prog (prune_step te ctx (pr_realm args) ?action) (?limited payload) []) w1)"
    using True r by (simp add: prune_clients_def trace_try_call Let_def split: sum.split)
  show ?thesis
  proof (cases "answer te reply")
    case (Inl err)
    then show ?thesis unfolding run by (intro disjI2 exI [of _ reply] exI [of _ "[]"] exI [of _ 0]) simp
  next
    case (Inr payload)
    from run_prune_loop [of "?limited payload" serve te ctx "pr_realm args" ?action "[]" w1]
    obtain n where n: "n \<le> limit" "map fst (trace_of serve (fold_prog
        (prune_step te ctx (pr_realm args) ?action) (?limited payload) []) w1) =
        take n (map (prune_call ctx args) (?limited payload))"
      unfolding prune_call_def Let_def by auto
    show ?thesis
    proof (cases "or_else True (pr_dry_run args)")
      case True
      with Inr show ?thesis unfolding run by (intro disjI2 exI [of _ reply] exI [of _ "[]"] exI [of _ 0]) simp
    next
      case False
      let ?rest = "trace_of serve (fold_prog (prune_step te ctx (pr_realm args) ?action) (?limited payload) []) w1"
      from False Inr n show ?thesis unfolding run
        by (intro disjI2 exI [of _ reply] exI [of _ ?rest] exI [of _ n])
          (simp add: prune_targets_def take_map)
    qed
  qed
qed

definition listed_clients :: "tool_env \<Rightarrow> client_env \<Rightarrow> gateway_reply \<Rightarrow> client_representation list" where
  "listed_clients te ce reply =
     (case answer te reply of Inl _ \<Rightarrow> [] | Inr payload \<Rightarrow> decode_items (ce_client ce) payload)"

lemma prune_targets_selected:
  "set (prune_targets te ce args regex reply) \<subseteq> {client_id. \<exists>client. cr_id client = Some client_id \<and>
     prune_selects args regex client \<and> client \<in> set (listed_clients te ce reply)}"
  by (auto simp: prune_targets_def prune_matches_def listed_clients_def map_filter_set split: sum.splits)


definition sample_prune :: clients_prune_args where
  "sample_prune = \<lparr>pr_realm = ''master'', pr_confirm = True, pr_dry_run = Some False,
     pr_action = Some PruneDelete, pr_search = Some ''old'', pr_name = None, pr_client_id_prefix = None,
     pr_client_id_pattern = None, pr_exclude_client_ids = None, pr_max = None, pr_limit = None\<rparr>"

definition sample_prune_tool_env :: tool_env where
  "sample_prune_tool_env = sample_tool_env\<lparr>te_from_slice := (\<lambda>_. Some (JArr [JStr ''old-app'']))\<rparr>"

definition sample_named_client :: "string \<Rightarrow> client_representation" where
  "sample_named_client s = \<lparr>cr_id = Some s, cr_client_id = Some s, cr_name = None, cr_enabled = None,
     cr_protocol = None, cr_public_client = None, cr_created_timestamp = None,
     cr_service_accounts_enabled = None\<rparr>"

definition sample_prune_env :: client_env where
  "sample_prune_env = sample_client_env\<lparr>ce_client := (\<lambda>v. map_option sample_named_client (as_str v))\<rparr>"

lemma sample_prune_simps [simp]:
  "pr_realm sample_prune = ''master''" "pr_confirm sample_prune" "pr_dry_run sample_prune = Some False"
  "pr_action sample_prune = Some PruneDelete" "pr_search sample_prune = Some ''old''"
  "pr_client_id_pattern sample_prune = None" "pr_max sample_prune = None" "pr_limit sample_prune = None"
  by (simp_all add: sample_prune_def)

lemma sample_write_authorized:
  "authorize_tool (te_config sample_prune_tool_env) (Some sample_caller) (write_clients sample_prune_tool_env) =
     Inr sample_caller"
  unfolding authorize_tool_Inr require_roles_Inr
  by (simp add: classify_scopes_def write_scopes_def read_scopes_def sample_prune_tool_env_def
      sample_tool_env_def sample_caller_def sample_mcp_config_def default_scope_map_def)

lemma sample_prune_selects: "prune_selects sample_prune None (sample_named_client ''old-app'')"
  by code_simp

lemma sample_prune_matches:
  "prune_matches sample_prune_env sample_prune None (JArr [JStr ''old-app'']) = [''old-app'']"
  by (simp add: prune_matches_def decode_items_def json_items_def List.map_filter_simps sample_prune_env_def
      sample_prune_selects) (simp add: sample_named_client_def)


end
