(* ===== verification/Tools_Client_Scopes.thy ===== *)
theory Tools_Client_Scopes
  imports Tools_Clients
begin

text \<open>
  The tools that bind client scopes to clients (\<open>tools/clients/scopes.rs\<close>, with \<open>list_client_scopes\<close>
  of \<open>clients.rs\<close>): listing, adding, removing, replacing, checking and ensuring. Tools that differ in
  the kind of binding only are one definition with the kind as an argument.
\<close>

section \<open>Arguments and results\<close>

datatype scope_kind = DefaultKind | OptionalKind

type_synonym clients_scopes_args = client_target

record clients_scopes_mutation_args = scope_tokens +
  sma_realm :: string
  sma_id :: "string option"
  sma_client_id :: "string option"
  sma_dry_run :: "bool option"

record clients_scope_binding_args =
  sba_realm :: string
  sba_id :: "string option"
  sba_client_id :: "string option"
  sba_scope :: string

record clients_scope_ensure_args =
  sea_realm :: string
  sea_id :: "string option"
  sea_client_id :: "string option"
  sea_scope :: string
  sea_ensure :: "bool option"
  sea_dry_run :: "bool option"

record clients_scopes_replace_args = scope_tokens +
  sra_realm :: string
  sra_id :: "string option"
  sra_client_id :: "string option"
  sra_confirm :: bool
  sra_dry_run :: "bool option"
  sra_allow_empty :: "bool option"

record scope_mutation_plan =
  mp_requested :: "string list"
  mp_already_bound :: "string list"
  mp_added :: "string list"
  mp_removed :: "string list"

datatype scope_mutation_action = AddBinding | RemoveBinding

fun scope_kind_label :: "scope_kind \<Rightarrow> string" where
  "scope_kind_label DefaultKind = ''default''"
| "scope_kind_label OptionalKind = ''optional''"

fun scope_kind_path :: "scope_kind \<Rightarrow> string" where
  "scope_kind_path DefaultKind = ''default-client-scopes''"
| "scope_kind_path OptionalKind = ''optional-client-scopes''"

section \<open>Plans\<close>

definition scope_add_plan :: "string list \<Rightarrow> string list \<Rightarrow> scope_mutation_plan" where
  "scope_add_plan existing requested =
     (let requested = sorted_distinct requested in
      \<lparr>mp_requested = requested,
       mp_already_bound = filter (\<lambda>scope. List.member existing scope) requested,
       mp_added = sorted_distinct (filter (\<lambda>scope. \<not> List.member existing scope) requested),
       mp_removed = []\<rparr>)"

definition scope_remove_plan :: "string list \<Rightarrow> string list \<Rightarrow> scope_mutation_plan" where
  "scope_remove_plan existing requested =
     (let requested = sorted_distinct requested in
      \<lparr>mp_requested = requested,
       mp_already_bound = filter (\<lambda>scope. \<not> List.member existing scope) requested,
       mp_added = [],
       mp_removed = sorted_distinct (filter (\<lambda>scope. List.member existing scope) requested)\<rparr>)"

definition scope_replace_plan :: "string list \<Rightarrow> string list \<Rightarrow> scope_mutation_plan" where
  "scope_replace_plan existing desired =
     \<lparr>mp_requested = sorted_distinct desired,
      mp_already_bound = sorted_distinct (filter (\<lambda>scope. List.member desired scope) existing),
      mp_added = sorted_distinct (filter (\<lambda>scope. \<not> List.member existing scope) desired),
      mp_removed = sorted_distinct (filter (\<lambda>scope. \<not> List.member desired scope) existing)\<rparr>"

definition mutation_outcome_of ::
  "string list \<Rightarrow> string list \<Rightarrow> bool \<Rightarrow> mutation_outcome \<Rightarrow> mutation_outcome" where
  "mutation_outcome_of to_add to_remove dry_run no_change_default =
     (if to_add = [] \<and> to_remove = [] then no_change_default
      else if dry_run then
        (if to_add \<noteq> [] \<and> to_remove \<noteq> [] then WouldUpdate
         else if to_add \<noteq> [] then WouldAdd else WouldRemove)
      else if to_add \<noteq> [] \<and> to_remove \<noteq> [] then Updated
      else if to_add \<noteq> [] then Added else Removed)"

definition scope_mutation_summary ::
  "client_env \<Rightarrow> mutation_outcome \<Rightarrow> string \<Rightarrow> string \<Rightarrow> string \<Rightarrow> scope_mutation_plan \<Rightarrow> bool \<Rightarrow> tool_result" where
  "scope_mutation_summary ce outcome client requested_state scope_kind plan dry_run =
     (let changed = (mp_added plan \<noteq> [] \<or> mp_removed plan \<noteq> []); texts = (\<lambda>ss. JArr (map JStr ss)) in
      Structured (JObj [(''outcome'', JStr (ce_outcome_text ce outcome)), (''client'', JStr client),
        (''changed'', JBool changed), (''requested_state'', JStr requested_state),
        (''scope_kind'', JStr scope_kind), (''requested_scope_ids'', texts (mp_requested plan)),
        (''already_bound'', texts (mp_already_bound plan)), (''to_add'', texts (mp_added plan)),
        (''to_remove'', texts (mp_removed plan)), (''will_apply'', JBool (\<not> dry_run \<and> changed)),
        (''dry_run'', JBool dry_run)]))"

section \<open>Requests\<close>

definition scope_binding_path :: "string \<Rightarrow> string \<Rightarrow> scope_kind \<Rightarrow> string \<Rightarrow> string" where
  "scope_binding_path realm client_id kind scope_id =
     client_path realm client_id @ ''/'' @ scope_kind_path kind @ ''/'' @ scope_id"

definition validate_scope_client_inputs ::
  "tool_env \<Rightarrow> string \<Rightarrow> string option \<Rightarrow> string option \<Rightarrow> mcp_error + unit" where
  "validate_scope_client_inputs te realm ident client_id =
     and_then (validate_realm_name realm) (\<lambda>_. validate_client_lookup_input te ident client_id)"

text \<open>A summary of a scope has the fields of its representation.\<close>

definition list_client_scopes ::
  "tool_env \<Rightarrow> client_env \<Rightarrow> caller \<Rightarrow> string \<Rightarrow> string \<Rightarrow> scope_kind \<Rightarrow>
     (mcp_error + client_scope_representation list) prog" where
  "list_client_scopes te ce ctx realm client_id kind =
     try_prog (call_gateway te ctx GET (client_path realm client_id @ ''/'' @ scope_kind_path kind) [] None)
       (\<lambda>payload. Done (Inr (decode_items (ce_scope ce) payload)))"

definition existing_client_scopes ::
  "tool_env \<Rightarrow> client_env \<Rightarrow> caller \<Rightarrow> string \<Rightarrow> string \<Rightarrow> scope_kind \<Rightarrow> (mcp_error + string list) prog" where
  "existing_client_scopes te ce ctx realm client_id kind =
     try_prog (list_client_scopes te ce ctx realm client_id kind)
       (\<lambda>existing. Done (Inr (sorted_distinct (List.map_filter sr_id existing))))"

fun scope_mutation_method :: "scope_mutation_action \<Rightarrow> http_method" where
  "scope_mutation_method AddBinding = PUT"
| "scope_mutation_method RemoveBinding = DELETE"

definition apply_scope_mutation ::
  "tool_env \<Rightarrow> caller \<Rightarrow> string \<Rightarrow> string \<Rightarrow> scope_kind \<Rightarrow> string \<Rightarrow> scope_mutation_action \<Rightarrow> bool \<Rightarrow>
     (mcp_error + unit) prog" where
  "apply_scope_mutation te ctx realm client_id kind scope_id action dry_run =
     (if dry_run then Done (Inr ())
      else try_prog (call_gateway te ctx (scope_mutation_method action)
             (scope_binding_path realm client_id kind scope_id) [] None) (\<lambda>_. Done (Inr ())))"

text \<open>The loop over the scopes of a plan.\<close>

definition apply_scope_mutations ::
  "tool_env \<Rightarrow> caller \<Rightarrow> string \<Rightarrow> string \<Rightarrow> scope_kind \<Rightarrow> scope_mutation_action \<Rightarrow> bool \<Rightarrow> string list \<Rightarrow>
     (mcp_error + unit) prog" where
  "apply_scope_mutations te ctx realm client_id kind action dry_run scope_ids =
     fold_prog (\<lambda>scope_id _.
       case validate_no_path_traversal scope_id ''scope_id'' of
         Inl err \<Rightarrow> Done (Inl err)
       | Inr _ \<Rightarrow> apply_scope_mutation te ctx realm client_id kind scope_id action dry_run) scope_ids ()"

text \<open>Removals first.\<close>

definition apply_replace_plan ::
  "tool_env \<Rightarrow> caller \<Rightarrow> string \<Rightarrow> string \<Rightarrow> scope_kind \<Rightarrow> bool \<Rightarrow> scope_mutation_plan \<Rightarrow>
     (mcp_error + unit) prog" where
  "apply_replace_plan te ctx realm client_id kind dry_run plan =
     try_prog (apply_scope_mutations te ctx realm client_id kind RemoveBinding dry_run (mp_removed plan)) (\<lambda>_.
     apply_scope_mutations te ctx realm client_id kind AddBinding dry_run (mp_added plan))"

section \<open>Listing\<close>

definition clients_scopes_list ::
  "scope_kind \<Rightarrow> tool_env \<Rightarrow> client_env \<Rightarrow> caller option \<Rightarrow> clients_scopes_args \<Rightarrow> tool" where
  "clients_scopes_list kind te ce parts args =
     validated (validate_scope_client_inputs te (ct_realm args) (ct_id args) (ct_client_id args))
     (or_return (authorize_tool (te_config te) parts (read_clients te)) (\<lambda>ctx.
      with_client te ce ctx (ct_realm args) (ct_id args) (ct_client_id args) (\<lambda>client_id.
      try_prog (list_client_scopes te ce ctx (ct_realm args) client_id kind) (\<lambda>scopes.
      reply_json [(''scopes'', JArr (map client_scope_summary scopes))]))))"

definition clients_default_scopes where "clients_default_scopes = clients_scopes_list DefaultKind"

definition clients_optional_scopes where "clients_optional_scopes = clients_scopes_list OptionalKind"

section \<open>Adding and removing\<close>

definition scopes_not_found :: "caller \<Rightarrow> string list \<Rightarrow> tool" where
  "scopes_not_found ctx missing_names =
     Done (Inr (tool_error ''client_scopes.not_found''
       (''Client scopes not found: '' @ join '', '' missing_names) (cl_request_id ctx)))"

text \<open>The four tools, by action and kind.\<close>

definition clients_scopes_mutate ::
  "scope_mutation_action \<Rightarrow> scope_kind \<Rightarrow> tool_env \<Rightarrow> client_env \<Rightarrow> caller option \<Rightarrow>
     clients_scopes_mutation_args \<Rightarrow> tool" where
  "clients_scopes_mutate action kind te ce parts args =
     validated (validate_scope_client_inputs te (sma_realm args) (sma_id args) (sma_client_id args))
     (or_return (authorize_tool (te_config te) parts (write_clients te)) (\<lambda>ctx.
      with_client te ce ctx (sma_realm args) (sma_id args) (sma_client_id args) (\<lambda>client_id.
      try_prog (resolve_scope_ids te ce ctx (sma_realm args) (scope_tokens.truncate args)) (\<lambda>resolved.
      if si_missing_names resolved \<noteq> [] then scopes_not_found ctx (si_missing_names resolved)
      else if si_ids resolved = [] then
        Done (Inr (tool_error ''client_scopes.none'' ''No client scopes resolved.'' (cl_request_id ctx)))
      else
      try_prog (existing_client_scopes te ce ctx (sma_realm args) client_id kind) (\<lambda>existing_ids.
      let dry_run = or_else False (sma_dry_run args);
          plan = (case action of
              AddBinding \<Rightarrow> scope_add_plan existing_ids (si_ids resolved)
            | RemoveBinding \<Rightarrow> scope_remove_plan existing_ids (si_ids resolved));
          changes = (case action of AddBinding \<Rightarrow> mp_added plan | RemoveBinding \<Rightarrow> mp_removed plan);
          no_change = (case action of AddBinding \<Rightarrow> AlreadyBound | RemoveBinding \<Rightarrow> AlreadyUnbound);
          state = (case action of AddBinding \<Rightarrow> ''bound'' | RemoveBinding \<Rightarrow> ''unbound'')
      in try_prog (apply_scope_mutations te ctx (sma_realm args) client_id kind action dry_run changes) (\<lambda>_.
         Done (Inr (scope_mutation_summary ce
           (mutation_outcome_of (mp_added plan) (mp_removed plan) dry_run no_change)
           client_id state (scope_kind_label kind) plan dry_run))))))))"

definition clients_default_scopes_add where
  "clients_default_scopes_add = clients_scopes_mutate AddBinding DefaultKind"

definition clients_default_scopes_delete where
  "clients_default_scopes_delete = clients_scopes_mutate RemoveBinding DefaultKind"

definition clients_optional_scopes_add where
  "clients_optional_scopes_add = clients_scopes_mutate AddBinding OptionalKind"

definition clients_optional_scopes_delete where
  "clients_optional_scopes_delete = clients_scopes_mutate RemoveBinding OptionalKind"

section \<open>Replacing\<close>

definition clients_scopes_replace ::
  "scope_kind \<Rightarrow> tool_env \<Rightarrow> client_env \<Rightarrow> caller option \<Rightarrow> clients_scopes_replace_args \<Rightarrow> tool" where
  "clients_scopes_replace kind te ce parts args =
     validated (validate_scope_client_inputs te (sra_realm args) (sra_id args) (sra_client_id args))
     (or_return (authorize_tool (te_config te) parts (write_clients te)) (\<lambda>ctx.
      if \<not> sra_confirm args then
        Done (Inr (tool_error ''clients.confirm_required'' ''confirm=true is required to replace scopes.''
          (cl_request_id ctx)))
      else
      let dry_run = or_else False (sra_dry_run args); allow_empty = or_else False (sra_allow_empty args) in
      with_client te ce ctx (sra_realm args) (sra_id args) (sra_client_id args) (\<lambda>client_id.
      try_prog (resolve_scope_ids te ce ctx (sra_realm args) (scope_tokens.truncate args)) (\<lambda>resolved.
      if si_missing_names resolved \<noteq> [] then scopes_not_found ctx (si_missing_names resolved)
      else if si_ids resolved = [] \<and> \<not> allow_empty then
        Done (Inr (tool_error_with_hint ''client_scopes.empty''
          ''No client scopes resolved. Set allow_empty=true to clear all.'' (cl_request_id ctx)
          ''Set allow_empty=true if you intend to clear all scopes.''))
      else
      try_prog (existing_client_scopes te ce ctx (sra_realm args) client_id kind) (\<lambda>existing_ids.
      let plan = scope_replace_plan existing_ids (si_ids resolved)
      in try_prog (apply_replace_plan te ctx (sra_realm args) client_id kind dry_run plan) (\<lambda>_.
         Done (Inr (scope_mutation_summary ce
           (mutation_outcome_of (mp_added plan) (mp_removed plan) dry_run AlreadyMatch)
           client_id ''exact_match'' (scope_kind_label kind) plan dry_run))))))))"

definition clients_default_scopes_replace where
  "clients_default_scopes_replace = clients_scopes_replace DefaultKind"

definition clients_optional_scopes_replace where
  "clients_optional_scopes_replace = clients_scopes_replace OptionalKind"

section \<open>Checking and ensuring one scope\<close>

definition bound_ids :: "client_scope_representation list \<Rightarrow> string list" where
  "bound_ids scopes = List.map_filter sr_id scopes"

definition binding_result ::
  "string \<Rightarrow> string option \<Rightarrow> client_scope_representation list \<Rightarrow> client_scope_representation list \<Rightarrow> json" where
  "binding_result scope_token maybe_scope_id default_scopes optional_scopes =
     (let effective_scope_names =
            sorted_distinct (List.map_filter sr_name (default_scopes @ optional_scopes));
          bound_in = (\<lambda>scopes. case maybe_scope_id of None \<Rightarrow> False
            | Some scope_id \<Rightarrow> List.member (bound_ids scopes) scope_id);
          in_default = bound_in default_scopes; in_optional = bound_in optional_scopes
      in JObj [(''scope'', JStr scope_token), (''scope_exists'', JBool (maybe_scope_id \<noteq> None)),
           (''in_default'', JBool in_default), (''in_optional'', JBool in_optional),
           (''currently_bound'', JBool (in_default \<or> in_optional)),
           (''effective_scope_names'', JArr (map JStr effective_scope_names)),
           (''missing_scope_hint'',
              if maybe_scope_id = None then JObj [(''code'', JStr ''scope.missing''),
                (''next_action'', JStr ''clients.scope.ensure''), (''query'', JStr scope_token),
                (''remedy'', JStr ''resolve scope id/name via clients.scopes.list, then call clients.scope.ensure with ensure=true'')]
              else JNull)])"

definition resolve_scope_binding ::
  "tool_env \<Rightarrow> client_env \<Rightarrow> caller \<Rightarrow> string \<Rightarrow> string \<Rightarrow> string \<Rightarrow> (mcp_error + json) prog" where
  "resolve_scope_binding te ce ctx realm client_id scope_token =
     (let scope_token = trim scope_token in
      try_prog (load_client_scope_lookup te ce ctx realm) (\<lambda>lookup.
      let maybe_scope_id = resolve_scope_lookup te scope_token lookup in
      try_prog (list_client_scopes te ce ctx realm client_id DefaultKind) (\<lambda>default_scopes.
      try_prog (list_client_scopes te ce ctx realm client_id OptionalKind) (\<lambda>optional_scopes.
      Done (Inr (binding_result scope_token maybe_scope_id default_scopes optional_scopes))))))"

definition clients_scope_binding ::
  "tool_env \<Rightarrow> client_env \<Rightarrow> caller option \<Rightarrow> clients_scope_binding_args \<Rightarrow> tool" where
  "clients_scope_binding te ce parts args =
     validated (validate_scope_client_inputs te (sba_realm args) (sba_id args) (sba_client_id args))
     (let scope = trim (sba_scope args) in
      if scope = [] then
        Done (Inr (tool_error ''clients.invalid_input'' ''scope is required.'' ''req-scope-binding''))
      else
      or_return (authorize_tool (te_config te) parts (read_clients te)) (\<lambda>ctx.
      with_client te ce ctx (sba_realm args) (sba_id args) (sba_client_id args) (\<lambda>client_id.
      try_prog (resolve_scope_binding te ce ctx (sba_realm args) client_id scope) (\<lambda>binding.
      Done (Inr (Structured binding))))))"

text \<open>What ensuring does to a scope whose bindings are known: the outcome, the lists and the changes.\<close>

definition ensure_plan ::
  "bool \<Rightarrow> bool \<Rightarrow> bool \<Rightarrow> bool \<Rightarrow> string \<Rightarrow>
     mutation_outcome \<times> scope_mutation_plan \<times> (scope_kind \<times> scope_mutation_action) list" where
  "ensure_plan ensure dry_run in_default in_optional scope_id =
     (let plan = (\<lambda>already_bound to_add to_remove. \<lparr>mp_requested = [scope_id],
            mp_already_bound = already_bound, mp_added = to_add, mp_removed = to_remove\<rparr>) in
      if ensure then
        (if in_default \<or> in_optional then (AlreadyBound, plan [scope_id] [] [], [])
         else (if dry_run then WouldAdd else Added, plan [] [scope_id] [], [(DefaultKind, AddBinding)]))
      else if \<not> in_default \<and> \<not> in_optional then (AlreadyUnbound, plan [] [] [], [])
      else
        (let kinds = (if in_default then [DefaultKind] else []) @ (if in_optional then [OptionalKind] else [])
         in (if dry_run then WouldRemove else Removed,
             plan [] [] (sorted_distinct (map (\<lambda>_. scope_id) kinds)),
             map (\<lambda>kind. (kind, RemoveBinding)) kinds)))"

definition clients_scope_ensure ::
  "tool_env \<Rightarrow> client_env \<Rightarrow> caller option \<Rightarrow> clients_scope_ensure_args \<Rightarrow> tool" where
  "clients_scope_ensure te ce parts args =
     validated (validate_scope_client_inputs te (sea_realm args) (sea_id args) (sea_client_id args))
     (let scope = trim (sea_scope args) in
      if scope = [] then
        Done (Inr (tool_error ''clients.invalid_input'' ''scope is required.'' ''req-scope-ensure''))
      else
      let ensure = or_else True (sea_ensure args); dry_run = or_else False (sea_dry_run args) in
      or_return (authorize_tool (te_config te) parts (write_clients te)) (\<lambda>ctx.
      with_client te ce ctx (sea_realm args) (sea_id args) (sea_client_id args) (\<lambda>client_id.
      try_prog (load_client_scope_lookup te ce ctx (sea_realm args)) (\<lambda>lookup.
      case resolve_scope_lookup te scope lookup of
        None \<Rightarrow> Done (Inr (tool_error ''client_scopes.not_found'' ''Client scope not found.''
          (cl_request_id ctx)))
      | Some scope_id \<Rightarrow>
          validated (validate_no_path_traversal scope_id ''scope_id'')
          (try_prog (existing_client_scopes te ce ctx (sea_realm args) client_id DefaultKind) (\<lambda>default_ids.
           try_prog (existing_client_scopes te ce ctx (sea_realm args) client_id OptionalKind) (\<lambda>optional_ids.
           let (outcome, plan, changes) = ensure_plan ensure dry_run (List.member default_ids scope_id)
                 (List.member optional_ids scope_id) scope_id
           in try_prog (fold_prog (\<lambda>change _. apply_scope_mutation te ctx (sea_realm args)
                client_id (fst change) scope_id (snd change) dry_run) changes ()) (\<lambda>_.
              Done (Inr (scope_mutation_summary ce outcome client_id
                (if ensure then ''bound'' else ''unbound'') ''default_or_optional'' plan dry_run))))))))))"

section \<open>The router and the gate of the scope tools\<close>

datatype client_scopes_call =
    ClientScopesList scope_kind clients_scopes_args
  | ClientScopesMutate scope_mutation_action scope_kind clients_scopes_mutation_args
  | ClientScopesReplace scope_kind clients_scopes_replace_args
  | ClientScopeBinding clients_scope_binding_args
  | ClientScopeEnsure clients_scope_ensure_args

fun client_scopes_tool :: "tool_env \<Rightarrow> client_env \<Rightarrow> caller option \<Rightarrow> client_scopes_call \<Rightarrow> tool" where
  "client_scopes_tool te ce parts (ClientScopesList kind args) = clients_scopes_list kind te ce parts args"
| "client_scopes_tool te ce parts (ClientScopesMutate action kind args) =
     clients_scopes_mutate action kind te ce parts args"
| "client_scopes_tool te ce parts (ClientScopesReplace kind args) = clients_scopes_replace kind te ce parts args"
| "client_scopes_tool te ce parts (ClientScopeBinding args) = clients_scope_binding te ce parts args"
| "client_scopes_tool te ce parts (ClientScopeEnsure args) = clients_scope_ensure te ce parts args"

fun client_scopes_gate :: "scope_map \<Rightarrow> client_scopes_call \<Rightarrow> string list" where
  "client_scopes_gate m (ClientScopesList _ _) = ts_read (sm_clients m)"
| "client_scopes_gate m (ClientScopeBinding _) = ts_read (sm_clients m)"
| "client_scopes_gate m _ = ts_write (sm_clients m)"

lemma scope_reads_send [sends_intros]:
  assumes "\<And>path query. P (gateway_request ctx GET path query None)"
  shows "sends P (list_client_scopes te ce ctx realm client_id kind)"
    and "sends P (existing_client_scopes te ce ctx realm client_id kind)"
    and "sends P (resolve_scope_binding te ce ctx realm client_id scope_token)"
    and "sends P (scopes_not_found ctx names)"
  unfolding list_client_scopes_def existing_client_scopes_def resolve_scope_binding_def scopes_not_found_def Let_def
  by (intro sends_intros assms)+

lemma scope_steps_send [sends_intros]:
  "sends (made_for ctx) (apply_scope_mutation te ctx realm client_id kind scope_id action dry_run)"
  "sends (made_for ctx) (apply_scope_mutations te ctx realm client_id kind action dry_run scope_ids)"
  "sends (made_for ctx) (apply_replace_plan te ctx realm client_id kind dry_run plan)"
  unfolding apply_scope_mutation_def apply_scope_mutations_def apply_replace_plan_def Let_def
  by (intro sends_intros made_for_request)+

lemma client_scopes_tool_opens:
  "opens_with (te_config te) parts (client_scopes_gate (mc_scope_map (te_config te)) call)
     (client_scopes_tool te ce parts call)"
  by (cases call)
    (simp_all only: client_scopes_tool.simps client_scopes_gate.simps clients_scopes_list_def
       clients_scopes_mutate_def clients_scopes_replace_def clients_scope_binding_def
       clients_scope_ensure_def Let_def,
      (intro gate_intros sends_intros made_for_request)+)

declare client_scopes_tool.simps [simp del]

lemma client_scopes_tool_reads:
  "read_only (client_scopes_gate default_scope_map call) \<Longrightarrow> sends is_get (client_scopes_tool te ce parts call)"
  by (cases call)
    (simp_all only: client_scopes_tool.simps client_scopes_gate.simps write_not_read_only clients_scopes_list_def
       clients_scope_binding_def Let_def,
      (intro sends_intros is_get_request)+)

interpretation client_scopes: reading_family client_scopes_tool client_scopes_gate
  by unfold_locales (rule opens_withD [OF client_scopes_tool_opens] client_scopes_tool_reads; assumption)+

section \<open>Properties\<close>

lemma sorted_distinct_facts [simp]:
  "set (sorted_distinct ss) = set ss" "sorted (sorted_distinct ss)" "distinct (sorted_distinct ss)"
  by (simp_all add: sorted_distinct_def sorted_remdups_adj distinct_remdups_adj_sorted)

text \<open>What a plan does to a set of bindings.\<close>

definition apply_plan :: "scope_mutation_plan \<Rightarrow> string set \<Rightarrow> string set" where
  "apply_plan plan bound = bound - set (mp_removed plan) \<union> set (mp_added plan)"

definition minimal_plan :: "scope_mutation_plan \<Rightarrow> string set \<Rightarrow> bool" where
  "minimal_plan plan bound \<longleftrightarrow> set (mp_removed plan) \<subseteq> bound \<and> set (mp_added plan) \<inter> bound = {} \<and>
     distinct (mp_added plan) \<and> distinct (mp_removed plan) \<and>
     sorted (mp_added plan) \<and> sorted (mp_removed plan)"

text \<open>
  The plans of the scope tools reach their goal with the fewest changes. From the bindings a client
  has, an add plan leads to these and the requested ones, a remove plan to these without the requested
  ones, a replace plan to the requested ones exactly; each adds only what is missing and
  removes only what is bound, once and in sorted order. So a repeated call changes nothing.
\<close>

theorem scope_plans_converge:
  "apply_plan (scope_add_plan existing requested) (set existing) = set existing \<union> set requested \<and>
   apply_plan (scope_remove_plan existing requested) (set existing) = set existing - set requested \<and>
   apply_plan (scope_replace_plan existing requested) (set existing) = set requested \<and>
   minimal_plan (scope_add_plan existing requested) (set existing) \<and>
   minimal_plan (scope_remove_plan existing requested) (set existing) \<and>
   minimal_plan (scope_replace_plan existing requested) (set existing)"
  by (auto simp: apply_plan_def minimal_plan_def scope_add_plan_def scope_remove_plan_def
      scope_replace_plan_def Let_def)

text \<open>
  A gateway behind which Keycloak keeps the bindings of a client: a PUT binds a scope, a DELETE
  unbinds it.
\<close>

definition serves_bindings ::
  "tool_env \<Rightarrow> caller \<Rightarrow> string \<Rightarrow> string \<Rightarrow>
     ((scope_kind \<Rightarrow> string set) \<Rightarrow> gateway_call \<Rightarrow> gateway_reply \<times> (scope_kind \<Rightarrow> string set)) \<Rightarrow> bool" where
  "serves_bindings te ctx realm client_id serve \<longleftrightarrow>
     (\<forall>kind scope_id bindings.
        te_joins te (scope_binding_path realm client_id kind scope_id) \<and>
        serve bindings (gateway_request ctx PUT (scope_binding_path realm client_id kind scope_id) [] None) =
          (Reply 204 [], bindings(kind := insert scope_id (bindings kind))) \<and>
        serve bindings (gateway_request ctx DELETE (scope_binding_path realm client_id kind scope_id) [] None) =
          (Reply 204 [], bindings(kind := bindings kind - {scope_id})))"

fun mutate_set :: "scope_mutation_action \<Rightarrow> string list \<Rightarrow> string set \<Rightarrow> string set" where
  "mutate_set AddBinding ids bound = bound \<union> set ids"
| "mutate_set RemoveBinding ids bound = bound - set ids"

lemma run_scope_mutation:
  assumes "serves_bindings te ctx realm client_id serve"
  shows "\<exists>trace. run_prog serve (apply_scope_mutation te ctx realm client_id kind scope_id action False) bindings =
    (Inr (), trace, bindings(kind := mutate_set action [scope_id] (bindings kind))) \<and> length trace = 1"
  using assms
  by (cases action)
    (simp_all add: apply_scope_mutation_def run_try_call serves_bindings_def read_reply_def
       status_success_def)

lemma run_scope_mutations:
  assumes "serves_bindings te ctx realm client_id serve"
    and "list_all (\<lambda>s. validate_no_path_traversal s ''scope_id'' = Inr ()) ids"
  shows "\<exists>trace. run_prog serve (apply_scope_mutations te ctx realm client_id kind action False ids) bindings =
    (Inr (), trace, bindings(kind := mutate_set action ids (bindings kind))) \<and> length trace = length ids"
  using assms(2)
proof (induction ids arbitrary: bindings)
  case Nil
  then show ?case by (cases action) (simp_all add: apply_scope_mutations_def)
next
  case (Cons s ids)
  from run_scope_mutation [OF assms(1), of kind s action bindings] obtain t where
    one: "run_prog serve (apply_scope_mutation te ctx realm client_id kind s action False) bindings =
      (Inr (), t, bindings(kind := mutate_set action [s] (bindings kind)))" "length t = 1" by blast
  let ?b1 = "bindings(kind := mutate_set action [s] (bindings kind))"
  have ok: "list_all (\<lambda>s. validate_no_path_traversal s ''scope_id'' = Inr ()) ids"
    and s: "validate_no_path_traversal s ''scope_id'' = Inr ()"
    using Cons.prems by simp_all
  from Cons.IH [OF ok, of ?b1] obtain t' where
    rest: "run_prog serve (apply_scope_mutations te ctx realm client_id kind action False ids) ?b1 =
      (Inr (), t', ?b1(kind := mutate_set action ids (?b1 kind)))" "length t' = length ids" by blast
  have "mutate_set action ids (mutate_set action [s] b) = mutate_set action (s # ids) b" for b
    by (cases action) auto
  then have upd: "?b1(kind := mutate_set action ids (?b1 kind)) =
      bindings(kind := mutate_set action (s # ids) (bindings kind))" by (simp add: fun_eq_iff)
  have step: "apply_scope_mutations te ctx realm client_id kind action False (s # ids) =
      try_prog (apply_scope_mutation te ctx realm client_id kind s action False)
        (\<lambda>_. apply_scope_mutations te ctx realm client_id kind action False ids)"
    by (simp add: apply_scope_mutations_def s)
  have "run_prog serve (apply_scope_mutations te ctx realm client_id kind action False (s # ids)) bindings =
      (Inr (), t @ t', bindings(kind := mutate_set action (s # ids) (bindings kind)))"
    unfolding step upd [symmetric] try_prog_def run_bind one(1)
    by (simp only: Let_def prod.case sum.case rest(1))
  moreover have "length (t @ t') = length (s # ids)" using rest(2) one(2) by simp
  ultimately show ?case by blast
qed

lemma apply_nothing_dry:
  "list_all (\<lambda>s. validate_no_path_traversal s ''scope_id'' = Inr ()) ids \<Longrightarrow>
     apply_scope_mutations te ctx realm client_id kind action True ids = Done (Inr ())"
  unfolding apply_scope_mutations_def by (induction ids) (simp_all add: apply_scope_mutation_def)

text \<open>
  C30: Replacing the scopes of a client refines \<open>the client has exactly these scopes\<close>: against a gateway
  that keeps bindings, when the tool has read the client's bindings of the kind, the requests it makes
  end with exactly the requested ones bound, leave the other kind alone and are one per scope that changes;
  a dry run makes none and changes nothing. The scope ids must pass the tool's own check.
\<close>

theorem scope_replace_refines_set:
  assumes "serves_bindings te ctx realm client_id serve" and "bindings kind = set existing"
    and "list_all (\<lambda>s. validate_no_path_traversal s ''scope_id'' = Inr ()) (existing @ requested)"
  shows "(\<exists>trace. run_prog serve
      (apply_replace_plan te ctx realm client_id kind False (scope_replace_plan existing requested)) bindings =
        (Inr (), trace, bindings(kind := set requested)) \<and>
      length trace = card (set existing - set requested) + card (set requested - set existing)) \<and>
    run_prog serve
      (apply_replace_plan te ctx realm client_id kind True (scope_replace_plan existing requested)) bindings =
        (Inr (), [], bindings)"
proof (intro conjI)
  let ?plan = "scope_replace_plan existing requested"
  have removed: "set (mp_removed ?plan) = set existing - set requested" "distinct (mp_removed ?plan)"
    and added: "set (mp_added ?plan) = set requested - set existing" "distinct (mp_added ?plan)"
    by (auto simp: scope_replace_plan_def)
  have ok: "list_all (\<lambda>s. validate_no_path_traversal s ''scope_id'' = Inr ()) (mp_removed ?plan)"
    "list_all (\<lambda>s. validate_no_path_traversal s ''scope_id'' = Inr ()) (mp_added ?plan)"
    using assms(3) removed(1) added(1) by (auto simp: list_all_iff)
  from run_scope_mutations [OF assms(1) ok(1), of kind RemoveBinding bindings] obtain t1 where
    t1: "run_prog serve (apply_scope_mutations te ctx realm client_id kind RemoveBinding False (mp_removed ?plan)) bindings =
      (Inr (), t1, bindings(kind := bindings kind - set (mp_removed ?plan)))" "length t1 = length (mp_removed ?plan)"
    by auto
  from run_scope_mutations [OF assms(1) ok(2), of kind AddBinding "bindings(kind := bindings kind - set (mp_removed ?plan))"]
  obtain t2 where t2: "run_prog serve (apply_scope_mutations te ctx realm client_id kind AddBinding False (mp_added ?plan))
      (bindings(kind := bindings kind - set (mp_removed ?plan))) =
      (Inr (), t2, bindings(kind := bindings kind - set (mp_removed ?plan) \<union> set (mp_added ?plan)))"
    "length t2 = length (mp_added ?plan)" by auto
  have "bindings kind - set (mp_removed ?plan) \<union> set (mp_added ?plan) = set requested"
    using assms(2) removed(1) added(1) by auto
  moreover have "length t1 + length t2 = card (set existing - set requested) + card (set requested - set existing)"
    using t1(2) t2(2) removed added by (metis distinct_card)
  ultimately show "\<exists>trace. run_prog serve
      (apply_replace_plan te ctx realm client_id kind False (scope_replace_plan existing requested)) bindings =
        (Inr (), trace, bindings(kind := set requested)) \<and>
      length trace = card (set existing - set requested) + card (set requested - set existing)"
    using t1(1) t2(1) by (simp add: apply_replace_plan_def try_prog_def run_bind)
  show "run_prog serve
      (apply_replace_plan te ctx realm client_id kind True (scope_replace_plan existing requested)) bindings =
        (Inr (), [], bindings)"
    by (simp add: apply_replace_plan_def apply_nothing_dry ok)
qed

definition sample_store ::
  "(scope_kind \<Rightarrow> string set) \<Rightarrow> gateway_call \<Rightarrow> gateway_reply \<times> (scope_kind \<Rightarrow> string set)" where
  "sample_store bindings q =
     (let rest = drop (length (client_path ''master'' ''app'') + 1) (gq_path q);
          (kind, scope_id) = (if starts_with ''default'' rest then (DefaultKind, drop 22 rest)
            else (OptionalKind, drop 23 rest))
      in (Reply 204 [], bindings(kind := if gq_method q = PUT then insert scope_id (bindings kind)
            else bindings kind - {scope_id})))"

lemma sample_store_serves: "serves_bindings sample_tool_env sample_caller ''master'' ''app'' sample_store"
proof -
  have "sample_store bindings (gateway_request sample_caller m
      (scope_binding_path ''master'' ''app'' kind scope_id) [] None) =
    (Reply 204 [], bindings(kind := if m = PUT then insert scope_id (bindings kind)
      else bindings kind - {scope_id}))" for bindings m kind scope_id
    by (cases kind) (simp_all add: sample_store_def scope_binding_path_def starts_with_def)
  then show ?thesis by (simp add: serves_bindings_def sample_tool_env_def)
qed

theorem scope_replace_refines_set_witness:
  "\<exists>trace. run_prog sample_store (apply_replace_plan sample_tool_env sample_caller ''master'' ''app'' DefaultKind False
      (scope_replace_plan [''email''] [''profile''])) (\<lambda>kind. {''email''}) =
        (Inr (), trace, (\<lambda>kind. {''email''})(DefaultKind := {''profile''})) \<and> length trace = 2"
proof -
  have ok: "list_all (\<lambda>s. validate_no_path_traversal s ''scope_id'' = Inr ()) ([''email''] @ [''profile''])"
    by (simp add: validate_no_path_traversal_def contains_char_def)
  show ?thesis
    using scope_replace_refines_set [OF sample_store_serves _ ok, of "\<lambda>kind. {''email''}" DefaultKind]
    by (simp add: numeral_2_eq_2)
qed

end
