(* ===== verification/Role_Lookup.thy ===== *)
theory Role_Lookup
  imports Client_Lookup
begin

text \<open>
  The resolution of role names to the roles a mapping request needs. The client, group and role tools
  have the same loop (\<open>resolve_realm_roles\<close> and \<open>resolve_client_roles\<close> of \<open>tools/clients.rs\<close> and
  \<open>tools/groups.rs\<close>); the role decoder is an argument.
\<close>

record resolve_roles_result =
  rs_roles :: "client_role_representation list"
  rs_missing :: "string list"

text \<open>A role goes into a request as \<open>serde\<close> writes it: under Keycloak's names.\<close>

definition role_body :: "client_role_representation \<Rightarrow> json" where
  "role_body v = JObj [(''id'', json_opt_str (rr_id v)), (''name'', json_opt_str (rr_name v)),
     (''description'', json_opt_str (rr_description v)), (''composite'', json_opt JBool (rr_composite v)),
     (''clientRole'', json_opt JBool (rr_client_role v)),
     (''containerId'', json_opt_str (rr_container_id v))]"

definition resolve_role_step ::
  "tool_env \<Rightarrow> (json \<Rightarrow> client_role_representation option) \<Rightarrow> caller \<Rightarrow> string \<Rightarrow> string \<Rightarrow> resolve_roles_result \<Rightarrow>
     (mcp_error + resolve_roles_result) prog" where
  "resolve_role_step te decode ctx roles_path role_name st =
     try_prog (call_gateway te ctx GET (roles_path @ ''/'' @ role_name) [] None) (\<lambda>payload.
     case decode payload of
       None \<Rightarrow> Done (Inl (InternalError ''unexpected response from gateway'' NoData))
     | Some role \<Rightarrow>
         if rr_id role = None \<or> rr_name role = None
         then Done (Inr (st\<lparr>rs_missing := rs_missing st @ [role_name]\<rparr>))
         else Done (Inr (st\<lparr>rs_roles := rs_roles st @ [role]\<rparr>)))"

definition resolve_roles_at ::
  "tool_env \<Rightarrow> (json \<Rightarrow> client_role_representation option) \<Rightarrow> caller \<Rightarrow> string \<Rightarrow> string list \<Rightarrow> (mcp_error + resolve_roles_result) prog" where
  "resolve_roles_at te decode ctx roles_path role_names =
     fold_prog (resolve_role_step te decode ctx roles_path) role_names \<lparr>rs_roles = [], rs_missing = []\<rparr>"

definition resolve_realm_roles ::
  "tool_env \<Rightarrow> (json \<Rightarrow> client_role_representation option) \<Rightarrow> caller \<Rightarrow> string \<Rightarrow> string list \<Rightarrow> (mcp_error + resolve_roles_result) prog" where
  "resolve_realm_roles te decode ctx realm =
     resolve_roles_at te decode ctx (''/admin/realms/'' @ realm @ ''/roles'')"

definition resolve_client_roles ::
  "tool_env \<Rightarrow> (json \<Rightarrow> client_role_representation option) \<Rightarrow> caller \<Rightarrow> string \<Rightarrow> string \<Rightarrow> string list \<Rightarrow>
     (mcp_error + resolve_roles_result) prog" where
  "resolve_client_roles te decode ctx realm client_id =
     resolve_roles_at te decode ctx (client_path realm client_id @ ''/roles'')"

text \<open>The list of names must not be empty, and every role must be found; the codes of the errors are the family's.\<close>

definition with_names ::
  "string \<Rightarrow> string \<Rightarrow> caller \<Rightarrow> string list option \<Rightarrow> (string list \<Rightarrow> tool) \<Rightarrow> tool" where
  "with_names code message ctx names k =
     (let role_names = or_else [] names in
      if role_names = [] then Done (Inr (tool_error code message (cl_request_id ctx)))
      else k role_names)"

definition with_role_names :: "string \<Rightarrow> caller \<Rightarrow> string list option \<Rightarrow> (string list \<Rightarrow> tool) \<Rightarrow> tool" where
  "with_role_names code = with_names code ''role_names must include at least one role.''"

definition send_roles ::
  "string \<Rightarrow> tool_env \<Rightarrow> caller \<Rightarrow> http_method \<Rightarrow> string \<Rightarrow> (mcp_error + resolve_roles_result) prog \<Rightarrow> tool" where
  "send_roles code te ctx m path resolve =
     try_prog resolve (\<lambda>resolved.
     if rs_missing resolved \<noteq> [] then
       Done (Inr (tool_error code
         (''Missing roles: '' @ join '', '' (rs_missing resolved)) (cl_request_id ctx)))
     else try_prog (call_gateway te ctx m path [] (Some (JArr (map role_body (rs_roles resolved)))))
            (\<lambda>_. reply_json [(''ok'', JBool True)]))"

lemma resolve_roles_send [sends_intros]:
  "sends (made_for ctx) (resolve_role_step te decode ctx roles_path role_name st)"
  "sends (made_for ctx) (resolve_realm_roles te decode ctx realm role_names)"
  "sends (made_for ctx) (resolve_client_roles te decode ctx realm client_id role_names)"
proof -
  show step: "sends (made_for ctx) (resolve_role_step te decode ctx roles_path role_name st)"
    for roles_path role_name st
    unfolding resolve_role_step_def by (intro sends_intros made_for_request)
  show "sends (made_for ctx) (resolve_realm_roles te decode ctx realm role_names)"
    "sends (made_for ctx) (resolve_client_roles te decode ctx realm client_id role_names)"
    unfolding resolve_realm_roles_def resolve_client_roles_def resolve_roles_at_def
    by (intro sends_fold step)+
qed

lemma with_names_sends [sends_intros]:
  assumes "\<And>names. sends (made_for ctx) (k names)"
  shows "sends (made_for ctx) (with_names code message ctx wanted k)"
    and "sends (made_for ctx) (with_role_names code ctx wanted k)"
  unfolding with_role_names_def with_names_def Let_def by (intro sends_intros assms)+

lemma send_roles_sends [sends_intros]:
  assumes "sends (made_for ctx) resolve"
  shows "sends (made_for ctx) (send_roles code te ctx m path resolve)"
  unfolding send_roles_def Let_def by (intro sends_intros made_for_request assms)

end
