(* ===== verification/Tools_Client_Access.thy ===== *)
theory Tools_Client_Access
  imports Tools_Clients Role_Lookup
begin

text \<open>
  The client tools for secrets (\<open>tools/clients/secrets.rs\<close>), protocol mappers and redirect URIs
  (\<open>tools/clients/mappers.rs\<close>), and role mappings (\<open>tools/clients/roles.rs\<close> with the lookups of
  \<open>clients.rs\<close>). None of them validates its realm. Tools that differ in the method of their last request
  only are one definition.
\<close>

section \<open>Arguments\<close>

type_synonym clients_secret_args = client_target
type_synonym clients_service_account_args = client_target

record clients_secret_rotate_args = client_target +
  csr_confirm :: bool

record clients_mapper_list_args = client_target +
  cml_include_config :: "bool option"

record clients_mapper_add_args = client_target +
  cma_name :: string
  cma_protocol :: string
  cma_protocol_mapper :: string
  cma_config :: "(string \<times> string) list option"
  cma_consent_required :: "bool option"
  cma_consent_text :: "string option"

record clients_mapper_delete_args = client_target +
  cmd_mapper_id :: string

record clients_redirect_uris_args = client_target +
  cru_redirect_uris :: "string list"

record clients_realm_roles_args = client_target +
  crr_role_names :: "string list option"

record clients_role_container_args = client_target +
  crc_role_client_id :: "string option"
  crc_role_client_unique_id :: "string option"

record clients_container_roles_args = clients_role_container_args +
  ccr_role_names :: "string list option"

type_synonym clients_service_account_realm_args = clients_realm_roles_args
type_synonym clients_service_account_client_args = clients_container_roles_args

section \<open>Secrets\<close>

abbreviation secret_scopes :: "tool_env \<Rightarrow> string list" where
  "secret_scopes te \<equiv> write_clients te @ ts_secrets (sm_clients (mc_scope_map (te_config te)))"

definition request_secret ::
  "tool_env \<Rightarrow> client_env \<Rightarrow> caller \<Rightarrow> http_method \<Rightarrow> 'a client_target_scheme \<Rightarrow> tool" where
  "request_secret te ce ctx m args =
     with_client te ce ctx (ct_realm args) (ct_id args) (ct_client_id args) (\<lambda>client_id.
     try_prog (call_gateway te ctx m (client_path (ct_realm args) client_id @ ''/client-secret'') [] None)
       (\<lambda>payload. reply_json [(''secret'', json_opt_str (Option.bind (json_get payload ''value'') as_str))]))"

definition clients_secrets_get :: "tool_env \<Rightarrow> client_env \<Rightarrow> caller option \<Rightarrow> clients_secret_args \<Rightarrow> tool" where
  "clients_secrets_get te ce parts args =
     or_return (authorize_tool (te_config te) parts (secret_scopes te)) (\<lambda>ctx.
     or_return (ensure_secret_tools_enabled ctx (te_config te)) (\<lambda>_.
     request_secret te ce ctx GET args))"

definition clients_secrets_rotate ::
  "tool_env \<Rightarrow> client_env \<Rightarrow> caller option \<Rightarrow> clients_secret_rotate_args \<Rightarrow> tool" where
  "clients_secrets_rotate te ce parts args =
     or_return (authorize_tool (te_config te) parts (secret_scopes te)) (\<lambda>ctx.
     or_return (ensure_secret_tools_enabled ctx (te_config te)) (\<lambda>_.
     if \<not> csr_confirm args then
       Done (Inr (tool_error ''clients.confirm_required'' ''confirm=true is required to rotate secrets.''
         (cl_request_id ctx)))
     else request_secret te ce ctx POST args))"

section \<open>Protocol mappers and redirect URIs\<close>

definition mappers_path :: "string \<Rightarrow> string \<Rightarrow> string" where
  "mappers_path realm client_id = client_path realm client_id @ ''/protocol-mappers/models''"

definition clients_protocol_mappers_list ::
  "tool_env \<Rightarrow> client_env \<Rightarrow> caller option \<Rightarrow> clients_mapper_list_args \<Rightarrow> tool" where
  "clients_protocol_mappers_list te ce parts args =
     or_return (authorize_tool (te_config te) parts (read_clients te)) (\<lambda>ctx.
     with_client te ce ctx (ct_realm args) (ct_id args) (ct_client_id args) (\<lambda>client_id.
     try_prog (call_gateway te ctx GET (mappers_path (ct_realm args) client_id) [] None) (\<lambda>payload.
     let include_config = or_else False (cml_include_config args);
         shown = (\<lambda>mapper. if include_config then mapper else mapper\<lparr>pm_config := None\<rparr>)
     in reply_json [(''mappers'', JArr (map (protocol_mapper_summary \<circ> shown)
          (decode_items (ce_mapper ce) payload)))])))"

definition clients_protocol_mappers_add ::
  "tool_env \<Rightarrow> client_env \<Rightarrow> caller option \<Rightarrow> clients_mapper_add_args \<Rightarrow> tool" where
  "clients_protocol_mappers_add te ce parts args =
     or_return (authorize_tool (te_config te) parts (write_clients te)) (\<lambda>ctx.
     with_client te ce ctx (ct_realm args) (ct_id args) (ct_client_id args) (\<lambda>client_id.
     let body = JObj [(''name'', JStr (cma_name args)), (''protocol'', JStr (cma_protocol args)),
           (''protocolMapper'', JStr (cma_protocol_mapper args)),
           (''config'', json_opt (\<lambda>kvs. JObj (map (\<lambda>(k, s). (k, JStr s)) kvs)) (cma_config args)),
           (''consentRequired'', json_opt JBool (cma_consent_required args)),
           (''consentText'', json_opt_str (cma_consent_text args))]
     in try_prog (call_gateway te ctx POST (mappers_path (ct_realm args) client_id) [] (Some body))
          (\<lambda>_. reply_json [(''ok'', JBool True)])))"

text \<open>The mapper id goes into the path as it is.\<close>

definition clients_protocol_mappers_delete ::
  "tool_env \<Rightarrow> client_env \<Rightarrow> caller option \<Rightarrow> clients_mapper_delete_args \<Rightarrow> tool" where
  "clients_protocol_mappers_delete te ce parts args =
     or_return (authorize_tool (te_config te) parts (write_clients te)) (\<lambda>ctx.
     with_client te ce ctx (ct_realm args) (ct_id args) (ct_client_id args) (\<lambda>client_id.
     try_prog (call_gateway te ctx DELETE
         (mappers_path (ct_realm args) client_id @ ''/'' @ cmd_mapper_id args) [] None)
       (\<lambda>_. reply_json [(''ok'', JBool True)])))"

definition clients_redirect_uris_update ::
  "tool_env \<Rightarrow> client_env \<Rightarrow> caller option \<Rightarrow> clients_redirect_uris_args \<Rightarrow> tool" where
  "clients_redirect_uris_update te ce parts args =
     or_return (authorize_tool (te_config te) parts (write_clients te)) (\<lambda>ctx.
     with_client te ce ctx (ct_realm args) (ct_id args) (ct_client_id args) (\<lambda>client_id.
     try_prog (call_gateway te ctx PUT (client_path (ct_realm args) client_id) []
         (Some (JObj [(''redirectUris'', JArr (map JStr (cru_redirect_uris args)))])))
       (\<lambda>_. reply_json [(''ok'', JBool True)])))"

section \<open>Looking up service accounts\<close>

datatype service_account_lookup =
    AccountFound string
  | AccountNotFound
  | AccountNotEnabled "string option"

definition service_account_disabled_error :: "string \<Rightarrow> string option \<Rightarrow> tool_result" where
  "service_account_disabled_error request_id detail =
     (let message = (case detail of
            Some detail \<Rightarrow>
              if trim detail \<noteq> [] then ''Service accounts are not enabled for this client ('' @ detail @ '').''
              else ''Service accounts are not enabled for this client.''
          | None \<Rightarrow> ''Service accounts are not enabled for this client.'')
      in tool_error_with_hint ''clients.service_account_disabled'' message request_id
           ''Enable service accounts for the client or choose a client with service accounts enabled.'')"

definition service_account_reply ::
  "client_env \<Rightarrow> gateway_failure + json \<Rightarrow> mcp_error + service_account_lookup" where
  "service_account_reply ce r =
     (case r of
        Inr payload \<Rightarrow>
          (case Option.bind (json_get payload ''id'') as_str of
             Some ident \<Rightarrow> if trim ident \<noteq> [] then Inr (AccountFound ident) else Inr AccountNotFound
           | None \<Rightarrow> Inr AccountNotFound)
      | Inl err \<Rightarrow>
          (case err of
             UpstreamStatus status summary \<Rightarrow>
               (let detail = map_option (ce_summary_text ce) summary in
                if status = 404 then Inr AccountNotFound
                else if status = 400 \<and> contains_str ''service account'' (to_lowercase (or_default detail))
                then Inr (AccountNotEnabled detail)
                else Inl (upstream_failure err))
           | _ \<Rightarrow> Inl (upstream_failure err)))"

definition resolve_service_account_user_id ::
  "tool_env \<Rightarrow> client_env \<Rightarrow> caller \<Rightarrow> string \<Rightarrow> string option \<Rightarrow> string option \<Rightarrow>
     (mcp_error + service_account_lookup) prog" where
  "resolve_service_account_user_id te ce ctx realm ident client_id =
     try_prog (resolve_client_id te ce ctx realm ident client_id) (\<lambda>client_id.
     case client_id of
       None \<Rightarrow> Done (Inr AccountNotFound)
     | Some client_id \<Rightarrow>
         map_prog (service_account_reply ce)
           (request_json te ctx GET (client_path realm client_id @ ''/service-account-user'') [] None))"

section \<open>Role mappings\<close>

definition with_role_client ::
  "tool_env \<Rightarrow> client_env \<Rightarrow> caller \<Rightarrow> string \<Rightarrow> 'a clients_role_container_args_scheme \<Rightarrow>
     (string \<Rightarrow> tool) \<Rightarrow> tool" where
  "with_role_client te ce ctx realm args k =
     try_prog (resolve_client_id te ce ctx realm (crc_role_client_unique_id args) (crc_role_client_id args))
       (\<lambda>role_client_id.
       case role_client_id of
         Some role_client_id \<Rightarrow> k role_client_id
       | None \<Rightarrow> Done (Inr (tool_error ''clients.role_client_not_found'' ''Role client not found.''
           (cl_request_id ctx))))"

definition with_service_account ::
  "tool_env \<Rightarrow> client_env \<Rightarrow> caller \<Rightarrow> 'a client_target_scheme \<Rightarrow> (string \<Rightarrow> tool) \<Rightarrow> tool" where
  "with_service_account te ce ctx args k =
     try_prog (resolve_service_account_user_id te ce ctx (ct_realm args) (ct_id args) (ct_client_id args))
       (\<lambda>user_id.
       case user_id of
         AccountFound user_id \<Rightarrow> k user_id
       | AccountNotFound \<Rightarrow> Done (Inr (tool_error ''clients.service_account_not_found''
           ''Service account user not found.'' (cl_request_id ctx)))
       | AccountNotEnabled detail \<Rightarrow>
           Done (Inr (service_account_disabled_error (cl_request_id ctx) detail)))"

definition scope_mappings_path :: "string \<Rightarrow> string \<Rightarrow> string" where
  "scope_mappings_path realm client_id = client_path realm client_id @ ''/scope-mappings''"

definition account_roles_path :: "string \<Rightarrow> string \<Rightarrow> string" where
  "account_roles_path realm user_id = ''/admin/realms/'' @ realm @ ''/users/'' @ user_id @ ''/role-mappings''"

definition clients_scope_mappings_realm ::
  "tool_env \<Rightarrow> client_env \<Rightarrow> caller option \<Rightarrow> client_target \<Rightarrow> tool" where
  "clients_scope_mappings_realm te ce parts args =
     or_return (authorize_tool (te_config te) parts (read_clients te)) (\<lambda>ctx.
     with_client te ce ctx (ct_realm args) (ct_id args) (ct_client_id args) (\<lambda>client_id.
     try_prog (call_gateway te ctx GET (scope_mappings_path (ct_realm args) client_id @ ''/realm'') [] None)
       (\<lambda>payload. reply_json [(''roles'', JArr (map client_role_summary
          (decode_items (ce_role ce) payload)))])))"

text \<open>\<open>POST\<close> adds the mappings, \<open>DELETE\<close> removes them.\<close>

definition clients_scope_mappings_realm_modify ::
  "http_method \<Rightarrow> tool_env \<Rightarrow> client_env \<Rightarrow> caller option \<Rightarrow> clients_realm_roles_args \<Rightarrow> tool" where
  "clients_scope_mappings_realm_modify m te ce parts args =
     or_return (authorize_tool (te_config te) parts (write_clients te)) (\<lambda>ctx.
     with_role_names ''clients.invalid_input'' ctx (crr_role_names args) (\<lambda>role_names.
     with_client te ce ctx (ct_realm args) (ct_id args) (ct_client_id args) (\<lambda>client_id.
     send_roles ''clients.roles_missing'' te ctx m (scope_mappings_path (ct_realm args) client_id @ ''/realm'')
       (resolve_realm_roles te (ce_role ce) ctx (ct_realm args) role_names))))"

definition clients_scope_mappings_realm_add where
  "clients_scope_mappings_realm_add = clients_scope_mappings_realm_modify POST"

definition clients_scope_mappings_realm_delete where
  "clients_scope_mappings_realm_delete = clients_scope_mappings_realm_modify DELETE"

definition clients_scope_mappings_client ::
  "tool_env \<Rightarrow> client_env \<Rightarrow> caller option \<Rightarrow> clients_role_container_args \<Rightarrow> tool" where
  "clients_scope_mappings_client te ce parts args =
     or_return (authorize_tool (te_config te) parts (read_clients te)) (\<lambda>ctx.
     with_client te ce ctx (ct_realm args) (ct_id args) (ct_client_id args) (\<lambda>target_client_id.
     with_role_client te ce ctx (ct_realm args) args (\<lambda>role_client_id.
     try_prog (call_gateway te ctx GET
         (scope_mappings_path (ct_realm args) target_client_id @ ''/clients/'' @ role_client_id) [] None)
       (\<lambda>payload. reply_json [(''roles'', JArr (map client_role_summary
          (decode_items (ce_role ce) payload)))]))))"

definition clients_scope_mappings_client_modify ::
  "http_method \<Rightarrow> tool_env \<Rightarrow> client_env \<Rightarrow> caller option \<Rightarrow> clients_container_roles_args \<Rightarrow> tool" where
  "clients_scope_mappings_client_modify m te ce parts args =
     or_return (authorize_tool (te_config te) parts (write_clients te)) (\<lambda>ctx.
     with_role_names ''clients.invalid_input'' ctx (ccr_role_names args) (\<lambda>role_names.
     with_client te ce ctx (ct_realm args) (ct_id args) (ct_client_id args) (\<lambda>target_client_id.
     with_role_client te ce ctx (ct_realm args) args (\<lambda>role_client_id.
     send_roles ''clients.roles_missing'' te ctx m
       (scope_mappings_path (ct_realm args) target_client_id @ ''/clients/'' @ role_client_id)
       (resolve_client_roles te (ce_role ce) ctx (ct_realm args) role_client_id role_names)))))"

definition clients_scope_mappings_client_add where
  "clients_scope_mappings_client_add = clients_scope_mappings_client_modify POST"

definition clients_scope_mappings_client_delete where
  "clients_scope_mappings_client_delete = clients_scope_mappings_client_modify DELETE"

subsection \<open>Service accounts\<close>

definition service_account_client_json :: "string \<times> client_role_mappings \<Rightarrow> json" where
  "service_account_client_json entry =
     JObj [(''client_id'', JStr (fst entry)), (''client_name'', json_opt_str (crm_client (snd entry))),
       (''roles'', JArr (map client_role_summary (or_else [] (crm_mappings (snd entry)))))]"

definition clients_service_account_roles ::
  "tool_env \<Rightarrow> client_env \<Rightarrow> caller option \<Rightarrow> clients_service_account_args \<Rightarrow> tool" where
  "clients_service_account_roles te ce parts args =
     or_return (authorize_tool (te_config te) parts (read_clients te)) (\<lambda>ctx.
     with_service_account te ce ctx args (\<lambda>user_id.
     try_prog (call_gateway te ctx GET (account_roles_path (ct_realm args) user_id) [] None) (\<lambda>payload.
     case ce_role_mappings ce payload of
       None \<Rightarrow> Done (Inl (InternalError ''unexpected response from gateway'' NoData))
     | Some mappings \<Rightarrow>
         reply_json
           [(''realm'', JArr (map client_role_summary (or_else [] (rm_realm_mappings mappings)))),
            (''clients'', JArr (map service_account_client_json (or_else [] (rm_client_mappings mappings))))])))"

definition clients_service_account_roles_realm_modify ::
  "http_method \<Rightarrow> tool_env \<Rightarrow> client_env \<Rightarrow> caller option \<Rightarrow> clients_service_account_realm_args \<Rightarrow> tool" where
  "clients_service_account_roles_realm_modify m te ce parts args =
     or_return (authorize_tool (te_config te) parts (write_clients te)) (\<lambda>ctx.
     with_role_names ''clients.invalid_input'' ctx (crr_role_names args) (\<lambda>role_names.
     with_service_account te ce ctx args (\<lambda>user_id.
     send_roles ''clients.roles_missing'' te ctx m (account_roles_path (ct_realm args) user_id @ ''/realm'')
       (resolve_realm_roles te (ce_role ce) ctx (ct_realm args) role_names))))"

definition clients_service_account_roles_realm_add where
  "clients_service_account_roles_realm_add = clients_service_account_roles_realm_modify POST"

definition clients_service_account_roles_realm_remove where
  "clients_service_account_roles_realm_remove = clients_service_account_roles_realm_modify DELETE"

definition clients_service_account_roles_client_modify ::
  "http_method \<Rightarrow> tool_env \<Rightarrow> client_env \<Rightarrow> caller option \<Rightarrow> clients_service_account_client_args \<Rightarrow> tool" where
  "clients_service_account_roles_client_modify m te ce parts args =
     or_return (authorize_tool (te_config te) parts (write_clients te)) (\<lambda>ctx.
     with_role_names ''clients.invalid_input'' ctx (ccr_role_names args) (\<lambda>role_names.
     with_service_account te ce ctx args (\<lambda>user_id.
     with_role_client te ce ctx (ct_realm args) args (\<lambda>role_client_id.
     send_roles ''clients.roles_missing'' te ctx m (account_roles_path (ct_realm args) user_id @ ''/clients/'' @ role_client_id)
       (resolve_client_roles te (ce_role ce) ctx (ct_realm args) role_client_id role_names)))))"

definition clients_service_account_roles_client_add where
  "clients_service_account_roles_client_add = clients_service_account_roles_client_modify POST"

definition clients_service_account_roles_client_remove where
  "clients_service_account_roles_client_remove = clients_service_account_roles_client_modify DELETE"

section \<open>The router and the gate of these tools\<close>

datatype client_access_call =
    SecretsGet clients_secret_args
  | SecretsRotate clients_secret_rotate_args
  | MappersList clients_mapper_list_args
  | MappersAdd clients_mapper_add_args
  | MappersDelete clients_mapper_delete_args
  | RedirectUrisUpdate clients_redirect_uris_args
  | ScopeMappingsRealm client_target
  | ScopeMappingsRealmModify http_method clients_realm_roles_args
  | ScopeMappingsClient clients_role_container_args
  | ScopeMappingsClientModify http_method clients_container_roles_args
  | ServiceAccountRoles clients_service_account_args
  | ServiceAccountRealmModify http_method clients_service_account_realm_args
  | ServiceAccountClientModify http_method clients_service_account_client_args

fun client_access_tool :: "tool_env \<Rightarrow> client_env \<Rightarrow> caller option \<Rightarrow> client_access_call \<Rightarrow> tool" where
  "client_access_tool te ce parts (SecretsGet args) = clients_secrets_get te ce parts args"
| "client_access_tool te ce parts (SecretsRotate args) = clients_secrets_rotate te ce parts args"
| "client_access_tool te ce parts (MappersList args) = clients_protocol_mappers_list te ce parts args"
| "client_access_tool te ce parts (MappersAdd args) = clients_protocol_mappers_add te ce parts args"
| "client_access_tool te ce parts (MappersDelete args) = clients_protocol_mappers_delete te ce parts args"
| "client_access_tool te ce parts (RedirectUrisUpdate args) = clients_redirect_uris_update te ce parts args"
| "client_access_tool te ce parts (ScopeMappingsRealm args) = clients_scope_mappings_realm te ce parts args"
| "client_access_tool te ce parts (ScopeMappingsRealmModify m args) =
     clients_scope_mappings_realm_modify m te ce parts args"
| "client_access_tool te ce parts (ScopeMappingsClient args) = clients_scope_mappings_client te ce parts args"
| "client_access_tool te ce parts (ScopeMappingsClientModify m args) =
     clients_scope_mappings_client_modify m te ce parts args"
| "client_access_tool te ce parts (ServiceAccountRoles args) = clients_service_account_roles te ce parts args"
| "client_access_tool te ce parts (ServiceAccountRealmModify m args) =
     clients_service_account_roles_realm_modify m te ce parts args"
| "client_access_tool te ce parts (ServiceAccountClientModify m args) =
     clients_service_account_roles_client_modify m te ce parts args"

fun client_access_gate :: "scope_map \<Rightarrow> client_access_call \<Rightarrow> string list" where
  "client_access_gate m (SecretsGet _) = ts_write (sm_clients m) @ ts_secrets (sm_clients m)"
| "client_access_gate m (SecretsRotate _) = ts_write (sm_clients m) @ ts_secrets (sm_clients m)"
| "client_access_gate m (MappersList _) = ts_read (sm_clients m)"
| "client_access_gate m (ScopeMappingsRealm _) = ts_read (sm_clients m)"
| "client_access_gate m (ScopeMappingsClient _) = ts_read (sm_clients m)"
| "client_access_gate m (ServiceAccountRoles _) = ts_read (sm_clients m)"
| "client_access_gate m _ = ts_write (sm_clients m)"

lemma request_secret_sends [sends_intros]: "sends (made_for ctx) (request_secret te ce ctx m args)"
  unfolding request_secret_def by (intro sends_intros made_for_request)

lemma service_account_sends [sends_intros]:
  assumes "\<And>path query. P (gateway_request ctx GET path query None)"
  shows "sends P (resolve_service_account_user_id te ce ctx realm ident client_id)"
  unfolding resolve_service_account_user_id_def by (intro sends_intros assms)

lemma role_steps_send [sends_intros]:
  assumes "\<And>path query. P (gateway_request ctx GET path query None)"
  shows "(\<And>c. sends P (j c)) \<Longrightarrow> sends P (with_role_client te ce ctx realm args j)"
    and "(\<And>u. sends P (l u)) \<Longrightarrow> sends P (with_service_account te ce ctx target l)"
  unfolding with_role_client_def with_service_account_def
  by (intro sends_intros assms | simp split: service_account_lookup.split)+

lemma client_access_tool_opens:
  "opens_with (te_config te) parts (client_access_gate (mc_scope_map (te_config te)) call)
     (client_access_tool te ce parts call)"
  by (cases call)
    (simp_all only: client_access_tool.simps client_access_gate.simps clients_secrets_get_def
       clients_secrets_rotate_def clients_protocol_mappers_list_def clients_protocol_mappers_add_def
       clients_protocol_mappers_delete_def clients_redirect_uris_update_def clients_scope_mappings_realm_def
       clients_scope_mappings_realm_modify_def clients_scope_mappings_client_def
       clients_scope_mappings_client_modify_def clients_service_account_roles_def
       clients_service_account_roles_realm_modify_def clients_service_account_roles_client_modify_def Let_def,
      (intro gate_intros sends_intros made_for_request)+)

declare client_access_tool.simps [simp del]

lemma client_access_tool_reads:
  "read_only (client_access_gate default_scope_map call) \<Longrightarrow> sends is_get (client_access_tool te ce parts call)"
  by (cases call)
    (simp_all only: client_access_tool.simps client_access_gate.simps write_not_read_only
       clients_protocol_mappers_list_def clients_scope_mappings_realm_def clients_scope_mappings_client_def
       clients_service_account_roles_def Let_def,
      (intro sends_intros is_get_request)+)

interpretation client_access: reading_family client_access_tool client_access_gate
  by unfold_locales (rule opens_withD [OF client_access_tool_opens] client_access_tool_reads; assumption)+

section \<open>Secrets stay guarded\<close>

lemma secret_tools_enabled_Inr [simp]:
  "ensure_secret_tools_enabled ctx cfg = Inr u \<longleftrightarrow> mc_enable_secret_tools cfg"
  by (simp add: ensure_secret_tools_enabled_def)

text \<open>The tools that show or make a client secret.\<close>

datatype secret_call =
    GetSecret clients_secret_args
  | RotateSecret clients_secret_rotate_args
  | CreateIntrospectionClient clients_introspection_create_args

fun secret_tool :: "tool_env \<Rightarrow> client_env \<Rightarrow> caller option \<Rightarrow> secret_call \<Rightarrow> tool" where
  "secret_tool te ce parts (GetSecret args) = client_access_tool te ce parts (SecretsGet args)"
| "secret_tool te ce parts (RotateSecret args) = client_access_tool te ce parts (SecretsRotate args)"
| "secret_tool te ce parts (CreateIntrospectionClient args) = clients_tool te ce parts (ClientsIntrospectionCreate args)"

fun secret_confirmed :: "secret_call \<Rightarrow> bool" where
  "secret_confirmed (GetSecret args) = True"
| "secret_confirmed (RotateSecret args) = csr_confirm args"
| "secret_confirmed (CreateIntrospectionClient args) = ic_confirm args"

text \<open>
  C29: Client secrets are guarded three times: a secret tool sends a request only in a deployment that enables
  the secret tools, for a caller that holds the write and the secrets scopes of clients (and passes
  the role gate for them), and, when it makes a new secret, with the explicit confirmation. A refused call
  sends nothing and is an error result.
\<close>

theorem secret_tools_guarded:
  "if mc_enable_secret_tools (te_config te) \<and> secret_confirmed call \<and>
       (case parts of None \<Rightarrow> False
        | Some ctx \<Rightarrow> set (secret_scopes te) \<subseteq> set (cl_scopes ctx) \<and>
            require_roles_for_scopes ctx (secret_scopes te) (te_config te) = Inr ())
   then True
   else \<exists>e. secret_tool te ce parts call = Done (Inr (StructuredError e))"
proof (cases "authorize_tool (te_config te) parts (secret_scopes te)")
  case (Inl err)
  then obtain e where "err = StructuredError e" using authorize_tool_Inl by blast
  with Inl show ?thesis
    by (cases call) (auto simp: client_access_tool.simps clients_tool.simps clients_secrets_get_def
      clients_secrets_rotate_def clients_introspection_create_def or_return_def)
next
  case (Inr ctx)
  then have facts: "parts = Some ctx" "set (secret_scopes te) \<subseteq> set (cl_scopes ctx)"
    "require_roles_for_scopes ctx (secret_scopes te) (te_config te) = Inr ()"
    unfolding authorize_tool_Inr by blast+
  note gate = Inr [unfolded facts(1)]
  show ?thesis
    unfolding facts(1)
    by (cases call) (use facts(2,3) in \<open>auto simp: gate client_access_tool.simps clients_tool.simps
      clients_secrets_get_def clients_secrets_rotate_def clients_introspection_create_def or_return_def
      ensure_secret_tools_enabled_def tool_error_def tool_error_with_hint_def\<close>)
qed

end
