(* ===== verification/Tools_Groups.thy ===== *)
theory Tools_Groups
  imports Role_Lookup
begin

text \<open>
  The group tools (\<open>tools/groups.rs\<close>). They validate none of their arguments: realm and ids go into the
  path as they are. Tools that differ in the method of their last request only are one definition.
\<close>

section \<open>Arguments and representations\<close>

record groups_list_args =
  gl_realm :: string
  gl_search :: "string option"

record group_target =
  gt_realm :: string
  gt_group_id :: string

type_synonym groups_delete_args = group_target
type_synonym group_role_representation = client_role_representation
type_synonym group_resolve_roles_result = resolve_roles_result

record groups_create_args =
  gc_realm :: string
  gc_name :: string
  gc_parent_id :: "string option"

record groups_members_args = group_target +
  gm_first :: "32 word option"
  gm_max :: "32 word option"
  gm_brief_representation :: "bool option"

record group_roles_realm_args = group_target +
  grr_role_names :: "string list option"

record group_roles_client_args = group_target +
  grc_client_id :: "string option"
  grc_client_unique_id :: "string option"

record group_roles_client_modify_args = group_roles_client_args +
  grm_role_names :: "string list option"

record group_representation =
  grp_id :: "string option"
  grp_name :: "string option"
  grp_path :: "string option"
  grp_parent_id :: "string option"

record member_representation =
  mem_id :: "string option"
  mem_username :: "string option"
  mem_email :: "string option"
  mem_enabled :: "bool option"

record client_reference =
  cref_id :: "string option"
  cref_client_id :: "string option"

record group_env =
  ge_group :: "json \<Rightarrow> group_representation option"
  ge_member :: "json \<Rightarrow> member_representation option"
  ge_client :: "json \<Rightarrow> client_reference option"
  ge_role :: "json \<Rightarrow> group_role_representation option"

definition group_summary :: "group_representation \<Rightarrow> json" where
  "group_summary v = JObj [(''id'', json_opt_str (grp_id v)), (''name'', json_opt_str (grp_name v)),
     (''path'', json_opt_str (grp_path v)), (''parent_id'', json_opt_str (grp_parent_id v))]"

definition member_summary :: "member_representation \<Rightarrow> json" where
  "member_summary v = JObj [(''id'', json_opt_str (mem_id v)), (''username'', json_opt_str (mem_username v)),
     (''email'', json_opt_str (mem_email v)), (''enabled'', json_opt JBool (mem_enabled v))]"

definition group_role_summary :: "group_role_representation \<Rightarrow> json" where
  "group_role_summary v = JObj [(''id'', json_opt_str (rr_id v)), (''name'', json_opt_str (rr_name v)),
     (''description'', json_opt_str (rr_description v)), (''composite'', json_opt JBool (rr_composite v)),
     (''client_role'', json_opt JBool (rr_client_role v)),
     (''container_id'', json_opt_str (rr_container_id v))]"

section \<open>Groups\<close>

abbreviation read_groups :: "tool_env \<Rightarrow> string list" where
  "read_groups te \<equiv> ts_read (sm_groups (mc_scope_map (te_config te)))"

abbreviation write_groups :: "tool_env \<Rightarrow> string list" where
  "write_groups te \<equiv> ts_write (sm_groups (mc_scope_map (te_config te)))"

definition groups_path :: "string \<Rightarrow> string" where
  "groups_path realm = ''/admin/realms/'' @ realm @ ''/groups''"

definition group_path :: "'a group_target_scheme \<Rightarrow> string" where
  "group_path args = groups_path (gt_realm args) @ ''/'' @ gt_group_id args"

definition groups_list :: "tool_env \<Rightarrow> group_env \<Rightarrow> caller option \<Rightarrow> groups_list_args \<Rightarrow> tool" where
  "groups_list te ge parts args =
     or_return (authorize_tool (te_config te) parts (read_groups te)) (\<lambda>ctx.
     try_prog (call_gateway te ctx GET (groups_path (gl_realm args))
         (opt_param ''search'' (\<lambda>s. s) (gl_search args)) None) (\<lambda>payload.
     reply_json [(''groups'', JArr (map group_summary (decode_items (ge_group ge) payload)))]))"

definition groups_get :: "tool_env \<Rightarrow> group_env \<Rightarrow> caller option \<Rightarrow> group_target \<Rightarrow> tool" where
  "groups_get te ge parts args =
     or_return (authorize_tool (te_config te) parts (read_groups te)) (\<lambda>ctx.
     try_prog (call_gateway te ctx GET (group_path args) [] None) (\<lambda>payload.
     case ge_group ge payload of
       None \<Rightarrow> Done (Inl (InternalError ''unexpected response from gateway'' NoData))
     | Some found \<Rightarrow> reply_json [(''group'', group_summary found)]))"

definition groups_create :: "tool_env \<Rightarrow> caller option \<Rightarrow> groups_create_args \<Rightarrow> tool" where
  "groups_create te parts args =
     or_return (authorize_tool (te_config te) parts (write_groups te)) (\<lambda>ctx.
     let path = (case gc_parent_id args of
           Some parent_id \<Rightarrow> groups_path (gc_realm args) @ ''/'' @ parent_id @ ''/children''
         | None \<Rightarrow> groups_path (gc_realm args))
     in try_prog (call_gateway te ctx POST path [] (Some (JObj [(''name'', JStr (gc_name args))]))) (\<lambda>payload.
        reply_json [(''id'', json_opt_str (Option.bind (json_get payload ''id'') as_str))]))"

definition groups_members_list ::
  "tool_env \<Rightarrow> group_env \<Rightarrow> caller option \<Rightarrow> groups_members_args \<Rightarrow> tool" where
  "groups_members_list te ge parts args =
     or_return (authorize_tool (te_config te) parts (read_groups te)) (\<lambda>ctx.
     let query = opt_param ''first'' show_u32 (gm_first args) @ opt_param ''max'' show_u32 (gm_max args) @
           opt_param ''briefRepresentation'' show_bool (gm_brief_representation args)
     in try_prog (call_gateway te ctx GET (group_path args @ ''/members'') query None) (\<lambda>payload.
        reply_json [(''members'', JArr (map member_summary (decode_items (ge_member ge) payload)))]))"

definition groups_delete :: "tool_env \<Rightarrow> caller option \<Rightarrow> groups_delete_args \<Rightarrow> tool" where
  "groups_delete te parts args =
     or_return (authorize_tool (te_config te) parts (write_groups te)) (\<lambda>ctx.
     try_prog (call_gateway te ctx DELETE (group_path args) [] None)
       (\<lambda>_. reply_json [(''deleted'', JBool True)]))"

section \<open>Role mappings of a group\<close>

definition resolve_client_unique_id ::
  "tool_env \<Rightarrow> group_env \<Rightarrow> caller \<Rightarrow> string \<Rightarrow> string option \<Rightarrow> string option \<Rightarrow>
     (mcp_error + string option) prog" where
  "resolve_client_unique_id te ge ctx realm client_unique_id client_id =
     (case client_unique_id of
        Some unique_id \<Rightarrow> Done (Inr (Some unique_id))
      | None \<Rightarrow>
          (case client_id of
             None \<Rightarrow> Done (Inr None)
           | Some client_id \<Rightarrow>
               try_prog (call_gateway te ctx GET (clients_path realm) [(''clientId'', client_id)] None)
                 (\<lambda>payload. Done (Inr (Option.bind
                    (find (\<lambda>client. cref_client_id client = Some client_id)
                      (decode_items (ge_client ge) payload)) cref_id)))))"

definition group_realm_roles ::
  "tool_env \<Rightarrow> group_env \<Rightarrow> caller \<Rightarrow> string \<Rightarrow> string list \<Rightarrow> (mcp_error + group_resolve_roles_result) prog" where
  "group_realm_roles te ge ctx realm = resolve_realm_roles te (ge_role ge) ctx realm"

definition group_client_roles ::
  "tool_env \<Rightarrow> group_env \<Rightarrow> caller \<Rightarrow> string \<Rightarrow> string \<Rightarrow> string list \<Rightarrow>
     (mcp_error + group_resolve_roles_result) prog" where
  "group_client_roles te ge ctx realm client_unique_id =
     resolve_client_roles te (ge_role ge) ctx realm client_unique_id"

definition with_group_client ::
  "tool_env \<Rightarrow> group_env \<Rightarrow> caller \<Rightarrow> 'a group_roles_client_args_scheme \<Rightarrow> (string \<Rightarrow> tool) \<Rightarrow> tool" where
  "with_group_client te ge ctx args k =
     try_prog (resolve_client_unique_id te ge ctx (gt_realm args) (grc_client_unique_id args) (grc_client_id args))
       (\<lambda>client_unique_id.
       case client_unique_id of
         Some ident \<Rightarrow> k ident
       | None \<Rightarrow> Done (Inr (tool_error ''groups.client_not_found'' ''Client not found.'' (cl_request_id ctx))))"

definition groups_roles_realm :: "tool_env \<Rightarrow> group_env \<Rightarrow> caller option \<Rightarrow> group_target \<Rightarrow> tool" where
  "groups_roles_realm te ge parts args =
     or_return (authorize_tool (te_config te) parts (read_groups te)) (\<lambda>ctx.
     try_prog (call_gateway te ctx GET (group_path args @ ''/role-mappings/realm'') [] None) (\<lambda>payload.
     reply_json [(''roles'', JArr (map group_role_summary (decode_items (ge_role ge) payload)))]))"

definition groups_roles_clients ::
  "tool_env \<Rightarrow> group_env \<Rightarrow> caller option \<Rightarrow> group_roles_client_args \<Rightarrow> tool" where
  "groups_roles_clients te ge parts args =
     or_return (authorize_tool (te_config te) parts (read_groups te)) (\<lambda>ctx.
     with_group_client te ge ctx args (\<lambda>client_unique_id.
     try_prog (call_gateway te ctx GET (group_path args @ ''/role-mappings/clients/'' @ client_unique_id) [] None)
       (\<lambda>payload.
     reply_json [(''roles'', JArr (map group_role_summary (decode_items (ge_role ge) payload)))])))"

definition groups_roles_realm_modify ::
  "http_method \<Rightarrow> tool_env \<Rightarrow> group_env \<Rightarrow> caller option \<Rightarrow> group_roles_realm_args \<Rightarrow> tool" where
  "groups_roles_realm_modify m te ge parts args =
     or_return (authorize_tool (te_config te) parts (write_groups te)) (\<lambda>ctx.
     with_role_names ''groups.invalid_input'' ctx (grr_role_names args) (\<lambda>role_names.
     send_roles ''groups.roles_missing'' te ctx m (group_path args @ ''/role-mappings/realm'')
       (group_realm_roles te ge ctx (gt_realm args) role_names)))"

definition groups_roles_realm_add where "groups_roles_realm_add = groups_roles_realm_modify POST"

definition groups_roles_realm_remove where "groups_roles_realm_remove = groups_roles_realm_modify DELETE"

definition groups_roles_client_modify ::
  "http_method \<Rightarrow> tool_env \<Rightarrow> group_env \<Rightarrow> caller option \<Rightarrow> group_roles_client_modify_args \<Rightarrow> tool" where
  "groups_roles_client_modify m te ge parts args =
     or_return (authorize_tool (te_config te) parts (write_groups te)) (\<lambda>ctx.
     with_role_names ''groups.invalid_input'' ctx (grm_role_names args) (\<lambda>role_names.
     with_group_client te ge ctx args (\<lambda>client_unique_id.
     send_roles ''groups.roles_missing'' te ctx m
       (group_path args @ ''/role-mappings/clients/'' @ client_unique_id)
       (group_client_roles te ge ctx (gt_realm args) client_unique_id role_names))))"

definition groups_roles_client_add where "groups_roles_client_add = groups_roles_client_modify POST"

definition groups_roles_client_remove where "groups_roles_client_remove = groups_roles_client_modify DELETE"

section \<open>The router and the gate of the group tools\<close>

datatype groups_call =
    GroupsList groups_list_args
  | GroupsGet group_target
  | GroupsCreate groups_create_args
  | GroupsMembersList groups_members_args
  | GroupsDelete groups_delete_args
  | GroupsRolesRealm group_target
  | GroupsRolesClients group_roles_client_args
  | GroupsRolesRealmModify http_method group_roles_realm_args
  | GroupsRolesClientModify http_method group_roles_client_modify_args

fun groups_tool :: "tool_env \<Rightarrow> group_env \<Rightarrow> caller option \<Rightarrow> groups_call \<Rightarrow> tool" where
  "groups_tool te ge parts (GroupsList args) = groups_list te ge parts args"
| "groups_tool te ge parts (GroupsGet args) = groups_get te ge parts args"
| "groups_tool te ge parts (GroupsCreate args) = groups_create te parts args"
| "groups_tool te ge parts (GroupsMembersList args) = groups_members_list te ge parts args"
| "groups_tool te ge parts (GroupsDelete args) = groups_delete te parts args"
| "groups_tool te ge parts (GroupsRolesRealm args) = groups_roles_realm te ge parts args"
| "groups_tool te ge parts (GroupsRolesClients args) = groups_roles_clients te ge parts args"
| "groups_tool te ge parts (GroupsRolesRealmModify m args) = groups_roles_realm_modify m te ge parts args"
| "groups_tool te ge parts (GroupsRolesClientModify m args) = groups_roles_client_modify m te ge parts args"

fun groups_gate :: "scope_map \<Rightarrow> groups_call \<Rightarrow> string list" where
  "groups_gate m (GroupsCreate _) = ts_write (sm_groups m)"
| "groups_gate m (GroupsDelete _) = ts_write (sm_groups m)"
| "groups_gate m (GroupsRolesRealmModify _ _) = ts_write (sm_groups m)"
| "groups_gate m (GroupsRolesClientModify _ _) = ts_write (sm_groups m)"
| "groups_gate m _ = ts_read (sm_groups m)"

lemma with_group_client_sends [sends_intros]:
  assumes "\<And>path query. P (gateway_request ctx GET path query None)" and "\<And>c. sends P (k c)"
  shows "sends P (with_group_client te ge ctx args k)"
  unfolding with_group_client_def resolve_client_unique_id_def by (intro sends_intros assms)

lemma groups_tool_opens:
  "opens_with (te_config te) parts (groups_gate (mc_scope_map (te_config te)) call)
     (groups_tool te ge parts call)"
  by (cases call)
    (simp_all only: groups_tool.simps groups_gate.simps groups_list_def groups_get_def groups_create_def
       groups_members_list_def groups_delete_def groups_roles_realm_def groups_roles_clients_def
       groups_roles_realm_modify_def groups_roles_client_modify_def group_realm_roles_def
       group_client_roles_def Let_def,
      (intro gate_intros sends_intros made_for_request)+)

declare groups_tool.simps [simp del]

lemma groups_tool_reads: "read_only (groups_gate default_scope_map call) \<Longrightarrow> sends is_get (groups_tool te ge parts call)"
  by (cases call)
    (simp_all only: groups_tool.simps groups_gate.simps write_not_read_only groups_list_def groups_get_def
       groups_members_list_def groups_roles_realm_def groups_roles_clients_def Let_def,
      (intro sends_intros is_get_request)+)

interpretation groups: reading_family groups_tool groups_gate
  by unfold_locales (rule opens_withD [OF groups_tool_opens] groups_tool_reads; assumption)+

end
