(* ===== verification/Tools_Roles.thy ===== *)
theory Tools_Roles
  imports Role_Lookup
begin

text \<open>
  The realm role tools (\<open>tools/roles.rs\<close>). Realm and role name go into the path as they are. The two
  composite tools differ in the method of their last request only.
\<close>

section \<open>Arguments and representations\<close>

record role_target =
  rt_realm :: string
  rt_name :: string

type_synonym roles_delete_args = role_target
type_synonym realm_role_representation = client_role_representation

record roles_list_args =
  rl_realm :: string
  rl_search :: "string option"
  rl_max :: "32 word option"

record roles_create_args = role_target +
  rct_description :: "string option"
  rct_composite :: "bool option"

record roles_list_users_args = role_target +
  rlu_first :: "32 word option"
  rlu_max :: "32 word option"
  rlu_brief_representation :: "bool option"

record roles_composite_args = role_target +
  rca_role_names :: "string list option"

record role_user_representation =
  ru_id :: "string option"
  ru_username :: "string option"
  ru_email :: "string option"
  ru_enabled :: "bool option"

record role_env =
  re_role :: "json \<Rightarrow> realm_role_representation option"
  re_user :: "json \<Rightarrow> role_user_representation option"

definition realm_role_summary :: "realm_role_representation \<Rightarrow> json" where
  "realm_role_summary v = JObj [(''id'', json_opt_str (rr_id v)), (''name'', json_opt_str (rr_name v)),
     (''description'', json_opt_str (rr_description v)), (''composite'', json_opt JBool (rr_composite v)),
     (''client_role'', json_opt JBool (rr_client_role v)),
     (''container_id'', json_opt_str (rr_container_id v))]"

definition role_user_summary :: "role_user_representation \<Rightarrow> json" where
  "role_user_summary v = JObj [(''id'', json_opt_str (ru_id v)), (''username'', json_opt_str (ru_username v)),
     (''email'', json_opt_str (ru_email v)), (''enabled'', json_opt JBool (ru_enabled v))]"

section \<open>The tools\<close>

abbreviation read_roles :: "tool_env \<Rightarrow> string list" where
  "read_roles te \<equiv> ts_read (sm_roles (mc_scope_map (te_config te)))"

abbreviation write_roles :: "tool_env \<Rightarrow> string list" where
  "write_roles te \<equiv> ts_write (sm_roles (mc_scope_map (te_config te)))"

definition roles_path :: "string \<Rightarrow> string" where
  "roles_path realm = ''/admin/realms/'' @ realm @ ''/roles''"

definition role_path :: "'a role_target_scheme \<Rightarrow> string" where
  "role_path args = roles_path (rt_realm args) @ ''/'' @ rt_name args"

definition roles_list :: "tool_env \<Rightarrow> role_env \<Rightarrow> caller option \<Rightarrow> roles_list_args \<Rightarrow> tool" where
  "roles_list te re parts args =
     or_return (authorize_tool (te_config te) parts (read_roles te)) (\<lambda>ctx.
     let query = opt_param ''search'' (\<lambda>s. s) (rl_search args) @ opt_param ''max'' show_u32 (rl_max args) @
           [(''briefRepresentation'', ''true'')]
     in try_prog (call_gateway te ctx GET (roles_path (rl_realm args)) query None) (\<lambda>payload.
        reply_json [(''roles'', JArr (map realm_role_summary (decode_items (re_role re) payload)))]))"

definition roles_get :: "tool_env \<Rightarrow> role_env \<Rightarrow> caller option \<Rightarrow> role_target \<Rightarrow> tool" where
  "roles_get te re parts args =
     or_return (authorize_tool (te_config te) parts (read_roles te)) (\<lambda>ctx.
     try_prog (call_gateway te ctx GET (role_path args) [] None) (\<lambda>payload.
     case re_role re payload of
       None \<Rightarrow> Done (Inl (InternalError ''unexpected response from gateway'' NoData))
     | Some role \<Rightarrow> reply_json [(''role'', realm_role_summary role)]))"

definition roles_create :: "tool_env \<Rightarrow> caller option \<Rightarrow> roles_create_args \<Rightarrow> tool" where
  "roles_create te parts args =
     or_return (authorize_tool (te_config te) parts (write_roles te)) (\<lambda>ctx.
     let body = JObj [(''name'', JStr (rt_name args)), (''description'', json_opt_str (rct_description args)),
           (''composite'', JBool (or_else False (rct_composite args)))]
     in try_prog (call_gateway te ctx POST (roles_path (rt_realm args)) [] (Some body)) (\<lambda>payload.
        let named = (case json_get payload ''roleName'' of
              Some v \<Rightarrow> Some v
            | None \<Rightarrow> json_get payload ''name'')
        in reply_json [(''name'', JStr (or_else (rt_name args) (Option.bind named as_str)))]))"

definition roles_delete :: "tool_env \<Rightarrow> caller option \<Rightarrow> roles_delete_args \<Rightarrow> tool" where
  "roles_delete te parts args =
     or_return (authorize_tool (te_config te) parts (write_roles te)) (\<lambda>ctx.
     try_prog (call_gateway te ctx DELETE (role_path args) [] None)
       (\<lambda>_. reply_json [(''deleted'', JBool True)]))"

definition roles_list_users :: "tool_env \<Rightarrow> role_env \<Rightarrow> caller option \<Rightarrow> roles_list_users_args \<Rightarrow> tool" where
  "roles_list_users te re parts args =
     or_return (authorize_tool (te_config te) parts (read_roles te)) (\<lambda>ctx.
     let query = opt_param ''first'' show_u32 (rlu_first args) @ opt_param ''max'' show_u32 (rlu_max args) @
           opt_param ''briefRepresentation'' show_bool (rlu_brief_representation args)
     in try_prog (call_gateway te ctx GET (role_path args @ ''/users'') query None) (\<lambda>payload.
        reply_json [(''users'', JArr (map role_user_summary (decode_items (re_user re) payload)))]))"

definition roles_list_composites :: "tool_env \<Rightarrow> role_env \<Rightarrow> caller option \<Rightarrow> role_target \<Rightarrow> tool" where
  "roles_list_composites te re parts args =
     or_return (authorize_tool (te_config te) parts (read_roles te)) (\<lambda>ctx.
     try_prog (call_gateway te ctx GET (role_path args @ ''/composites'') [] None) (\<lambda>payload.
     reply_json [(''roles'', JArr (map realm_role_summary (decode_items (re_role re) payload)))]))"

text \<open>The loop over the names; an incomplete role ends the tool with an error result.\<close>

fun with_composite_roles ::
  "tool_env \<Rightarrow> role_env \<Rightarrow> caller \<Rightarrow> string \<Rightarrow> client_role_representation list \<Rightarrow> string list \<Rightarrow>
     (client_role_representation list \<Rightarrow> tool) \<Rightarrow> tool" where
  "with_composite_roles te re ctx realm resolved [] k = k resolved"
| "with_composite_roles te re ctx realm resolved (role_name # role_names) k =
     try_prog (call_gateway te ctx GET (roles_path realm @ ''/'' @ role_name) [] None) (\<lambda>payload.
     case re_role re payload of
       None \<Rightarrow> Done (Inl (InternalError ''unexpected response from gateway'' NoData))
     | Some role \<Rightarrow>
         if rr_id role = None \<or> rr_name role = None then
           Done (Inr (tool_error ''roles.invalid_payload'' ''Resolved role missing id or name.''
             (cl_request_id ctx)))
         else with_composite_roles te re ctx realm (resolved @ [role]) role_names k)"

definition roles_composites_modify ::
  "http_method \<Rightarrow> tool_env \<Rightarrow> role_env \<Rightarrow> caller option \<Rightarrow> roles_composite_args \<Rightarrow> tool" where
  "roles_composites_modify m te re parts args =
     or_return (authorize_tool (te_config te) parts (write_roles te)) (\<lambda>ctx.
     with_role_names ''roles.invalid_input'' ctx (rca_role_names args) (\<lambda>role_names.
     with_composite_roles te re ctx (rt_realm args) [] role_names (\<lambda>resolved.
     try_prog (call_gateway te ctx m (role_path args @ ''/composites'') []
         (Some (JArr (map role_body resolved))))
       (\<lambda>_. reply_json [(''ok'', JBool True)]))))"

definition roles_composites_add where "roles_composites_add = roles_composites_modify POST"

definition roles_composites_remove where "roles_composites_remove = roles_composites_modify DELETE"

section \<open>The router and the gate of the role tools\<close>

datatype roles_call =
    RolesList roles_list_args
  | RolesGet role_target
  | RolesCreate roles_create_args
  | RolesDelete roles_delete_args
  | RolesListUsers roles_list_users_args
  | RolesListComposites role_target
  | RolesCompositesModify http_method roles_composite_args

fun roles_tool :: "tool_env \<Rightarrow> role_env \<Rightarrow> caller option \<Rightarrow> roles_call \<Rightarrow> tool" where
  "roles_tool te re parts (RolesList args) = roles_list te re parts args"
| "roles_tool te re parts (RolesGet args) = roles_get te re parts args"
| "roles_tool te re parts (RolesCreate args) = roles_create te parts args"
| "roles_tool te re parts (RolesDelete args) = roles_delete te parts args"
| "roles_tool te re parts (RolesListUsers args) = roles_list_users te re parts args"
| "roles_tool te re parts (RolesListComposites args) = roles_list_composites te re parts args"
| "roles_tool te re parts (RolesCompositesModify m args) = roles_composites_modify m te re parts args"

fun roles_gate :: "scope_map \<Rightarrow> roles_call \<Rightarrow> string list" where
  "roles_gate m (RolesCreate _) = ts_write (sm_roles m)"
| "roles_gate m (RolesDelete _) = ts_write (sm_roles m)"
| "roles_gate m (RolesCompositesModify _ _) = ts_write (sm_roles m)"
| "roles_gate m _ = ts_read (sm_roles m)"

lemma with_composite_roles_sends [sends_intros]:
  assumes "\<And>rs. sends (made_for ctx) (k rs)"
  shows "sends (made_for ctx) (with_composite_roles te re ctx realm resolved role_names k)"
proof (induction role_names arbitrary: resolved)
  case (Cons role_name role_names)
  then show ?case unfolding with_composite_roles.simps by (intro sends_intros made_for_request)
qed (simp add: assms)

lemma roles_tool_opens:
  "opens_with (te_config te) parts (roles_gate (mc_scope_map (te_config te)) call)
     (roles_tool te re parts call)"
  by (cases call)
    (simp_all only: roles_tool.simps roles_gate.simps roles_list_def roles_get_def roles_create_def
       roles_delete_def roles_list_users_def roles_list_composites_def roles_composites_modify_def Let_def,
      (intro gate_intros sends_intros made_for_request)+)

declare roles_tool.simps [simp del]

lemma roles_tool_reads: "read_only (roles_gate default_scope_map call) \<Longrightarrow> sends is_get (roles_tool te re parts call)"
  by (cases call)
    (simp_all only: roles_tool.simps roles_gate.simps write_not_read_only
       roles_list_def roles_get_def roles_list_users_def roles_list_composites_def Let_def,
      (intro sends_intros is_get_request)+)

interpretation roles: reading_family roles_tool roles_gate
  by unfold_locales (rule opens_withD [OF roles_tool_opens] roles_tool_reads; assumption)+

end
