(* ===== verification/Tools_Scopes.thy ===== *)
theory Tools_Scopes
  imports Role_Lookup
begin

text \<open>
  The tools for the client scopes of a realm (\<open>tools/client_scopes.rs\<close>): the scopes, their protocol
  mappers and their realm role mappings. Nothing is validated: realm and ids go into the path as they
  are. The two tools that change role mappings differ in the method of their last request only.
\<close>

section \<open>Arguments\<close>

record scope_ref =
  sf_realm :: string
  sf_id :: "string option"
  sf_name :: "string option"

type_synonym client_scope_delete_args = scope_ref
type_synonym client_scope_ref_args = scope_ref
type_synonym scope_role_representation = client_role_representation
type_synonym scope_resolve_roles_result = resolve_roles_result

record scopes_list_args =
  sl_realm :: string

record scope_create_args =
  sca_realm :: string
  sca_name :: string
  sca_protocol :: "string option"
  sca_description :: "string option"

record scope_mapper_list_args = scope_ref +
  sml_include_config :: "bool option"

record scope_mapper_add_args = scope_ref +
  sma_mapper_name :: string
  sma_protocol :: string
  sma_protocol_mapper :: string
  sma_config :: "(string \<times> string) list option"

record scope_mapper_delete_args = scope_ref +
  smd_mapper_id :: string

record scope_roles_args = scope_ref +
  sro_role_names :: "string list option"

record scope_env =
  se_scope :: "json \<Rightarrow> client_scope_representation option"
  se_mapper :: "json \<Rightarrow> protocol_mapper_representation option"
  se_role :: "json \<Rightarrow> scope_role_representation option"

definition scope_mapper_summary :: "protocol_mapper_representation \<Rightarrow> json" where
  "scope_mapper_summary v = JObj ([(''id'', json_opt_str (pm_id v)), (''name'', json_opt_str (pm_name v)),
     (''protocol'', json_opt_str (pm_protocol v)),
     (''protocol_mapper'', json_opt_str (pm_protocol_mapper v))] @
     (case pm_config v of None \<Rightarrow> [] | Some kvs \<Rightarrow> [(''config'', JObj (map (\<lambda>(k, s). (k, JStr s)) kvs))]))"

definition scope_summary :: "client_scope_representation \<Rightarrow> json" where
  "scope_summary v = JObj [(''id'', json_opt_str (sr_id v)), (''name'', json_opt_str (sr_name v)),
     (''protocol'', json_opt_str (sr_protocol v)), (''description'', json_opt_str (sr_description v))]"

definition scope_role_summary :: "scope_role_representation \<Rightarrow> json" where
  "scope_role_summary v = JObj [(''id'', json_opt_str (rr_id v)), (''name'', json_opt_str (rr_name v)),
     (''description'', json_opt_str (rr_description v)), (''composite'', json_opt JBool (rr_composite v)),
     (''client_role'', json_opt JBool (rr_client_role v)),
     (''container_id'', json_opt_str (rr_container_id v))]"

section \<open>Resolving a scope\<close>

abbreviation read_client_scopes :: "tool_env \<Rightarrow> string list" where
  "read_client_scopes te \<equiv> ts_read (sm_client_scopes (mc_scope_map (te_config te)))"

abbreviation write_client_scopes :: "tool_env \<Rightarrow> string list" where
  "write_client_scopes te \<equiv> ts_write (sm_client_scopes (mc_scope_map (te_config te)))"

definition scopes_path :: "string \<Rightarrow> string" where
  "scopes_path realm = ''/admin/realms/'' @ realm @ ''/client-scopes''"

definition scope_path :: "'a scope_ref_scheme \<Rightarrow> string \<Rightarrow> string" where
  "scope_path args scope_id = scopes_path (sf_realm args) @ ''/'' @ scope_id"

definition resolve_realm_scope_id ::
  "tool_env \<Rightarrow> scope_env \<Rightarrow> caller \<Rightarrow> string \<Rightarrow> string option \<Rightarrow> string option \<Rightarrow>
     (mcp_error + string option) prog" where
  "resolve_realm_scope_id te se ctx realm scope_id scope_name =
     (case scope_id of
        Some ident \<Rightarrow> Done (Inr (Some ident))
      | None \<Rightarrow>
          (case scope_name of
             None \<Rightarrow> Done (Inr None)
           | Some scope_name \<Rightarrow>
               try_prog (call_gateway te ctx GET (scopes_path realm) [] None)
                 (\<lambda>payload. Done (Inr (Option.bind
                    (find (\<lambda>scope. sr_name scope = Some scope_name) (decode_items (se_scope se) payload))
                    sr_id)))))"

definition scope_realm_roles ::
  "tool_env \<Rightarrow> scope_env \<Rightarrow> caller \<Rightarrow> string \<Rightarrow> string list \<Rightarrow> (mcp_error + scope_resolve_roles_result) prog" where
  "scope_realm_roles te se ctx realm = resolve_realm_roles te (se_role se) ctx realm"

definition with_scope ::
  "tool_env \<Rightarrow> scope_env \<Rightarrow> caller \<Rightarrow> 'a scope_ref_scheme \<Rightarrow> (string \<Rightarrow> tool) \<Rightarrow> tool" where
  "with_scope te se ctx args k =
     try_prog (resolve_realm_scope_id te se ctx (sf_realm args) (sf_id args) (sf_name args)) (\<lambda>scope_id.
     case scope_id of
       Some ident \<Rightarrow> k ident
     | None \<Rightarrow> Done (Inr (tool_error ''client_scopes.not_found'' ''Client scope not found.'' (cl_request_id ctx))))"

section \<open>The tools\<close>

definition client_scopes_list :: "tool_env \<Rightarrow> scope_env \<Rightarrow> caller option \<Rightarrow> scopes_list_args \<Rightarrow> tool" where
  "client_scopes_list te se parts args =
     or_return (authorize_tool (te_config te) parts (read_client_scopes te)) (\<lambda>ctx.
     try_prog (call_gateway te ctx GET (scopes_path (sl_realm args)) [] None) (\<lambda>payload.
     reply_json [(''scopes'', JArr (map scope_summary (decode_items (se_scope se) payload)))]))"

definition client_scopes_get :: "tool_env \<Rightarrow> scope_env \<Rightarrow> caller option \<Rightarrow> scope_ref \<Rightarrow> tool" where
  "client_scopes_get te se parts args =
     or_return (authorize_tool (te_config te) parts (read_client_scopes te)) (\<lambda>ctx.
     try_prog (resolve_realm_scope_id te se ctx (sf_realm args) (sf_id args) (sf_name args)) (\<lambda>scope_id.
     case scope_id of
       None \<Rightarrow> reply_json [(''scope'', JNull)]
     | Some scope_id \<Rightarrow>
         try_prog (call_gateway te ctx GET (scope_path args scope_id) [] None) (\<lambda>payload.
         case se_scope se payload of
           None \<Rightarrow> Done (Inl (InternalError ''unexpected response from gateway'' NoData))
         | Some scope \<Rightarrow> reply_json [(''scope'', scope_summary scope)])))"

definition client_scopes_create :: "tool_env \<Rightarrow> caller option \<Rightarrow> scope_create_args \<Rightarrow> tool" where
  "client_scopes_create te parts args =
     or_return (authorize_tool (te_config te) parts (write_client_scopes te)) (\<lambda>ctx.
     let body = JObj [(''name'', JStr (sca_name args)),
           (''protocol'', JStr (or_else ''openid-connect'' (sca_protocol args))),
           (''description'', json_opt_str (sca_description args))]
     in try_prog (call_gateway te ctx POST (scopes_path (sca_realm args)) [] (Some body)) (\<lambda>payload.
        reply_json [(''id'', json_opt_str (Option.bind (json_get payload ''id'') as_str))]))"

definition client_scopes_delete :: "tool_env \<Rightarrow> scope_env \<Rightarrow> caller option \<Rightarrow> client_scope_delete_args \<Rightarrow> tool" where
  "client_scopes_delete te se parts args =
     or_return (authorize_tool (te_config te) parts (write_client_scopes te)) (\<lambda>ctx.
     with_scope te se ctx args (\<lambda>scope_id.
     try_prog (call_gateway te ctx DELETE (scope_path args scope_id) [] None)
       (\<lambda>_. reply_json [(''ok'', JBool True)])))"

definition client_scopes_protocol_mappers_list ::
  "tool_env \<Rightarrow> scope_env \<Rightarrow> caller option \<Rightarrow> scope_mapper_list_args \<Rightarrow> tool" where
  "client_scopes_protocol_mappers_list te se parts args =
     or_return (authorize_tool (te_config te) parts (read_client_scopes te)) (\<lambda>ctx.
     with_scope te se ctx args (\<lambda>scope_id.
     try_prog (call_gateway te ctx GET (scope_path args scope_id @ ''/protocol-mappers/models'') [] None)
       (\<lambda>payload.
     let include_config = or_else False (sml_include_config args);
         shown = (\<lambda>mapper. if include_config then mapper else mapper\<lparr>pm_config := None\<rparr>)
     in reply_json [(''mappers'', JArr (map (scope_mapper_summary \<circ> shown)
          (decode_items (se_mapper se) payload)))])))"

definition client_scopes_protocol_mappers_add ::
  "tool_env \<Rightarrow> scope_env \<Rightarrow> caller option \<Rightarrow> scope_mapper_add_args \<Rightarrow> tool" where
  "client_scopes_protocol_mappers_add te se parts args =
     or_return (authorize_tool (te_config te) parts (write_client_scopes te)) (\<lambda>ctx.
     with_scope te se ctx args (\<lambda>scope_id.
     let body = JObj [(''name'', JStr (sma_mapper_name args)), (''protocol'', JStr (sma_protocol args)),
           (''protocolMapper'', JStr (sma_protocol_mapper args)),
           (''config'', json_opt (\<lambda>kvs. JObj (map (\<lambda>(k, s). (k, JStr s)) kvs)) (sma_config args))]
     in try_prog (call_gateway te ctx POST (scope_path args scope_id @ ''/protocol-mappers/models'') []
          (Some body)) (\<lambda>_. reply_json [(''ok'', JBool True)])))"

definition client_scopes_protocol_mappers_delete ::
  "tool_env \<Rightarrow> scope_env \<Rightarrow> caller option \<Rightarrow> scope_mapper_delete_args \<Rightarrow> tool" where
  "client_scopes_protocol_mappers_delete te se parts args =
     or_return (authorize_tool (te_config te) parts (write_client_scopes te)) (\<lambda>ctx.
     with_scope te se ctx args (\<lambda>scope_id.
     try_prog (call_gateway te ctx DELETE
         (scope_path args scope_id @ ''/protocol-mappers/models/'' @ smd_mapper_id args) [] None)
       (\<lambda>_. reply_json [(''ok'', JBool True)])))"

definition client_scopes_scope_mappings_realm ::
  "tool_env \<Rightarrow> scope_env \<Rightarrow> caller option \<Rightarrow> scope_ref \<Rightarrow> tool" where
  "client_scopes_scope_mappings_realm te se parts args =
     or_return (authorize_tool (te_config te) parts (read_client_scopes te)) (\<lambda>ctx.
     with_scope te se ctx args (\<lambda>scope_id.
     try_prog (call_gateway te ctx GET (scope_path args scope_id @ ''/scope-mappings/realm'') [] None)
       (\<lambda>payload.
     reply_json [(''roles'', JArr (map scope_role_summary (decode_items (se_role se) payload)))])))"

definition client_scopes_scope_mappings_realm_modify ::
  "http_method \<Rightarrow> tool_env \<Rightarrow> scope_env \<Rightarrow> caller option \<Rightarrow> scope_roles_args \<Rightarrow> tool" where
  "client_scopes_scope_mappings_realm_modify m te se parts args =
     or_return (authorize_tool (te_config te) parts (write_client_scopes te)) (\<lambda>ctx.
     with_names ''client_scopes.invalid_input'' ''role_names must include at least one role name.'' ctx
       (sro_role_names args) (\<lambda>role_names.
     with_scope te se ctx args (\<lambda>scope_id.
     send_roles ''client_scopes.roles_missing'' te ctx m (scope_path args scope_id @ ''/scope-mappings/realm'')
       (scope_realm_roles te se ctx (sf_realm args) role_names))))"

definition client_scopes_scope_mappings_realm_add where
  "client_scopes_scope_mappings_realm_add = client_scopes_scope_mappings_realm_modify POST"

definition client_scopes_scope_mappings_realm_delete where
  "client_scopes_scope_mappings_realm_delete = client_scopes_scope_mappings_realm_modify DELETE"

section \<open>The router and the gate of the client scope tools\<close>

datatype scopes_call =
    ScopesList scopes_list_args
  | ScopesGet scope_ref
  | ScopesCreate scope_create_args
  | ScopesDelete client_scope_delete_args
  | ScopeMappersList scope_mapper_list_args
  | ScopeMappersAdd scope_mapper_add_args
  | ScopeMappersDelete scope_mapper_delete_args
  | ScopeRolesList client_scope_ref_args
  | ScopeRolesModify http_method scope_roles_args

fun scopes_tool :: "tool_env \<Rightarrow> scope_env \<Rightarrow> caller option \<Rightarrow> scopes_call \<Rightarrow> tool" where
  "scopes_tool te se parts (ScopesList args) = client_scopes_list te se parts args"
| "scopes_tool te se parts (ScopesGet args) = client_scopes_get te se parts args"
| "scopes_tool te se parts (ScopesCreate args) = client_scopes_create te parts args"
| "scopes_tool te se parts (ScopesDelete args) = client_scopes_delete te se parts args"
| "scopes_tool te se parts (ScopeMappersList args) = client_scopes_protocol_mappers_list te se parts args"
| "scopes_tool te se parts (ScopeMappersAdd args) = client_scopes_protocol_mappers_add te se parts args"
| "scopes_tool te se parts (ScopeMappersDelete args) = client_scopes_protocol_mappers_delete te se parts args"
| "scopes_tool te se parts (ScopeRolesList args) = client_scopes_scope_mappings_realm te se parts args"
| "scopes_tool te se parts (ScopeRolesModify m args) =
     client_scopes_scope_mappings_realm_modify m te se parts args"

fun scopes_gate :: "scope_map \<Rightarrow> scopes_call \<Rightarrow> string list" where
  "scopes_gate m (ScopesCreate _) = ts_write (sm_client_scopes m)"
| "scopes_gate m (ScopesDelete _) = ts_write (sm_client_scopes m)"
| "scopes_gate m (ScopeMappersAdd _) = ts_write (sm_client_scopes m)"
| "scopes_gate m (ScopeMappersDelete _) = ts_write (sm_client_scopes m)"
| "scopes_gate m (ScopeRolesModify _ _) = ts_write (sm_client_scopes m)"
| "scopes_gate m _ = ts_read (sm_client_scopes m)"

lemma scope_resolution_sends [sends_intros]:
  assumes "\<And>path query. P (gateway_request ctx GET path query None)"
  shows "sends P (resolve_realm_scope_id te se ctx realm scope_id scope_name)"
  unfolding resolve_realm_scope_id_def by (intro sends_intros assms)

lemma with_scope_sends [sends_intros]:
  assumes "\<And>path query. P (gateway_request ctx GET path query None)" and "\<And>c. sends P (k c)"
  shows "sends P (with_scope te se ctx args k)"
  unfolding with_scope_def by (intro sends_intros assms)

lemma scopes_tool_opens:
  "opens_with (te_config te) parts (scopes_gate (mc_scope_map (te_config te)) call)
     (scopes_tool te se parts call)"
  by (cases call)
    (simp_all only: scopes_tool.simps scopes_gate.simps client_scopes_list_def client_scopes_get_def
       client_scopes_create_def client_scopes_delete_def client_scopes_protocol_mappers_list_def
       client_scopes_protocol_mappers_add_def client_scopes_protocol_mappers_delete_def
       client_scopes_scope_mappings_realm_def client_scopes_scope_mappings_realm_modify_def scope_realm_roles_def Let_def,
      (intro gate_intros sends_intros made_for_request)+)

declare scopes_tool.simps [simp del]

lemma scopes_tool_reads: "read_only (scopes_gate default_scope_map call) \<Longrightarrow> sends is_get (scopes_tool te se parts call)"
  by (cases call)
    (simp_all only: scopes_tool.simps scopes_gate.simps write_not_read_only
       client_scopes_list_def client_scopes_get_def client_scopes_protocol_mappers_list_def
       client_scopes_scope_mappings_realm_def Let_def,
      (intro sends_intros is_get_request)+)

interpretation scopes: reading_family scopes_tool scopes_gate
  by unfold_locales (rule opens_withD [OF scopes_tool_opens] scopes_tool_reads; assumption)+

end
