(* ===== verification/Tools_Realms.thy ===== *)
theory Tools_Realms
  imports Mcp_Tools
begin

text \<open>
  The realm tools (\<open>tools/realms.rs\<close> with \<open>realms/core.rs\<close>, \<open>realms/events.rs\<close> and
  \<open>realms/scopes.rs\<close>): realms, authentication flows, events configuration, keys, the SMTP test and the
  default client scopes of a realm. Nothing is validated: realm and ids go into the path as they are.
  The serde decoders of the representations are fields of \<open>realm_env\<close>.
\<close>

section \<open>Arguments and representations\<close>

definition MAX_DESC_LEN :: nat where "MAX_DESC_LEN = 1024"

record realm_args =
  ra_realm :: string

record realm_events_config =
  rec_events_enabled :: "bool option"
  rec_events_expiration :: "64 word option"
  rec_events_listeners :: "string list option"
  rec_enabled_event_types :: "string list option"
  rec_admin_events_enabled :: "bool option"
  rec_admin_events_details_enabled :: "bool option"

record realm_events_config_args = realm_args +
  rea_config :: realm_events_config

record realm_smtp_test_args = realm_args +
  rsm_settings :: "(string \<times> json) list"

datatype default_scope_kind = DefaultKind | OptionalKind

record default_scopes_list_args = realm_args +
  dsl_kind :: default_scope_kind

record default_scopes_add_args = default_scopes_list_args +
  dsa_scope_id :: "string option"
  dsa_scope_name :: "string option"

record default_scopes_remove_args = default_scopes_list_args +
  dsr_scope_id :: string

record realm_representation =
  rep_id :: "string option"
  rep_realm :: "string option"

record auth_flow_representation =
  af_id :: "string option"
  af_alias :: "string option"
  af_description :: "string option"
  af_provider_id :: "string option"
  af_top_level :: "bool option"
  af_built_in :: "bool option"

record realm_key_representation =
  rk_provider_id :: "string option"
  rk_provider_priority :: "64 word option"
  rk_kid :: "string option"
  rk_status :: "string option"
  rk_key_type :: "string option"
  rk_algorithm :: "string option"
  rk_valid_to :: "string option"

record realm_keys_response =
  rkr_active :: "(string \<times> string) list option"
  rkr_keys :: "realm_key_representation list option"

record realm_scope_representation =
  rsr_id :: "string option"
  rsr_name :: "string option"
  rsr_description :: "string option"
  rsr_protocol :: "string option"

record initial_access_representation =
  iar_id :: "string option"
  iar_timestamp :: "64 word option"
  iar_expiration :: "64 word option"
  iar_count :: "64 word option"
  iar_remaining_count :: "64 word option"

record policy_provider_representation =
  ppr_id :: "string option"
  ppr_help_text :: "string option"

record realm_env =
  rle_realm :: "json \<Rightarrow> realm_representation option"
  rle_flow :: "json \<Rightarrow> auth_flow_representation option"
  rle_keys :: "json \<Rightarrow> realm_keys_response option"
  rle_scope :: "json \<Rightarrow> realm_scope_representation option"
  rle_initial_access :: "json \<Rightarrow> initial_access_representation option"
  rle_provider :: "json \<Rightarrow> policy_provider_representation option"

definition short_text :: "string option \<Rightarrow> json" where
  "short_text v = json_opt_str (map_option (take MAX_DESC_LEN) v)"

definition realm_summary :: "realm_representation \<Rightarrow> json" where
  "realm_summary v = JObj [(''id'', json_opt_str (rep_id v)), (''realm'', json_opt_str (rep_realm v))]"

definition auth_flow_summary :: "auth_flow_representation \<Rightarrow> json" where
  "auth_flow_summary v = JObj [(''id'', json_opt_str (af_id v)), (''alias'', json_opt_str (af_alias v)),
     (''description'', short_text (af_description v)), (''provider_id'', json_opt_str (af_provider_id v)),
     (''top_level'', json_opt JBool (af_top_level v)), (''built_in'', json_opt JBool (af_built_in v))]"

definition realm_key_summary :: "realm_key_representation \<Rightarrow> json" where
  "realm_key_summary v = JObj [(''provider_id'', json_opt_str (rk_provider_id v)),
     (''provider_priority'', json_opt json_i64 (rk_provider_priority v)), (''kid'', json_opt_str (rk_kid v)),
     (''status'', json_opt_str (rk_status v)), (''key_type'', json_opt_str (rk_key_type v)),
     (''algorithm'', json_opt_str (rk_algorithm v)), (''valid_to'', json_opt_str (rk_valid_to v))]"

definition realm_keys_summary :: "realm_keys_response option \<Rightarrow> json" where
  "realm_keys_summary v =
     (case v of
        Some response \<Rightarrow> JObj
          [(''active'', json_opt (\<lambda>kvs. JObj (map (\<lambda>(k, s). (k, JStr s)) kvs)) (rkr_active response)),
           (''keys'', JArr (map realm_key_summary (or_else [] (rkr_keys response))))]
      | None \<Rightarrow> JObj [(''active'', JNull), (''keys'', JArr [])])"

definition realm_scope_summary :: "realm_scope_representation \<Rightarrow> json" where
  "realm_scope_summary v = JObj [(''id'', json_opt_str (rsr_id v)), (''name'', json_opt_str (rsr_name v)),
     (''description'', short_text (rsr_description v)), (''protocol'', json_opt_str (rsr_protocol v))]"

text \<open>A configuration is sent under Keycloak's names, the fields that are not set left out.\<close>

definition realm_events_body :: "realm_events_config \<Rightarrow> json" where
  "realm_events_body v = JObj (
     extra ''eventsEnabled'' JBool (rec_events_enabled v) @
     extra ''eventsExpiration'' json_i64 (rec_events_expiration v) @
     extra ''eventsListeners'' (JArr \<circ> map JStr) (rec_events_listeners v) @
     extra ''enabledEventTypes'' (JArr \<circ> map JStr) (rec_enabled_event_types v) @
     extra ''adminEventsEnabled'' JBool (rec_admin_events_enabled v) @
     extra ''adminEventsDetailsEnabled'' JBool (rec_admin_events_details_enabled v))"

section \<open>Paths\<close>

abbreviation read_realms :: "tool_env \<Rightarrow> string list" where
  "read_realms te \<equiv> ts_read (sm_realms (mc_scope_map (te_config te)))"

abbreviation write_realms :: "tool_env \<Rightarrow> string list" where
  "write_realms te \<equiv> ts_write (sm_realms (mc_scope_map (te_config te)))"

abbreviation admin_realms :: "tool_env \<Rightarrow> string list" where
  "admin_realms te \<equiv> ts_admin (sm_realms (mc_scope_map (te_config te)))"

definition realm_path :: "string \<Rightarrow> string" where
  "realm_path realm = ''/admin/realms/'' @ realm"

fun scope_kind_suffix :: "default_scope_kind \<Rightarrow> string" where
  "scope_kind_suffix DefaultKind = ''default-default-client-scopes''"
| "scope_kind_suffix OptionalKind = ''default-optional-client-scopes''"

definition realm_default_scopes_path :: "string \<Rightarrow> default_scope_kind \<Rightarrow> string" where
  "realm_default_scopes_path realm kind = realm_path realm @ ''/'' @ scope_kind_suffix kind"

definition realm_default_scope_member_path :: "string \<Rightarrow> default_scope_kind \<Rightarrow> string \<Rightarrow> string" where
  "realm_default_scope_member_path realm kind scope_id =
     realm_path realm @ ''/'' @ scope_kind_suffix kind @ ''/'' @ scope_id"

section \<open>The tools\<close>

definition realms_list :: "tool_env \<Rightarrow> realm_env \<Rightarrow> caller option \<Rightarrow> tool" where
  "realms_list te re parts =
     or_return (authorize_tool (te_config te) parts (read_realms te)) (\<lambda>ctx.
     try_prog (call_gateway te ctx GET ''/admin/realms'' [] None) (\<lambda>payload.
     reply_json [(''realms'', JArr (map realm_summary (decode_items (rle_realm re) payload)))]))"

definition realm_authentication_flows_list ::
  "tool_env \<Rightarrow> realm_env \<Rightarrow> caller option \<Rightarrow> realm_args \<Rightarrow> tool" where
  "realm_authentication_flows_list te re parts args =
     or_return (authorize_tool (te_config te) parts (read_realms te)) (\<lambda>ctx.
     try_prog (call_gateway te ctx GET (realm_path (ra_realm args) @ ''/authentication/flows'') [] None)
       (\<lambda>payload.
     reply_json [(''flows'', JArr (map auth_flow_summary (decode_items (rle_flow re) payload)))]))"

definition realm_events_config_get :: "tool_env \<Rightarrow> caller option \<Rightarrow> realm_args \<Rightarrow> tool" where
  "realm_events_config_get te parts args =
     or_return (authorize_tool (te_config te) parts (read_realms te)) (\<lambda>ctx.
     try_prog (call_gateway te ctx GET (realm_path (ra_realm args) @ ''/events/config'') [] None)
       (\<lambda>payload. reply_json [(''config'', payload)]))"

definition realm_events_config_set ::
  "tool_env \<Rightarrow> caller option \<Rightarrow> realm_events_config_args \<Rightarrow> tool" where
  "realm_events_config_set te parts args =
     or_return (authorize_tool (te_config te) parts (write_realms te)) (\<lambda>ctx.
     try_prog (call_gateway te ctx PUT (realm_path (ra_realm args) @ ''/events/config'') []
         (Some (realm_events_body (rea_config args))))
       (\<lambda>_. reply_json [(''ok'', JBool True)]))"

definition realm_keys_list :: "tool_env \<Rightarrow> realm_env \<Rightarrow> caller option \<Rightarrow> realm_args \<Rightarrow> tool" where
  "realm_keys_list te re parts args =
     or_return (authorize_tool (te_config te) parts (read_realms te)) (\<lambda>ctx.
     try_prog (call_gateway te ctx GET (realm_path (ra_realm args) @ ''/keys'') [] None)
       (\<lambda>payload. reply_json [(''keys'', realm_keys_summary (rle_keys re payload))]))"

definition realm_smtp_test :: "tool_env \<Rightarrow> caller option \<Rightarrow> realm_smtp_test_args \<Rightarrow> tool" where
  "realm_smtp_test te parts args =
     or_return (authorize_tool (te_config te) parts (write_realms te)) (\<lambda>ctx.
     try_prog (call_gateway te ctx POST (realm_path (ra_realm args) @ ''/testSMTPConnection'') []
         (Some (JObj (rsm_settings args))))
       (\<lambda>_. reply_json [(''ok'', JBool True)]))"

definition realm_default_scopes_list ::
  "tool_env \<Rightarrow> realm_env \<Rightarrow> caller option \<Rightarrow> default_scopes_list_args \<Rightarrow> tool" where
  "realm_default_scopes_list te re parts args =
     or_return (authorize_tool (te_config te) parts (admin_realms te)) (\<lambda>ctx.
     try_prog (call_gateway te ctx GET (realm_default_scopes_path (ra_realm args) (dsl_kind args)) [] None)
       (\<lambda>payload.
     reply_json [(''scopes'', JArr (map realm_scope_summary (decode_items (rle_scope re) payload)))]))"

definition realm_scope_id ::
  "tool_env \<Rightarrow> realm_env \<Rightarrow> caller \<Rightarrow> string \<Rightarrow> string option \<Rightarrow> string option \<Rightarrow>
     (mcp_error + string option) prog" where
  "realm_scope_id te re ctx realm scope_id scope_name =
     (case scope_id of
        Some ident \<Rightarrow> Done (Inr (Some ident))
      | None \<Rightarrow>
          (case scope_name of
             None \<Rightarrow> Done (Inr None)
           | Some scope_name \<Rightarrow>
               try_prog (call_gateway te ctx GET (realm_path realm @ ''/client-scopes'') [] None)
                 (\<lambda>payload. Done (Inr (Option.bind
                    (find (\<lambda>scope. rsr_name scope = Some scope_name) (decode_items (rle_scope re) payload))
                    rsr_id)))))"

definition realm_default_scopes_add ::
  "tool_env \<Rightarrow> realm_env \<Rightarrow> caller option \<Rightarrow> default_scopes_add_args \<Rightarrow> tool" where
  "realm_default_scopes_add te re parts args =
     or_return (authorize_tool (te_config te) parts (admin_realms te)) (\<lambda>ctx.
     try_prog (realm_scope_id te re ctx (ra_realm args) (dsa_scope_id args) (dsa_scope_name args)) (\<lambda>scope_id.
     case scope_id of
       None \<Rightarrow> Done (Inr (tool_error ''realm.default_scopes.scope_not_found'' ''Client scope not found.''
         (cl_request_id ctx)))
     | Some scope_id \<Rightarrow>
         try_prog (call_gateway te ctx PUT
             (realm_default_scope_member_path (ra_realm args) (dsl_kind args) scope_id) [] None)
           (\<lambda>_. reply_json [(''ok'', JBool True)])))"

definition realm_default_scopes_remove ::
  "tool_env \<Rightarrow> caller option \<Rightarrow> default_scopes_remove_args \<Rightarrow> tool" where
  "realm_default_scopes_remove te parts args =
     or_return (authorize_tool (te_config te) parts (admin_realms te)) (\<lambda>ctx.
     try_prog (call_gateway te ctx DELETE
         (realm_default_scope_member_path (ra_realm args) (dsl_kind args) (dsr_scope_id args)) [] None)
       (\<lambda>_. reply_json [(''removed'', JBool True)]))"

section \<open>The router and the gate of the realm tools\<close>

datatype realms_call =
    RealmsList
  | RealmFlowsList realm_args
  | RealmEventsGet realm_args
  | RealmEventsSet realm_events_config_args
  | RealmKeysList realm_args
  | RealmSmtpTest realm_smtp_test_args
  | RealmScopesList default_scopes_list_args
  | RealmScopesAdd default_scopes_add_args
  | RealmScopesRemove default_scopes_remove_args

fun realms_tool :: "tool_env \<Rightarrow> realm_env \<Rightarrow> caller option \<Rightarrow> realms_call \<Rightarrow> tool" where
  "realms_tool te re parts RealmsList = realms_list te re parts"
| "realms_tool te re parts (RealmFlowsList args) = realm_authentication_flows_list te re parts args"
| "realms_tool te re parts (RealmEventsGet args) = realm_events_config_get te parts args"
| "realms_tool te re parts (RealmEventsSet args) = realm_events_config_set te parts args"
| "realms_tool te re parts (RealmKeysList args) = realm_keys_list te re parts args"
| "realms_tool te re parts (RealmSmtpTest args) = realm_smtp_test te parts args"
| "realms_tool te re parts (RealmScopesList args) = realm_default_scopes_list te re parts args"
| "realms_tool te re parts (RealmScopesAdd args) = realm_default_scopes_add te re parts args"
| "realms_tool te re parts (RealmScopesRemove args) = realm_default_scopes_remove te parts args"

fun realms_gate :: "scope_map \<Rightarrow> realms_call \<Rightarrow> string list" where
  "realms_gate m (RealmEventsSet _) = ts_write (sm_realms m)"
| "realms_gate m (RealmSmtpTest _) = ts_write (sm_realms m)"
| "realms_gate m (RealmScopesList _) = ts_admin (sm_realms m)"
| "realms_gate m (RealmScopesAdd _) = ts_admin (sm_realms m)"
| "realms_gate m (RealmScopesRemove _) = ts_admin (sm_realms m)"
| "realms_gate m _ = ts_read (sm_realms m)"

lemma realm_scope_id_sends [sends_intros]:
  assumes "\<And>path query. P (gateway_request ctx GET path query None)"
  shows "sends P (realm_scope_id te re ctx realm scope_id scope_name)"
  unfolding realm_scope_id_def by (intro sends_intros assms)

lemma realms_tool_opens:
  "opens_with (te_config te) parts (realms_gate (mc_scope_map (te_config te)) call)
     (realms_tool te re parts call)"
  by (cases call)
    (simp_all only: realms_tool.simps realms_gate.simps realms_list_def realm_authentication_flows_list_def
       realm_events_config_get_def realm_events_config_set_def realm_keys_list_def realm_smtp_test_def
       realm_default_scopes_list_def realm_default_scopes_add_def realm_default_scopes_remove_def Let_def,
      (intro gate_intros sends_intros made_for_request)+)

declare realms_tool.simps [simp del]

lemma realms_tool_reads: "read_only (realms_gate default_scope_map call) \<Longrightarrow> sends is_get (realms_tool te re parts call)"
  by (cases call)
    (simp_all only: realms_tool.simps realms_gate.simps write_not_read_only
       realms_list_def realm_authentication_flows_list_def
       realm_events_config_get_def realm_keys_list_def Let_def,
      (intro sends_intros is_get_request)+)

interpretation realms: reading_family realms_tool realms_gate
  by unfold_locales (rule opens_withD [OF realms_tool_opens] realms_tool_reads; assumption)+

end
