(* ===== verification/Tools_Registration.thy ===== *)
theory Tools_Registration
  imports Tools_Realms "HOL-Library.AList"
begin

text \<open>
  The client registration tools (\<open>realms/registration.rs\<close> with the helpers of \<open>tools/realms.rs\<close>): the
  registration policy components of a realm and its initial access tokens. A component is the JSON object
  the gateway sent; only its configuration is changed. An object is read by its keys: the order of its
  entries, which \<open>serde_json\<close> sorts, is not modelled.
\<close>

section \<open>Policy components (tools/realms.rs)\<close>

definition CLIENT_REG_POLICY_COMPONENT_TYPE :: string where
  "CLIENT_REG_POLICY_COMPONENT_TYPE =
     ''org.keycloak.services.clientregistration.policy.ClientRegistrationPolicy''"

definition DEFAULT_ALLOWED_CLIENT_SCOPES_PROVIDER :: string where
  "DEFAULT_ALLOWED_CLIENT_SCOPES_PROVIDER = ''allowed-client-templates''"

definition CONFIG_ALLOWED_CLIENT_SCOPES_KEYS :: "string list" where
  "CONFIG_ALLOWED_CLIENT_SCOPES_KEYS = [''allowedClientScopes'', ''allowed-client-scopes'']"

definition CONFIG_ALLOW_DEFAULT_SCOPES_KEYS :: "string list" where
  "CONFIG_ALLOW_DEFAULT_SCOPES_KEYS = [''allowDefaultScopes'', ''allow-default-scopes'']"

type_synonym json_map = "(string \<times> json) list"

text \<open>The arguments of \<open>list\<close>, \<open>get\<close> and \<open>delete\<close>; \<open>update\<close> extends them.\<close>

record policy_selector =
  ps_realm :: string
  ps_id :: "string option"
  ps_name :: "string option"
  ps_provider_id :: "string option"

record policy_update_args = policy_selector +
  pu_allowed_scopes :: "string list"
  pu_allow_default_scopes :: "bool option"

record policy_create_args =
  pc_realm :: string
  pc_name :: "string option"
  pc_provider_id :: "string option"
  pc_allowed_scopes :: "string list"
  pc_allow_default_scopes :: "bool option"

record policy_summary =
  sum_id :: "string option"
  sum_name :: "string option"
  sum_provider_id :: "string option"
  sum_provider_type :: "string option"
  sum_parent_id :: "string option"
  sum_allowed_scopes :: "string list"
  sum_allow_default_scopes :: "bool option"
  sum_config :: json

definition first_key :: "json_map \<Rightarrow> string list \<Rightarrow> string option" where
  "first_key config keys = find (\<lambda>key. map_of config key \<noteq> None) keys"

definition set_config_list :: "string list \<Rightarrow> string list \<Rightarrow> json_map \<Rightarrow> json_map" where
  "set_config_list keys values config =
     (let target = (case first_key config keys of Some key \<Rightarrow> key | None \<Rightarrow> keys ! 0)
      in AList.update target (JArr (map JStr values)) config)"

definition set_config_bool :: "string list \<Rightarrow> bool \<Rightarrow> json_map \<Rightarrow> json_map" where
  "set_config_bool keys v config = set_config_list keys [if v then ''true'' else ''false''] config"

definition resolve_registration_policy_provider_id ::
  "string option \<Rightarrow> string option \<Rightarrow> string option \<Rightarrow> string option" where
  "resolve_registration_policy_provider_id ident name provider_id =
     (if ident = None \<and> name = None \<and> provider_id = None
      then Some DEFAULT_ALLOWED_CLIENT_SCOPES_PROVIDER else provider_id)"

definition str_field :: "json \<Rightarrow> string \<Rightarrow> string option" where
  "str_field item key = Option.bind (json_get item key) as_str"

definition component_matches ::
  "string option \<Rightarrow> string option \<Rightarrow> string option \<Rightarrow> json \<Rightarrow> bool" where
  "component_matches ident name provider_id item =
     ((ident = None \<or> ident = str_field item ''id'') \<and>
      (name = None \<or> name = str_field item ''name'') \<and>
      (provider_id = None \<or> provider_id = str_field item ''providerId''))"

definition match_registration_policy_components ::
  "json list \<Rightarrow> string option \<Rightarrow> string option \<Rightarrow> string option \<Rightarrow> nat list" where
  "match_registration_policy_components components ident name provider_id =
     (if ident = None \<and> name = None \<and> provider_id = None then []
      else filter (\<lambda>idx. component_matches ident name provider_id (components ! idx)) [0..<length components])"

definition first_value :: "json_map \<Rightarrow> string list \<Rightarrow> json option" where
  "first_value config keys = Option.bind (first_key config keys) (map_of config)"

definition registration_policy_config_values :: "json_map \<Rightarrow> string list \<Rightarrow> string list" where
  "registration_policy_config_values config keys =
     (case first_value config keys of
        Some (JArr values) \<Rightarrow> List.map_filter as_str values
      | Some (JStr v) \<Rightarrow> [v]
      | _ \<Rightarrow> [])"

definition parse_text :: "string \<Rightarrow> bool option" where
  "parse_text v =
     (let v = trim v in
      if to_ascii_lowercase v = ''true'' then Some True
      else if to_ascii_lowercase v = ''false'' then Some False
      else None)"

definition registration_policy_config_bool :: "json_map \<Rightarrow> string list \<Rightarrow> bool option" where
  "registration_policy_config_bool config keys =
     (case first_value config keys of
        Some (JBool v) \<Rightarrow> Some v
      | Some (JStr v) \<Rightarrow> parse_text v
      | Some (JArr (JBool v # _)) \<Rightarrow> Some v
      | Some (JArr (JStr v # _)) \<Rightarrow> parse_text v
      | _ \<Rightarrow> None)"

definition summarize_registration_policy_component :: "json \<Rightarrow> policy_summary option" where
  "summarize_registration_policy_component component =
     (case component of
        JObj entries \<Rightarrow>
          (let config = (case json_get component ''config'' of Some (JObj config) \<Rightarrow> config | _ \<Rightarrow> [])
           in Some \<lparr>sum_id = str_field component ''id'', sum_name = str_field component ''name'',
                sum_provider_id = str_field component ''providerId'',
                sum_provider_type = str_field component ''providerType'',
                sum_parent_id = str_field component ''parentId'',
                sum_allowed_scopes =
                  registration_policy_config_values config CONFIG_ALLOWED_CLIENT_SCOPES_KEYS,
                sum_allow_default_scopes =
                  registration_policy_config_bool config CONFIG_ALLOW_DEFAULT_SCOPES_KEYS,
                sum_config = JObj config\<rparr>)
      | _ \<Rightarrow> None)"

definition policy_summary_json :: "policy_summary \<Rightarrow> json" where
  "policy_summary_json v = JObj [(''id'', json_opt_str (sum_id v)), (''name'', json_opt_str (sum_name v)),
     (''provider_id'', json_opt_str (sum_provider_id v)),
     (''provider_type'', json_opt_str (sum_provider_type v)),
     (''parent_id'', json_opt_str (sum_parent_id v)),
     (''allowed_scopes'', JArr (map JStr (sum_allowed_scopes v))),
     (''allow_default_scopes'', json_opt JBool (sum_allow_default_scopes v)), (''config'', sum_config v)]"

definition non_blank :: "string \<Rightarrow> string option" where
  "non_blank v = (if trim v = [] then None else Some v)"

section \<open>The policy tools\<close>

definition components_path :: "string \<Rightarrow> string" where
  "components_path realm = realm_path realm @ ''/components''"

definition configured_registration_policy_components ::
  "tool_env \<Rightarrow> caller \<Rightarrow> string \<Rightarrow> (mcp_error + json list) prog" where
  "configured_registration_policy_components te ctx realm =
     try_prog (call_gateway te ctx GET (components_path realm)
         [(''type'', CLIENT_REG_POLICY_COMPONENT_TYPE)] None)
       (\<lambda>payload. Done (Inr (json_items payload)))"

definition client_registration_policy_providers_list ::
  "tool_env \<Rightarrow> realm_env \<Rightarrow> caller option \<Rightarrow> realm_args \<Rightarrow> tool" where
  "client_registration_policy_providers_list te re parts args =
     or_return (authorize_tool (te_config te) parts (read_realms te)) (\<lambda>ctx.
     try_prog (call_gateway te ctx GET
         (realm_path (ra_realm args) @ ''/client-registration-policy/providers'') [] None) (\<lambda>payload.
     reply_json [(''providers'', JArr (map
       (\<lambda>provider. JObj [(''id'', json_opt_str (ppr_id provider)),
          (''help_text'', short_text (ppr_help_text provider))])
       (decode_items (rle_provider re) payload)))]))"

definition client_registration_policies_list ::
  "tool_env \<Rightarrow> caller option \<Rightarrow> policy_selector \<Rightarrow> tool" where
  "client_registration_policies_list te parts args =
     or_return (authorize_tool (te_config te) parts (read_realms te)) (\<lambda>ctx.
     try_prog (configured_registration_policy_components te ctx (ps_realm args)) (\<lambda>components.
     let selected =
           (if ps_id args = None \<and> ps_name args = None \<and> ps_provider_id args = None
            then [0..<length components]
            else match_registration_policy_components components (ps_id args) (ps_name args)
              (ps_provider_id args))
     in reply_json [(''policies'', JArr (map policy_summary_json
          (List.map_filter (\<lambda>idx. summarize_registration_policy_component (components ! idx)) selected)))]))"

text \<open>The only component that matches, which the tools for one policy need.\<close>

definition policy_error :: "caller \<Rightarrow> string \<Rightarrow> string \<Rightarrow> tool" where
  "policy_error ctx code message =
     Done (Inr (tool_error (''client_registration.policies.'' @ code) message (cl_request_id ctx)))"

definition with_policy_component ::
  "tool_env \<Rightarrow> caller \<Rightarrow> 'a policy_selector_scheme \<Rightarrow> (json \<Rightarrow> tool) \<Rightarrow> tool" where
  "with_policy_component te ctx args k =
     (let provider_id = resolve_registration_policy_provider_id (ps_id args) (ps_name args) (ps_provider_id args)
      in try_prog (configured_registration_policy_components te ctx (ps_realm args)) (\<lambda>components.
         case match_registration_policy_components components (ps_id args) (ps_name args) provider_id of
           [] \<Rightarrow> policy_error ctx ''not_found'' ''No matching client registration policy component found.''
         | [idx] \<Rightarrow> k (components ! idx)
         | _ \<Rightarrow> policy_error ctx ''ambiguous''
             ''Multiple registration policy components matched. Specify id or name.''))"

definition client_registration_policies_get ::
  "tool_env \<Rightarrow> caller option \<Rightarrow> policy_selector \<Rightarrow> tool" where
  "client_registration_policies_get te parts args =
     or_return (authorize_tool (te_config te) parts (read_realms te)) (\<lambda>ctx.
     with_policy_component te ctx args (\<lambda>component.
     case summarize_registration_policy_component component of
       None \<Rightarrow> Done (Inl (InternalError ''component is not an object'' NoData))
     | Some policy \<Rightarrow> reply_json [(''policy'', policy_summary_json policy)]))"

definition set_policy_config :: "string list \<Rightarrow> bool option \<Rightarrow> json_map \<Rightarrow> json_map" where
  "set_policy_config allowed_scopes allow_default_scopes config =
     (let config = set_config_list CONFIG_ALLOWED_CLIENT_SCOPES_KEYS allowed_scopes config
      in case allow_default_scopes of
           None \<Rightarrow> config
         | Some v \<Rightarrow> set_config_bool CONFIG_ALLOW_DEFAULT_SCOPES_KEYS v config)"

definition updated_component :: "string list \<Rightarrow> bool option \<Rightarrow> json \<Rightarrow> mcp_error + json" where
  "updated_component allowed_scopes allow_default_scopes component =
     (case component of
        JObj entries \<Rightarrow>
          (case (case json_get component ''config'' of None \<Rightarrow> JObj [] | Some c \<Rightarrow> c) of
             JObj config \<Rightarrow>
               Inr (JObj (AList.update ''config''
                 (JObj (set_policy_config allowed_scopes allow_default_scopes config)) entries))
           | _ \<Rightarrow> Inl (InternalError ''component config is not an object'' NoData))
      | _ \<Rightarrow> Inl (InternalError ''component is not an object'' NoData))"

definition client_registration_policies_create ::
  "tool_env \<Rightarrow> caller option \<Rightarrow> policy_create_args \<Rightarrow> tool" where
  "client_registration_policies_create te parts args =
     or_return (authorize_tool (te_config te) parts (write_realms te)) (\<lambda>ctx.
     if pc_allowed_scopes args = [] \<and> pc_allow_default_scopes args = None then
       policy_error ctx ''create.no_changes'' ''allowed_scopes or allow_default_scopes must be set.''
     else
       (let provider_id = or_else DEFAULT_ALLOWED_CLIENT_SCOPES_PROVIDER (pc_provider_id args);
            name = or_else provider_id (pc_name args)
        in try_prog (call_gateway te ctx GET (realm_path (pc_realm args)) [] None) (\<lambda>realm_payload.
           case Option.bind (str_field realm_payload ''id'') non_blank of
             None \<Rightarrow> policy_error ctx ''missing_parent'' ''Realm id missing; cannot create policy component.''
           | Some parent_id \<Rightarrow>
               (let config = (if pc_allowed_scopes args = [] then []
                      else set_config_list CONFIG_ALLOWED_CLIENT_SCOPES_KEYS (pc_allowed_scopes args) []);
                    config = (case pc_allow_default_scopes args of
                        None \<Rightarrow> config
                      | Some v \<Rightarrow> set_config_bool CONFIG_ALLOW_DEFAULT_SCOPES_KEYS v config);
                    body = JObj [(''name'', JStr name), (''providerId'', JStr provider_id),
                      (''providerType'', JStr CLIENT_REG_POLICY_COMPONENT_TYPE),
                      (''parentId'', JStr parent_id), (''config'', JObj config)]
                in try_prog (call_gateway te ctx POST (components_path (pc_realm args)) [] (Some body))
                     (\<lambda>payload. reply_json [(''ok'', JBool True), (''id'', json_opt_str (str_field payload ''id'')),
                        (''provider_id'', JStr provider_id), (''name'', JStr name),
                        (''allowed_scopes'', JArr (map JStr (pc_allowed_scopes args))),
                        (''allow_default_scopes'', json_opt JBool (pc_allow_default_scopes args))])))))"

definition client_registration_policies_update ::
  "tool_env \<Rightarrow> caller option \<Rightarrow> policy_update_args \<Rightarrow> tool" where
  "client_registration_policies_update te parts args =
     or_return (authorize_tool (te_config te) parts (write_realms te)) (\<lambda>ctx.
     if pu_allowed_scopes args = [] \<and> pu_allow_default_scopes args = None then
       policy_error ctx ''update.no_changes'' ''allowed_scopes or allow_default_scopes must be set.''
     else
       with_policy_component te ctx args (\<lambda>component.
       or_fail (updated_component (pu_allowed_scopes args) (pu_allow_default_scopes args) component) (\<lambda>component.
       let component_id = or_else [] (str_field component ''id'') in
       if component_id = [] then
         policy_error ctx ''missing_id'' ''Component id is missing; cannot update policy.''
       else
         try_prog (call_gateway te ctx PUT (components_path (ps_realm args) @ ''/'' @ component_id) []
             (Some component))
           (\<lambda>_. reply_json [(''ok'', JBool True), (''id'', JStr component_id),
              (''provider_id'', json_opt_str (resolve_registration_policy_provider_id (ps_id args)
                 (ps_name args) (ps_provider_id args))),
              (''allowed_scopes'', JArr (map JStr (pu_allowed_scopes args))),
              (''allow_default_scopes'', json_opt JBool (pu_allow_default_scopes args))]))))"

definition client_registration_policies_delete ::
  "tool_env \<Rightarrow> caller option \<Rightarrow> policy_selector \<Rightarrow> tool" where
  "client_registration_policies_delete te parts args =
     or_return (authorize_tool (te_config te) parts (write_realms te)) (\<lambda>ctx.
     with_policy_component te ctx args (\<lambda>component.
     let component_id = or_else [] (str_field component ''id'') in
     if component_id = [] then
       policy_error ctx ''missing_id'' ''Component id is missing; cannot delete policy.''
     else
       try_prog (call_gateway te ctx DELETE (components_path (ps_realm args) @ ''/'' @ component_id) [] None)
         (\<lambda>_. reply_json [(''ok'', JBool True), (''id'', JStr component_id)])))"

section \<open>Initial access tokens\<close>

record initial_access_create_args = realm_args +
  iac_count :: "32 word option"
  iac_expiration :: "32 word option"

record initial_access_delete_args = realm_args +
  iad_id :: string

definition initial_access_summary :: "initial_access_representation \<Rightarrow> json" where
  "initial_access_summary v = JObj [(''id'', json_opt_str (iar_id v)),
     (''timestamp'', json_opt json_i64 (iar_timestamp v)),
     (''expiration'', json_opt json_i64 (iar_expiration v)), (''count'', json_opt json_i64 (iar_count v)),
     (''remaining_count'', json_opt json_i64 (iar_remaining_count v))]"

definition initial_access_path :: "string \<Rightarrow> string" where
  "initial_access_path realm = realm_path realm @ ''/clients-initial-access''"

definition client_initial_access_list :: "tool_env \<Rightarrow> realm_env \<Rightarrow> caller option \<Rightarrow> realm_args \<Rightarrow> tool" where
  "client_initial_access_list te re parts args =
     or_return (authorize_tool (te_config te) parts (admin_realms te)) (\<lambda>ctx.
     try_prog (call_gateway te ctx GET (initial_access_path (ra_realm args)) [] None) (\<lambda>payload.
     reply_json [(''tokens'', JArr (map initial_access_summary (decode_items (rle_initial_access re) payload)))]))"

definition client_initial_access_create ::
  "tool_env \<Rightarrow> caller option \<Rightarrow> initial_access_create_args \<Rightarrow> tool" where
  "client_initial_access_create te parts args =
     or_return (authorize_tool (te_config te) parts (admin_realms te)) (\<lambda>ctx.
     let body = JObj [(''count'', json_opt json_u32 (iac_count args)),
           (''expiration'', json_opt json_u32 (iac_expiration args))]
     in try_prog (call_gateway te ctx POST (initial_access_path (ra_realm args)) [] (Some body)) (\<lambda>payload.
        reply_json [(''id'', json_opt_str (str_field payload ''id'')),
          (''token'', json_opt_str (str_field payload ''token''))]))"

definition client_initial_access_delete ::
  "tool_env \<Rightarrow> caller option \<Rightarrow> initial_access_delete_args \<Rightarrow> tool" where
  "client_initial_access_delete te parts args =
     or_return (authorize_tool (te_config te) parts (admin_realms te)) (\<lambda>ctx.
     if trim (iad_id args) = [] then
       Done (Inr (tool_error ''client_initial_access.invalid_id'' ''id is required.'' (cl_request_id ctx)))
     else
       try_prog (call_gateway te ctx DELETE (initial_access_path (ra_realm args) @ ''/'' @ iad_id args) [] None)
         (\<lambda>_. reply_json [(''ok'', JBool True)]))"

section \<open>The router and the gate of the registration tools\<close>

datatype registration_call =
    PolicyProvidersList realm_args
  | PoliciesList policy_selector
  | PoliciesGet policy_selector
  | PoliciesCreate policy_create_args
  | PoliciesUpdate policy_update_args
  | PoliciesDelete policy_selector
  | InitialAccessList realm_args
  | InitialAccessCreate initial_access_create_args
  | InitialAccessDelete initial_access_delete_args

fun registration_tool :: "tool_env \<Rightarrow> realm_env \<Rightarrow> caller option \<Rightarrow> registration_call \<Rightarrow> tool" where
  "registration_tool te re parts (PolicyProvidersList args) =
     client_registration_policy_providers_list te re parts args"
| "registration_tool te re parts (PoliciesList args) = client_registration_policies_list te parts args"
| "registration_tool te re parts (PoliciesGet args) = client_registration_policies_get te parts args"
| "registration_tool te re parts (PoliciesCreate args) = client_registration_policies_create te parts args"
| "registration_tool te re parts (PoliciesUpdate args) = client_registration_policies_update te parts args"
| "registration_tool te re parts (PoliciesDelete args) = client_registration_policies_delete te parts args"
| "registration_tool te re parts (InitialAccessList args) = client_initial_access_list te re parts args"
| "registration_tool te re parts (InitialAccessCreate args) = client_initial_access_create te parts args"
| "registration_tool te re parts (InitialAccessDelete args) = client_initial_access_delete te parts args"

fun registration_gate :: "scope_map \<Rightarrow> registration_call \<Rightarrow> string list" where
  "registration_gate m (PolicyProvidersList _) = ts_read (sm_realms m)"
| "registration_gate m (PoliciesList _) = ts_read (sm_realms m)"
| "registration_gate m (PoliciesGet _) = ts_read (sm_realms m)"
| "registration_gate m (PoliciesCreate _) = ts_write (sm_realms m)"
| "registration_gate m (PoliciesUpdate _) = ts_write (sm_realms m)"
| "registration_gate m (PoliciesDelete _) = ts_write (sm_realms m)"
| "registration_gate m _ = ts_admin (sm_realms m)"

lemma policy_error_sends [sends_intros]: "sends P (policy_error ctx code message)"
  by (simp add: policy_error_def)

lemma with_policy_component_sends [sends_intros]:
  assumes "\<And>path query. P (gateway_request ctx GET path query None)" and "\<And>component. sends P (k component)"
  shows "sends P (with_policy_component te ctx args k)"
  unfolding with_policy_component_def configured_registration_policy_components_def Let_def
  by (intro sends_intros assms)

lemma registration_tool_opens:
  "opens_with (te_config te) parts (registration_gate (mc_scope_map (te_config te)) call)
     (registration_tool te re parts call)"
  by (cases call)
    (simp_all only: registration_tool.simps registration_gate.simps
       client_registration_policy_providers_list_def client_registration_policies_list_def
       client_registration_policies_get_def client_registration_policies_create_def
       client_registration_policies_update_def client_registration_policies_delete_def
       client_initial_access_list_def client_initial_access_create_def client_initial_access_delete_def
       configured_registration_policy_components_def Let_def,
      (intro gate_intros sends_intros made_for_request)+)

declare registration_tool.simps [simp del]

lemma registration_tool_reads: "read_only (registration_gate default_scope_map call) \<Longrightarrow> sends is_get (registration_tool te re parts call)"
  by (cases call)
    (simp_all only: registration_tool.simps registration_gate.simps write_not_read_only
       client_registration_policy_providers_list_def client_registration_policies_list_def
       client_registration_policies_get_def configured_registration_policy_components_def Let_def,
      (intro sends_intros is_get_request)+)

interpretation registration: reading_family registration_tool registration_gate
  by unfold_locales (rule opens_withD [OF registration_tool_opens] registration_tool_reads; assumption)+

section \<open>Reading back a written configuration\<close>

lemma find_first: "find P xs = Some x \<Longrightarrow> P x \<and> x \<in> set xs"
  by (auto simp: find_Some_iff)

lemma find_cong_first:
  assumes "find P xs = Some x" and "Q x" and "\<And>y. \<lbrakk>y \<in> set xs; \<not> P y; y \<noteq> x\<rbrakk> \<Longrightarrow> \<not> Q y"
  shows "find Q xs = Some x"
  using assms by (induction xs) (auto split: if_splits)

lemma first_value_set [simp]:
  assumes "keys \<noteq> []"
  shows "first_value (set_config_list keys vs config) keys = Some (JArr (map JStr vs))"
proof (cases "first_key config keys")
  case None
  with assms have "first_key (AList.update (keys ! 0) v config) keys = Some (keys ! 0)" for v
    by (cases keys) (simp_all add: first_key_def update_conv')
  with None show ?thesis by (simp add: first_value_def set_config_list_def update_conv')
next
  case (Some key)
  then have "first_key (AList.update key v config) keys = Some key" for v
    unfolding first_key_def by (rule find_cong_first) (auto simp: update_conv')
  with Some show ?thesis by (simp add: first_value_def set_config_list_def update_conv')
qed

lemma set_config_list_other:
  assumes "keys \<noteq> []" and "key \<notin> set keys"
  shows "map_of (set_config_list keys vs config) key = map_of config key"
  using assms find_first [of _ keys]
  by (auto simp: set_config_list_def update_conv' first_key_def Let_def split: option.split)

lemma first_value_other [simp]:
  assumes "keys \<noteq> []" and "set keys \<inter> set keys' = {}"
  shows "first_value (set_config_list keys vs config) keys' = first_value config keys'"
proof -
  have same: "map_of (set_config_list keys vs config) key = map_of config key" if "key \<in> set keys'" for key
    using assms that set_config_list_other by blast
  then have "first_key (set_config_list keys vs config) keys' = first_key config keys'"
    unfolding first_key_def by (intro find_cong) simp_all
  with same show ?thesis
    by (cases "first_key config keys'") (auto simp: first_value_def first_key_def dest: find_first)
qed

lemma map_filter_as_str [simp]: "List.map_filter as_str (map JStr vs) = vs"
  by (induction vs) (simp_all add: List.map_filter_simps)

lemma parse_bool_text [simp]: "parse_text ''true'' = Some True" "parse_text ''false'' = Some False"
  by code_simp+

lemma config_keys [simp]:
  "CONFIG_ALLOWED_CLIENT_SCOPES_KEYS \<noteq> []" "CONFIG_ALLOW_DEFAULT_SCOPES_KEYS \<noteq> []"
  "set CONFIG_ALLOWED_CLIENT_SCOPES_KEYS \<inter> set CONFIG_ALLOW_DEFAULT_SCOPES_KEYS = {}"
  "set CONFIG_ALLOW_DEFAULT_SCOPES_KEYS \<inter> set CONFIG_ALLOWED_CLIENT_SCOPES_KEYS = {}"
  by (simp_all add: CONFIG_ALLOWED_CLIENT_SCOPES_KEYS_def CONFIG_ALLOW_DEFAULT_SCOPES_KEYS_def)

lemma policy_config_read_back:
  "registration_policy_config_values (set_policy_config vs b config) CONFIG_ALLOWED_CLIENT_SCOPES_KEYS = vs"
  "registration_policy_config_bool (set_policy_config vs b config) CONFIG_ALLOW_DEFAULT_SCOPES_KEYS =
     (case b of None \<Rightarrow> registration_policy_config_bool config CONFIG_ALLOW_DEFAULT_SCOPES_KEYS | Some v \<Rightarrow> Some v)"
  by (cases b; auto simp: registration_policy_config_values_def registration_policy_config_bool_def
        set_policy_config_def set_config_bool_def)+

lemma policy_config_others:
  assumes "key \<notin> set CONFIG_ALLOWED_CLIENT_SCOPES_KEYS" and "key \<notin> set CONFIG_ALLOW_DEFAULT_SCOPES_KEYS"
  shows "map_of (set_policy_config vs b config) key = map_of config key"
  using assms by (simp add: set_policy_config_def set_config_bool_def set_config_list_other Let_def split: option.split)

fun is_object :: "json \<Rightarrow> bool" where
  "is_object (JObj _) = True"
| "is_object _ = False"

definition policy_config_keys :: "string set" where
  "policy_config_keys = set CONFIG_ALLOWED_CLIENT_SCOPES_KEYS \<union> set CONFIG_ALLOW_DEFAULT_SCOPES_KEYS"

lemma str_field_update:
  "key \<noteq> ''config'' \<Longrightarrow> str_field (JObj (AList.update ''config'' v entries)) key = str_field (JObj entries) key"
  by (simp add: str_field_def update_conv')

text \<open>
  C36: Writing a policy and reading it back. An update changes what the summary of a component shows as
  allowed scopes to the given list (also to the empty list, when only the other setting is given), and
  the default-scope setting when one is given; every other entry of the component and of its
  configuration stays. It fails exactly for a component or a configuration that is not an object.
\<close>

theorem policy_update_read_back:
  "case updated_component vs b component of
     Inl _ \<Rightarrow> (case json_get component ''config'' of
        None \<Rightarrow> \<not> is_object component
      | Some config \<Rightarrow> \<not> is_object config)
   | Inr component' \<Rightarrow>
       (case (summarize_registration_policy_component component,
              summarize_registration_policy_component component') of
          (Some old, Some new) \<Rightarrow>
            new = old\<lparr>sum_allowed_scopes := vs,
              sum_allow_default_scopes := (case b of None \<Rightarrow> sum_allow_default_scopes old | Some v \<Rightarrow> Some v),
              sum_config := sum_config new\<rparr> \<and>
            (json_get component')(''config'' := None) = (json_get component)(''config'' := None) \<and>
            json_get (sum_config new) |` (- policy_config_keys) =
              json_get (sum_config old) |` (- policy_config_keys)
        | _ \<Rightarrow> False)"
proof (cases component)
  case (JObj entries)
  have others: "map_of (set_policy_config vs b config) |` (- policy_config_keys) = map_of config |` (- policy_config_keys)"
    for config
    by (rule ext) (simp add: restrict_map_def policy_config_keys_def policy_config_others)
  have get: "json_get (JObj kvs) = map_of kvs" for kvs by (rule ext) simp
  show ?thesis
  proof (cases "map_of entries ''config''")
    case None
    then show ?thesis
      using others [of "[]"]
      by (auto simp: JObj updated_component_def summarize_registration_policy_component_def Let_def
          str_field_update policy_config_read_back update_conv' get split: option.split)
  next
    case (Some config)
    show ?thesis
    proof (cases config)
      case config: (JObj cfg)
      show ?thesis
        using Some others [of cfg]
        by (auto simp: JObj config updated_component_def summarize_registration_policy_component_def Let_def
            str_field_update policy_config_read_back update_conv' get split: option.split)
    qed (simp_all add: JObj Some updated_component_def)
  qed
qed (simp_all add: updated_component_def)

section \<open>What the tools that change a policy send\<close>

lemma filter_indices: "map ((!) xs) (filter (\<lambda>i. P (xs ! i)) [0..<length xs]) = filter P xs"
  by (metis (no_types, lifting) comp_def filter_cong filter_map map_nth)

lemma provider_resolved:
  "\<not> (ident = None \<and> name = None \<and> resolve_registration_policy_provider_id ident name provider_id = None)"
  by (simp add: resolve_registration_policy_provider_id_def)

definition sends_to_only_match ::
  "tool_env \<Rightarrow> ('w \<Rightarrow> gateway_call \<Rightarrow> gateway_reply \<times> 'w) \<Rightarrow> caller \<Rightarrow> 'a policy_selector_scheme \<Rightarrow>
     (json \<Rightarrow> gateway_call option) \<Rightarrow> 'w \<Rightarrow> (gateway_call \<times> gateway_reply) list" where
  "sends_to_only_match te serve ctx args change w =
     (let q = gateway_request ctx GET (components_path (ps_realm args))
            [(''type'', CLIENT_REG_POLICY_COMPONENT_TYPE)] None;
          (reply, w) = serve w q
      in (q, reply) #
         (case answer te reply of
            Inl _ \<Rightarrow> []
          | Inr payload \<Rightarrow>
              (case filter (component_matches (ps_id args) (ps_name args)
                      (resolve_registration_policy_provider_id (ps_id args) (ps_name args) (ps_provider_id args)))
                    (json_items payload) of
                 [component] \<Rightarrow>
                   (case change component of
                      None \<Rightarrow> []
                    | Some q \<Rightarrow> [(q, fst (serve w q))])
               | _ \<Rightarrow> [])))"

lemma trace_with_policy_component:
  assumes joins: "te_joins te (components_path (ps_realm args))"
    and k: "\<And>component w. trace_of serve (k component) w =
      (case change component of None \<Rightarrow> [] | Some q \<Rightarrow> [(q, fst (serve w q))])"
  shows "trace_of serve (with_policy_component te ctx args k) w = sends_to_only_match te serve ctx args change w"
proof -
  let ?provider = "resolve_registration_policy_provider_id (ps_id args) (ps_name args) (ps_provider_id args)"
  let ?matches = "component_matches (ps_id args) (ps_name args) ?provider"
  have matched: "match_registration_policy_components components (ps_id args) (ps_name args) ?provider =
      filter (\<lambda>i. ?matches (components ! i)) [0..<length components]" for components
    by (simp only: match_registration_policy_components_def provider_resolved if_False)
  have "trace_of serve (case filter (\<lambda>i. ?matches (components ! i)) [0..<length components] of
            [] \<Rightarrow> policy_error ctx code message | [idx] \<Rightarrow> k (components ! idx)
          | _ \<Rightarrow> policy_error ctx code' message') w =
      (case filter ?matches components of
         [component] \<Rightarrow> (case change component of None \<Rightarrow> [] | Some q \<Rightarrow> [(q, fst (serve w q))])
       | _ \<Rightarrow> [])" for components code message code' message' w
    unfolding filter_indices [of components ?matches, symmetric]
    by (auto simp: k policy_error_def split: list.split)
  with joins show ?thesis
    by (simp add: with_policy_component_def configured_registration_policy_components_def
        sends_to_only_match_def try_try trace_try_call matched Let_def split: prod.split sum.split)
qed

text \<open>The request a change makes of the component it found.\<close>

definition policy_update_request :: "caller \<Rightarrow> policy_update_args \<Rightarrow> json \<Rightarrow> gateway_call option" where
  "policy_update_request ctx args component =
     (case updated_component (pu_allowed_scopes args) (pu_allow_default_scopes args) component of
        Inl _ \<Rightarrow> None
      | Inr component' \<Rightarrow>
          (case str_field component ''id'' of
             None \<Rightarrow> None
           | Some ident \<Rightarrow>
               if ident = [] then None
               else Some (gateway_request ctx PUT (components_path (ps_realm args) @ ''/'' @ ident) []
                      (Some component'))))"

definition policy_delete_request :: "caller \<Rightarrow> policy_selector \<Rightarrow> json \<Rightarrow> gateway_call option" where
  "policy_delete_request ctx args component =
     (case str_field component ''id'' of
        None \<Rightarrow> None
      | Some ident \<Rightarrow>
          if ident = [] then None
          else Some (gateway_request ctx DELETE (components_path (ps_realm args) @ ''/'' @ ident) [] None))"

lemma updated_component_id:
  "updated_component vs b component = Inr component' \<Longrightarrow> str_field component' ''id'' = str_field component ''id''"
  by (cases component) (auto simp: updated_component_def str_field_update split: option.splits json.splits)

text \<open>
  C35: The tools that change a registration policy list the components of the realm first and go on for
  a single match only: an update then replaces that component by its updated form, a delete removes it;
  with no or several matches, a component without id or one that cannot be updated, nothing is changed.
  Without a selector the default Allowed Client Scopes provider is meant. This holds for every gateway.
\<close>

theorem policy_changes_only_match:
  assumes "authorize_tool (te_config te) parts (write_realms te) = Inr ctx" and "te_joins te = (\<lambda>_. True)"
    and "pu_allowed_scopes args \<noteq> [] \<or> pu_allow_default_scopes args \<noteq> None"
  shows "trace_of serve (registration_tool te re parts (PoliciesUpdate args)) w =
      sends_to_only_match te serve ctx args (policy_update_request ctx args) w \<and>
    trace_of serve (registration_tool te re parts (PoliciesDelete sel)) w =
      sends_to_only_match te serve ctx sel (policy_delete_request ctx sel) w"
proof
  show "trace_of serve (registration_tool te re parts (PoliciesUpdate args)) w =
      sends_to_only_match te serve ctx args (policy_update_request ctx args) w"
    using assms
    by (auto simp: registration_tool.simps client_registration_policies_update_def or_return_def or_fail_def
        policy_error_def policy_update_request_def or_else_def trace_call trace_try_call updated_component_id
        intro!: trace_with_policy_component split: sum.split option.split prod.split)
  show "trace_of serve (registration_tool te re parts (PoliciesDelete sel)) w =
      sends_to_only_match te serve ctx sel (policy_delete_request ctx sel) w"
    using assms
    by (auto simp: registration_tool.simps client_registration_policies_delete_def or_return_def
        policy_error_def policy_delete_request_def or_else_def trace_call trace_try_call
        intro!: trace_with_policy_component split: sum.split option.split prod.split)
qed

definition sample_component :: json where
  "sample_component = JObj [(''id'', JStr ''component-1''), (''name'', JStr ''Allowed''),
     (''providerId'', JStr DEFAULT_ALLOWED_CLIENT_SCOPES_PROVIDER),
     (''config'', JObj [(''allowed-client-scopes'', JArr [JStr ''profile''])])]"

definition sample_realm_env :: realm_env where
  "sample_realm_env = \<lparr>rle_realm = (\<lambda>_. None), rle_flow = (\<lambda>_. None), rle_keys = (\<lambda>_. None),
     rle_scope = (\<lambda>_. None), rle_initial_access = (\<lambda>_. None), rle_provider = (\<lambda>_. None)\<rparr>"

definition sample_policy_env :: tool_env where
  "sample_policy_env = sample_tool_env\<lparr>te_from_slice := (\<lambda>_. Some (JArr [sample_component]))\<rparr>"

definition sample_realm_admin :: caller where
  "sample_realm_admin = sample_caller\<lparr>cl_scopes := [''keycloak-admin:realm:write'']\<rparr>"

definition sample_policy_update :: policy_update_args where
  "sample_policy_update = \<lparr>ps_realm = ''master'', ps_id = None, ps_name = None, ps_provider_id = None,
     pu_allowed_scopes = [], pu_allow_default_scopes = Some True\<rparr>"

definition sample_selector :: policy_selector where
  "sample_selector = \<lparr>ps_realm = ''master'', ps_id = Some ''other'', ps_name = None, ps_provider_id = None\<rparr>"

lemma sample_realm_authorized:
  "authorize_tool (te_config sample_policy_env) (Some sample_realm_admin) (write_realms sample_policy_env) =
     Inr sample_realm_admin"
  unfolding authorize_tool_Inr require_roles_Inr
  by (simp add: classify_scopes_def write_scopes_def read_scopes_def sample_policy_env_def sample_realm_admin_def
      sample_tool_env_def sample_caller_def sample_mcp_config_def default_scope_map_def)

text \<open>The update of the only default policy empties its allowlist; no component matches the other id.\<close>

theorem policy_changes_only_match_witness:
  "map (\<lambda>(q, _). (gq_method q, gq_path q, gq_body q))
     (trace_of (\<lambda>w q. (Reply 200 ''x'', w)) (registration_tool sample_policy_env sample_realm_env (Some sample_realm_admin)
        (PoliciesUpdate sample_policy_update)) ()) =
     [(GET, ''/admin/realms/master/components'', None),
      (PUT, ''/admin/realms/master/components/component-1'',
       Some (JObj [(''id'', JStr ''component-1''), (''name'', JStr ''Allowed''),
         (''providerId'', JStr DEFAULT_ALLOWED_CLIENT_SCOPES_PROVIDER),
         (''config'', JObj [(''allowed-client-scopes'', JArr []), (''allowDefaultScopes'', JArr [JStr ''true''])])]))] \<and>
   map (\<lambda>(q, _). gq_method q)
     (trace_of (\<lambda>w q. (Reply 200 ''x'', w)) (registration_tool sample_policy_env sample_realm_env (Some sample_realm_admin)
        (PoliciesDelete sample_selector)) ()) = [GET]"
proof -
  have joins: "te_joins sample_policy_env = (\<lambda>_. True)"
    by (simp add: sample_policy_env_def sample_tool_env_def)
  have changes: "pu_allowed_scopes sample_policy_update \<noteq> [] \<or> pu_allow_default_scopes sample_policy_update \<noteq> None"
    by (simp add: sample_policy_update_def)
  have reply: "read_reply sample_policy_env 200 ''x'' = Inr (JArr [sample_component])"
    by (simp add: read_reply_def status_success_def sample_policy_env_def)
  have matches: "component_matches None None (Some DEFAULT_ALLOWED_CLIENT_SCOPES_PROVIDER) sample_component"
    "\<not> component_matches (Some ''other'') None p sample_component" "str_field sample_component ''id'' = Some ''component-1''"
    for p
    by (simp_all add: component_matches_def str_field_def sample_component_def)
  have updated: "updated_component [] (Some True) sample_component = Inr (JObj [(''id'', JStr ''component-1''),
      (''name'', JStr ''Allowed''), (''providerId'', JStr DEFAULT_ALLOWED_CLIENT_SCOPES_PROVIDER),
      (''config'', JObj [(''allowed-client-scopes'', JArr []), (''allowDefaultScopes'', JArr [JStr ''true''])])])"
    by (simp add: updated_component_def sample_component_def set_policy_config_def set_config_bool_def
        set_config_list_def first_key_def CONFIG_ALLOWED_CLIENT_SCOPES_KEYS_def
        CONFIG_ALLOW_DEFAULT_SCOPES_KEYS_def)
  have args: "ps_id sample_policy_update = None" "ps_name sample_policy_update = None"
    "ps_provider_id sample_policy_update = None" "ps_realm sample_policy_update = ''master''"
    "pu_allowed_scopes sample_policy_update = []" "pu_allow_default_scopes sample_policy_update = Some True"
    "ps_id sample_selector = Some ''other''" "ps_name sample_selector = None" "ps_realm sample_selector = ''master''"
    by (simp_all add: sample_policy_update_def sample_selector_def)
  show ?thesis
    unfolding policy_changes_only_match [OF sample_realm_authorized joins changes, THEN conjunct1]
      policy_changes_only_match [OF sample_realm_authorized joins changes, THEN conjunct2]
    by (simp add: sends_to_only_match_def reply json_items_def args policy_update_request_def matches updated
        resolve_registration_policy_provider_id_def components_path_def realm_path_def gateway_request_def)
qed

end
