(* ===== verification/Tools_Identity.thy ===== *)
theory Tools_Identity
  imports Mcp_Tools
begin

text \<open>
  The identity provider tools (\<open>tools/identity_providers.rs\<close>): providers by alias and their mappers.
  Nothing is validated: realm, alias and mapper id go into the path as they are.
\<close>

section \<open>Arguments and representations\<close>

record idp_list_args =
  ipl_realm :: string

text \<open>The arguments of \<open>get\<close>, \<open>delete\<close> and \<open>mappers.list\<close>.\<close>

record idp_target =
  ip_realm :: string
  ip_alias :: string

record idp_create_args = idp_target +
  ipc_provider_id :: string
  ipc_display_name :: "string option"
  ipc_enabled :: "bool option"
  ipc_config :: "(string \<times> string) list option"

record idp_mapper_create_args = idp_target +
  imc_name :: string
  imc_identity_provider_mapper :: string
  imc_config :: "(string \<times> string) list option"

record idp_mapper_delete_args = idp_target +
  imd_mapper_id :: string

record idp_representation =
  idr_alias :: "string option"
  idr_provider_id :: "string option"
  idr_display_name :: "string option"
  idr_enabled :: "bool option"

record idp_mapper_representation =
  imr_id :: "string option"
  imr_name :: "string option"
  imr_identity_provider_alias :: "string option"
  imr_identity_provider_mapper :: "string option"

record idp_env =
  ie_provider :: "json \<Rightarrow> idp_representation option"
  ie_mapper :: "json \<Rightarrow> idp_mapper_representation option"

definition idp_summary :: "idp_representation \<Rightarrow> json" where
  "idp_summary v = JObj [(''alias'', json_opt_str (idr_alias v)),
     (''provider_id'', json_opt_str (idr_provider_id v)), (''display_name'', json_opt_str (idr_display_name v)),
     (''enabled'', json_opt JBool (idr_enabled v))]"

definition idp_mapper_summary :: "idp_mapper_representation \<Rightarrow> json" where
  "idp_mapper_summary v = JObj [(''id'', json_opt_str (imr_id v)), (''name'', json_opt_str (imr_name v)),
     (''identity_provider_alias'', json_opt_str (imr_identity_provider_alias v)),
     (''identity_provider_mapper'', json_opt_str (imr_identity_provider_mapper v))]"

definition string_map_json :: "(string \<times> string) list option \<Rightarrow> json" where
  "string_map_json v = json_opt (\<lambda>kvs. JObj (map (\<lambda>(k, s). (k, JStr s)) kvs)) v"

section \<open>The tools\<close>

abbreviation read_idps :: "tool_env \<Rightarrow> string list" where
  "read_idps te \<equiv> ts_read (sm_identity_providers (mc_scope_map (te_config te)))"

abbreviation write_idps :: "tool_env \<Rightarrow> string list" where
  "write_idps te \<equiv> ts_write (sm_identity_providers (mc_scope_map (te_config te)))"

definition idps_path :: "string \<Rightarrow> string" where
  "idps_path realm = ''/admin/realms/'' @ realm @ ''/identity-provider/instances''"

definition idp_path :: "'a idp_target_scheme \<Rightarrow> string" where
  "idp_path args = idps_path (ip_realm args) @ ''/'' @ ip_alias args"

definition created_id :: "json \<Rightarrow> tool" where
  "created_id payload = reply_json [(''id'', json_opt_str (Option.bind (json_get payload ''id'') as_str))]"

definition identity_providers_list :: "tool_env \<Rightarrow> idp_env \<Rightarrow> caller option \<Rightarrow> idp_list_args \<Rightarrow> tool" where
  "identity_providers_list te ie parts args =
     or_return (authorize_tool (te_config te) parts (read_idps te)) (\<lambda>ctx.
     try_prog (call_gateway te ctx GET (idps_path (ipl_realm args)) [] None) (\<lambda>payload.
     reply_json [(''providers'', JArr (map idp_summary (decode_items (ie_provider ie) payload)))]))"

definition identity_providers_get :: "tool_env \<Rightarrow> idp_env \<Rightarrow> caller option \<Rightarrow> idp_target \<Rightarrow> tool" where
  "identity_providers_get te ie parts args =
     or_return (authorize_tool (te_config te) parts (read_idps te)) (\<lambda>ctx.
     try_prog (call_gateway te ctx GET (idp_path args) [] None) (\<lambda>payload.
     case ie_provider ie payload of
       None \<Rightarrow> Done (Inl (InternalError ''unexpected response from gateway'' NoData))
     | Some provider \<Rightarrow> reply_json [(''provider'', idp_summary provider)]))"

definition identity_providers_create :: "tool_env \<Rightarrow> caller option \<Rightarrow> idp_create_args \<Rightarrow> tool" where
  "identity_providers_create te parts args =
     or_return (authorize_tool (te_config te) parts (write_idps te)) (\<lambda>ctx.
     let body = JObj [(''alias'', JStr (ip_alias args)), (''providerId'', JStr (ipc_provider_id args)),
           (''displayName'', json_opt_str (ipc_display_name args)),
           (''enabled'', JBool (or_else True (ipc_enabled args))), (''config'', string_map_json (ipc_config args))]
     in try_prog (call_gateway te ctx POST (idps_path (ip_realm args)) [] (Some body)) created_id)"

definition identity_providers_delete :: "tool_env \<Rightarrow> caller option \<Rightarrow> idp_target \<Rightarrow> tool" where
  "identity_providers_delete te parts args =
     or_return (authorize_tool (te_config te) parts (write_idps te)) (\<lambda>ctx.
     try_prog (call_gateway te ctx DELETE (idp_path args) [] None) (\<lambda>_. reply_json [(''ok'', JBool True)]))"

definition identity_provider_mappers_list :: "tool_env \<Rightarrow> idp_env \<Rightarrow> caller option \<Rightarrow> idp_target \<Rightarrow> tool" where
  "identity_provider_mappers_list te ie parts args =
     or_return (authorize_tool (te_config te) parts (read_idps te)) (\<lambda>ctx.
     try_prog (call_gateway te ctx GET (idp_path args @ ''/mappers'') [] None) (\<lambda>payload.
     reply_json [(''mappers'', JArr (map idp_mapper_summary (decode_items (ie_mapper ie) payload)))]))"

definition identity_provider_mappers_add ::
  "tool_env \<Rightarrow> caller option \<Rightarrow> idp_mapper_create_args \<Rightarrow> tool" where
  "identity_provider_mappers_add te parts args =
     or_return (authorize_tool (te_config te) parts (write_idps te)) (\<lambda>ctx.
     let body = JObj [(''name'', JStr (imc_name args)),
           (''identityProviderMapper'', JStr (imc_identity_provider_mapper args)),
           (''config'', string_map_json (imc_config args))]
     in try_prog (call_gateway te ctx POST (idp_path args @ ''/mappers'') [] (Some body)) created_id)"

definition identity_provider_mappers_delete ::
  "tool_env \<Rightarrow> caller option \<Rightarrow> idp_mapper_delete_args \<Rightarrow> tool" where
  "identity_provider_mappers_delete te parts args =
     or_return (authorize_tool (te_config te) parts (write_idps te)) (\<lambda>ctx.
     try_prog (call_gateway te ctx DELETE (idp_path args @ ''/mappers/'' @ imd_mapper_id args) [] None)
       (\<lambda>_. reply_json [(''ok'', JBool True)]))"

section \<open>The router and the gate of the identity provider tools\<close>

datatype idp_call =
    IdpList idp_list_args
  | IdpGet idp_target
  | IdpCreate idp_create_args
  | IdpDelete idp_target
  | IdpMappersList idp_target
  | IdpMappersAdd idp_mapper_create_args
  | IdpMappersDelete idp_mapper_delete_args

fun idp_tool :: "tool_env \<Rightarrow> idp_env \<Rightarrow> caller option \<Rightarrow> idp_call \<Rightarrow> tool" where
  "idp_tool te ie parts (IdpList args) = identity_providers_list te ie parts args"
| "idp_tool te ie parts (IdpGet args) = identity_providers_get te ie parts args"
| "idp_tool te ie parts (IdpCreate args) = identity_providers_create te parts args"
| "idp_tool te ie parts (IdpDelete args) = identity_providers_delete te parts args"
| "idp_tool te ie parts (IdpMappersList args) = identity_provider_mappers_list te ie parts args"
| "idp_tool te ie parts (IdpMappersAdd args) = identity_provider_mappers_add te parts args"
| "idp_tool te ie parts (IdpMappersDelete args) = identity_provider_mappers_delete te parts args"

fun idp_gate :: "scope_map \<Rightarrow> idp_call \<Rightarrow> string list" where
  "idp_gate m (IdpCreate _) = ts_write (sm_identity_providers m)"
| "idp_gate m (IdpDelete _) = ts_write (sm_identity_providers m)"
| "idp_gate m (IdpMappersAdd _) = ts_write (sm_identity_providers m)"
| "idp_gate m (IdpMappersDelete _) = ts_write (sm_identity_providers m)"
| "idp_gate m _ = ts_read (sm_identity_providers m)"

lemma created_id_sends [sends_intros]: "sends P (created_id payload)"
  by (simp add: created_id_def)

lemma idp_tool_opens:
  "opens_with (te_config te) parts (idp_gate (mc_scope_map (te_config te)) call) (idp_tool te ie parts call)"
  by (cases call)
    (simp_all only: idp_tool.simps idp_gate.simps identity_providers_list_def identity_providers_get_def
       identity_providers_create_def identity_providers_delete_def identity_provider_mappers_list_def
       identity_provider_mappers_add_def identity_provider_mappers_delete_def Let_def,
      (intro gate_intros sends_intros made_for_request)+)

declare idp_tool.simps [simp del]

lemma idp_tool_reads: "read_only (idp_gate default_scope_map call) \<Longrightarrow> sends is_get (idp_tool te ie parts call)"
  by (cases call)
    (simp_all only: idp_tool.simps idp_gate.simps write_not_read_only
       identity_providers_list_def identity_providers_get_def identity_provider_mappers_list_def Let_def,
      (intro sends_intros is_get_request)+)

interpretation idps: reading_family idp_tool idp_gate
  by unfold_locales (rule opens_withD [OF idp_tool_opens] idp_tool_reads; assumption)+

end
