(* ===== verification/Tools_Events.thy ===== *)
theory Tools_Events
  imports Mcp_Tools "HOL-Library.Signed_Division"
begin

text \<open>
  The event tools (\<open>tools/events.rs\<close>): user and admin events with their filters, and the tools that clear
  them. Parsing an RFC 3339 timestamp (the \<open>time\<close> crate) is a field of \<open>event_env\<close>: the nanoseconds
  since 1970 of a text it accepts. The serde decoders are fields too.
\<close>

section \<open>Arguments and representations\<close>

datatype event_type_arg = SingleType string | MultipleTypes "string list"

record event_range =
  er_realm :: string
  er_date_from :: "string option"
  er_date_to :: "string option"
  er_first :: "32 word option"
  er_max :: "32 word option"

record events_list_args = event_range +
  el_client :: "string option"
  el_user :: "string option"
  el_event_type :: "event_type_arg option"
  el_ip_address :: "string option"

record admin_events_list_args = event_range +
  ael_auth_client :: "string option"
  ael_auth_user :: "string option"
  ael_auth_realm :: "string option"
  ael_auth_ip_address :: "string option"
  ael_resource_path :: "string option"
  ael_resource_types :: "string option"
  ael_operation_types :: "string option"

record events_clear_args =
  ec_realm :: string
  ec_confirm :: bool

record user_event =
  ue_client_id :: "string option"
  ue_details :: "json option"
  ue_error :: "string option"
  ue_ip_address :: "string option"
  ue_realm_id :: "string option"
  ue_session_id :: "string option"
  ue_time :: "64 word option"
  ue_event_type :: "string option"
  ue_user_id :: "string option"

record admin_event =
  av_auth_details :: "json option"
  av_error :: "string option"
  av_operation_type :: "string option"
  av_realm_id :: "string option"
  av_representation :: "string option"
  av_resource_path :: "string option"
  av_resource_type :: "string option"
  av_time :: "64 word option"
  av_details :: "json option"

record event_env =
  ev_user_event :: "json \<Rightarrow> user_event option"
  ev_admin_event :: "json \<Rightarrow> admin_event option"
  ev_rfc3339_nanos :: "string \<Rightarrow> int option"

definition user_event_summary :: "user_event \<Rightarrow> json" where
  "user_event_summary v = JObj [(''client_id'', json_opt_str (ue_client_id v)),
     (''details'', json_opt (\<lambda>d. d) (ue_details v)), (''error'', json_opt_str (ue_error v)),
     (''ip_address'', json_opt_str (ue_ip_address v)), (''realm_id'', json_opt_str (ue_realm_id v)),
     (''session_id'', json_opt_str (ue_session_id v)), (''time'', json_opt json_i64 (ue_time v)),
     (''event_type'', json_opt_str (ue_event_type v)), (''user_id'', json_opt_str (ue_user_id v))]"

definition admin_event_summary :: "admin_event \<Rightarrow> json" where
  "admin_event_summary v = JObj [(''auth_details'', json_opt (\<lambda>d. d) (av_auth_details v)),
     (''error'', json_opt_str (av_error v)), (''operation_type'', json_opt_str (av_operation_type v)),
     (''realm_id'', json_opt_str (av_realm_id v)), (''representation'', json_opt_str (av_representation v)),
     (''resource_path'', json_opt_str (av_resource_path v)),
     (''resource_type'', json_opt_str (av_resource_type v)), (''time'', json_opt json_i64 (av_time v)),
     (''details'', json_opt (\<lambda>d. d) (av_details v))]"

section \<open>Dates\<close>

text \<open>
  The two regular expressions, over ASCII digits. \<open>show_int\<close> is the decimal text of a number; the
  milliseconds are rounded towards zero, as integer division does.
\<close>

definition all_digits :: "string \<Rightarrow> bool" where
  "all_digits s = (s \<noteq> [] \<and> list_all is_digit s)"

definition is_plain_date :: "string \<Rightarrow> bool" where
  "is_plain_date s =
     (length s = 10 \<and> s ! 4 = CHR ''-'' \<and> s ! 7 = CHR ''-'' \<and>
      list_all is_digit (take 4 s) \<and> list_all is_digit (take 2 (drop 5 s)) \<and> list_all is_digit (drop 8 s))"

definition show_int :: "int \<Rightarrow> string" where
  "show_int i = (if i < 0 then ''-'' @ show_nat (nat (- i)) else show_nat (nat i))"

definition invalid_date :: string where
  "invalid_date = ''Invalid date (expected YYYY-MM-DD, epoch milliseconds, or ISO-8601 timestamp).''"

definition normalize_events_list_date ::
  "(string \<Rightarrow> int option) \<Rightarrow> string option \<Rightarrow> string + string option" where
  "normalize_events_list_date rfc3339_nanos v =
     (case v of
        None \<Rightarrow> Inr None
      | Some v \<Rightarrow>
          (let v = trim v in
           if v = [] then Inr None
           else if all_digits v then Inr (Some v)
           else if is_plain_date v then Inr (Some v)
           else if is_digit (hd v) \<and> contains_char (CHR ''T'') v then
             (case rfc3339_nanos v of
                None \<Rightarrow> Inl invalid_date
              | Some nanos \<Rightarrow> Inr (Some (show_int (nanos sdiv 1000000))))
           else Inl invalid_date))"

section \<open>The tools\<close>

abbreviation read_events :: "tool_env \<Rightarrow> string list" where
  "read_events te \<equiv> es_read (sm_events (mc_scope_map (te_config te)))"

abbreviation admin_events :: "tool_env \<Rightarrow> string list" where
  "admin_events te \<equiv> es_admin (sm_events (mc_scope_map (te_config te)))"

definition with_event_date ::
  "event_env \<Rightarrow> caller \<Rightarrow> string option \<Rightarrow> (string option \<Rightarrow> tool) \<Rightarrow> tool" where
  "with_event_date ee ctx v k =
     (case normalize_events_list_date (ev_rfc3339_nanos ee) v of
        Inr v \<Rightarrow> k v
      | Inl message \<Rightarrow> Done (Inr (tool_error ''events.invalid_date'' message (cl_request_id ctx))))"

abbreviation text_param :: "string \<Rightarrow> string option \<Rightarrow> (string \<times> string) list" where
  "text_param name v \<equiv> opt_param name (\<lambda>s. s) v"

definition type_params :: "event_type_arg option \<Rightarrow> (string \<times> string) list" where
  "type_params v =
     (case v of
        None \<Rightarrow> []
      | Some (SingleType v) \<Rightarrow> [(''type'', v)]
      | Some (MultipleTypes vs) \<Rightarrow> map (\<lambda>v. (''type'', v)) vs)"

definition user_event_query ::
  "events_list_args \<Rightarrow> string option \<Rightarrow> string option \<Rightarrow> (string \<times> string) list" where
  "user_event_query args date_from date_to =
     text_param ''client'' (el_client args) @ text_param ''user'' (el_user args) @
     type_params (el_event_type args) @
     text_param ''dateFrom'' date_from @ text_param ''dateTo'' date_to @
     text_param ''ipAddress'' (el_ip_address args) @
     opt_param ''first'' show_u32 (er_first args) @ opt_param ''max'' show_u32 (er_max args)"

definition admin_event_query ::
  "admin_events_list_args \<Rightarrow> string option \<Rightarrow> string option \<Rightarrow> (string \<times> string) list" where
  "admin_event_query args date_from date_to =
     text_param ''authClient'' (ael_auth_client args) @ text_param ''authUser'' (ael_auth_user args) @
     text_param ''authRealm'' (ael_auth_realm args) @ text_param ''authIpAddress'' (ael_auth_ip_address args) @
     text_param ''resourcePath'' (ael_resource_path args) @
     text_param ''resourceTypes'' (ael_resource_types args) @
     text_param ''operationTypes'' (ael_operation_types args) @
     text_param ''dateFrom'' date_from @ text_param ''dateTo'' date_to @
     opt_param ''first'' show_u32 (er_first args) @ opt_param ''max'' show_u32 (er_max args)"

definition events_path :: "string \<Rightarrow> string" where
  "events_path realm = ''/admin/realms/'' @ realm @ ''/events''"

definition admin_events_path :: "string \<Rightarrow> string" where
  "admin_events_path realm = ''/admin/realms/'' @ realm @ ''/admin-events''"

definition events_list :: "tool_env \<Rightarrow> event_env \<Rightarrow> caller option \<Rightarrow> events_list_args \<Rightarrow> tool" where
  "events_list te ee parts args =
     or_return (authorize_tool (te_config te) parts (read_events te)) (\<lambda>ctx.
     with_event_date ee ctx (er_date_from args) (\<lambda>date_from.
     with_event_date ee ctx (er_date_to args) (\<lambda>date_to.
     try_prog (call_gateway te ctx GET (events_path (er_realm args)) (user_event_query args date_from date_to) None)
       (\<lambda>payload.
     reply_json [(''events'', JArr (map user_event_summary (decode_items (ev_user_event ee) payload)))]))))"

definition admin_events_list :: "tool_env \<Rightarrow> event_env \<Rightarrow> caller option \<Rightarrow> admin_events_list_args \<Rightarrow> tool" where
  "admin_events_list te ee parts args =
     or_return (authorize_tool (te_config te) parts (read_events te)) (\<lambda>ctx.
     with_event_date ee ctx (er_date_from args) (\<lambda>date_from.
     with_event_date ee ctx (er_date_to args) (\<lambda>date_to.
     try_prog (call_gateway te ctx GET (admin_events_path (er_realm args))
         (admin_event_query args date_from date_to) None) (\<lambda>payload.
     reply_json [(''events'', JArr (map admin_event_summary (decode_items (ev_admin_event ee) payload)))]))))"

definition events_clear :: "tool_env \<Rightarrow> caller option \<Rightarrow> events_clear_args \<Rightarrow> tool" where
  "events_clear te parts args =
     or_return (authorize_tool (te_config te) parts (admin_events te)) (\<lambda>ctx.
     if \<not> ec_confirm args then
       Done (Inr (tool_error ''events.confirm_required'' ''confirm=true is required to clear events.''
         (cl_request_id ctx)))
     else try_prog (call_gateway te ctx DELETE (events_path (ec_realm args)) [] None)
       (\<lambda>_. reply_json [(''ok'', JBool True)]))"

definition admin_events_clear :: "tool_env \<Rightarrow> caller option \<Rightarrow> events_clear_args \<Rightarrow> tool" where
  "admin_events_clear te parts args =
     or_return (authorize_tool (te_config te) parts (admin_events te)) (\<lambda>ctx.
     if \<not> ec_confirm args then
       Done (Inr (tool_error ''events.confirm_required'' ''confirm=true is required to clear admin events.''
         (cl_request_id ctx)))
     else try_prog (call_gateway te ctx DELETE (admin_events_path (ec_realm args)) [] None)
       (\<lambda>_. reply_json [(''ok'', JBool True)]))"

section \<open>The router and the gate of the event tools\<close>

datatype events_call =
    EventsList events_list_args
  | AdminEventsList admin_events_list_args
  | EventsClear events_clear_args
  | AdminEventsClear events_clear_args

fun events_tool :: "tool_env \<Rightarrow> event_env \<Rightarrow> caller option \<Rightarrow> events_call \<Rightarrow> tool" where
  "events_tool te ee parts (EventsList args) = events_list te ee parts args"
| "events_tool te ee parts (AdminEventsList args) = admin_events_list te ee parts args"
| "events_tool te ee parts (EventsClear args) = events_clear te parts args"
| "events_tool te ee parts (AdminEventsClear args) = admin_events_clear te parts args"

fun events_gate :: "scope_map \<Rightarrow> events_call \<Rightarrow> string list" where
  "events_gate m (EventsList _) = es_read (sm_events m)"
| "events_gate m (AdminEventsList _) = es_read (sm_events m)"
| "events_gate m _ = es_admin (sm_events m)"

lemma with_event_date_sends [sends_intros]:
  assumes "\<And>v. sends P (k v)"
  shows "sends P (with_event_date ee ctx v k)"
  unfolding with_event_date_def by (intro sends_intros assms)

lemma events_tool_opens:
  "opens_with (te_config te) parts (events_gate (mc_scope_map (te_config te)) call) (events_tool te ee parts call)"
  by (cases call)
    (simp_all only: events_tool.simps events_gate.simps events_list_def admin_events_list_def
       events_clear_def admin_events_clear_def,
      (intro gate_intros sends_intros made_for_request)+)

declare events_tool.simps [simp del]

lemma events_tool_reads: "read_only (events_gate default_scope_map call) \<Longrightarrow> sends is_get (events_tool te ee parts call)"
  by (cases call)
    (simp_all only: events_tool.simps events_gate.simps write_not_read_only
       events_list_def admin_events_list_def Let_def,
      (intro sends_intros is_get_request)+)

interpretation events: reading_family events_tool events_gate
  by unfold_locales (rule opens_withD [OF events_tool_opens] events_tool_reads; assumption)+

end
