(* ===== verification/Mcp_Router.thy ===== *)
theory Mcp_Router
  imports Tools_Users Tools_Client_Scopes Tools_Client_Access Tools_Groups Tools_Roles Tools_Scopes
    Tools_Registration Tools_Identity Tools_Events
begin

text \<open>
  The tool router of the server (\<open>KcAdminMcp::new\<close> of \<open>server.rs\<close>): the tools of all families that send
  requests, with their gates, as one family. What holds of every family then holds of every tool.
\<close>

section \<open>All tools\<close>

record tool_decoders =
  td_users :: user_decoders
  td_clients :: client_env
  td_groups :: group_env
  td_roles :: role_env
  td_scopes :: scope_env
  td_realms :: realm_env
  td_idps :: idp_env
  td_events :: event_env

datatype mcp_call =
    UsersCall users_call
  | ClientsCall clients_call
  | ClientScopeBindingsCall client_scopes_call
  | ClientAccessCall client_access_call
  | GroupsCall groups_call
  | RolesCall roles_call
  | ScopesCall scopes_call
  | RealmsCall realms_call
  | RegistrationCall registration_call
  | IdpCall idp_call
  | EventsCall events_call

fun mcp_tool :: "tool_env \<Rightarrow> tool_decoders \<Rightarrow> caller option \<Rightarrow> mcp_call \<Rightarrow> tool" where
  "mcp_tool te td parts (UsersCall call) = users_tool te (td_users td) parts call"
| "mcp_tool te td parts (ClientsCall call) = clients_tool te (td_clients td) parts call"
| "mcp_tool te td parts (ClientScopeBindingsCall call) = client_scopes_tool te (td_clients td) parts call"
| "mcp_tool te td parts (ClientAccessCall call) = client_access_tool te (td_clients td) parts call"
| "mcp_tool te td parts (GroupsCall call) = groups_tool te (td_groups td) parts call"
| "mcp_tool te td parts (RolesCall call) = roles_tool te (td_roles td) parts call"
| "mcp_tool te td parts (ScopesCall call) = scopes_tool te (td_scopes td) parts call"
| "mcp_tool te td parts (RealmsCall call) = realms_tool te (td_realms td) parts call"
| "mcp_tool te td parts (RegistrationCall call) = registration_tool te (td_realms td) parts call"
| "mcp_tool te td parts (IdpCall call) = idp_tool te (td_idps td) parts call"
| "mcp_tool te td parts (EventsCall call) = events_tool te (td_events td) parts call"

fun mcp_gate :: "scope_map \<Rightarrow> mcp_call \<Rightarrow> string list" where
  "mcp_gate m (UsersCall call) = users_gate m call"
| "mcp_gate m (ClientsCall call) = clients_gate m call"
| "mcp_gate m (ClientScopeBindingsCall call) = client_scopes_gate m call"
| "mcp_gate m (ClientAccessCall call) = client_access_gate m call"
| "mcp_gate m (GroupsCall call) = groups_gate m call"
| "mcp_gate m (RolesCall call) = roles_gate m call"
| "mcp_gate m (ScopesCall call) = scopes_gate m call"
| "mcp_gate m (RealmsCall call) = realms_gate m call"
| "mcp_gate m (RegistrationCall call) = registration_gate m call"
| "mcp_gate m (IdpCall call) = idp_gate m call"
| "mcp_gate m (EventsCall call) = events_gate m call"

lemmas family_gated = users.gated clients.gated client_scopes.gated client_access.gated groups.gated
  roles.gated scopes.gated realms.gated registration.gated idps.gated events.gated

lemmas family_reads = users.reads clients.reads client_scopes.reads client_access.reads groups.reads
  roles.reads scopes.reads realms.reads registration.reads idps.reads events.reads

interpretation mcp: reading_family mcp_tool mcp_gate
proof unfold_locales
  fix q te td parts call
  assume "q \<in> calls_of (mcp_tool te td parts call)"
  then show "\<exists>ctx. authorize_tool (te_config te) parts (mcp_gate (mc_scope_map (te_config te)) call) = Inr ctx \<and>
      made_for ctx q"
    by (cases call) (simp_all only: mcp_tool.simps mcp_gate.simps, (erule family_gated)+)
next
  fix te td parts call
  assume "read_only (mcp_gate default_scope_map call)"
  then show "sends is_get (mcp_tool te td parts call)"
    by (cases call) (simp_all only: mcp_tool.simps mcp_gate.simps, (erule family_reads)+)
qed

section \<open>What no tool does\<close>

text \<open>The gate is empty for one call only, at the default scopes.\<close>

lemma gate_empty_iff:
  "mcp_gate default_scope_map call = [] \<longleftrightarrow> (case call of UsersCall (UsersGroupsRemove _) \<Rightarrow> True | _ \<Rightarrow> False)"
proof (cases call)
  case (UsersCall c)
  then show ?thesis by (cases c) (simp_all add: users_gate_def default_scope_map_def)
next
  case (ClientsCall c)
  then show ?thesis by (cases c) (simp_all add: default_scope_map_def)
next
  case (ClientScopeBindingsCall c)
  then show ?thesis by (cases c) (simp_all add: default_scope_map_def)
next
  case (ClientAccessCall c)
  then show ?thesis by (cases c) (simp_all add: default_scope_map_def)
next
  case (GroupsCall c)
  then show ?thesis by (cases c) (simp_all add: default_scope_map_def)
next
  case (RolesCall c)
  then show ?thesis by (cases c) (simp_all add: default_scope_map_def)
next
  case (ScopesCall c)
  then show ?thesis by (cases c) (simp_all add: default_scope_map_def)
next
  case (RealmsCall c)
  then show ?thesis by (cases c) (simp_all add: default_scope_map_def)
next
  case (RegistrationCall c)
  then show ?thesis by (cases c) (simp_all add: default_scope_map_def)
next
  case (IdpCall c)
  then show ?thesis by (cases c) (simp_all add: default_scope_map_def)
next
  case (EventsCall c)
  then show ?thesis by (cases c) (simp_all add: default_scope_map_def)
qed



section \<open>A concrete run\<close>

definition sample_decoders :: tool_decoders where
  "sample_decoders = \<lparr>
     td_users = \<lparr>de_user = (\<lambda>_. None), de_consent = (\<lambda>_. None), de_group = (\<lambda>_. None),
       de_session = (\<lambda>_. None), de_role = (\<lambda>_. None)\<rparr>,
     td_clients = sample_client_env,
     td_groups = \<lparr>ge_group = (\<lambda>_. None), ge_member = (\<lambda>_. None), ge_client = (\<lambda>_. None), ge_role = (\<lambda>_. None)\<rparr>,
     td_roles = \<lparr>re_role = (\<lambda>_. None), re_user = (\<lambda>_. None)\<rparr>,
     td_scopes = \<lparr>se_scope = (\<lambda>_. None), se_mapper = (\<lambda>_. None), se_role = (\<lambda>_. None)\<rparr>,
     td_realms = sample_realm_env,
     td_idps = \<lparr>ie_provider = (\<lambda>_. None), ie_mapper = (\<lambda>_. None)\<rparr>,
     td_events = \<lparr>ev_user_event = (\<lambda>_. None), ev_admin_event = (\<lambda>_. None), ev_rfc3339_nanos = (\<lambda>_. None)\<rparr>\<rparr>"

abbreviation sample_serve :: "unit \<Rightarrow> gateway_call \<Rightarrow> gateway_reply \<times> unit" where
  "sample_serve w q \<equiv> (Reply 204 [], w)"

lemma sample_delete_trace:
  "trace_of serve (mcp_tool sample_tool_env sample_decoders (Some sample_caller) (UsersCall sample_delete)) w =
     [(users_request sample_caller sample_delete, fst (serve w (users_request sample_caller sample_delete)))]"
proof -
  have "authorize_tool (te_config sample_tool_env) (Some sample_caller)
      (ts_write (sm_users (mc_scope_map (te_config sample_tool_env)))) = Inr sample_caller"
    unfolding authorize_tool_Inr require_roles_Inr
    by (simp add: classify_scopes_def write_scopes_def read_scopes_def sample_tool_env_def
        sample_caller_def sample_mcp_config_def default_scope_map_def)
  moreover have "validate_realm_name ''master'' = Inr ()"
    by (simp add: validate_realm_name_def realm_char_def is_alpha_def Let_def)
  moreover have "te_parse_uuid sample_tool_env sample_uuid = Some sample_uuid"
    by (simp add: sample_tool_env_def)
  moreover have "te_joins sample_tool_env path" for path by (simp add: sample_tool_env_def)
  ultimately show ?thesis
    by (simp add: users_tool.simps users_delete_def sample_delete_def validate_uuid_def or_return_def or_fail_def trace_call
        trace_try_call users_request_def users_path_segments_def user_path_def users_path_def)
qed

lemma sample_delete_run:
  obtains result where
    "run_prog sample_serve (mcp_tool sample_tool_env sample_decoders (Some sample_caller) (UsersCall sample_delete)) () =
       (result, [(users_request sample_caller sample_delete, Reply 204 [])], ())"
proof -
  let ?tool = "mcp_tool sample_tool_env sample_decoders (Some sample_caller) (UsersCall sample_delete)"
  obtain result t w' where run: "run_prog sample_serve ?tool () = (result, t, w')"
    by (cases "run_prog sample_serve ?tool ()")
  from that [of result] run sample_delete_trace [of sample_serve "()"] show thesis by simp
qed



end
