(* ===== verification/Build_Script.thy ===== *)
theory Build_Script
  imports Admission
begin

text \<open>
  The build script of the MCP server (\<open>build.rs\<close>): what it reads, the directives it prints to cargo, and
  the environment in which the compiler then expands the \<open>option_env!\<close> of \<open>provenance.rs\<close>. Git, the
  compiler and the file system are parameters: \<open>bw_git\<close> is the output of a git command that succeeds
  with text, given the directory and the arguments.
\<close>

section \<open>The script\<close>

record build_world =
  bw_vars :: env_vars
  bw_git :: "string \<Rightarrow> string list \<Rightarrow> string option"
  bw_rustc :: "string \<Rightarrow> string option"
  bw_is_dir :: "string \<Rightarrow> bool"
  bw_is_file :: "string \<Rightarrow> bool"
  bw_read :: "string \<Rightarrow> string option"

datatype cargo_directive =
    RerunIfEnvChanged string
  | RerunIfChanged string
  | RustcEnv string string

fun env_any :: "env_vars \<Rightarrow> string list \<Rightarrow> string option" where
  "env_any vars [] = None"
| "env_any vars (key # keys) =
     (case vars key of
        None \<Rightarrow> env_any vars keys
      | Some raw \<Rightarrow> if trim raw \<noteq> [] then Some (trim raw) else env_any vars keys)"

definition or_else_value :: "string option \<Rightarrow> string option \<Rightarrow> string option" where
  "or_else_value v w = (case v of Some x \<Rightarrow> Some x | None \<Rightarrow> w)"

definition emit_env :: "string \<Rightarrow> string option \<Rightarrow> cargo_directive" where
  "emit_env key value =
     RustcEnv key (map (\<lambda>c. if c = CHR 0x0A then CHR '' '' else c) (trim (or_unknown value)))"

definition rustc_version :: "build_world \<Rightarrow> string option" where
  "rustc_version bw = map_option trim (Option.bind (bw_vars bw ''RUSTC'') (bw_rustc bw))"

definition git_output :: "build_world \<Rightarrow> string \<Rightarrow> string list \<Rightarrow> string option" where
  "git_output bw repo_root arguments = Option.bind (bw_git bw repo_root arguments)
     (\<lambda>stdout. if trim stdout = [] then None else Some (trim stdout))"

definition git_repo_root :: "build_world \<Rightarrow> string \<Rightarrow> string option" where
  "git_repo_root bw start = Option.bind (bw_git bw start [''rev-parse'', ''--show-toplevel''])
     (\<lambda>stdout. if trim stdout = [] then None else Some (trim stdout))"

section \<open>Paths\<close>

text \<open>
  Unix paths of the standard library, on normalized paths: \<open>join\<close> gives up its base for an absolute path,
  and the ancestors of a path are the path, its parent and so on.
\<close>

definition is_absolute :: "string \<Rightarrow> bool" where
  "is_absolute p = starts_with ''/'' p"

definition push_path :: "string \<Rightarrow> string \<Rightarrow> string" where
  "push_path base p = (if is_absolute p then p else path_join base p)"

definition path_parent :: "string \<Rightarrow> string option" where
  "path_parent p =
     (let s = trim_end_by (\<lambda>c. c = CHR ''/'') p;
          dir = trim_end_by (\<lambda>c. c \<noteq> CHR ''/'') s;
          clean = trim_end_by (\<lambda>c. c = CHR ''/'') dir
      in if s = [] then None else Some (if clean = [] \<and> dir \<noteq> [] then ''/'' else clean))"

lemma length_trim_end_by: "length (trim_end_by p s) \<le> length s"
  using length_dropWhile_le [of p "rev s"] by (simp add: trim_end_by_def)

lemma path_parent_shorter: "path_parent p = Some q \<Longrightarrow> length q < length p"
proof -
  assume *: "path_parent p = Some q"
  define s where "s = trim_end_by (\<lambda>c. c = CHR ''/'') p"
  define dir where "dir = trim_end_by (\<lambda>c. c \<noteq> CHR ''/'') s"
  from * have s: "s \<noteq> []" by (auto simp: path_parent_def s_def Let_def split: if_splits)
  have "last s \<noteq> CHR ''/''" using s trim_end_by_last [of "\<lambda>c. c = CHR ''/''" p] by (simp add: s_def)
  then have "length dir < length s"
  proof (cases s rule: rev_cases)
    case (snoc ys y)
    with \<open>last s \<noteq> CHR ''/''\<close> show ?thesis
      using length_trim_end_by [of "\<lambda>c. c \<noteq> CHR ''/''" ys]
      by (simp add: dir_def trim_end_by_def)
  qed (simp add: s)
  moreover have "length s \<le> length p" by (simp add: s_def length_trim_end_by)
  moreover have "length (trim_end_by (\<lambda>c. c = CHR ''/'') dir) \<le> length dir" by (rule length_trim_end_by)
  moreover from * have "q = (if trim_end_by (\<lambda>c. c = CHR ''/'') dir = [] \<and> dir \<noteq> [] then ''/''
      else trim_end_by (\<lambda>c. c = CHR ''/'') dir)"
    by (auto simp: path_parent_def s_def dir_def Let_def split: if_splits)
  ultimately show ?thesis by (cases dir) (auto split: if_splits)
qed

function ancestors :: "string \<Rightarrow> string list" where
  "ancestors p = p # (case path_parent p of None \<Rightarrow> [] | Some q \<Rightarrow> ancestors q)"
  by auto

termination
  by (relation "measure length") (auto dest: path_parent_shorter)

declare ancestors.simps [simp del]

definition strip_prefix :: "string \<Rightarrow> string \<Rightarrow> string option" where
  "strip_prefix prefix s = (if starts_with prefix s then Some (drop (length prefix) s) else None)"

text \<open>The loop over the ancestors; a \<open>.git\<close> file that does not name a directory ends it.\<close>

fun first_git_dir :: "build_world \<Rightarrow> string list \<Rightarrow> string option" where
  "first_git_dir bw [] = None"
| "first_git_dir bw (candidate # rest) =
     (let dot_git = push_path candidate ''.git'' in
      if bw_is_dir bw dot_git then Some dot_git
      else if \<not> bw_is_file bw dot_git then first_git_dir bw rest
      else map_option (\<lambda>gitdir. let path = trim gitdir in
                 if is_absolute path then path else push_path candidate path)
             (Option.bind (bw_read bw dot_git) (\<lambda>raw. strip_prefix ''gitdir:'' (trim raw))))"

definition resolve_git_dir :: "build_world \<Rightarrow> string \<Rightarrow> string option" where
  "resolve_git_dir bw start = first_git_dir bw (ancestors start)"

definition read_head_reference :: "build_world \<Rightarrow> string \<Rightarrow> string option" where
  "read_head_reference bw git_dir =
     Option.bind (Option.bind (bw_read bw (push_path git_dir ''HEAD''))
         (\<lambda>head. strip_prefix ''ref:'' (trim head)))
       (\<lambda>reference. if trim reference = [] then None else Some (trim reference))"

definition configure_git_rerun_inputs :: "build_world \<Rightarrow> string \<Rightarrow> cargo_directive list" where
  "configure_git_rerun_inputs bw repo_root =
     (case resolve_git_dir bw repo_root of
        None \<Rightarrow> []
      | Some git_dir \<Rightarrow>
          [RerunIfChanged (push_path git_dir ''HEAD''), RerunIfChanged (push_path git_dir ''packed-refs'')] @
          (case read_head_reference bw git_dir of
             None \<Rightarrow> []
           | Some reference \<Rightarrow> [RerunIfChanged (push_path git_dir reference)]))"

section \<open>main\<close>

definition rerun_keys :: "string list" where
  "rerun_keys =
     [''SOURCE_DATE_EPOCH'', ''RUSTC'', ''PROFILE'', ''TARGET'',
      ''MCP_BUILD_COMPONENT'', ''MCP_BUILD_SERVER_VERSION'', ''MCP_BUILD_GIT_SHA'', ''MCP_BUILD_GIT_REF'',
      ''MCP_BUILD_GIT_DIRTY'', ''MCP_BUILD_TOOLCHAIN'', ''MCP_BUILD_SOURCE_DATE_EPOCH'',
      ''MCP_BUILD_IDENTITY_OVERRIDE'', ''MCP_BUILD_PRODUCTION'',
      ''KC_ADMIN_MCP_BUILD_COMPONENT'', ''KC_ADMIN_MCP_BUILD_SERVER_VERSION'', ''KC_ADMIN_MCP_BUILD_GIT_SHA'',
      ''KC_ADMIN_MCP_BUILD_GIT_REF'', ''KC_ADMIN_MCP_BUILD_GIT_DIRTY'', ''KC_ADMIN_MCP_BUILD_TOOLCHAIN'',
      ''KC_ADMIN_MCP_BUILD_SOURCE_DATE_EPOCH'', ''KC_ADMIN_MCP_BUILD_IDENTITY_OVERRIDE'',
      ''KC_ADMIN_MCP_BUILD_PRODUCTION'']"

definition explicit_server_version :: "env_vars \<Rightarrow> string option" where
  "explicit_server_version vars =
     env_any vars [''KC_ADMIN_MCP_BUILD_SERVER_VERSION'', ''MCP_BUILD_SERVER_VERSION'']"

definition explicit_git_sha :: "env_vars \<Rightarrow> string option" where
  "explicit_git_sha vars = env_any vars [''KC_ADMIN_MCP_BUILD_GIT_SHA'', ''MCP_BUILD_GIT_SHA'']"

definition build_production :: "env_vars \<Rightarrow> bool" where
  "build_production vars =
     parse_truthy (env_any vars [''KC_ADMIN_MCP_BUILD_PRODUCTION'', ''MCP_BUILD_PRODUCTION''])"

text \<open>The values the script settles on, in the order in which it prints them.\<close>

definition script_values :: "build_world \<Rightarrow> string \<Rightarrow> (string \<times> string option) list" where
  "script_values bw git_root =
     (let vars = bw_vars bw in
      [(''KC_ADMIN_MCP_BUILD_COMPONENT'',
          or_else_value (env_any vars [''KC_ADMIN_MCP_BUILD_COMPONENT'', ''MCP_BUILD_COMPONENT''])
            (vars ''CARGO_PKG_NAME'')),
       (''KC_ADMIN_MCP_BUILD_SERVER_VERSION'',
          or_else_value (explicit_server_version vars) (vars ''CARGO_PKG_VERSION'')),
       (''KC_ADMIN_MCP_BUILD_GIT_SHA'',
          or_else_value (explicit_git_sha vars) (git_output bw git_root [''rev-parse'', ''--verify'', ''HEAD''])),
       (''KC_ADMIN_MCP_BUILD_GIT_REF'',
          or_else_value (env_any vars [''KC_ADMIN_MCP_BUILD_GIT_REF'', ''MCP_BUILD_GIT_REF''])
            (git_output bw git_root [''symbolic-ref'', ''--quiet'', ''--short'', ''HEAD''])),
       (''KC_ADMIN_MCP_BUILD_GIT_DIRTY'',
          or_else_value (env_any vars [''KC_ADMIN_MCP_BUILD_GIT_DIRTY'', ''MCP_BUILD_GIT_DIRTY''])
            (map_option (\<lambda>value. if trim value \<noteq> [] then ''true'' else ''false'')
              (git_output bw git_root [''status'', ''--porcelain'', ''--untracked-files=no'']))),
       (''KC_ADMIN_MCP_BUILD_RUSTC_VERSION'',
          or_else_value (env_any vars [''KC_ADMIN_MCP_BUILD_TOOLCHAIN'', ''MCP_BUILD_TOOLCHAIN''])
            (rustc_version bw)),
       (''KC_ADMIN_MCP_BUILD_PROFILE'',
          or_else_value (env_any vars [''KC_ADMIN_MCP_BUILD_PROFILE'', ''MCP_BUILD_PROFILE'']) (vars ''PROFILE'')),
       (''KC_ADMIN_MCP_BUILD_TARGET'',
          or_else_value (env_any vars [''KC_ADMIN_MCP_BUILD_TARGET'', ''MCP_BUILD_TARGET'']) (vars ''TARGET'')),
       (''KC_ADMIN_MCP_BUILD_SOURCE_DATE_EPOCH'',
          env_any vars [''KC_ADMIN_MCP_BUILD_SOURCE_DATE_EPOCH'', ''MCP_BUILD_SOURCE_DATE_EPOCH'',
            ''SOURCE_DATE_EPOCH'']),
       (''KC_ADMIN_MCP_BUILD_IDENTITY_OVERRIDE'',
          env_any vars [''KC_ADMIN_MCP_BUILD_IDENTITY_OVERRIDE'', ''MCP_BUILD_IDENTITY_OVERRIDE''])])"

definition manifest_dir :: "build_world \<Rightarrow> string" where
  "manifest_dir bw = (case bw_vars bw ''CARGO_MANIFEST_DIR'' of Some dir \<Rightarrow> dir | None \<Rightarrow> ''.'')"

definition git_root :: "build_world \<Rightarrow> string" where
  "git_root bw = (case git_repo_root bw (manifest_dir bw) of Some root \<Rightarrow> root | None \<Rightarrow> manifest_dir bw)"

definition build_script :: "build_world \<Rightarrow> string + cargo_directive list" where
  "build_script bw =
     (let vars = bw_vars bw in
         if build_production vars \<and> explicit_server_version vars = None then
           Inl ''production build requires explicit KC_ADMIN_MCP_BUILD_SERVER_VERSION (or MCP_BUILD_SERVER_VERSION)''
         else if build_production vars \<and> explicit_git_sha vars = None then
           Inl ''production build requires explicit KC_ADMIN_MCP_BUILD_GIT_SHA (or MCP_BUILD_GIT_SHA)''
         else
           Inr (map RerunIfEnvChanged rerun_keys @ configure_git_rerun_inputs bw (manifest_dir bw) @
             map (\<lambda>(key, value). emit_env key value) (script_values bw (git_root bw))))"

section \<open>What the binary is compiled with\<close>

text \<open>
  Cargo passes its own environment to the compiler and sets the printed variables over it; a later one
  wins.
\<close>

fun rustc_envs :: "cargo_directive list \<Rightarrow> (string \<times> string) list" where
  "rustc_envs [] = []"
| "rustc_envs (RustcEnv key value # ds) = (key, value) # rustc_envs ds"
| "rustc_envs (RerunIfEnvChanged _ # ds) = rustc_envs ds"
| "rustc_envs (RerunIfChanged _ # ds) = rustc_envs ds"

definition compiler_env :: "env_vars \<Rightarrow> cargo_directive list \<Rightarrow> env_vars" where
  "compiler_env vars ds key =
     (case map_of (rev (rustc_envs ds)) key of Some value \<Rightarrow> Some value | None \<Rightarrow> vars key)"

section \<open>Lemmas\<close>

text \<open>A printed value is one line without blanks around it; the binary takes a blank or unknown one for none.\<close>

definition one_line :: "string \<Rightarrow> string" where
  "one_line value = map (\<lambda>c. if c = CHR 0x0A then CHR '' '' else c) (trim value)"

definition reported :: "string option \<Rightarrow> string option" where
  "reported v = Option.bind v (\<lambda>s. if one_line s = [] \<or> one_line s = UNKNOWN then None else Some (one_line s))"

lemma emit_env_line: "emit_env key v = RustcEnv key (one_line (or_unknown v))"
  by (simp add: emit_env_def one_line_def)

lemma trim_one_line [simp]: "trim (one_line v) = one_line v"
proof (rule trim_id)
  have "is_ws (CHR 0x0A)" by (simp add: is_ws_def)
  then show "one_line v = [] \<or> (\<not> is_ws (hd (one_line v)) \<and> \<not> is_ws (last (one_line v)))"
    using trim_not_ws_ends [of v] by (auto simp: one_line_def hd_map last_map split: if_splits)
qed

lemma one_line_no_blank: "CHR '' '' \<notin> set (one_line v) \<Longrightarrow> one_line v = trim v"
  by (auto simp: one_line_def image_iff intro!: map_idI)

lemma trim_UNKNOWN [simp]: "trim UNKNOWN = UNKNOWN"
  by code_simp

lemma one_line_unknown [simp]: "one_line UNKNOWN = UNKNOWN"
  by code_simp

lemma one_line_UNKNOWN_iff: "one_line v = UNKNOWN \<longleftrightarrow> trim v = UNKNOWN"
proof
  assume *: "one_line v = UNKNOWN"
  then have "CHR '' '' \<notin> set (one_line v)" by (simp add: UNKNOWN_def)
  from one_line_no_blank [OF this] * show "trim v = UNKNOWN" by simp
next
  assume *: "trim v = UNKNOWN"
  then have "one_line v = one_line UNKNOWN" by (simp add: one_line_def UNKNOWN_def str_defs)
  then show "one_line v = UNKNOWN" by simp
qed

lemma parse_truthy_one_line: "parse_truthy (Some (one_line v)) = parse_truthy (Some v)"
proof (cases "CHR 0x0A \<in> set (trim v)")
  case False
  then have "one_line v = trim v" by (auto simp: one_line_def intro!: map_idI)
  then show ?thesis by (simp add: parse_truthy_def)
next
  case True
  then have "CHR '' '' \<in> set (to_ascii_lowercase (one_line v))"
    "CHR 0x0A \<in> set (to_ascii_lowercase (trim v))"
    by (force simp: one_line_def to_ascii_lowercase_def ascii_lower_def)+
  then show ?thesis unfolding parse_truthy_def trim_one_line by auto
qed

lemma rustc_envs_append [simp]: "rustc_envs (ds @ es) = rustc_envs ds @ rustc_envs es"
  by (induction ds rule: rustc_envs.induct) auto

lemma rustc_envs_values [simp]:
  "rustc_envs (map RerunIfEnvChanged keys) = []"
  "rustc_envs (configure_git_rerun_inputs bw dir) = []"
  "rustc_envs (map (\<lambda>(key, value). emit_env key value) vs) = map (\<lambda>(key, v). (key, one_line (or_unknown v))) vs"
  by (induction keys) (auto simp: configure_git_rerun_inputs_def split: option.splits,
      induction vs, auto simp: emit_env_line)

lemma script_values_distinct: "distinct (map fst (script_values bw root))"
  by (simp add: script_values_def Let_def)

lemma build_scriptD:
  assumes "build_script bw = Inr ds"
  shows "ds = map RerunIfEnvChanged rerun_keys @ configure_git_rerun_inputs bw (manifest_dir bw) @
      map (\<lambda>(key, value). emit_env key value) (script_values bw (git_root bw))"
    and "build_production (bw_vars bw) \<Longrightarrow>
      explicit_server_version (bw_vars bw) \<noteq> None \<and> explicit_git_sha (bw_vars bw) \<noteq> None"
  using assms by (auto simp: build_script_def Let_def split: if_splits)

lemma emitted_env:
  assumes "build_script bw = Inr ds" and "(key, v) \<in> set (script_values bw (git_root bw))"
  shows "compiler_env vars ds key = Some (one_line (or_unknown v))"
proof -
  let ?vs = "map (\<lambda>(key, v). (key, one_line (or_unknown v))) (script_values bw (git_root bw))"
  have "distinct (map fst ?vs)"
    using script_values_distinct [of bw "git_root bw"] by (simp add: case_prod_unfold comp_def)
  then have "distinct (map fst (rev ?vs))" by (simp flip: rev_map)
  then have "map_of (rev ?vs) key = Some (one_line (or_unknown v))"
    using assms(2) by (intro map_of_is_SomeI) force+
  then show ?thesis unfolding compiler_env_def build_scriptD(1) [OF assms(1)] by simp
qed

lemma build_env_emitted:
  assumes "compiler_env vars ds key = Some (one_line (or_unknown v))"
  shows "build_env (compiler_env vars ds) key = reported v"
  using assms
  by (cases v) (auto simp: build_env_def reported_def or_unknown_def Let_def)

text \<open>What the script settles on is what \<open>from_build_env\<close> finds in the binary.\<close>

lemma reads_back:
  assumes "build_script bw = Inr ds" and "(key, v) \<in> set (script_values bw (git_root bw))"
  shows "build_env (compiler_env vars ds) key = reported v"
  by (rule build_env_emitted [OF emitted_env [OF assms]])

lemma env_any_trimmed: "env_any vars keys = Some v \<Longrightarrow> v \<noteq> [] \<and> trim v = v"
  by (induction vars keys rule: env_any.induct) (auto split: option.splits if_splits)

lemma one_line_Nil_iff: "one_line v = [] \<longleftrightarrow> trim v = []"
  by (simp add: one_line_def)

lemma reported_env_any:
  "env_any vars keys = Some v \<Longrightarrow> reported (Some v) = (if v = UNKNOWN then None else Some (one_line v))"
  using env_any_trimmed [of vars keys v] by (simp add: reported_def one_line_Nil_iff one_line_UNKNOWN_iff)

text \<open>The state of the tree: what the build says of it or, without that, what git says.\<close>

definition tree_dirty :: "build_world \<Rightarrow> bool" where
  "tree_dirty bw =
     (case env_any (bw_vars bw) [''KC_ADMIN_MCP_BUILD_GIT_DIRTY'', ''MCP_BUILD_GIT_DIRTY''] of
        Some v \<Rightarrow> parse_truthy (Some v)
      | None \<Rightarrow> git_output bw (git_root bw) [''status'', ''--porcelain'', ''--untracked-files=no''] \<noteq> None)"

lemma git_output_text: "git_output bw root arguments = Some value \<Longrightarrow> trim value = value \<and> value \<noteq> []"
  by (auto simp: git_output_def split: Option.bind_splits if_splits)

lemma emitted_dirty:
  assumes "build_script bw = Inr ds"
  shows "parse_truthy (compiler_env (bw_vars bw) ds ''KC_ADMIN_MCP_BUILD_GIT_DIRTY'') = tree_dirty bw"
proof -
  have yes: "parse_truthy (Some ''true'')" and no: "\<not> parse_truthy (Some UNKNOWN)" by code_simp+
  have "compiler_env (bw_vars bw) ds ''KC_ADMIN_MCP_BUILD_GIT_DIRTY'' = Some (one_line (or_unknown
      (or_else_value (env_any (bw_vars bw) [''KC_ADMIN_MCP_BUILD_GIT_DIRTY'', ''MCP_BUILD_GIT_DIRTY''])
        (map_option (\<lambda>value. if trim value \<noteq> [] then ''true'' else ''false'')
           (git_output bw (git_root bw) [''status'', ''--porcelain'', ''--untracked-files=no''])))))"
    by (rule emitted_env [OF assms]) (simp add: script_values_def Let_def)
  then show ?thesis
    using yes no
    by (auto simp: parse_truthy_one_line tree_dirty_def or_else_value_def or_unknown_def
        dest: git_output_text split: option.splits)
qed

text \<open>
  Without an override the word \<open>false\<close> is never printed: the output of git for a clean tree is blank and is dropped
  like that of a git that fails, so the binary cannot tell a clean tree from an unknown one.
\<close>

lemma dirty_word:
  assumes "build_script bw = Inr ds"
    and "env_any (bw_vars bw) [''KC_ADMIN_MCP_BUILD_GIT_DIRTY'', ''MCP_BUILD_GIT_DIRTY''] = None"
  shows "compiler_env vars ds ''KC_ADMIN_MCP_BUILD_GIT_DIRTY'' =
    Some (if git_output bw (git_root bw) [''status'', ''--porcelain'', ''--untracked-files=no''] = None
          then UNKNOWN else ''true'')"
proof -
  let ?status = "git_output bw (git_root bw) [''status'', ''--porcelain'', ''--untracked-files=no'']"
  have yes: "one_line ''true'' = ''true''" by code_simp
  have "compiler_env vars ds ''KC_ADMIN_MCP_BUILD_GIT_DIRTY'' = Some (one_line (or_unknown
      (map_option (\<lambda>value. if trim value \<noteq> [] then ''true'' else ''false'') ?status)))"
    by (rule emitted_env [OF assms(1)])
      (simp add: script_values_def Let_def or_else_value_def assms(2) del: env_any.simps)
  with yes show ?thesis
    by (cases ?status) (auto simp: or_unknown_def dest: git_output_text)
qed

section \<open>What a production build reports\<close>

text \<open>
  What a production build is told is what its binary says: the script succeeds only with an explicit
  version and revision, and then the compiled server reports them, on one line, and a fingerprint of that
  revision and of the state of the tree; git's own revision is never used. A value of the literal word
  \<open>unknown\<close> passes the script and is reported as unknown, the version then as that of the package.
\<close>

lemma production_build_identified:
  assumes "build_script bw = Inr ds" and "build_production (bw_vars bw)"
  shows "\<exists>version sha. explicit_server_version (bw_vars bw) = Some version \<and>
    explicit_git_sha (bw_vars bw) = Some sha \<and> version \<noteq> [] \<and> sha \<noteq> [] \<and>
    (let build = from_build_env (compiler_env (bw_vars bw) ds) name pkg_version in
       bp_server_version build = (if version = UNKNOWN then pkg_version else one_line version) \<and>
       sp_revision (bp_source build) = one_line sha \<and>
       bp_source_fingerprint build = source_fingerprint (one_line sha) (tree_dirty bw) \<and>
       (sp_dirty (bp_source build) \<longleftrightarrow> tree_dirty bw))"
proof -
  let ?opt = "compiler_env (bw_vars bw) ds"
  from build_scriptD(2) [OF assms] obtain version sha
    where explicit: "explicit_server_version (bw_vars bw) = Some version" "explicit_git_sha (bw_vars bw) = Some sha"
    by blast
  then have words: "version \<noteq> []" "sha \<noteq> []"
    and reps: "reported (Some version) = (if version = UNKNOWN then None else Some (one_line version))"
      "reported (Some sha) = (if sha = UNKNOWN then None else Some (one_line sha))"
    using env_any_trimmed reported_env_any unfolding explicit_server_version_def explicit_git_sha_def by blast+
  have "build_env ?opt ''KC_ADMIN_MCP_BUILD_SERVER_VERSION'' = reported (Some version)"
    and "build_env ?opt ''KC_ADMIN_MCP_BUILD_GIT_SHA'' = reported (Some sha)"
    by (rule reads_back [OF assms(1)]; simp add: script_values_def Let_def explicit or_else_value_def)+
  with explicit words reps emitted_dirty [OF assms(1)] show ?thesis
    by (auto simp: from_build_env_def Let_def or_unknown_def)
qed

definition sample_build_world :: build_world where
  "sample_build_world = \<lparr>
     bw_vars = map_of [(''KC_ADMIN_MCP_BUILD_PRODUCTION'', ''1''), (''MCP_BUILD_SERVER_VERSION'', '' 1.2.0 ''),
       (''KC_ADMIN_MCP_BUILD_GIT_SHA'', ''abc''), (''MCP_BUILD_GIT_REF'', ''main''),
       (''MCP_BUILD_TOOLCHAIN'', ''1.80'')],
     bw_git = (\<lambda>_ _. None), bw_rustc = (\<lambda>_. None), bw_is_dir = (\<lambda>_. False), bw_is_file = (\<lambda>_. False),
     bw_read = (\<lambda>_. None)\<rparr>"

lemma sample_build:
  "build_production (bw_vars sample_build_world)"
  "explicit_server_version (bw_vars sample_build_world) = Some ''1.2.0''"
  "explicit_git_sha (bw_vars sample_build_world) = Some ''abc''"
  by code_simp+

lemma sample_build_runs: "\<exists>ds. build_script sample_build_world = Inr ds"
  unfolding build_script_def Let_def sample_build by simp

section \<open>What the script watches\<close>

text \<open>
  A variable is untracked when a change of its value alone can change what the script prints, and the script neither
  asks cargo to run it again for it nor is it one that cargo sets for the package.
\<close>

definition cargo_keys :: "string list" where
  "cargo_keys = [''CARGO_MANIFEST_DIR'', ''CARGO_PKG_NAME'', ''CARGO_PKG_VERSION'']"

definition untracked :: "string \<Rightarrow> bool" where
  "untracked key \<longleftrightarrow> key \<notin> set rerun_keys \<and> key \<notin> set cargo_keys \<and>
     (\<exists>bw value. build_script (bw\<lparr>bw_vars := (bw_vars bw)(key \<mapsto> value)\<rparr>) \<noteq> build_script bw)"

lemma env_any_other: "key \<notin> set keys \<Longrightarrow> env_any (vars(key \<mapsto> value)) keys = env_any vars keys"
  by (induction vars keys rule: env_any.induct) (auto split: option.splits)

declare env_any.simps [simp del]

lemma first_git_dir_vars [simp]: "first_git_dir (bw\<lparr>bw_vars := vars\<rparr>) candidates = first_git_dir bw candidates"
  by (induction candidates) (simp_all add: Let_def)

lemma build_script_other:
  assumes "key \<notin> set rerun_keys" and "key \<notin> set cargo_keys"
    and "key \<notin> {''KC_ADMIN_MCP_BUILD_PROFILE'', ''MCP_BUILD_PROFILE'', ''KC_ADMIN_MCP_BUILD_TARGET'', ''MCP_BUILD_TARGET''}"
  shows "build_script (bw\<lparr>bw_vars := (bw_vars bw)(key \<mapsto> value)\<rparr>) = build_script bw"
proof -
  let ?bw = "bw\<lparr>bw_vars := (bw_vars bw)(key \<mapsto> value)\<rparr>"
  have dir: "manifest_dir ?bw = manifest_dir bw" using assms(2) by (auto simp: manifest_dir_def cargo_keys_def)
  have git: "git_output ?bw = git_output bw" "git_repo_root ?bw = git_repo_root bw"
    by (simp_all add: git_output_def git_repo_root_def fun_eq_iff)
  have root: "git_root ?bw = git_root bw" by (simp only: git_root_def dir git)
  have head: "read_head_reference ?bw = read_head_reference bw"
    by (simp add: fun_eq_iff read_head_reference_def)
  have rerun: "configure_git_rerun_inputs ?bw dir = configure_git_rerun_inputs bw dir" for dir
    unfolding configure_git_rerun_inputs_def resolve_git_dir_def head by simp
  have keys: "key \<noteq> ''RUSTC''" "key \<noteq> ''PROFILE''" "key \<noteq> ''TARGET''"
    "key \<noteq> ''CARGO_PKG_NAME''" "key \<noteq> ''CARGO_PKG_VERSION''"
    using assms(1,2) by (auto simp: rerun_keys_def cargo_keys_def)
  have rustc: "rustc_version ?bw = rustc_version bw" using keys by (simp add: rustc_version_def)
  have any: "env_any ((bw_vars bw)(key \<mapsto> value)) keys = env_any (bw_vars bw) keys"
    if "set keys \<subseteq> set rerun_keys \<union> {''KC_ADMIN_MCP_BUILD_PROFILE'', ''MCP_BUILD_PROFILE'',
      ''KC_ADMIN_MCP_BUILD_TARGET'', ''MCP_BUILD_TARGET''}" for keys
    using that assms(1,3) by (intro env_any_other) blast
  have vals: "script_values ?bw r = script_values bw r" for r
    unfolding script_values_def Let_def
    using keys by (simp add: git rustc any explicit_server_version_def explicit_git_sha_def rerun_keys_def)
  show ?thesis
    unfolding build_script_def Let_def vals root rerun dir
    by (simp add: any build_production_def explicit_server_version_def explicit_git_sha_def rerun_keys_def)
qed

lemma emitted_override:
  assumes "build_script bw = Inr ds"
  shows "compiler_env vars ds ''KC_ADMIN_MCP_BUILD_PROFILE'' = Some (one_line (or_unknown
      (or_else_value (env_any (bw_vars bw) [''KC_ADMIN_MCP_BUILD_PROFILE'', ''MCP_BUILD_PROFILE''])
        (bw_vars bw ''PROFILE''))))"
    and "compiler_env vars ds ''KC_ADMIN_MCP_BUILD_TARGET'' = Some (one_line (or_unknown
      (or_else_value (env_any (bw_vars bw) [''KC_ADMIN_MCP_BUILD_TARGET'', ''MCP_BUILD_TARGET''])
        (bw_vars bw ''TARGET''))))"
  by (rule emitted_env [OF assms]; simp add: script_values_def Let_def)+

lemma trim_x: "trim ''x'' = ''x''"
  by code_simp

lemma override_untracked:
  assumes "key \<in> {''KC_ADMIN_MCP_BUILD_PROFILE'', ''MCP_BUILD_PROFILE'', ''KC_ADMIN_MCP_BUILD_TARGET'', ''MCP_BUILD_TARGET''}"
  shows "untracked key"
proof -
  let ?vars = "(bw_vars sample_build_world)(key \<mapsto> ''x'')"
  let ?bw = "sample_build_world\<lparr>bw_vars := ?vars\<rparr>"
  have out: "key \<notin> set rerun_keys" "key \<notin> set cargo_keys"
    using assms by (auto simp: rerun_keys_def cargo_keys_def)
  have "env_any ?vars keys = env_any (bw_vars sample_build_world) keys" if "set keys \<subseteq> set rerun_keys" for keys
    using that out(1) by (intro env_any_other) blast
  then have "explicit_server_version ?vars = Some ''1.2.0''" "explicit_git_sha ?vars = Some ''abc''"
    using sample_build(2,3) by (simp_all add: explicit_server_version_def explicit_git_sha_def rerun_keys_def)
  then obtain ds where ds: "build_script ?bw = Inr ds" unfolding build_script_def Let_def by simp
  obtain ds' where ds': "build_script sample_build_world = Inr ds'" using sample_build_runs by blast
  have "ds \<noteq> ds'"
  proof
    assume same: "ds = ds'"
    note emitted = emitted_override [OF ds, unfolded same] emitted_override [OF ds']
    have "one_line ''x'' \<noteq> one_line UNKNOWN" by code_simp
    with assms emitted show False
      by (auto simp: sample_build_world_def or_else_value_def or_unknown_def trim_x env_any.simps)
  qed
  with ds ds' have "build_script ?bw \<noteq> build_script sample_build_world" by simp
  with out show ?thesis unfolding untracked_def by blast
qed


end
