(* ===== verification/Mcp_Resources.thy ===== *)
theory Mcp_Resources
  imports Mcp_Service Mcp_Server Mcp_Router Build_Script
begin

text \<open>
  What the MCP server says of itself: the information, the resources and the bundles of tools that
  \<open>server.rs\<close> and \<open>tools/bundles.rs\<close> publish, with the documents of \<open>provenance.rs\<close> as their
  serializers write them. The two text forms of JSON and the clock are parameters.
\<close>

section \<open>Tools by name\<close>

text \<open>The names under which the routers register the tools of each family (\<open>#[tool(name = ...)]\<close>).\<close>

fun users_tool_name :: "users_call \<Rightarrow> string" where
  "users_tool_name (UsersList _) = ''users.list''"
| "users_tool_name (UsersGet _) = ''users.get''"
| "users_tool_name (UsersCreate _) = ''users.create''"
| "users_tool_name (UsersDelete _) = ''users.delete''"
| "users_tool_name (UsersResetPassword _) = ''users.reset_password''"
| "users_tool_name (UsersRequiredActionsSet _) = ''users.required_actions.set''"
| "users_tool_name (UsersGroupsList _) = ''users.groups.list''"
| "users_tool_name (UsersGroupsAdd _) = ''users.groups.add''"
| "users_tool_name (UsersGroupsRemove _) = ''users.groups.remove''"
| "users_tool_name (UsersRoleMappingsRealm _) = ''users.role_mappings.realm''"
| "users_tool_name (UsersRoleMappingsClients _) = ''users.role_mappings.clients''"
| "users_tool_name (UsersConsentList _) = ''users.consent.list''"
| "users_tool_name (UsersSessionsList _) = ''users.sessions.list''"
| "users_tool_name (UsersSessionsLogout _) = ''users.sessions.logout''"

text \<open>One Rust function serves two tools where they differ in the method they send: \<open>POST\<close> adds.\<close>

definition by_method :: "http_method \<Rightarrow> string \<Rightarrow> string \<Rightarrow> string" where
  "by_method m added removed = (if m = POST then added else removed)"

fun clients_tool_name :: "clients_call \<Rightarrow> string" where
  "clients_tool_name (ClientsList _) = ''clients.list''"
| "clients_tool_name (ClientsSearch _) = ''clients.search''"
| "clients_tool_name (ClientsGet _) = ''clients.get''"
| "clients_tool_name (ClientsCreate _) = ''clients.create''"
| "clients_tool_name (ClientsUpdate _) = ''clients.update''"
| "clients_tool_name (ClientsEnable _) = ''clients.enable''"
| "clients_tool_name (ClientsDisable _) = ''clients.disable''"
| "clients_tool_name (ClientsDelete _) = ''clients.delete''"
| "clients_tool_name (ClientsIntrospectionCreate _) = ''clients.introspection.create''"
| "clients_tool_name (ClientsBulkUpdate _) = ''clients.bulk_update''"
| "clients_tool_name (ClientsPrune _) = ''clients.prune''"

definition kind_tools :: "scope_kind \<Rightarrow> string" where
  "kind_tools kind = (case kind of scope_kind.DefaultKind \<Rightarrow> ''clients.default_scopes'' | scope_kind.OptionalKind \<Rightarrow> ''clients.optional_scopes'')"

fun client_scopes_tool_name :: "client_scopes_call \<Rightarrow> string" where
  "client_scopes_tool_name (ClientScopesList kind _) = kind_tools kind"
| "client_scopes_tool_name (ClientScopesMutate action kind _) = kind_tools kind @ (case action of AddBinding \<Rightarrow> ''.add'' | RemoveBinding \<Rightarrow> ''.delete'')"
| "client_scopes_tool_name (ClientScopesReplace kind _) = kind_tools kind @ ''.replace''"
| "client_scopes_tool_name (ClientScopeBinding _) = ''clients.scope.binding''"
| "client_scopes_tool_name (ClientScopeEnsure _) = ''clients.scope.ensure''"

fun client_access_tool_name :: "client_access_call \<Rightarrow> string" where
  "client_access_tool_name (SecretsGet _) = ''clients.secrets.get''"
| "client_access_tool_name (SecretsRotate _) = ''clients.secrets.rotate''"
| "client_access_tool_name (MappersList _) = ''clients.protocol_mappers.list''"
| "client_access_tool_name (MappersAdd _) = ''clients.protocol_mappers.add''"
| "client_access_tool_name (MappersDelete _) = ''clients.protocol_mappers.delete''"
| "client_access_tool_name (RedirectUrisUpdate _) = ''clients.redirect_uris.update''"
| "client_access_tool_name (ScopeMappingsRealm _) = ''clients.scope_mappings.realm''"
| "client_access_tool_name (ScopeMappingsRealmModify m _) = by_method m ''clients.scope_mappings.realm.add'' ''clients.scope_mappings.realm.delete''"
| "client_access_tool_name (ScopeMappingsClient _) = ''clients.scope_mappings.client''"
| "client_access_tool_name (ScopeMappingsClientModify m _) = by_method m ''clients.scope_mappings.client.add'' ''clients.scope_mappings.client.delete''"
| "client_access_tool_name (ServiceAccountRoles _) = ''clients.service_account.roles''"
| "client_access_tool_name (ServiceAccountRealmModify m _) = by_method m ''clients.service_account.roles.realm.add'' ''clients.service_account.roles.realm.remove''"
| "client_access_tool_name (ServiceAccountClientModify m _) = by_method m ''clients.service_account.roles.client.add'' ''clients.service_account.roles.client.remove''"

fun groups_tool_name :: "groups_call \<Rightarrow> string" where
  "groups_tool_name (GroupsList _) = ''groups.list''"
| "groups_tool_name (GroupsGet _) = ''groups.get''"
| "groups_tool_name (GroupsCreate _) = ''groups.create''"
| "groups_tool_name (GroupsMembersList _) = ''groups.members.list''"
| "groups_tool_name (GroupsDelete _) = ''groups.delete''"
| "groups_tool_name (GroupsRolesRealm _) = ''groups.roles.realm''"
| "groups_tool_name (GroupsRolesClients _) = ''groups.roles.clients''"
| "groups_tool_name (GroupsRolesRealmModify m _) = by_method m ''groups.roles.realm.add'' ''groups.roles.realm.remove''"
| "groups_tool_name (GroupsRolesClientModify m _) = by_method m ''groups.roles.client.add'' ''groups.roles.client.remove''"

fun roles_tool_name :: "roles_call \<Rightarrow> string" where
  "roles_tool_name (RolesList _) = ''roles.list''"
| "roles_tool_name (RolesGet _) = ''roles.get''"
| "roles_tool_name (RolesCreate _) = ''roles.create''"
| "roles_tool_name (RolesDelete _) = ''roles.delete''"
| "roles_tool_name (RolesListUsers _) = ''roles.list_users''"
| "roles_tool_name (RolesListComposites _) = ''roles.list_composites''"
| "roles_tool_name (RolesCompositesModify m _) = by_method m ''roles.composites.add'' ''roles.composites.remove''"

fun scopes_tool_name :: "scopes_call \<Rightarrow> string" where
  "scopes_tool_name (ScopesList _) = ''client_scopes.list''"
| "scopes_tool_name (ScopesGet _) = ''client_scopes.get''"
| "scopes_tool_name (ScopesCreate _) = ''client_scopes.create''"
| "scopes_tool_name (ScopesDelete _) = ''client_scopes.delete''"
| "scopes_tool_name (ScopeMappersList _) = ''client_scopes.protocol_mappers.list''"
| "scopes_tool_name (ScopeMappersAdd _) = ''client_scopes.protocol_mappers.add''"
| "scopes_tool_name (ScopeMappersDelete _) = ''client_scopes.protocol_mappers.delete''"
| "scopes_tool_name (ScopeRolesList _) = ''client_scopes.scope_mappings.realm''"
| "scopes_tool_name (ScopeRolesModify m _) = by_method m ''client_scopes.scope_mappings.realm.add'' ''client_scopes.scope_mappings.realm.delete''"

fun realms_tool_name :: "realms_call \<Rightarrow> string" where
  "realms_tool_name RealmsList = ''realms.list''"
| "realms_tool_name (RealmFlowsList _) = ''realm.authentication_flows.list''"
| "realms_tool_name (RealmEventsGet _) = ''realm.events.config.get''"
| "realms_tool_name (RealmEventsSet _) = ''realm.events.config.set''"
| "realms_tool_name (RealmKeysList _) = ''realm.keys.list''"
| "realms_tool_name (RealmSmtpTest _) = ''realm.smtp.test''"
| "realms_tool_name (RealmScopesList _) = ''realm.default_scopes.list''"
| "realms_tool_name (RealmScopesAdd _) = ''realm.default_scopes.add''"
| "realms_tool_name (RealmScopesRemove _) = ''realm.default_scopes.remove''"

fun registration_tool_name :: "registration_call \<Rightarrow> string" where
  "registration_tool_name (PolicyProvidersList _) = ''client_registration.policy_providers.list''"
| "registration_tool_name (PoliciesList _) = ''client_registration.policies.list''"
| "registration_tool_name (PoliciesGet _) = ''client_registration.policies.get''"
| "registration_tool_name (PoliciesCreate _) = ''client_registration.policies.create''"
| "registration_tool_name (PoliciesUpdate _) = ''client_registration.policies.update''"
| "registration_tool_name (PoliciesDelete _) = ''client_registration.policies.delete''"
| "registration_tool_name (InitialAccessList _) = ''client_initial_access.list''"
| "registration_tool_name (InitialAccessCreate _) = ''client_initial_access.create''"
| "registration_tool_name (InitialAccessDelete _) = ''client_initial_access.delete''"

fun idp_tool_name :: "idp_call \<Rightarrow> string" where
  "idp_tool_name (IdpList _) = ''idp.list''"
| "idp_tool_name (IdpGet _) = ''idp.get''"
| "idp_tool_name (IdpCreate _) = ''idp.create''"
| "idp_tool_name (IdpDelete _) = ''idp.delete''"
| "idp_tool_name (IdpMappersList _) = ''idp.mappers.list''"
| "idp_tool_name (IdpMappersAdd _) = ''idp.mappers.add''"
| "idp_tool_name (IdpMappersDelete _) = ''idp.mappers.delete''"

fun events_tool_name :: "events_call \<Rightarrow> string" where
  "events_tool_name (EventsList _) = ''events.list''"
| "events_tool_name (AdminEventsList _) = ''admin_events.list''"
| "events_tool_name (EventsClear _) = ''events.clear''"
| "events_tool_name (AdminEventsClear _) = ''admin_events.clear''"

fun mcp_tool_name :: "mcp_call \<Rightarrow> string" where
  "mcp_tool_name (UsersCall call) = users_tool_name call"
| "mcp_tool_name (ClientsCall call) = clients_tool_name call"
| "mcp_tool_name (ClientScopeBindingsCall call) = client_scopes_tool_name call"
| "mcp_tool_name (ClientAccessCall call) = client_access_tool_name call"
| "mcp_tool_name (GroupsCall call) = groups_tool_name call"
| "mcp_tool_name (RolesCall call) = roles_tool_name call"
| "mcp_tool_name (ScopesCall call) = scopes_tool_name call"
| "mcp_tool_name (RealmsCall call) = realms_tool_name call"
| "mcp_tool_name (RegistrationCall call) = registration_tool_name call"
| "mcp_tool_name (IdpCall call) = idp_tool_name call"
| "mcp_tool_name (EventsCall call) = events_tool_name call"

text \<open>All registered names, with those of the observability tools, in the order of the source.\<close>

definition tool_names :: "string list" where
  "tool_names =
     [''users.list'', ''users.get'', ''users.create'', ''users.delete'', ''users.groups.list'',
      ''users.groups.add'', ''users.groups.remove'', ''users.reset_password'',
      ''users.required_actions.set'', ''users.role_mappings.realm'', ''users.role_mappings.clients'',
      ''users.consent.list'', ''users.sessions.list'', ''users.sessions.logout'', ''groups.list'',
      ''groups.get'', ''groups.create'', ''groups.members.list'', ''groups.delete'',
      ''groups.roles.realm'', ''groups.roles.clients'', ''groups.roles.realm.add'',
      ''groups.roles.realm.remove'', ''groups.roles.client.add'', ''groups.roles.client.remove'',
      ''clients.list'', ''clients.search'', ''clients.get'', ''clients.create'', ''clients.update'',
      ''clients.enable'', ''clients.disable'', ''clients.delete'', ''clients.introspection.create'',
      ''clients.bulk_update'', ''clients.prune'', ''clients.default_scopes'', ''clients.optional_scopes'',
      ''clients.default_scopes.add'', ''clients.default_scopes.delete'', ''clients.optional_scopes.add'',
      ''clients.optional_scopes.delete'', ''clients.scope.binding'', ''clients.scope.ensure'',
      ''clients.default_scopes.replace'', ''clients.optional_scopes.replace'', ''clients.secrets.get'',
      ''clients.secrets.rotate'', ''clients.protocol_mappers.list'', ''clients.protocol_mappers.add'',
      ''clients.protocol_mappers.delete'', ''clients.redirect_uris.update'',
      ''clients.scope_mappings.realm'', ''clients.scope_mappings.realm.add'',
      ''clients.scope_mappings.realm.delete'', ''clients.scope_mappings.client'',
      ''clients.scope_mappings.client.add'', ''clients.scope_mappings.client.delete'',
      ''clients.service_account.roles'', ''clients.service_account.roles.realm.add'',
      ''clients.service_account.roles.realm.remove'', ''clients.service_account.roles.client.add'',
      ''clients.service_account.roles.client.remove'', ''roles.list'', ''roles.get'', ''roles.create'',
      ''roles.delete'', ''roles.list_users'', ''roles.list_composites'', ''roles.composites.add'',
      ''roles.composites.remove'', ''client_scopes.list'', ''client_scopes.get'', ''client_scopes.create'',
      ''client_scopes.delete'', ''client_scopes.protocol_mappers.list'',
      ''client_scopes.protocol_mappers.add'', ''client_scopes.protocol_mappers.delete'',
      ''client_scopes.scope_mappings.realm'', ''client_scopes.scope_mappings.realm.add'',
      ''client_scopes.scope_mappings.realm.delete'', ''idp.list'', ''idp.get'', ''idp.create'',
      ''idp.delete'', ''idp.mappers.list'', ''idp.mappers.add'', ''idp.mappers.delete'', ''realms.list'',
      ''realm.authentication_flows.list'', ''realm.events.config.get'', ''realm.events.config.set'',
      ''realm.keys.list'', ''realm.smtp.test'', ''client_registration.policy_providers.list'',
      ''client_registration.policies.list'', ''client_registration.policies.get'',
      ''client_registration.policies.create'', ''client_registration.policies.update'',
      ''client_registration.policies.delete'', ''client_initial_access.list'',
      ''client_initial_access.create'', ''client_initial_access.delete'', ''realm.default_scopes.list'',
      ''realm.default_scopes.add'', ''realm.default_scopes.remove'', ''events.list'',
      ''admin_events.list'', ''events.clear'', ''admin_events.clear'', ''status.get'', ''metrics.get'',
      ''audit.list'', ''audit.checkpoint'']"

section \<open>Bundles (tools/bundles.rs)\<close>

record tool_bundle =
  tb_name :: string
  tb_description :: string
  tb_tools :: "string list"

definition TOOL_BUNDLES :: "tool_bundle list" where
  "TOOL_BUNDLES = [
     \<lparr>tb_name = ''users'',
      tb_description = ''User lifecycle management, sessions, and group/role memberships.'',
      tb_tools = [
       ''users.list'', ''users.get'', ''users.create'', ''users.delete'', ''users.reset_password'',
       ''users.required_actions.set'', ''users.groups.list'', ''users.groups.add'',
       ''users.groups.remove'', ''users.role_mappings.realm'', ''users.role_mappings.clients'',
       ''users.consent.list'', ''users.sessions.list'', ''users.sessions.logout'']\<rparr>,
     \<lparr>tb_name = ''groups'',
      tb_description = ''Realm-level group hierarchy and member management.'',
      tb_tools = [
       ''groups.list'', ''groups.get'', ''groups.create'', ''groups.delete'', ''groups.members.list'',
       ''groups.role_mappings.realm'', ''groups.role_mappings.clients'']\<rparr>,
     \<lparr>tb_name = ''clients'',
      tb_description = ''OIDC/SAML client registration, configuration, and secret management.'',
      tb_tools = [
       ''clients.list'', ''clients.get'', ''clients.create'', ''clients.update'', ''clients.delete'',
       ''clients.secret.get'', ''clients.secret.regenerate'', ''clients.service_account_user.get'']\<rparr>,
     \<lparr>tb_name = ''client_scopes'',
      tb_description = ''Management of shared client scopes and protocol mappers.'',
      tb_tools = [
       ''client_scopes.list'', ''client_scopes.get'', ''client_scopes.create'', ''client_scopes.delete'']\<rparr>,
     \<lparr>tb_name = ''roles'',
      tb_description = ''Realm and client-level role definitions.'',
      tb_tools = [
       ''roles.realm.list'', ''roles.realm.get'', ''roles.realm.create'', ''roles.realm.delete'',
       ''roles.client.list'', ''roles.client.get'', ''roles.client.create'', ''roles.client.delete'']\<rparr>,
     \<lparr>tb_name = ''realms'',
      tb_description = ''Realm configuration and management.'',
      tb_tools = [
       ''realms.list'', ''realms.get'', ''realms.create'', ''realms.delete'']\<rparr>,
     \<lparr>tb_name = ''identity_providers'',
      tb_description = ''External OIDC/SAML identity provider configuration.'',
      tb_tools = [
       ''identity_providers.list'', ''identity_providers.get'', ''identity_providers.create'',
       ''identity_providers.delete'']\<rparr>,
     \<lparr>tb_name = ''events'',
      tb_description = ''Audit and user event logging configuration.'',
      tb_tools = [
       ''events.config.get'', ''events.config.update'', ''events.admin.list'', ''events.user.list'']\<rparr>,
     \<lparr>tb_name = ''observability'',
      tb_description = ''Server health and uptime metrics.'',
      tb_tools = [
       ''observability.health'', ''observability.uptime'']\<rparr>]"

section \<open>Documents (provenance.rs, server.rs)\<close>

definition json_opt_u64 :: "64 word option \<Rightarrow> json" where
  "json_opt_u64 v = (case v of None \<Rightarrow> JNull | Some w \<Rightarrow> JNum (PosInt w))"

definition source_json :: "source_provenance \<Rightarrow> json" where
  "source_json source = JObj [(''vcs'', JStr (sp_vcs source)), (''revision'', JStr (sp_revision source)),
     (''reference'', JStr (sp_reference source)), (''dirty'', JBool (sp_dirty source))]"

definition build_metadata_json :: "build_metadata \<Rightarrow> json" where
  "build_metadata_json b = JObj [(''profile'', JStr (bm_profile b)), (''target'', JStr (bm_target b)),
     (''rustc_version'', JStr (bm_rustc_version b)), (''source_date_epoch'', json_opt_str (bm_source_date_epoch b))]"

definition build_json :: "build_provenance \<Rightarrow> json" where
  "build_json b = JObj [(''component'', JStr (bp_component b)), (''server_version'', JStr (bp_server_version b)),
     (''build_identity'', JStr (bp_build_identity b)), (''source_fingerprint'', JStr (bp_source_fingerprint b)),
     (''source'', source_json (bp_source b)), (''build_metadata'', build_metadata_json (bp_build_metadata b))]"

definition runtime_json :: "runtime_provenance \<Rightarrow> json" where
  "runtime_json r = JObj [(''build'', build_json (rp_build r)),
     (''process'', JObj [(''pid'', json_nat (rp_pid r)), (''executable_path'', JStr (rp_executable_path r))]),
     (''binary'', JObj [(''file_size_bytes'', json_opt_u64 (rp_file_size_bytes r)),
        (''modified_unix_ms'', json_opt_u64 (rp_modified_unix_ms r))])]"

definition admission_json :: "runtime_admission \<Rightarrow> json" where
  "admission_json a = JObj [(''enforcement_phase'', JStr (ra_enforcement_phase a)),
     (''required_gate_level'', JStr (ra_required_gate_level a)), (''outcome'', JStr (ra_outcome a)),
     (''reason_code'', json_opt_str (ra_reason_code a)), (''override_active'', JBool (ra_override_active a))]"

definition unavailable_json :: "unavailable_field \<Rightarrow> json" where
  "unavailable_json u = JObj [(''field'', JStr (uf_field u)), (''code'', JStr (uf_code u)),
     (''reason'', JStr (uf_reason u))]"

definition payload_json :: "attestation_payload \<Rightarrow> json" where
  "payload_json p = JObj [
     (''identity'', JObj [(''server_version'', JStr (ap_server_version p)),
        (''contract_version'', json_opt_str (ap_contract_version p)),
        (''build_identity'', JStr (ap_build_identity p)), (''source_fingerprint'', JStr (ap_source_fingerprint p))]),
     (''source'', source_json (ap_source p)),
     (''build_metadata'', build_metadata_json (ap_build_metadata p)),
     (''runtime'', JObj [(''pid'', case ap_pid p of None \<Rightarrow> JNull | Some pid \<Rightarrow> json_nat pid),
        (''executable_path'', json_opt_str (ap_executable_path p)),
        (''binary_size_bytes'', json_opt_u64 (ap_binary_size_bytes p)),
        (''binary_modified_unix_ms'', json_opt_u64 (ap_binary_modified_unix_ms p))])]"

definition envelope_json :: "attestation_envelope \<Rightarrow> json" where
  "envelope_json e = JObj [(''status'', JStr (at_status e)), (''schema_version'', json_nat (at_schema_version e)),
     (''component'', JStr (at_component e)), (''timestamp'', JStr (at_timestamp e)),
     (''request_id'', json_opt_str (at_request_id e)), (''attestation'', payload_json (at_attestation e)),
     (''unavailable'', JArr (map unavailable_json (at_unavailable e))),
     (''extensions'', JObj [(''runtime_admission'', admission_json (at_runtime_admission e))])]"

definition bundles_json :: "tool_bundle list \<Rightarrow> json" where
  "bundles_json bundles = JArr (map (\<lambda>b. JObj [(''name'', JStr (tb_name b)),
     (''description'', JStr (tb_description b)), (''tools'', json_strs (tb_tools b))]) bundles)"

text \<open>Every event has a name and the types of its fields.\<close>

definition schema_event :: "string \<Rightarrow> (string \<times> string) list \<Rightarrow> json" where
  "schema_event name typed = JObj [(''name'', JStr name), (''fields'', JObj (map (\<lambda>(f, t). (f, JStr t)) typed))]"

definition logging_schema :: json where
  "logging_schema = JObj [
     (''version'', json_nat 1),
     (''notes'', json_strs [
        ''All MCP log payloads include an `event` field.'',
        ''Payloads are redacted and size-capped before emission.'']),
     (''events'', JArr [
        schema_event ''session.initialize''
          [(''protocol_version'', ''string''), (''client_name'', ''string''), (''client_version'', ''string'')],
        schema_event ''session.initialized'' [],
        schema_event ''session.disconnect'' [(''error'', ''boolean''), (''error_type'', ''string'')],
        schema_event ''tool.call.start'' [(''tool_name'', ''string''), (''arg_keys'', ''string[]'')],
        schema_event ''tool.call.error''
          [(''tool_name'', ''string''), (''error'', ''string''), (''reason'', ''string''), (''retry_after_s'', ''number'')],
        schema_event ''tool.call.finish''
          [(''tool_name'', ''string''), (''duration_ms'', ''number''), (''error'', ''boolean'')],
        schema_event ''discovery.tools.list.*''
          [(''duration_ms'', ''number''), (''count'', ''number''), (''error'', ''boolean'')],
        schema_event ''discovery.resources.list.*''
          [(''duration_ms'', ''number''), (''count'', ''number''), (''error'', ''boolean'')],
        schema_event ''discovery.resource_templates.list.*''
          [(''duration_ms'', ''number''), (''count'', ''number''), (''error'', ''boolean'')],
        schema_event ''discovery.prompts.list.*''
          [(''duration_ms'', ''number''), (''count'', ''number''), (''error'', ''boolean'')],
        schema_event ''resource.read.*''
          [(''uri'', ''string''), (''duration_ms'', ''number''), (''error'', ''boolean'')],
        schema_event ''resource.subscribe.*''
          [(''uri'', ''string''), (''duration_ms'', ''number''), (''error'', ''boolean'')],
        schema_event ''resource.unsubscribe.*''
          [(''uri'', ''string''), (''duration_ms'', ''number''), (''error'', ''boolean'')],
        schema_event ''prompt.render.*''
          [(''prompt_name'', ''string''), (''duration_ms'', ''number''), (''error'', ''boolean'')]])]"

section \<open>Resources (server.rs)\<close>

text \<open>
  \<open>rv_to_string\<close> and \<open>rv_pretty\<close> are the two writers of JSON, \<open>None\<close> their failure; \<open>rv_now\<close> the time of the
  answer. The protocol version and the implementation of the build are the toolkit's.
\<close>

record resource_env =
  rv_to_string :: "json \<Rightarrow> string option"
  rv_pretty :: "json \<Rightarrow> string option"
  rv_now :: string

record 'i server_info =
  si_protocol :: string
  si_tools :: bool
  si_resources :: bool
  si_tool_list_changed :: bool
  si_implementation :: 'i
  si_instructions :: "string option"

definition get_info :: "string \<Rightarrow> 'i \<Rightarrow> 'i server_info" where
  "get_info protocol implementation =
     \<lparr>si_protocol = protocol, si_tools = True, si_resources = True, si_tool_list_changed = True,
      si_implementation = implementation,
      si_instructions =
        Some ''Keycloak admin MCP server (Rust). Auth enforced; tools delegate to kc-admin-gateway.''\<rparr>"

definition LOGGING_SCHEMA_URI :: string where "LOGGING_SCHEMA_URI = ''kc-admin://logging/schema''"
definition TOOL_BUNDLES_URI :: string where "TOOL_BUNDLES_URI = ''kc-admin://tools/bundles''"
definition STATUS_URI :: string where "STATUS_URI = ''kc-admin://status''"
definition ATTEST_URI :: string where "ATTEST_URI = ''kc-admin://attest''"

record resource =
  re_uri :: string
  re_name :: string
  re_title :: string
  re_description :: string
  re_mime_type :: string
  re_size :: "nat option"

definition list_resources :: "resource_env \<Rightarrow> resource list" where
  "list_resources rv =
     [\<lparr>re_uri = LOGGING_SCHEMA_URI, re_name = ''kc-admin-logging-schema'',
        re_title = ''KC Admin MCP logging schema'',
        re_description = ''Event names and payload shapes emitted via MCP logging notifications.'',
        re_mime_type = ''application/json'', re_size = map_option length (rv_to_string rv logging_schema)\<rparr>,
      \<lparr>re_uri = TOOL_BUNDLES_URI, re_name = ''kc-admin-tool-bundles'', re_title = ''KC Admin Tool Bundles'',
        re_description = ''Logical grouping of tools for dynamic injection and least-privilege discovery.'',
        re_mime_type = ''application/json'',
        re_size = map_option length (rv_to_string rv (bundles_json TOOL_BUNDLES))\<rparr>,
      \<lparr>re_uri = STATUS_URI, re_name = ''kc-admin-status'', re_title = ''KC Admin MCP status'',
        re_description = ''Server status and runtime provenance (JSON).'',
        re_mime_type = ''application/json'', re_size = None\<rparr>,
      \<lparr>re_uri = ATTEST_URI, re_name = ''kc-admin-attest'', re_title = ''KC Admin MCP attestation'',
        re_description = ''Fleet v2 attestation envelope for this running server.'',
        re_mime_type = ''application/json'', re_size = None\<rparr>]"

definition status_json :: "string \<Rightarrow> runtime_provenance \<Rightarrow> runtime_admission \<Rightarrow> json" where
  "status_json timestamp provenance admission = JObj [
     (''status'', JStr ''ok''), (''server'', JStr ''kc-admin-mcp''),
     (''version'', JStr (bp_server_version (rp_build provenance))), (''timestamp'', JStr timestamp),
     (''provenance'', runtime_json provenance), (''startup_admission'', admission_json admission)]"

record resource_contents =
  rc_uri :: string
  rc_mime_type :: "string option"
  rc_text :: string

definition text_or :: "string \<Rightarrow> string option \<Rightarrow> string" where
  "text_or alternative text = (case text of Some t \<Rightarrow> t | None \<Rightarrow> alternative)"

definition read_resource ::
  "resource_env \<Rightarrow> runtime_provenance \<Rightarrow> runtime_admission \<Rightarrow> string \<Rightarrow> string + resource_contents" where
  "read_resource rv provenance admission uri =
     and_then
       (if uri = LOGGING_SCHEMA_URI then Inr (LOGGING_SCHEMA_URI, text_or ''{}'' (rv_pretty rv logging_schema))
        else if uri = TOOL_BUNDLES_URI then
          Inr (TOOL_BUNDLES_URI, text_or ''[]'' (rv_pretty rv (bundles_json TOOL_BUNDLES)))
        else if uri = STATUS_URI then
          Inr (STATUS_URI, text_or ''{}'' (rv_pretty rv (status_json (rv_now rv) provenance admission)))
        else if uri = ATTEST_URI then
          Inr (ATTEST_URI, text_or ''{}''
            (rv_pretty rv (envelope_json (build_attestation_envelope (rv_now rv) provenance admission))))
        else Inl ''resource not found'') (\<lambda>(uri, text).
     Inr \<lparr>rc_uri = uri, rc_mime_type = Some ''application/json'', rc_text = text\<rparr>)"

section \<open>Lemmas\<close>

text \<open>The resources that are listed are those that can be read, each under its own name.\<close>

lemma listed_resources_readable:
  "(\<exists>contents. read_resource rv provenance admission uri = Inr contents \<and> rc_uri contents = uri)
     \<longleftrightarrow> uri \<in> re_uri ` set (list_resources rv)"
  by (auto simp: read_resource_def list_resources_def)

lemma unlisted_resources_unreadable:
  "uri \<notin> re_uri ` set (list_resources rv) \<longleftrightarrow> read_resource rv provenance admission uri = Inl ''resource not found''"
  by (auto simp: read_resource_def list_resources_def)

text \<open>The tools that are hidden while secret tools are off refuse every call.\<close>

lemma secret_tools_disabled:
  assumes "\<not> mc_enable_secret_tools (te_config te)"
  shows "calls_of (clients_secrets_get te ce parts target) = {}" and "calls_of (clients_secrets_rotate te ce parts rotation) = {}"
  using assms by (auto simp: clients_secrets_get_def clients_secrets_rotate_def prog_simps)

lemma hidden_tool_cases:
  assumes "starts_with ''clients.secrets.'' (mcp_tool_name call)"
  obtains (get) target where "call = ClientAccessCall (SecretsGet target)"
  | (rotate) rotation where "call = ClientAccessCall (SecretsRotate rotation)"
proof -
  note names = starts_with_def by_method_def kind_tools_def
  show ?thesis
  proof (cases call)
    case (UsersCall c)
    with assms show ?thesis by (cases c) (simp_all add: names)
  next
    case (ClientsCall c)
    with assms show ?thesis by (cases c) (simp_all add: names)
  next
    case (ClientScopeBindingsCall c)
    with assms show ?thesis by (cases c) (auto simp: names split: scope_kind.splits)
  next
    case (ClientAccessCall c)
    with assms that show ?thesis by (cases c) (auto simp: names split: if_splits)
  next
    case (GroupsCall c)
    with assms show ?thesis by (cases c) (auto simp: names split: if_splits)
  next
    case (RolesCall c)
    with assms show ?thesis by (cases c) (auto simp: names split: if_splits)
  next
    case (ScopesCall c)
    with assms show ?thesis by (cases c) (auto simp: names split: if_splits)
  next
    case (RealmsCall c)
    with assms show ?thesis by (cases c) (simp_all add: names)
  next
    case (RegistrationCall c)
    with assms show ?thesis by (cases c) (simp_all add: names)
  next
    case (IdpCall c)
    with assms show ?thesis by (cases c) (simp_all add: names)
  next
    case (EventsCall c)
    with assms show ?thesis by (cases c) (simp_all add: names)
  qed
qed

lemma hidden_tools_inert:
  assumes "\<not> mc_enable_secret_tools (te_config te)" and "sn_config srv = te_config te"
    and "mcp_tool_name call \<in> set (sn_tools srv)" and "mcp_tool_name call \<notin> set (effective_tools srv)"
  shows "calls_of (mcp_tool te td parts call) = {}"
proof -
  have "starts_with ''clients.secrets.'' (mcp_tool_name call)"
    using assms by (auto simp: effective_tools_def)
  then show ?thesis
    by (cases rule: hidden_tool_cases)
      (use secret_tools_disabled [OF assms(1)] in \<open>simp_all add: client_access_tool.simps\<close>)
qed

text \<open>The converse fails: \<open>clients.introspection.create\<close> is guarded by the same switch and stays listed.\<close>

lemma introspection_create_listed:
  assumes "\<not> mc_enable_secret_tools (te_config te)" and "sn_config srv = te_config te"
    and "''clients.introspection.create'' \<in> set (sn_tools srv)"
  shows "mcp_tool_name (ClientsCall (ClientsIntrospectionCreate args)) \<in> set (effective_tools srv)"
    and "calls_of (mcp_tool te td parts (ClientsCall (ClientsIntrospectionCreate args))) = {}"
  using assms
  by (auto simp: effective_tools_def starts_with_def clients_tool.simps clients_introspection_create_def
      prog_simps)

text \<open>Every call of the router goes by a registered name.\<close>

lemma mcp_tool_registered: "mcp_tool_name call \<in> set tool_names"
proof (cases call)
  case (UsersCall c)
  then show ?thesis by (cases c) (simp_all add: tool_names_def)
next
  case (ClientsCall c)
  then show ?thesis by (cases c) (simp_all add: tool_names_def)
next
  case (ClientScopeBindingsCall c)
  then show ?thesis
    by (cases c) (simp_all add: tool_names_def kind_tools_def split: scope_kind.split scope_mutation_action.split)
next
  case (ClientAccessCall c)
  then show ?thesis by (cases c) (simp_all add: tool_names_def by_method_def)
next
  case (GroupsCall c)
  then show ?thesis by (cases c) (simp_all add: tool_names_def by_method_def)
next
  case (RolesCall c)
  then show ?thesis by (cases c) (simp_all add: tool_names_def by_method_def)
next
  case (ScopesCall c)
  then show ?thesis by (cases c) (simp_all add: tool_names_def by_method_def)
next
  case (RealmsCall c)
  then show ?thesis by (cases c) (simp_all add: tool_names_def)
next
  case (RegistrationCall c)
  then show ?thesis by (cases c) (simp_all add: tool_names_def)
next
  case (IdpCall c)
  then show ?thesis by (cases c) (simp_all add: tool_names_def)
next
  case (EventsCall c)
  then show ?thesis by (cases c) (simp_all add: tool_names_def)
qed

text \<open>The bundles name 26 tools that no router registers.\<close>

definition unregistered_bundled :: "string list" where
  "unregistered_bundled =
      [''groups.role_mappings.realm'', ''groups.role_mappings.clients'', ''clients.secret.get'',
       ''clients.secret.regenerate'', ''clients.service_account_user.get'', ''roles.realm.list'',
       ''roles.realm.get'', ''roles.realm.create'', ''roles.realm.delete'', ''roles.client.list'',
       ''roles.client.get'', ''roles.client.create'', ''roles.client.delete'', ''realms.get'',
       ''realms.create'', ''realms.delete'', ''identity_providers.list'', ''identity_providers.get'',
       ''identity_providers.create'', ''identity_providers.delete'', ''events.config.get'',
       ''events.config.update'', ''events.admin.list'', ''events.user.list'', ''observability.health'',
       ''observability.uptime'']"

lemma bundled_not_registered: "set unregistered_bundled \<inter> set tool_names = {}"
  by (simp add: unregistered_bundled_def tool_names_def)

lemma unregistered_are_bundled: "set unregistered_bundled \<subseteq> (\<Union>b \<in> set TOOL_BUNDLES. set (tb_tools b))"
  by (simp add: unregistered_bundled_def TOOL_BUNDLES_def)

section \<open>Attestation\<close>

text \<open>
  A change of the build changes nothing of a start but the provenance and, through the gate, the admission.
\<close>

lemma start_mcp_rebuilt:
  assumes "start_mcp mt vars files = Inr srv"
    and "admit_startup (mc_startup_admission (ap_config (ms_state srv)))
      (evaluate_startup_admission w (mc_startup_admission (ap_config (ms_state srv)))
        (rp_executable_path (ms_provenance srv)) ((ms_provenance srv)\<lparr>rp_build := b\<rparr>)) = Inr admission"
  shows "start_mcp (mt\<lparr>mt_build := b, mt_world := w\<rparr>) vars files =
    Inr (srv\<lparr>ms_provenance := (ms_provenance srv)\<lparr>rp_build := b\<rparr>, ms_admission := admission\<rparr>)"
proof (rule start_mcpD [OF assms(1)], goal_cases)
  case (1 exe)
  then show ?thesis
    using assms by (cases srv) (auto simp: start_mcp_def capture_runtime_provenance_def split: if_splits)
qed

definition attest_document :: "string \<Rightarrow> ('a, 'u, 'c, 'k, 'addr) mcp_server \<Rightarrow> json" where
  "attest_document timestamp srv =
     envelope_json (build_attestation_envelope timestamp (ms_provenance srv) (ms_admission srv))"

lemma attest_resource:
  "read_resource rv (ms_provenance srv) (ms_admission srv) ATTEST_URI =
     Inr \<lparr>rc_uri = ATTEST_URI, rc_mime_type = Some ''application/json'',
       rc_text = text_or ''{}'' (rv_pretty rv (attest_document (rv_now rv) srv))\<rparr>"
  by (simp add: read_resource_def attest_document_def LOGGING_SCHEMA_URI_def TOOL_BUNDLES_URI_def
      STATUS_URI_def ATTEST_URI_def)

fun json_path :: "json \<Rightarrow> string list \<Rightarrow> json option" where
  "json_path j [] = Some j"
| "json_path j (key # keys) = (case json_get j key of None \<Rightarrow> None | Some v \<Rightarrow> json_path v keys)"

lemma attest_document_paths:
  "json_path (attest_document timestamp srv) [''status''] =
     Some (JStr (at_status (build_attestation_envelope timestamp (ms_provenance srv) (ms_admission srv))))"
  "json_path (attest_document timestamp srv) [''attestation'', ''source'', ''revision''] =
     Some (JStr (sp_revision (bp_source (rp_build (ms_provenance srv)))))"
  "json_path (attest_document timestamp srv) [''attestation'', ''source'', ''dirty''] =
     Some (JBool (sp_dirty (bp_source (rp_build (ms_provenance srv)))))"
  by (simp_all add: attest_document_def envelope_json_def payload_json_def source_json_def
      build_attestation_envelope_def Let_def)

declare json_path.simps [simp del]

lemma attestation_okD:
  assumes "at_status (build_attestation_envelope timestamp runtime admission) = ''ok''"
  shows "sp_revision (bp_source (rp_build runtime)) \<noteq> UNKNOWN"
    and "ra_outcome admission \<notin> {''warn'', ''bypassed'', ''disabled''}"
  using assms by (auto simp: build_attestation_envelope_def unavailable_fields_def Let_def split: if_splits)

lemma admitted_outcome:
  assumes "admit_startup sa (evaluate_startup_admission w sa exe runtime) = Inr admission"
    and "ra_outcome admission \<notin> {''warn'', ''bypassed'', ''disabled''}"
  shows "sa_mode sa \<noteq> Off \<and> \<not> sa_bypass sa \<and> gate_checks w sa exe runtime = Inr ()"
  using assms
  by (auto simp: admit_startup_def evaluate_cases split: if_splits sum.splits)

section \<open>Property\<close>


text \<open>A production build of revision \<open>abc\<close>, and the world with a gate artifact for it.\<close>

definition sample_build :: build_provenance where
  "sample_build = from_build_env (compiler_env (bw_vars sample_build_world) (projr (build_script sample_build_world)))
     ''kc-admin-mcp'' ''0.1.0''"

definition attested_world :: admission_world where
  "attested_world = sample_world\<lparr>aw_decode := (\<lambda>_. Inr \<lparr>ga_schema_version = 1, ga_component = ''kc-admin-mcp'',
     ga_gate_level = ''standard'', ga_status = ''pass'',
     ga_build_identity = ''kc-admin-mcp@1.2.0+abc'', ga_source_fingerprint = ''git:abc:clean'',
     ga_command_manifest_digest = ''sha256:0'', ga_expires_at = ''t''\<rparr>)\<rparr>"

lemma sample_build_eq:
  "sample_build = \<lparr>bp_component = ''kc-admin-mcp'', bp_server_version = ''1.2.0'',
     bp_build_identity = ''kc-admin-mcp@1.2.0+abc'', bp_source_fingerprint = ''git:abc:clean'',
     bp_source = \<lparr>sp_vcs = ''git'', sp_revision = ''abc'', sp_reference = ''main'', sp_dirty = False\<rparr>,
     bp_build_metadata = \<lparr>bm_profile = ''unknown'', bm_target = ''unknown'', bm_rustc_version = ''1.80'',
       bm_source_date_epoch = None\<rparr>\<rparr>"
  by code_simp

lemma start_mcp_provenance:
  assumes "start_mcp mt vars files = Inr srv" and "mt_current_exe mt = Inr exe"
  shows "ms_provenance srv = \<lparr>rp_build = mt_build mt, rp_pid = mt_pid mt, rp_executable_path = exe,
    rp_file_size_bytes = None, rp_modified_unix_ms = None\<rparr>"
  using assms by (auto simp: start_mcp_def capture_runtime_provenance_def split: if_splits)

lemma sample_attested:
  "\<exists>srv. start_mcp (sample_mcp_start\<lparr>mt_build := sample_build, mt_world := attested_world\<rparr>) sample_env (\<lambda>_. None) = Inr srv \<and>
     rp_build (ms_provenance srv) = sample_build \<and> ra_outcome (ms_admission srv) = ''passed''"
proof -
  obtain srv where srv: "start_mcp sample_mcp_start sample_env (\<lambda>_. None) = Inr srv" using sample_mcp_started by blast
  obtain cfg where "load_mcp_config 0 Inr sample_env (\<lambda>_. None) = Inr cfg" "mc_startup_admission cfg = sample_admission"
    using sample_loaded by blast
  then have sa: "mc_startup_admission (ap_config (ms_state srv)) = sample_admission"
    by (rule_tac start_mcpD [OF srv]) (simp add: sample_mcp_start_def)
  have "mt_current_exe sample_mcp_start = Inr ''/bin/x''" by (simp add: sample_mcp_start_def)
  note prov = start_mcp_provenance [OF srv this]
  let ?rt = "\<lparr>rp_build = sample_build, rp_pid = 1, rp_executable_path = ''/bin/x'',
    rp_file_size_bytes = None, rp_modified_unix_ms = None\<rparr>"
  have rt: "(ms_provenance srv)\<lparr>rp_build := sample_build\<rparr> = ?rt" "rp_executable_path (ms_provenance srv) = ''/bin/x''"
    by (simp_all add: prov sample_mcp_start_def)
  have "ev_outcome (evaluate_startup_admission attested_world sample_admission ''/bin/x'' ?rt) = Passed"
    unfolding sample_build_eq by code_simp
  then obtain admission where adm: "admit_startup sample_admission
      (evaluate_startup_admission attested_world sample_admission ''/bin/x'' ?rt) = Inr admission"
    "ra_outcome admission = ''passed''"
    by (simp add: admit_startup_def)
  from start_mcp_rebuilt [OF srv, of attested_world sample_build admission] adm
  show ?thesis by (simp add: sa rt)
qed


end
