(* ===== verification/Logging_Setup.thy ===== *)
theory Logging_Setup
  imports Gateway_Logging Mcp_Auth
begin

text \<open>
  The set-up of logging in the two servers (\<open>init_tracing\<close> and \<open>configure_logging\<close> of their \<open>logging.rs\<close>):
  which environment variables choose the format, the filter and the files, and what is handed to the
  tracing library. What the library makes of a variable or a directive is the record
  \<open>tracing_library\<close>; the subscriber is the data it is built from.
\<close>

section \<open>The library and the subscriber\<close>

record ('fmt, 'filter) tracing_library =
  tl_format_from_env :: "env_vars \<Rightarrow> string \<Rightarrow> 'fmt \<Rightarrow> 'fmt"
  tl_logfmt :: 'fmt
  tl_try_new :: "string \<Rightarrow> 'filter option"
  tl_new :: "string \<Rightarrow> 'filter"
  tl_try_from_default_env :: "env_vars \<Rightarrow> 'filter option"

record log_targets =
  lt_access :: string
  lt_auth :: string

record routing_writer =
  rw_file :: "string option"
  rw_access_file :: "string option"
  rw_auth_file :: "string option"
  rw_targets :: log_targets

record ('fmt, 'filter) subscriber =
  su_format :: 'fmt
  su_context :: "log_context option \<Rightarrow> (string \<times> string) list"
  su_writer :: routing_writer
  su_filter :: 'filter
  su_ansi :: bool

definition or_info :: "('fmt, 'filter) tracing_library \<Rightarrow> 'filter option \<Rightarrow> 'filter" where
  "or_info lib parsed = (case parsed of Some f \<Rightarrow> f | None \<Rightarrow> tl_new lib ''info'')"

section \<open>The gateway\<close>

definition GATEWAY_LOG_LEVEL_ENV :: string where "GATEWAY_LOG_LEVEL_ENV = ''KC_GATEWAY_LOG_LEVEL''"
definition GATEWAY_LOG_FORMAT_ENV :: string where "GATEWAY_LOG_FORMAT_ENV = ''KC_GATEWAY_LOG_FORMAT''"
definition GATEWAY_LOG_FILE_ENV :: string where "GATEWAY_LOG_FILE_ENV = ''KC_GATEWAY_LOG_FILE''"
definition GATEWAY_LOG_ACCESS_FILE_ENV :: string where "GATEWAY_LOG_ACCESS_FILE_ENV = ''KC_GATEWAY_ACCESS_LOG_FILE''"
definition GATEWAY_LOG_AUTH_FILE_ENV :: string where "GATEWAY_LOG_AUTH_FILE_ENV = ''KC_GATEWAY_AUTH_LOG_FILE''"

definition init_tracing ::
  "('fmt, 'filter) tracing_library \<Rightarrow> env_vars \<Rightarrow> string \<Rightarrow> ('fmt, 'filter) subscriber" where
  "init_tracing lib vars log_level =
     (let fmt = tl_format_from_env lib vars GATEWAY_LOG_FORMAT_ENV (tl_logfmt lib);
          level_filter = (case vars GATEWAY_LOG_LEVEL_ENV of
            Some level \<Rightarrow> or_info lib (tl_try_new lib level)
          | None \<Rightarrow> or_info lib (tl_try_new lib log_level));
          writer = \<lparr>rw_file = env_path vars GATEWAY_LOG_FILE_ENV,
            rw_access_file = env_path vars GATEWAY_LOG_ACCESS_FILE_ENV,
            rw_auth_file = env_path vars GATEWAY_LOG_AUTH_FILE_ENV,
            rw_targets = \<lparr>lt_access = target_name AccessTarget, lt_auth = target_name AuthTarget\<rparr>\<rparr>
      in \<lparr>su_format = fmt, su_context = (\<lambda>_. []), su_writer = writer, su_filter = level_filter, su_ansi = False\<rparr>)"

section \<open>The MCP server\<close>

definition MCP_LOG_LEVEL_ENV :: string where "MCP_LOG_LEVEL_ENV = ''KC_ADMIN_MCP_LOG_LEVEL''"
definition MCP_LOG_FORMAT_ENV :: string where "MCP_LOG_FORMAT_ENV = ''KC_ADMIN_MCP_LOG_FORMAT''"
definition MCP_LOG_FILE_ENV :: string where "MCP_LOG_FILE_ENV = ''KC_ADMIN_MCP_LOG_FILE''"
definition MCP_LOG_ACCESS_FILE_ENV :: string where "MCP_LOG_ACCESS_FILE_ENV = ''KC_ADMIN_MCP_ACCESS_LOG_FILE''"
definition MCP_LOG_AUTH_FILE_ENV :: string where "MCP_LOG_AUTH_FILE_ENV = ''KC_ADMIN_MCP_AUTH_LOG_FILE''"
definition MCP_LOG_TARGET_ACCESS :: string where "MCP_LOG_TARGET_ACCESS = ''kc_admin_mcp.access''"
definition MCP_LOG_TARGET_AUTH :: string where "MCP_LOG_TARGET_AUTH = ''kc_admin_mcp.auth''"

definition mcp_env_path :: "env_vars \<Rightarrow> string \<Rightarrow> string option" where
  "mcp_env_path vars name =
     (case vars name of None \<Rightarrow> None | Some value \<Rightarrow> if trim value = [] then None else Some value)"

definition configure_logging :: "('fmt, 'filter) tracing_library \<Rightarrow> env_vars \<Rightarrow> ('fmt, 'filter) subscriber" where
  "configure_logging lib vars =
     (let fmt = tl_format_from_env lib vars MCP_LOG_FORMAT_ENV (tl_logfmt lib);
          level_filter = (case vars MCP_LOG_LEVEL_ENV of
            Some level \<Rightarrow> or_info lib (tl_try_new lib level)
          | None \<Rightarrow> or_info lib (tl_try_from_default_env lib vars));
          writer = \<lparr>rw_file = mcp_env_path vars MCP_LOG_FILE_ENV,
            rw_access_file = mcp_env_path vars MCP_LOG_ACCESS_FILE_ENV,
            rw_auth_file = mcp_env_path vars MCP_LOG_AUTH_FILE_ENV,
            rw_targets = \<lparr>lt_access = MCP_LOG_TARGET_ACCESS, lt_auth = MCP_LOG_TARGET_AUTH\<rparr>\<rparr>
      in \<lparr>su_format = fmt, su_context = context_map, su_writer = writer, su_filter = level_filter, su_ansi = False\<rparr>)"

section \<open>Lemmas\<close>

text \<open>Every line of the gateway has a target its writer routes.\<close>

lemma gateway_targets_routed:
  "target_name (ll_target line) \<in>
     {lt_access (rw_targets (su_writer (init_tracing lib vars level))),
      lt_auth (rw_targets (su_writer (init_tracing lib vars level)))}"
  by (cases "ll_target line") (simp_all add: init_tracing_def Let_def)

text \<open>
  The set-ups are the same function of their variables, but for the targets, the context of a line and the filter
  when the level variable is not set.
\<close>

lemma env_paths_agree: "mcp_env_path = env_path"
  by (simp add: mcp_env_path_def env_path_def fun_eq_iff)

lemma level_variable_decides:
  "vars GATEWAY_LOG_LEVEL_ENV = Some level \<Longrightarrow>
     su_filter (init_tracing lib vars configured) = or_info lib (tl_try_new lib level)"
  "vars MCP_LOG_LEVEL_ENV = Some level \<Longrightarrow>
     su_filter (configure_logging lib vars) = or_info lib (tl_try_new lib level)"
  by (simp_all add: init_tracing_def configure_logging_def Let_def)

text \<open>No file named, nothing but the standard output is written.\<close>

lemma no_files_by_default:
  assumes "\<forall>name \<in> {MCP_LOG_FILE_ENV, MCP_LOG_ACCESS_FILE_ENV, MCP_LOG_AUTH_FILE_ENV}.
      vars name = None \<or> (\<exists>v. vars name = Some v \<and> trim v = [])"
  shows "rw_file (su_writer (configure_logging lib vars)) = None"
    and "rw_access_file (su_writer (configure_logging lib vars)) = None"
    and "rw_auth_file (su_writer (configure_logging lib vars)) = None"
  using assms by (auto simp: configure_logging_def mcp_env_path_def Let_def split: option.splits)

end
