(* ===== verification/End_To_End.thy ===== *)
theory End_To_End
  imports Mcp_Router Gateway_Service
begin

text \<open>
  The two servers together: a tool of the MCP server asks (\<open>request_json\<close> of \<open>gateway.rs\<close>), the gateway
  answers (\<open>main.rs\<close>, \<open>handlers.rs\<close>), and what reaches Keycloak is what the gateway records as sent
  upstream. What lies between and around them is the record \<open>network\<close>: how a URL and its query are
  written, how a JSON body is, what the HTTP client accepts as a header value, what the transport
  does to the headers, and what becomes of a reply. The authenticator, the token endpoint and Keycloak are
  those of the gateway, and may change with every request.
\<close>

section \<open>A request on the wire\<close>

record 's network =
  nw_url :: "gateway_call \<Rightarrow> string \<times> string option"
  nw_encode :: "json \<Rightarrow> string"
  nw_value_ok :: "string \<Rightarrow> bool"
  nw_transport :: "headers \<Rightarrow> headers"
  nw_deps :: "'s \<Rightarrow> gateway_deps"
  nw_step :: "'s \<Rightarrow> proxy_request \<Rightarrow> 's"
  nw_reply :: "'s \<Rightarrow> proxy_response \<Rightarrow> gateway_reply"

definition client_headers :: "gateway_call \<Rightarrow> headers" where
  "client_headers q =
     [(''authorization'', ''Bearer '' @ gq_bearer q), (''x-request-id'', gq_request_id q)] @
     (case gq_actor_id q of None \<Rightarrow> [] | Some actor \<Rightarrow> [(''x-actor-id'', actor)]) @
     (case gq_body q of None \<Rightarrow> [] | Some _ \<Rightarrow> [(''content-type'', ''application/json'')])"

definition wire_request :: "'s network \<Rightarrow> gateway_call \<Rightarrow> proxy_request" where
  "wire_request nw q = \<lparr>rq_method = gq_method q, rq_path = fst (nw_url nw q), rq_query = snd (nw_url nw q),
     rq_headers = nw_transport nw (client_headers q),
     rq_body = Some (case gq_body q of None \<Rightarrow> [] | Some body \<Rightarrow> nw_encode nw body)\<rparr>"

text \<open>
  The gateway as the peer of the client, with the log of all it did. A header value that the HTTP client
  refuses makes \<open>send\<close> fail before anything is sent.
\<close>

definition gateway_peer ::
  "'s network \<Rightarrow> service_env \<Rightarrow> gateway_config \<Rightarrow> 's \<times> gateway_event list \<Rightarrow> gateway_call \<Rightarrow>
     gateway_reply \<times> 's \<times> gateway_event list" where
  "gateway_peer nw sv cfg w q =
     (let (s, log) = w in
      if \<not> list_all (\<lambda>(name, value). nw_value_ok nw value) (client_headers q) then (SendError, w)
      else
        (let rq = wire_request nw q; served = gateway_service sv (nw_deps nw s) cfg rq
         in (nw_reply nw s (fst served), nw_step nw s rq, log @ snd served)))"

text \<open>The transport leaves the credentials alone.\<close>

definition keeps_credentials :: "'s network \<Rightarrow> bool" where
  "keeps_credentials nw \<longleftrightarrow>
     (\<forall>hs. header_get_all (nw_transport nw hs) ''authorization'' = header_get_all hs ''authorization'')"

section \<open>Lemmas\<close>

text \<open>What is in the log after a run comes from a request of the run, and all that a request caused is there.\<close>

lemma peer_log_source:
  assumes "run_prog (gateway_peer nw sv cfg) m (s, log) = (a, trace, s', log')" and "e \<in> set log'"
  shows "e \<in> set log \<or> (\<exists>(q, reply) \<in> set trace. \<exists>s0.
    e \<in> set (snd (gateway_service sv (nw_deps nw s0) cfg (wire_request nw q))))"
  using assms
proof (induction m arbitrary: s log trace)
  case (Done b)
  then show ?case by simp
next
  case (Ask q k)
  obtain r s1 log1 where peer: "gateway_peer nw sv cfg (s, log) q = (r, s1, log1)" by (metis prod_cases3)
  with Ask.prems(1) obtain t where t: "trace = (q, r) # t"
    "run_prog (gateway_peer nw sv cfg) (k r) (s1, log1) = (a, t, s', log')"
    by (auto split: prod.splits)
  from peer have "set log1 \<subseteq> set log \<union> set (snd (gateway_service sv (nw_deps nw s) cfg (wire_request nw q)))"
    by (auto simp: gateway_peer_def Let_def split: if_splits)
  with Ask.IH [OF rangeI t(2) Ask.prems(2)] show ?case
    unfolding t(1) by fastforce
qed

definition logged :: "'s network \<Rightarrow> service_env \<Rightarrow> gateway_config \<Rightarrow> gateway_event list \<Rightarrow> gateway_call \<Rightarrow> bool" where
  "logged nw sv cfg log q \<longleftrightarrow> list_all (\<lambda>(name, value). nw_value_ok nw value) (client_headers q) \<longrightarrow>
     (\<exists>s0. set (snd (gateway_service sv (nw_deps nw s0) cfg (wire_request nw q))) \<subseteq> set log)"

lemma logged_mono: "\<lbrakk>logged nw sv cfg log q; set log \<subseteq> set log'\<rbrakk> \<Longrightarrow> logged nw sv cfg log' q"
  unfolding logged_def by (meson subset_trans)

lemma peer_log_covers:
  assumes "run_prog (gateway_peer nw sv cfg) m (s, log) = (a, trace, s', log')"
  shows "set log \<subseteq> set log' \<and> (\<forall>q \<in> fst ` set trace. logged nw sv cfg log' q)"
  using assms
proof (induction m arbitrary: s log trace)
  case (Done b)
  then show ?case by simp
next
  case (Ask q k)
  obtain r s1 log1 where peer: "gateway_peer nw sv cfg (s, log) q = (r, s1, log1)" by (metis prod_cases3)
  with Ask.prems(1) obtain t where t: "trace = (q, r) # t"
    "run_prog (gateway_peer nw sv cfg) (k r) (s1, log1) = (a, t, s', log')"
    by (auto split: prod.splits)
  from peer have "set log \<subseteq> set log1" "logged nw sv cfg log1 q"
    by (auto simp: gateway_peer_def logged_def Let_def split: if_splits)
  with Ask.IH [OF rangeI t(2)] logged_mono show ?case unfolding t(1) by auto
qed

lemma client_authorization: "header_get_all (client_headers q) ''authorization'' = [''Bearer '' @ gq_bearer q]"
proof -
  have "to_ascii_lowercase ''authorization'' = ''authorization''" by code_simp
  then show ?thesis by (simp add: client_headers_def split: option.split)
qed

text \<open>The token the gateway reads from a request of the client is the one the client put there.\<close>

lemma wire_token:
  assumes "keeps_credentials nw" and "ensure_strict_bearer (rq_headers (wire_request nw q)) = Inr ()"
    and "extract_bearer_token (rq_headers (wire_request nw q)) = Inr token"
  shows "token = gq_bearer q"
proof -
  obtain scheme where s: "header_get_all (rq_headers (wire_request nw q)) ''authorization'' =
      [scheme @ CHR '' '' # token]" "to_ascii_lowercase scheme = ''bearer''"
    using strict_bearer_token [OF assms(2,3)] by blast
  have "header_get_all (rq_headers (wire_request nw q)) ''authorization'' = [''Bearer '' @ gq_bearer q]"
    using assms(1) by (simp add: keeps_credentials_def wire_request_def client_authorization)
  with s(1) have "scheme @ CHR '' '' # token = ''Bearer'' @ CHR '' '' # gq_bearer q" by simp
  moreover have "length scheme = length ''Bearer''"
    using arg_cong [OF s(2), of length] by (simp add: to_ascii_lowercase_def)
  ultimately show ?thesis using append_eq_append_conv by blast
qed

text \<open>What the gateway knows of a request of the client that it passes on to Keycloak.\<close>

definition admitted_upstream ::
  "'s network \<Rightarrow> gateway_config \<Rightarrow> gateway_call \<Rightarrow> upstream_request \<Rightarrow> bool" where
  "admitted_upstream nw cfg q u \<longleftrightarrow>
     (\<exists>s ctx exchange.
        dp_authenticate (nw_deps nw s)
          (header_remove (rq_headers (wire_request nw q)) ''authorization'') (gq_bearer q) = Inr ctx \<and>
        enforce_issuer_audience cfg (ctx_claims ctx) = Inr () \<and>
        is_allowlisted_admin_path (path_segments (fst (nw_url nw q))) \<and>
        (\<exists>c \<in> set (scope_candidates (gq_method q) (path_segments (fst (nw_url nw q))) (snd (nw_url nw q))).
           set c \<subseteq> set (ctx_scopes ctx)) \<and>
        ur_method u = gq_method q \<and>
        ur_body u = (case gq_body q of None \<Rightarrow> [] | Some body \<Rightarrow> nw_encode nw body) \<and>
        header_get_all (ur_headers u) ''authorization'' = [''Bearer '' @ er_access_token exchange] \<and>
        (\<exists>rid. fst (exchange_token (dp_token_endpoint (nw_deps nw s)) (dp_decode_exchange (nw_deps nw s))
            (dp_redact (nw_deps nw s)) cfg (ctx_raw_token ctx)
            (required_scopes (gq_method q) (path_segments (fst (nw_url nw q))) (snd (nw_url nw q))
               (ctx_scopes ctx)) rid) = Inr exchange))"

lemma passed_on:
  assumes "keeps_credentials nw"
    and "UpstreamRequest u \<in> set (snd (gateway_service sv (nw_deps nw s) cfg (wire_request nw q)))"
  shows "admitted_upstream nw cfg q u"
proof -
  let ?rq = "wire_request nw q" and ?deps = "nw_deps nw s"
  have mem: "UpstreamRequest u \<in> set (calls (gateway_service sv ?deps cfg ?rq))"
    using assms(2) by (simp add: calls_def)
  then have "calls (gateway_service sv ?deps cfg ?rq) \<noteq> []" by auto
  note served = gateway_service_calls [OF this]
  from mem served have "UpstreamRequest u \<in> set (calls (handle_proxy ?deps cfg ?rq
      (extract_request_id ?deps (rq_headers ?rq)) (extract_actor_id ?deps (rq_headers ?rq))))"
    by (simp add: calls_proxy_admin)
  then obtain body ctx audit required t url where
    body: "fst (read_body ?rq) = Inr body"
    and auth: "fst (authenticate_stage ?deps cfg ?rq) = Inr (ctx, audit)"
    and scoped: "fst (authorize_stage ?rq ctx audit) = Inr required"
    and exch: "fst (exchange_stage ?deps cfg (extract_request_id ?deps (rq_headers ?rq)) ctx audit required) = Inr t"
    and u: "u = \<lparr>ur_method = rq_method ?rq, ur_url = url, ur_headers = upstream_headers cfg (rq_headers ?rq) t
        (extract_request_id ?deps (rq_headers ?rq)) (extract_actor_id ?deps (rq_headers ?rq)), ur_body = body\<rparr>"
    by (rule upstream_callD)
  from auth obtain token where token: "authenticated ?deps cfg ?rq token ctx audit"
    unfolding authenticate_stage_Inr_iff by blast
  with wire_token [OF assms(1) edge_guard_InrD(3) [OF conjunct1 [OF served]]]
  have caller: "authenticated ?deps cfg ?rq (gq_bearer q) ctx audit" by (simp add: authenticated_def)
  from exch obtain exchange where ex: "t = er_access_token exchange"
    "fst (exchange_token (dp_token_endpoint ?deps) (dp_decode_exchange ?deps) (dp_redact ?deps) cfg
       (ctx_raw_token ctx) required (extract_request_id ?deps (rq_headers ?rq))) = Inr exchange"
    unfolding exchange_stage_Inr_iff extract_access_token_Inr_iff by blast
  have wire: "rq_method ?rq = gq_method q" "rq_path ?rq = fst (nw_url nw q)" "rq_query ?rq = snd (nw_url nw q)"
    "rq_body ?rq = Some (case gq_body q of None \<Rightarrow> [] | Some body \<Rightarrow> nw_encode nw body)"
    by (simp_all add: wire_request_def)
  note gate = scoped [unfolded authorize_stage_Inr_iff wire]
  have "\<exists>c \<in> set (scope_candidates (gq_method q) (path_segments (fst (nw_url nw q))) (snd (nw_url nw q))).
      set c \<subseteq> set (ctx_scopes ctx)"
    using gate gw.chosen_member [of "(gq_method q, path_segments (fst (nw_url nw q)), snd (nw_url nw q))"]
    by auto
  moreover have "ur_body u = (case gq_body q of None \<Rightarrow> [] | Some body \<Rightarrow> nw_encode nw body)"
    using body unfolding u by (simp add: read_body_Inr_iff wire)
  moreover have "header_get_all (ur_headers u) ''authorization'' = [''Bearer '' @ er_access_token exchange]"
    "ur_method u = gq_method q"
    unfolding u by (simp_all add: upstream_authorization_single wire ex(1))
  moreover have "\<exists>rid. fst (exchange_token (dp_token_endpoint ?deps) (dp_decode_exchange ?deps) (dp_redact ?deps)
      cfg (ctx_raw_token ctx) (required_scopes (gq_method q) (path_segments (fst (nw_url nw q)))
        (snd (nw_url nw q)) (ctx_scopes ctx)) rid) = Inr exchange"
    using ex(2) gate by blast
  ultimately show ?thesis
    using caller gate unfolding admitted_upstream_def authenticated_def by blast
qed

text \<open>Every upstream request of a run is a request of the tool that the gateway admitted.\<close>

lemma tool_upstream:
  assumes "run_prog (gateway_peer nw sv cfg) m (s, []) = (a, trace, s', log)"
    and "UpstreamRequest u \<in> set log" and "keeps_credentials nw"
  obtains q reply where "(q, reply) \<in> set trace" and "admitted_upstream nw cfg q u"
  using peer_log_source [OF assms(1,2)] passed_on [OF assms(3)] by fastforce

lemma admitted_mutation_scope:
  assumes "admitted_upstream nw cfg q u" and "\<not> is_read_method (gq_method q)"
    and "scope_family (path_segments (fst (nw_url nw q))) \<noteq> Observability"
  shows "\<exists>s ctx. dp_authenticate (nw_deps nw s)
      (header_remove (rq_headers (wire_request nw q)) ''authorization'') (gq_bearer q) = Inr ctx \<and>
    (\<exists>scope \<in> set (ctx_scopes ctx). \<not> is_read_scope scope)"
  using assms(1) write_candidates_not_read [OF assms(2,3)] unfolding admitted_upstream_def by blast

section \<open>Properties\<close>



section \<open>A concrete run\<close>

text \<open>A caller deletes a user; the gateway's token covers the users' write scope.\<close>

definition sample_write_deps :: gateway_deps where
  "sample_write_deps = sample_deps\<lparr>dp_authenticate := (\<lambda>hs token.
     if token = ''token'' then Inr
       \<lparr>ctx_claims = JObj [(''iss'', JStr ''iss''), (''aud'', JStr ''gw''), (''sub'', JStr ''u1'')],
        ctx_scopes = [''keycloak-admin:users:write''], ctx_azp = Some ''mcp'', ctx_raw_token = token\<rparr>
     else Inl TkInvalidToken)\<rparr>"

definition sample_network :: "unit network" where
  "sample_network = \<lparr>
     nw_url = (\<lambda>q. (gq_path q,
       if gq_query q = [] then None else Some (join ''&'' (map (\<lambda>(k, v). k @ ''='' @ v) (gq_query q))))),
     nw_encode = (\<lambda>_. ''{}''), nw_value_ok = list_all visible,
     nw_transport = (\<lambda>hs. (''host'', ''gateway'') # hs),
     nw_deps = (\<lambda>_. sample_write_deps), nw_step = (\<lambda>s _. s),
     nw_reply = (\<lambda>_ response. case rs_body response of Bytes b \<Rightarrow> Reply (rs_status response) b
       | JsonBody _ \<Rightarrow> Reply (rs_status response) ''{}'')\<rparr>"

definition sample_removal :: gateway_call where
  "sample_removal = \<lparr>gq_method = DELETE, gq_path = ''/admin/realms/master/users/'' @ sample_uuid, gq_query = [],
     gq_body = None, gq_bearer = ''token'', gq_request_id = ''req-1'', gq_actor_id = None\<rparr>"

lemma sample_network_keeps: "keeps_credentials sample_network"
proof -
  have "to_ascii_lowercase ''authorization'' = ''authorization''" by code_simp
  then show ?thesis by (simp add: keeps_credentials_def sample_network_def)
qed

definition sample_write_context :: auth_context where
  "sample_write_context = \<lparr>
     ctx_claims = JObj [(''iss'', JStr ''iss''), (''aud'', JStr ''gw''), (''sub'', JStr ''u1'')],
     ctx_scopes = [''keycloak-admin:users:write''], ctx_azp = Some ''mcp'', ctx_raw_token = ''token''\<rparr>"

definition sample_removal_upstream :: upstream_request where
  "sample_removal_upstream = \<lparr>ur_method = DELETE, ur_url = ''http://kc/admin/realms/master/users/'' @ sample_uuid,
     ur_headers = upstream_headers sample_config (rq_headers (wire_request sample_network sample_removal))
       ''admin-tok'' ''req-1'' None, ur_body = []\<rparr>"

lemma sample_removal_request: "users_request sample_caller sample_delete = sample_removal"
  by (simp add: users_request_def sample_delete_def gateway_request_def sample_removal_def sample_caller_def
      users_path_segments_def)

lemma sample_removal_sent:
  "list_all (\<lambda>(name, value). nw_value_ok sample_network value) (client_headers sample_removal)"
  by code_simp

abbreviation "sample_wire \<equiv> wire_request sample_network sample_removal"

lemma sample_removal_body:
  "fst (read_body sample_wire) = Inr []"
  by (simp add: read_body_def wire_request_def sample_removal_def sample_network_def)

lemma sample_removal_authenticated:
  "fst (authenticate_stage sample_write_deps sample_config sample_wire) = Inr (sample_write_context, sample_audit)"
  by code_simp

lemma sample_removal_party:
  "fst (party_stage sample_write_deps sample_config sample_write_context sample_audit) = Inr ()"
  by code_simp

lemma sample_removal_authorized:
  "fst (authorize_stage sample_wire sample_write_context sample_audit) = Inr [''keycloak-admin:users:write'']"
  by code_simp

lemma sample_removal_exchanged:
  "fst (exchange_stage sample_write_deps sample_config ''req-1'' sample_write_context sample_audit
     [''keycloak-admin:users:write'']) = Inr ''admin-tok''"
  by code_simp

lemma sample_removal_forwarded:
  "calls (forward_stage sample_write_deps sample_config sample_wire ''req-1'' None sample_audit [] ''admin-tok'')
     = [UpstreamRequest sample_removal_upstream]"
  by code_simp

lemmas sample_removal_stages = sample_removal_body sample_removal_authenticated sample_removal_party
  sample_removal_authorized sample_removal_exchanged sample_removal_forwarded

lemma sample_removal_served:
  "UpstreamRequest sample_removal_upstream \<in>
     set (snd (gateway_service sample_service sample_write_deps sample_config sample_wire))"
proof -
  have "edge_guard (sv_matrix sample_service) (sv_confusion sample_service) (rq_path sample_wire)
      (rq_headers sample_wire) () = Inr ()"
    by code_simp
  moreover have "find (\<lambda>(pattern, _). sv_matches sample_service pattern (rq_path sample_wire)) gateway_routes =
      Some (''/admin/{*path}'', ProxyAdmin)"
    by code_simp
  moreover have "extract_request_id sample_write_deps (rq_headers sample_wire) = ''req-1''"
    "extract_actor_id sample_write_deps (rq_headers sample_wire) = None"
    by code_simp+
  moreover have "UpstreamRequest sample_removal_upstream \<in>
      set (calls (handle_proxy sample_write_deps sample_config sample_wire ''req-1'' None))"
    by (simp add: handle_proxy_def calls_then_try sample_removal_stages del: then_try_Inr then_try_Inl)
  ultimately have "UpstreamRequest sample_removal_upstream \<in>
      set (calls (gateway_service sample_service sample_write_deps sample_config sample_wire))"
    by (simp add: gateway_service_def serve_route_def calls_proxy_admin)
  then show ?thesis by (simp add: calls_def)
qed

abbreviation "sample_removal_tool \<equiv>
  mcp_tool sample_tool_env sample_decoders (Some sample_caller) (UsersCall sample_delete)"

lemma sample_removal_run:
  obtains result trace log where
    "run_prog (gateway_peer sample_network sample_service sample_config) sample_removal_tool ((), []) =
       (result, trace, (), log)"
    and "fst ` set trace = {sample_removal}" and "UpstreamRequest sample_removal_upstream \<in> set log"
proof -
  let ?serve = "gateway_peer sample_network sample_service sample_config"
  obtain result trace log where run: "run_prog ?serve sample_removal_tool ((), []) = (result, trace, (), log)"
    by (cases "run_prog ?serve sample_removal_tool ((), [])") auto
  then have trace: "trace = [(sample_removal, fst (?serve ((), []) sample_removal))]"
    using sample_delete_trace [of ?serve "((), [])"] by (simp add: sample_removal_request)
  have "logged sample_network sample_service sample_config log sample_removal"
    using peer_log_covers [OF run] by (simp add: trace)
  with sample_removal_sent
  have "set (snd (gateway_service sample_service sample_write_deps sample_config sample_wire)) \<subseteq> set log"
    by (simp add: logged_def sample_network_def)
  with that [OF run] trace sample_removal_served show thesis by auto
qed



end
