(* ===== verification/Spec2Isabelle.thy ===== *)
theory Spec2Isabelle
  imports Admission Tools_Observability Json_Types Mcp_Resources Logging_Setup End_To_End
begin

text \<open>
  \<^bold>\<open>The program.\<close> \<open>keycloak-admin-mcp\<close> lets an agent administer Keycloak through two Rust services. The
  MCP server (\<open>src/kc-admin-mcp\<close>) authenticates a caller, runs one of its tools and sends the
  requests of the tool, with the caller's token, to the gateway (\<open>src/kc-admin-gateway\<close>). The
  gateway authenticates the token again, checks the path and the scopes, exchanges the token for
  one that carries only the scopes of the request and forwards the request to Keycloak.

  \<^bold>\<open>The theories.\<close> Each follows one part of the source; definitions keep the names of the Rust
  functions, with a prefix (\<open>mcp_\<close>) where both services have one of the same name.

  Shared:

  \<^item> \<open>Prelude\<close>: Rust strings (trimming, ASCII case, splitting), header maps, JSON values, results and
    checked time, with the lemmas on them. A \<open>Result\<close> is a sum with the error on the left, an
    \<open>and_then\<close> is \<open>?\<close>.
  \<^item> \<open>Environment\<close>: the environment helpers and credential files (\<open>config.rs\<close> of both services).

  The gateway:

  \<^item> \<open>Gateway_Config\<close>: \<open>config.rs\<close>, \<open>errors.rs\<close> and the production checks of \<open>main.rs\<close>.
  \<^item> \<open>Gateway_Auth\<close>: \<open>auth.rs\<close>, \<open>edge.rs\<close> and the token helpers of \<open>handlers.rs\<close>.
  \<^item> \<open>Gateway_Scopes\<close>: the route classification, allowlist and scope selection of \<open>handlers.rs\<close>, with
    the interface \<open>scope_policy\<close>.
  \<^item> \<open>Gateway_Exchange\<close>: \<open>exchange.rs\<close> and \<open>http.rs\<close>.
  \<^item> \<open>Gateway_Proxy\<close>: \<open>proxy_admin\<close> and \<open>handle_proxy\<close> of \<open>handlers.rs\<close> as composed stages, each giving a
    result and the calls and log records it makes, in order; the limits of \<open>log_sanitize.rs\<close>.
  \<^item> \<open>Gateway_Logging\<close>: the log lines of a request (\<open>logging.rs\<close>).
  \<^item> \<open>Gateway_Service\<close>: \<open>main.rs\<close>, from the checks at start-up to the router and its edge layer.

  The MCP server:

  \<^item> \<open>Metrics\<close>: \<open>metrics.rs\<close>, with the interface \<open>keyed_accumulator\<close>.
  \<^item> \<open>Mcp_Config\<close>: \<open>config.rs\<close>.
  \<^item> \<open>Mcp_Auth\<close>: \<open>edge.rs\<close>, \<open>auth.rs\<close>, \<open>log_context.rs\<close> and the \<open>auth_guard\<close> of \<open>main.rs\<close>.
  \<^item> \<open>Admission\<close>: \<open>admission.rs\<close>, \<open>provenance.rs\<close> and the start-up decision of \<open>main.rs\<close>.
  \<^item> \<open>Audit_Log\<close>: \<open>audit.rs\<close>, with the interface \<open>bounded_queue\<close> and a step relation for the
    interleavings its locks allow.
  \<^item> \<open>Gateway_Client\<close>: \<open>gateway.rs\<close>, and programs that ask the gateway: trees that branch on every reply.
  \<^item> \<open>Mcp_Tools\<close>: what the tools share (\<open>errors.rs\<close>, \<open>tools/validation.rs\<close>, \<open>tools/shared.rs\<close>), with the
    interfaces \<open>tool_family\<close> (a request leaves only for a caller past the gate), \<open>reading_family\<close> (a tool
    with a read gate only reads) and \<open>single_request_family\<close> (one request, given by a table).
  \<^item> \<open>Client_Lookup\<close>, \<open>Role_Lookup\<close>: resolution of clients, client scopes and roles, and the search
    (\<open>tools/clients.rs\<close>, \<open>tools/groups.rs\<close>).
  \<^item> \<open>Tools_Users\<close>, \<open>Tools_Clients\<close>, \<open>Tools_Client_Scopes\<close>, \<open>Tools_Client_Access\<close>, \<open>Tools_Groups\<close>,
    \<open>Tools_Roles\<close>, \<open>Tools_Scopes\<close>, \<open>Tools_Realms\<close>, \<open>Tools_Registration\<close>, \<open>Tools_Identity\<close>,
    \<open>Tools_Events\<close>: the tools of each family (\<open>src/kc-admin-mcp/src/tools\<close>), each an interpretation of
    \<open>reading_family\<close>; \<open>Tools_Observability\<close>: the tools that read the server itself.
  \<^item> \<open>Mcp_Router\<close>: all tools that send requests as one family. \<open>Mcp_Server\<close>: \<open>server.rs\<close>, how a tool is listed,
    called, counted and recorded. \<open>Mcp_Resources\<close>: the information, resources and bundles it publishes.
  \<^item> \<open>Mcp_Sessions\<close>, \<open>Mcp_Service\<close>: \<open>main.rs\<close>, the dispatch of \<open>/mcp\<close> requests to sessions, and the server from
    its start-up to its router.
  \<^item> \<open>Build_Script\<close>: \<open>build.rs\<close> and what the compiler sees of its output.

  Both:

  \<^item> \<open>Tls_Setup\<close>: \<open>tls.rs\<close> of both and the client of \<open>gateway.rs\<close>, with the interface \<open>tls_setup\<close>.
  \<^item> \<open>Logging_Setup\<close>: \<open>logging.rs\<close> of both, as far as it chooses what the tracing library is given.
  \<^item> \<open>Json_Types\<close>: the types of the documents the servers answer with.
  \<^item> \<open>End_To_End\<close>: the two servers composed: the gateway as the peer of a tool's requests, with the log of
    what it sends to Keycloak.

  \<^bold>\<open>What the lemmas show.\<close>

  \<^item> End to end: whatever reaches Keycloak in a run of a tool was gated for its caller at the MCP server, and
    admitted by the gateway on the same token; a change needs a write role at the one and a scope
    that is not a read scope at the other.
  \<^item> Gateway: what must hold before a request reaches Keycloak, what that request carries, and what a caller
    sees when a call fails; the selection of a scope set against the acceptable alternatives; what a
    started production gateway guarantees; what reaches its log.
  \<^item> Tools: who can make a tool send what; where the requests of a family go; that the larger tools (replace,
    bulk update, prune, registration policies, client scope lookup) do exactly what their
    specification says, and end.
  \<^item> MCP server: what an authenticated caller has shown; that the audit log refines a linked history under any
    interleaving, that its files rotate and agree with the metrics; that requests without a session
    are dispatched within the limits, and a lost stream is resumed; what a started server was configured
    with and admitted to; that its attestation is honest; which inputs of a build cargo does not watch.

  \<^bold>\<open>Parameters.\<close> Code outside \<open>src/\<close> is an argument of the definitions that use it: the toolkit's
  authenticator, path predicates, redaction, session services and event store, the token endpoint,
  Keycloak, the HTTP and TLS libraries, the tracing library, the decoders \<open>serde\<close> derives, the JSON
  writer, SHA-256, git, the clock and the file system. No property assumes more of them than it names.

  \<^bold>\<open>Bounds.\<close> Integers that can wrap are words of their width (metrics, expiry, lifetimes, paging); lengths,
  sizes and durations are natural numbers. Bodies are limited to 10 MiB by the gateway and
  initialize payloads to 16 MiB by the server, as in the source. Loops are structural recursions or folds, with
  two exceptions that end by a measure: the paging loop of \<open>Client_Lookup\<close>, whose 32-bit cursor grows by a
  page until it saturates (at most 42949674 requests), and the search of \<open>Build_Script\<close> through the
  ancestors of a path, which get shorter. Nothing needs fuel.

  \<^bold>\<open>Not modelled.\<close> Listening, accepting connections and shutdown signals (I/O of the async runtime), the panic
  hook, the log lines of the MCP server beyond the context they carry, the internals of the
  libraries above, and the tests. A \<open>String\<close> is read as characters up to U+00FF, the order of the entries of a hash map
  or of a JSON object is not modelled.
\<close>

section \<open>Properties that span the two servers\<close>

text \<open>
  The bearer checks at the edges of the two servers agree: a request's authorization headers
  pass the MCP server's strict check exactly when they pass the gateway's, so the token the one
  takes from a caller and the token the other takes from it are never read under different rules.
\<close>

theorem strict_bearer_checks_agree:
  "mcp_ensure_strict_bearer hs = Inr () \<longleftrightarrow> ensure_strict_bearer hs = Inr ()"
  by (auto simp: mcp_ensure_strict_bearer_def ensure_strict_bearer_def to_str_def
      strict_bearer_value_Inr validate_bearer_header_steps bearer_word_iff
      split: list.splits option.splits if_splits)

lemma gateway_scopes_gathered:
  "set (concat (scope_candidates m segments query)) \<subseteq> set (gathered_scopes default_scope_map)"
  by (simp add: scope_candidates_def rw_scope_candidates_def lookup_requirements scope_names Let_def
      gathered_scopes_def default_scope_map_def split: scope_family.split)

text \<open>
  C24: Every scope the gateway can ask for, on any route, is one the MCP server publishes by
  default: a token with all the published scopes satisfies the gateway's scope check for every
  request, whichever alternative is chosen. The published list is sorted and free of duplicates.
\<close>

theorem gateway_scopes_are_published:
  "enforce_scopes (collect_scopes default_scope_map @ held)
     (required_scopes m segments query presented) = Inr () \<and>
   sorted (collect_scopes default_scope_map) \<and> distinct (collect_scopes default_scope_map)"
proof -
  have "required_scopes m segments query presented \<in> set (scope_candidates m segments query)"
    by (simp add: required_scopes_def select_scope_candidate_member)
  then have "set (required_scopes m segments query presented)
      \<subseteq> set (concat (scope_candidates m segments query))"
    by auto
  with gateway_scopes_gathered [of m segments query] show ?thesis
    by (auto simp: collect_scopes_def sorted_remdups_adj distinct_remdups_adj_sorted)
qed

end
